(* ===== verification/Prelude.thy ===== *)
theory Prelude
  imports Main "HOL-Library.Word" "HOL-Library.Sublist"
begin

text \<open>
  Shared vocabulary of the development: the computations of the service (a state-and-error
  monad for \<open>async fn ... -> Result<T, ApiError>\<close>), the stability calculus with which
  invariants and frame conditions are lifted from single operations to whole request
  handlers, and the part of Rust's \<open>str\<close> and integer API that the sources use.
  A Rust string is modelled by its UTF-8 bytes (\<open>string\<close>, a \<open>char list\<close>), so
  \<open>String::len\<close> is \<open>length\<close>.
\<close>

named_theorems comp_simps \<open>equations that run the combinators of a computation\<close>
named_theorems str_simps \<open>facts about the Rust string operations\<close>

section \<open>Computations: fallible operations on a state\<close>

text \<open>
  \<open>('w, 'e, 'a) comp\<close> is one call that reads and writes a world of type \<open>'w\<close> and ends
  in \<open>Err\<close> (\<open>Inl\<close>) or \<open>Ok\<close> (\<open>Inr\<close>).  The state survives an error: effects that
  happened before an early return stay, as in the source.
\<close>

type_synonym ('w, 'e, 'a) comp = "'w \<Rightarrow> ('e + 'a) \<times> 'w"

definition ok :: "'a \<Rightarrow> ('w, 'e, 'a) comp" where
  "ok x w = (Inr x, w)"

definition throw :: "'e \<Rightarrow> ('w, 'e, 'a) comp" where
  "throw e w = (Inl e, w)"

text \<open>The \<open>?\<close> operator: continue with the value, or return the error.\<close>

definition bnd :: "('w, 'e, 'a) comp \<Rightarrow> ('a \<Rightarrow> ('w, 'e, 'b) comp) \<Rightarrow> ('w, 'e, 'b) comp" where
  "bnd m k w = (case m w of (r, w1) \<Rightarrow> (case r of Inl e \<Rightarrow> (Inl e, w1) | Inr x \<Rightarrow> k x w1))"

definition andthen :: "('w, 'e, 'a) comp \<Rightarrow> ('w, 'e, 'b) comp \<Rightarrow> ('w, 'e, 'b) comp" where
  "andthen m n = bnd m (\<lambda>_. n)"

text \<open>
  The result as a value: \<open>let _ = ...\<close>, \<open>if let Err(e) = ...\<close>,
  \<open>.unwrap_or_else(...)\<close> and \<open>match ... { Ok .. Err .. }\<close> all inspect it without
  returning early.
\<close>

definition attempt :: "('w, 'e, 'a) comp \<Rightarrow> ('w, 'f, 'e + 'a) comp" where
  "attempt m w = (case m w of (r, w1) \<Rightarrow> (Inr r, w1))"

definition ignoring :: "('w, 'e, 'a) comp \<Rightarrow> ('w, 'f, unit) comp" where
  "ignoring m w = (Inr (), snd (m w))"

definition unwrap_or :: "'a \<Rightarrow> ('w, 'e, 'a) comp \<Rightarrow> ('w, 'f, 'a) comp" where
  "unwrap_or d m w = (case m w of (r, w1) \<Rightarrow> (Inr (case r of Inl _ \<Rightarrow> d | Inr x \<Rightarrow> x), w1))"

definition map_err :: "('e \<Rightarrow> 'f) \<Rightarrow> ('w, 'e, 'a) comp \<Rightarrow> ('w, 'f, 'a) comp" where
  "map_err f m w = (case m w of (r, w1) \<Rightarrow> (map_sum f id r, w1))"

definition from_result :: "'e + 'a \<Rightarrow> ('w, 'e, 'a) comp" where
  "from_result r w = (r, w)"

definition ok_or :: "'e \<Rightarrow> 'a option \<Rightarrow> ('w, 'e, 'a) comp" where
  "ok_or e v w = (case v of None \<Rightarrow> (Inl e, w) | Some x \<Rightarrow> (Inr x, w))"

definition gets :: "('w \<Rightarrow> 'a) \<Rightarrow> ('w, 'e, 'a) comp" where
  "gets f w = (Inr (f w), w)"

definition modify :: "('w \<Rightarrow> 'w) \<Rightarrow> ('w, 'e, unit) comp" where
  "modify f w = (Inr (), f w)"

lemma ok_run [comp_simps]: "ok x w = (Inr x, w)"
  by (simp add: ok_def)

lemma throw_run [comp_simps]: "throw e w = (Inl e, w)"
  by (simp add: throw_def)

lemma bnd_run [comp_simps]:
  "bnd m k w = (case fst (m w) of Inl e \<Rightarrow> (Inl e, snd (m w)) | Inr x \<Rightarrow> k x (snd (m w)))"
  by (simp add: bnd_def case_prod_beta)

lemma andthen_run [comp_simps]:
  "andthen m n w = (case fst (m w) of Inl e \<Rightarrow> (Inl e, snd (m w)) | Inr x \<Rightarrow> n (snd (m w)))"
  by (simp add: andthen_def bnd_run)

lemma attempt_run [comp_simps]: "attempt m w = (Inr (fst (m w)), snd (m w))"
  by (simp add: attempt_def case_prod_beta)

lemma ignoring_run [comp_simps]: "ignoring m w = (Inr (), snd (m w))"
  by (simp add: ignoring_def)

lemma unwrap_or_run [comp_simps]:
  "unwrap_or d m w = (Inr (case fst (m w) of Inl _ \<Rightarrow> d | Inr x \<Rightarrow> x), snd (m w))"
  by (simp add: unwrap_or_def case_prod_beta)

lemma map_err_run [comp_simps]: "map_err f m w = (map_sum f id (fst (m w)), snd (m w))"
  by (simp add: map_err_def case_prod_beta)

lemma from_result_run [comp_simps]: "from_result r w = (r, w)"
  by (simp add: from_result_def)

lemma ok_or_run [comp_simps]:
  "ok_or e v w = ((case v of None \<Rightarrow> Inl e | Some x \<Rightarrow> Inr x), w)"
  by (simp add: ok_or_def split: option.splits)

lemma gets_run [comp_simps]: "gets f w = (Inr (f w), w)"
  by (simp add: gets_def)

lemma modify_run [comp_simps]: "modify f w = (Inr (), f w)"
  by (simp add: modify_def)

section \<open>Stability: what a computation keeps\<close>

text \<open>
  \<open>stable R m\<close>: every run of \<open>m\<close>, successful or not, relates the state before to the
  state after by \<open>R\<close>.  For a preorder \<open>R\<close> stability is closed under every combinator,
  so a handler is stable as soon as the operations it calls are.  The two instances used
  are \<open>preserves P\<close> (an invariant) and \<open>keeps f\<close> (a frame condition: the component
  \<open>f\<close> of the state is not changed).
\<close>

definition stable :: "('w \<Rightarrow> 'w \<Rightarrow> bool) \<Rightarrow> ('w, 'e, 'a) comp \<Rightarrow> bool" where
  "stable R m \<longleftrightarrow> (\<forall>w. R w (snd (m w)))"

locale state_order =
  fixes R :: "'w \<Rightarrow> 'w \<Rightarrow> bool"
  assumes refl: "R w w"
    and trans: "R w1 w2 \<Longrightarrow> R w2 w3 \<Longrightarrow> R w1 w3"
begin

lemma stable_ok: "stable R (ok x)"
  by (simp add: stable_def ok_run refl)

lemma stable_throw: "stable R (throw e)"
  by (simp add: stable_def throw_run refl)

lemma stable_bnd:
  assumes "stable R m" and "\<And>x. stable R (k x)"
  shows "stable R (bnd m k)"
  unfolding stable_def
proof
  fix w
  show "R w (snd (bnd m k w))"
    using assms by (auto simp: stable_def bnd_run split: sum.splits intro: trans)
qed

lemma stable_andthen: "stable R m \<Longrightarrow> stable R n \<Longrightarrow> stable R (andthen m n)"
  by (simp add: andthen_def stable_bnd)

lemma stable_attempt: "stable R m \<Longrightarrow> stable R (attempt m)"
  by (simp add: stable_def attempt_run)

lemma stable_ignoring: "stable R m \<Longrightarrow> stable R (ignoring m)"
  by (simp add: stable_def ignoring_run)

lemma stable_unwrap_or: "stable R m \<Longrightarrow> stable R (unwrap_or d m)"
  by (simp add: stable_def unwrap_or_run)

lemma stable_map_err: "stable R m \<Longrightarrow> stable R (map_err f m)"
  by (simp add: stable_def map_err_run)

lemma stable_from_result: "stable R (from_result r)"
  by (simp add: stable_def from_result_run refl)

lemma stable_ok_or: "stable R (ok_or e v)"
  by (simp add: stable_def ok_or_run refl)

lemma stable_gets: "stable R (gets f)"
  by (simp add: stable_def gets_run refl)

lemma stable_modify: "(\<And>w. R w (f w)) \<Longrightarrow> stable R (modify f)"
  by (simp add: stable_def modify_run)

lemma stable_if: "(b \<Longrightarrow> stable R m) \<Longrightarrow> (\<not> b \<Longrightarrow> stable R n) \<Longrightarrow> stable R (if b then m else n)"
  by simp

lemma stable_option:
  "(v = None \<Longrightarrow> stable R m) \<Longrightarrow> (\<And>x. v = Some x \<Longrightarrow> stable R (k x)) \<Longrightarrow>
   stable R (case v of None \<Rightarrow> m | Some x \<Rightarrow> k x)"
  by (cases v) auto

lemma stable_sum:
  "(\<And>e. v = Inl e \<Longrightarrow> stable R (h e)) \<Longrightarrow> (\<And>x. v = Inr x \<Longrightarrow> stable R (k x)) \<Longrightarrow>
   stable R (case v of Inl e \<Rightarrow> h e | Inr x \<Rightarrow> k x)"
  by (cases v) auto

lemma stable_Let: "(\<And>x. x = v \<Longrightarrow> stable R (k x)) \<Longrightarrow> stable R (Let v k)"
  by simp

lemma stable_prod: "(\<And>x y. v = (x, y) \<Longrightarrow> stable R (k x y)) \<Longrightarrow> stable R (case v of (x, y) \<Rightarrow> k x y)"
  by (cases v) auto

lemmas stable_intros =
  stable_ok stable_throw stable_andthen stable_bnd stable_attempt stable_ignoring stable_unwrap_or
  stable_map_err stable_from_result stable_ok_or stable_gets stable_if stable_option stable_sum
  stable_Let stable_prod

end

definition preserves :: "('w \<Rightarrow> bool) \<Rightarrow> ('w, 'e, 'a) comp \<Rightarrow> bool" where
  "preserves P m \<longleftrightarrow> stable (\<lambda>w w'. P w \<longrightarrow> P w') m"

definition keeps :: "('w \<Rightarrow> 'b) \<Rightarrow> ('w, 'e, 'a) comp \<Rightarrow> bool" where
  "keeps f m \<longleftrightarrow> stable (\<lambda>w w'. f w' = f w) m"

interpretation inv: state_order "\<lambda>w w'. P w \<longrightarrow> P w'" for P
  by unfold_locales auto

interpretation frame: state_order "\<lambda>w w'. f w' = f w" for f
  by unfold_locales auto

lemmas preserves_intros = inv.stable_intros [folded preserves_def]
lemmas keeps_intros = frame.stable_intros [folded keeps_def]

lemma preservesD: "preserves P m \<Longrightarrow> P w \<Longrightarrow> P (snd (m w))"
  by (simp add: preserves_def stable_def)

lemma preservesI: "(\<And>w. P w \<Longrightarrow> P (snd (m w))) \<Longrightarrow> preserves P m"
  by (simp add: preserves_def stable_def)

lemma keepsD: "keeps f m \<Longrightarrow> f (snd (m w)) = f w"
  by (simp add: keeps_def stable_def)

lemma keepsI: "(\<And>w. f (snd (m w)) = f w) \<Longrightarrow> keeps f m"
  by (simp add: keeps_def stable_def)

text \<open>An invariant that only reads a component is preserved by whatever keeps it.\<close>

lemma preserves_of_keeps: "keeps f m \<Longrightarrow> preserves (\<lambda>w. P (f w)) m"
  by (simp add: preserves_def keeps_def stable_def)

section \<open>Simulation: the same computation on a smaller state\<close>

text \<open>
  \<open>simulates proj m f\<close>: seen through the projection \<open>proj\<close>, the computation \<open>m\<close> is \<open>f\<close>, with
  the same result and the corresponding state.  Simulation is closed under the combinators, so a
  handler is simulated by the same handler over abstract operations.
\<close>

definition simulates :: "('w \<Rightarrow> 's) \<Rightarrow> ('w, 'e, 'a) comp \<Rightarrow> ('s, 'e, 'a) comp \<Rightarrow> bool" where
  "simulates proj m f \<longleftrightarrow> (\<forall>w. f (proj w) = (fst (m w), proj (snd (m w))))"

lemma simulatesD: "simulates proj m f \<Longrightarrow> fst (m w) = fst (f (proj w)) \<and> proj (snd (m w)) = snd (f (proj w))"
  by (simp add: simulates_def)

lemma simulates_ok: "simulates proj (ok x) (ok x)"
  by (simp add: simulates_def ok_run)

lemma simulates_throw: "simulates proj (throw e) (throw e)"
  by (simp add: simulates_def throw_run)

lemma simulates_bnd:
  "simulates proj m f \<Longrightarrow> (\<And>x. simulates proj (k x) (h x)) \<Longrightarrow> simulates proj (bnd m k) (bnd f h)"
  by (simp add: simulates_def bnd_run split: sum.splits)

lemma simulates_andthen: "simulates proj m f \<Longrightarrow> simulates proj n h \<Longrightarrow> simulates proj (andthen m n) (andthen f h)"
  by (simp add: andthen_def simulates_bnd)

lemma simulates_ignoring: "simulates proj m f \<Longrightarrow> simulates proj (ignoring m) (ignoring f)"
  by (simp add: simulates_def ignoring_run)

lemma simulates_invisible: "keeps proj m \<Longrightarrow> simulates proj (ignoring m) (ok ())"
  by (simp add: simulates_def keeps_def stable_def ignoring_run ok_run)

text \<open>An effect that the projection does not show can be left out.\<close>

lemma simulates_at: "simulates proj n h \<Longrightarrow> proj w' = proj w \<Longrightarrow> h (proj w) = (fst (n w'), proj (snd (n w')))"
  unfolding simulates_def by metis

lemma simulates_bnd_skip:
  assumes "keeps proj m" and "\<And>w. \<exists>x. fst (m w) = Inr x" and "\<And>x. simulates proj (k x) h"
  shows "simulates proj (bnd m k) h"
  unfolding simulates_def
proof
  fix w
  obtain x where x: "fst (m w) = Inr x" using assms(2) by blast
  have "h (proj w) = (fst (k x (snd (m w))), proj (snd (k x (snd (m w)))))"
    using assms(3) keepsD [OF assms(1)] by (rule simulates_at)
  with x show "h (proj w) = (fst (bnd m k w), proj (snd (bnd m k w)))"
    by (simp add: bnd_run)
qed

lemma simulates_skip:
  "keeps proj m \<Longrightarrow> simulates proj n h \<Longrightarrow> simulates proj (andthen (ignoring m) n) h"
  unfolding andthen_def
  by (rule simulates_bnd_skip) (simp_all add: keeps_def stable_def ignoring_run)

lemma simulates_unwrap_or: "simulates proj m f \<Longrightarrow> simulates proj (unwrap_or d m) (unwrap_or d f)"
  by (simp add: simulates_def unwrap_or_run)

lemma simulates_attempt: "simulates proj m f \<Longrightarrow> simulates proj (attempt m) (attempt f)"
  by (simp add: simulates_def attempt_run)

lemma simulates_map_err: "simulates proj m f \<Longrightarrow> simulates proj (map_err h m) (map_err h f)"
  by (simp add: simulates_def map_err_run)

lemma simulates_from_result: "simulates proj (from_result r) (from_result r)"
  by (simp add: simulates_def from_result_run)

lemma simulates_ok_or: "simulates proj (ok_or e v) (ok_or e v)"
  by (simp add: simulates_def ok_or_run)

lemma simulates_gets: "(\<And>w. g (proj w) = f w) \<Longrightarrow> simulates proj (gets f) (gets g)"
  by (simp add: simulates_def gets_run)

lemma simulates_if:
  "(b \<Longrightarrow> simulates proj m f) \<Longrightarrow> (\<not> b \<Longrightarrow> simulates proj n h) \<Longrightarrow>
   simulates proj (if b then m else n) (if b then f else h)"
  by simp

lemma simulates_option:
  "(v = None \<Longrightarrow> simulates proj m f) \<Longrightarrow> (\<And>x. v = Some x \<Longrightarrow> simulates proj (k x) (h x)) \<Longrightarrow>
   simulates proj (case v of None \<Rightarrow> m | Some x \<Rightarrow> k x) (case v of None \<Rightarrow> f | Some x \<Rightarrow> h x)"
  by (cases v) simp_all

lemma simulates_sum:
  "(\<And>e. v = Inl e \<Longrightarrow> simulates proj (m e) (f e)) \<Longrightarrow> (\<And>x. v = Inr x \<Longrightarrow> simulates proj (k x) (h x)) \<Longrightarrow>
   simulates proj (case v of Inl e \<Rightarrow> m e | Inr x \<Rightarrow> k x) (case v of Inl e \<Rightarrow> f e | Inr x \<Rightarrow> h x)"
  by (cases v) simp_all

lemmas simulates_intros = simulates_ok simulates_throw simulates_andthen simulates_bnd
  simulates_unwrap_or simulates_attempt simulates_map_err simulates_from_result simulates_ok_or
  simulates_if simulates_option simulates_sum

end
