(* ===== verification/Rust_Str.thy ===== *)
theory Rust_Str
  imports Prelude
begin

text \<open>
  The operations of Rust's \<open>str\<close>, \<open>char\<close> and integer parsing that the sources call,
  on the UTF-8 bytes of a string: prefix and suffix tests, substring search, splitting,
  trimming, case mapping, \<open>u64::from_str\<close> and decimal formatting, with the lemmas the
  components share.
\<close>

section \<open>Characters\<close>

definition byte :: "char \<Rightarrow> nat" where
  "byte c = of_char c"

definition is_ascii_lowercase :: "char \<Rightarrow> bool" where
  "is_ascii_lowercase c \<longleftrightarrow> 97 \<le> byte c \<and> byte c \<le> 122"

definition is_ascii_uppercase :: "char \<Rightarrow> bool" where
  "is_ascii_uppercase c \<longleftrightarrow> 65 \<le> byte c \<and> byte c \<le> 90"

definition is_ascii_digit :: "char \<Rightarrow> bool" where
  "is_ascii_digit c \<longleftrightarrow> 48 \<le> byte c \<and> byte c \<le> 57"

definition to_ascii_lowercase :: "char \<Rightarrow> char" where
  "to_ascii_lowercase c = (if is_ascii_uppercase c then char_of (byte c + 32) else c)"

definition is_ascii :: "string \<Rightarrow> bool" where
  "is_ascii s \<longleftrightarrow> list_all (\<lambda>c. byte c < 128) s"

lemma byte_char_of [simp]: "byte (char_of (n :: nat)) = n mod 256"
  by (simp add: byte_def)

lemma byte_less [simp]: "byte c < 256"
  unfolding byte_def using of_char_mod_256 [of c, where ?'a = nat]
  by (metis mod_less_divisor zero_less_numeral)

lemma byte_inject [simp]: "byte c = byte d \<longleftrightarrow> c = d"
  by (simp add: byte_def)

section \<open>Searching\<close>

definition starts_with :: "string \<Rightarrow> string \<Rightarrow> bool" where
  "starts_with s p \<longleftrightarrow> take (length p) s = p"

definition ends_with :: "string \<Rightarrow> string \<Rightarrow> bool" where
  "ends_with s p \<longleftrightarrow> length p \<le> length s \<and> drop (length s - length p) s = p"

fun str_contains :: "string \<Rightarrow> string \<Rightarrow> bool" where
  "str_contains [] p = (p = [])"
| "str_contains (c # s) p = (starts_with (c # s) p \<or> str_contains s p)"

lemma starts_with_iff: "starts_with s p \<longleftrightarrow> (\<exists>t. s = p @ t)"
  unfolding starts_with_def by (metis append_eq_conv_conj append_take_drop_id)

lemma starts_with_append [simp, str_simps]: "starts_with (p @ s) p"
  by (simp add: starts_with_def)

lemma ends_with_iff: "ends_with s p \<longleftrightarrow> (\<exists>t. s = t @ p)"
proof
  assume "ends_with s p"
  then show "\<exists>t. s = t @ p"
    unfolding ends_with_def by (metis append_take_drop_id)
next
  assume "\<exists>t. s = t @ p"
  then show "ends_with s p"
    by (auto simp: ends_with_def)
qed

lemma ends_with_append [simp, str_simps]: "ends_with (s @ p) p"
  by (auto simp: ends_with_iff)

lemma str_contains_iff: "str_contains s p \<longleftrightarrow> (\<exists>a b. s = a @ p @ b)"
proof (induction s)
  case Nil
  then show ?case by simp
next
  case (Cons c s)
  show ?case
  proof
    assume "str_contains (c # s) p"
    then consider (here) t where "c # s = p @ t" | (later) a b where "s = a @ p @ b"
      using Cons.IH by (auto simp: starts_with_iff)
    then show "\<exists>a b. c # s = a @ p @ b"
    proof cases
      case here
      then show ?thesis by (intro exI [of _ "[]"] exI [of _ t]) simp
    next
      case later
      then show ?thesis by (intro exI [of _ "c # a"] exI [of _ b]) simp
    qed
  next
    assume "\<exists>a b. c # s = a @ p @ b"
    then obtain a b where *: "c # s = a @ p @ b" by blast
    show "str_contains (c # s) p"
    proof (cases a)
      case Nil
      with * have "starts_with (c # s) p" by (auto simp: starts_with_iff)
      then show ?thesis by simp
    next
      case (Cons x a')
      with * have "s = a' @ p @ b" by simp
      with Cons.IH show ?thesis by auto
    qed
  qed
qed

section \<open>Splitting and trimming\<close>

text \<open>\<open>s.split(c)\<close>: the segments between the occurrences of \<open>c\<close>; never empty.\<close>

fun split_on :: "char \<Rightarrow> string \<Rightarrow> string list" where
  "split_on c [] = [[]]"
| "split_on c (x # s) =
     (if x = c then [] # split_on c s
      else (case split_on c s of [] \<Rightarrow> [[x]] | seg # segs \<Rightarrow> (x # seg) # segs))"

text \<open>\<open>s.splitn(2, c)\<close>: the text before the first \<open>c\<close>, and the rest when there is one.\<close>

fun split_once :: "char \<Rightarrow> string \<Rightarrow> string \<times> string option" where
  "split_once c [] = ([], None)"
| "split_once c (x # s) =
     (if x = c then ([], Some s) else (case split_once c s of (a, b) \<Rightarrow> (x # a, b)))"

lemma split_on_not_Nil [simp]: "split_on c s \<noteq> []"
  by (cases s) (auto split: list.splits)

lemma hd_split_on: "hd (split_on c s) = takeWhile (\<lambda>x. x \<noteq> c) s"
proof (induction s)
  case Nil
  then show ?case by simp
next
  case (Cons x s)
  then show ?case by (cases "split_on c s") auto
qed

lemma split_on_append: "c \<notin> set a \<Longrightarrow> split_on c (a @ c # b) = a # split_on c b"
  by (induction a) auto

lemma split_on_single: "c \<notin> set a \<Longrightarrow> split_on c a = [a]"
  by (induction a) auto

lemma split_once_append: "c \<notin> set a \<Longrightarrow> split_once c (a @ c # b) = (a, Some b)"
  by (induction a) auto

text \<open>The UTF-8 encodings of the characters with the \<open>White_Space\<close> property.\<close>

definition white_space :: "string list" where
  "white_space =
     map (\<lambda>n. [char_of (n :: nat)]) [9, 10, 11, 12, 13, 32] @
     map (map char_of) [[0xC2, 0x85], [0xC2, 0xA0], [0xE1, 0x9A, 0x80 :: nat]] @
     map (\<lambda>n. map char_of [0xE2, 0x80, 0x80 + n]) [0 ..< 11 :: nat] @
     map (map char_of) [[0xE2, 0x80, 0xA8], [0xE2, 0x80, 0xA9], [0xE2, 0x80, 0xAF],
       [0xE2, 0x81, 0x9F], [0xE3, 0x80, 0x80 :: nat]]"

text \<open>Remove prefixes from a set of patterns until none applies.\<close>

function strip_prefixes :: "string list \<Rightarrow> string \<Rightarrow> string" where
  "strip_prefixes ps s =
     (case find (\<lambda>p. p \<noteq> [] \<and> starts_with s p) ps of
        None \<Rightarrow> s
      | Some p \<Rightarrow> strip_prefixes ps (drop (length p) s))"
  by pat_completeness auto
termination
proof (relation "measure (\<lambda>(ps, s). length s)")
  fix ps :: "string list" and s p
  assume "find (\<lambda>p. p \<noteq> [] \<and> starts_with s p) ps = Some p"
  then have "p \<noteq> []" "starts_with s p"
    by (auto simp: find_Some_iff)
  then show "((ps, drop (length p) s), ps, s) \<in> measure (\<lambda>(ps, s). length s)"
    by (cases s) (auto simp: starts_with_def)
qed simp

declare strip_prefixes.simps [simp del]

definition trim :: "string \<Rightarrow> string" where
  "trim s = rev (strip_prefixes (map rev white_space) (rev (strip_prefixes white_space s)))"

text \<open>\<open>s.trim_start_matches(p)\<close> removes the prefix repeatedly.\<close>

definition trim_start_matches :: "string \<Rightarrow> string \<Rightarrow> string" where
  "trim_start_matches s p = strip_prefixes [p] s"

lemma strip_prefixes_id: "(\<And>p. p \<in> set ps \<Longrightarrow> \<not> starts_with s p) \<Longrightarrow> strip_prefixes ps s = s"
  by (subst strip_prefixes.simps) (auto split: option.splits simp: find_Some_iff)

lemma trim_start_matches_once:
  "p \<noteq> [] \<Longrightarrow> \<not> starts_with s p \<Longrightarrow> trim_start_matches (p @ s) p = s"
  unfolding trim_start_matches_def using strip_prefixes_id [of "[p]" s]
  by (subst strip_prefixes.simps) simp

section \<open>Case mapping\<close>

text \<open>
  \<open>str::to_lowercase\<close>.  ASCII letters are mapped; so are the two characters outside ASCII
  whose lower-case form contains an ASCII letter, U+212A (Kelvin sign, to \<open>k\<close>) and
  U+0130 (dotted capital I, to \<open>i\<close> followed by U+0307).  Every other character keeps its
  bytes here: its lower-case form has no ASCII letter, and the sources only compare the
  result with ASCII patterns or hand it on as an opaque key.
\<close>

definition kelvin_sign :: string where
  "kelvin_sign = map char_of [0xE2, 0x84, 0xAA :: nat]"

definition dotted_capital_i :: string where
  "dotted_capital_i = map char_of [0xC4, 0xB0 :: nat]"

definition dotted_small_i :: string where
  "dotted_small_i = map char_of [0x69, 0xCC, 0x87 :: nat]"

fun to_lowercase :: "string \<Rightarrow> string" where
  "to_lowercase [] = []"
| "to_lowercase (c # s) =
     (if starts_with (c # s) kelvin_sign then CHR ''k'' # to_lowercase (drop 2 s)
      else if starts_with (c # s) dotted_capital_i then dotted_small_i @ to_lowercase (drop 1 s)
      else to_ascii_lowercase c # to_lowercase s)"

definition eq_ignore_ascii_case :: "string \<Rightarrow> string \<Rightarrow> bool" where
  "eq_ignore_ascii_case a b \<longleftrightarrow> map to_ascii_lowercase a = map to_ascii_lowercase b"

lemma to_ascii_lowercase_idem [simp]:
  "to_ascii_lowercase (to_ascii_lowercase c) = to_ascii_lowercase c"
  by (auto simp: to_ascii_lowercase_def is_ascii_uppercase_def)

lemma to_lowercase_ascii: "is_ascii s \<Longrightarrow> to_lowercase s = map to_ascii_lowercase s"
proof (induction s rule: to_lowercase.induct)
  case 1
  then show ?case by simp
next
  case (2 c s)
  have "\<not> starts_with (c # s) kelvin_sign" "\<not> starts_with (c # s) dotted_capital_i"
    using 2(4) by (auto simp: is_ascii_def starts_with_def kelvin_sign_def dotted_capital_i_def)
  then show ?case using 2(3) 2(4) by (simp add: is_ascii_def)
qed

lemma is_ascii_map_lower: "is_ascii s \<Longrightarrow> is_ascii (map to_ascii_lowercase s)"
  by (induction s) (auto simp: is_ascii_def to_ascii_lowercase_def is_ascii_uppercase_def)

section \<open>Unsigned integers as text\<close>

definition digit_char :: "nat \<Rightarrow> char" where
  "digit_char n = char_of (48 + n)"

text \<open>\<open>format!("{}", n)\<close> for an unsigned integer.\<close>

fun show_nat :: "nat \<Rightarrow> string" where
  "show_nat n = (if n < 10 then [digit_char n] else show_nat (n div 10) @ [digit_char (n mod 10)])"

declare show_nat.simps [simp del]

definition digits_value :: "string \<Rightarrow> nat" where
  "digits_value s = foldl (\<lambda>acc c. acc * 10 + (byte c - 48)) 0 s"

text \<open>
  \<open>s.parse::<uN>()\<close>: an optional leading plus, then at least one digit, nothing else, and a
  value below \<open>2 ^ w\<close>.
\<close>

definition parse_unsigned :: "nat \<Rightarrow> string \<Rightarrow> nat option" where
  "parse_unsigned w s =
     (let ds = (case s of c # t \<Rightarrow> if c = CHR ''+'' then t else s | [] \<Rightarrow> s) in
      if ds \<noteq> [] \<and> list_all is_ascii_digit ds \<and> digits_value ds < 2 ^ w
      then Some (digits_value ds) else None)"

definition parse_u64 :: "string \<Rightarrow> nat option" where
  "parse_u64 = parse_unsigned 64"

lemma digits_value_snoc: "digits_value (s @ [c]) = digits_value s * 10 + (byte c - 48)"
  by (simp add: digits_value_def)

lemma byte_digit_char [simp]: "n < 10 \<Longrightarrow> byte (digit_char n) = 48 + n"
  by (simp add: digit_char_def)

lemma is_ascii_digit_digit_char [simp]: "n < 10 \<Longrightarrow> is_ascii_digit (digit_char n)"
  by (simp add: is_ascii_digit_def)

lemma show_nat_digits: "list_all is_ascii_digit (show_nat n)"
proof (induction n rule: show_nat.induct)
  case (1 n)
  then show ?case by (subst show_nat.simps) simp
qed

lemma show_nat_not_Nil: "show_nat n \<noteq> []"
  by (subst show_nat.simps) simp

lemma digits_value_show_nat: "digits_value (show_nat n) = n"
proof (induction n rule: show_nat.induct)
  case (1 n)
  show ?case
  proof (cases "n < 10")
    case True
    then show ?thesis by (subst show_nat.simps) (simp add: digits_value_def)
  next
    case False
    with 1 show ?thesis by (subst show_nat.simps) (simp add: digits_value_snoc)
  qed
qed

lemma show_nat_no_plus: "\<exists>c t. show_nat n = c # t \<and> is_ascii_digit c \<and> c \<noteq> CHR ''+''"
proof -
  obtain c t where ct: "show_nat n = c # t"
    using show_nat_not_Nil by (cases "show_nat n") auto
  then have "is_ascii_digit c" using show_nat_digits [of n] by simp
  moreover from this have "c \<noteq> CHR ''+''"
    by (auto simp: is_ascii_digit_def byte_def)
  ultimately show ?thesis using ct by blast
qed

lemma parse_show_nat: "n < 2 ^ w \<Longrightarrow> parse_unsigned w (show_nat n) = Some n"
  using show_nat_no_plus [of n] show_nat_digits [of n] digits_value_show_nat [of n]
  by (auto simp: parse_unsigned_def Let_def)

end
