(* ===== verification/Roles.thy ===== *)
theory Roles
  imports Rust_Str
begin

text \<open>
  Role-based access control (\<open>iam-core/src/domain/identity/roles.rs\<close>): permissions
  \<open>resource:action\<close> with the wildcard \<open>resource:*\<close>, the six user roles with their
  permission tables, and the textual form of a role.
\<close>

section \<open>Permissions\<close>

datatype permission = Permission string

fun permission_str :: "permission \<Rightarrow> string" where
  "permission_str (Permission s) = s"

definition permission_new :: "string \<Rightarrow> string \<Rightarrow> permission" where
  "permission_new resource action = Permission (resource @ '':'' @ action)"

definition permission_wildcard :: "string \<Rightarrow> permission" where
  "permission_wildcard resource = Permission (resource @ '':*'')"

definition permission_resource :: "permission \<Rightarrow> string" where
  "permission_resource p = hd (split_on (CHR '':'') (permission_str p))"

definition permission_action :: "permission \<Rightarrow> string" where
  "permission_action p =
     (case split_on (CHR '':'') (permission_str p) of _ # a # _ \<Rightarrow> a | _ \<Rightarrow> [])"

definition is_wildcard :: "permission \<Rightarrow> bool" where
  "is_wildcard p \<longleftrightarrow> ends_with (permission_str p) '':*''"

definition grants :: "permission \<Rightarrow> permission \<Rightarrow> bool" where
  "grants p requested =
     (if permission_str p = permission_str requested then True
      else if is_wildcard p \<and> permission_resource p = permission_resource requested then True
      else False)"

section \<open>Roles\<close>

datatype role = User | Admin | AMI | Producer | Consumer | Operator

definition user_permissions :: "permission set" where
  "user_permissions = set (map Permission
     [''energy:read'', ''energy:submit'', ''trading:read'', ''trading:create'',
      ''profile:read'', ''profile:update'', ''meters:read''])"

definition admin_permissions :: "permission set" where
  "admin_permissions = set (map Permission
     [''energy:*'', ''trading:*'', ''profile:*'', ''analytics:*'', ''users:*'', ''admin:*'',
      ''meters:*'', ''system:*''])"

definition ami_permissions :: "permission set" where
  "ami_permissions = set (map Permission
     [''energy:submit'', ''meters:read'', ''meters:update'', ''readings:submit''])"

definition producer_permissions :: "permission set" where
  "producer_permissions = set (map Permission
     [''energy:read'', ''energy:submit'', ''offers:*'', ''trading:read'', ''trading:create'',
      ''transactions:read'', ''profile:read'', ''profile:update'', ''meters:read''])"

definition consumer_permissions :: "permission set" where
  "consumer_permissions = set (map Permission
     [''energy:read'', ''orders:*'', ''offers:read'', ''trading:read'', ''trading:create'',
      ''transactions:read'', ''profile:read'', ''profile:update''])"

definition operator_permissions :: "permission set" where
  "operator_permissions = set (map Permission
     [''energy:read'', ''meters:*'', ''readings:*'', ''analytics:read'', ''system:health''])"

fun permissions :: "role \<Rightarrow> permission set" where
  "permissions User = user_permissions"
| "permissions Admin = admin_permissions"
| "permissions AMI = ami_permissions"
| "permissions Producer = producer_permissions"
| "permissions Consumer = consumer_permissions"
| "permissions Operator = operator_permissions"

definition has_permission :: "role \<Rightarrow> permission \<Rightarrow> bool" where
  "has_permission r p \<longleftrightarrow> (\<exists>q \<in> permissions r. grants q p)"

definition can_access :: "role \<Rightarrow> string \<Rightarrow> bool" where
  "can_access r s = has_permission r (Permission s)"

definition has_any_permission :: "role \<Rightarrow> permission list \<Rightarrow> bool" where
  "has_any_permission r ps = list_ex (has_permission r) ps"

definition has_all_permissions :: "role \<Rightarrow> permission list \<Rightarrow> bool" where
  "has_all_permissions r ps = list_all (has_permission r) ps"

datatype role_parse_error = RoleParseError string

definition role_from_str :: "string \<Rightarrow> role_parse_error + role" where
  "role_from_str s =
     (let l = to_lowercase s in
      if l = ''user'' then Inr User
      else if l = ''admin'' then Inr Admin
      else if l = ''ami'' then Inr AMI
      else if l = ''producer'' then Inr Producer
      else if l = ''consumer'' then Inr Consumer
      else if l = ''operator'' then Inr Operator
      else Inl (RoleParseError s))"

fun role_to_string :: "role \<Rightarrow> string" where
  "role_to_string User = ''user''"
| "role_to_string Admin = ''admin''"
| "role_to_string AMI = ''ami''"
| "role_to_string Producer = ''producer''"
| "role_to_string Consumer = ''consumer''"
| "role_to_string Operator = ''operator''"

definition role_parse_error_to_string :: "role_parse_error \<Rightarrow> string" where
  "role_parse_error_to_string e = (case e of RoleParseError s \<Rightarrow> ''Invalid role: '' @ s)"

lemmas permission_tables = user_permissions_def admin_permissions_def ami_permissions_def
  producer_permissions_def consumer_permissions_def operator_permissions_def

section \<open>Lemmas\<close>

lemma takeWhile_colon:
  "CHR '':'' \<notin> set r \<Longrightarrow> takeWhile (\<lambda>x. x \<noteq> CHR '':'') (r @ CHR '':'' # a) = r"
  by (induction r) auto

lemma permission_new_resource [simp]:
  "CHR '':'' \<notin> set r \<Longrightarrow> permission_resource (permission_new r a) = r"
  by (simp add: permission_resource_def permission_new_def hd_split_on takeWhile_colon)

lemma permission_new_action [simp]:
  "CHR '':'' \<notin> set r \<Longrightarrow> CHR '':'' \<notin> set a \<Longrightarrow> permission_action (permission_new r a) = a"
  by (simp add: permission_action_def permission_new_def split_on_append split_on_single)

lemma permission_wildcard_new: "permission_wildcard r = permission_new r ''*''"
  by (simp add: permission_wildcard_def permission_new_def)

lemma is_wildcard_wildcard [simp]: "is_wildcard (permission_wildcard r)"
  by (simp add: is_wildcard_def permission_wildcard_def)

lemma permission_new_inject:
  "CHR '':'' \<notin> set r \<Longrightarrow> CHR '':'' \<notin> set r' \<Longrightarrow>
   permission_new r a = permission_new r' a' \<longleftrightarrow> r = r' \<and> a = a'"
proof
  assume r: "CHR '':'' \<notin> set r" "CHR '':'' \<notin> set r'"
    and eq: "permission_new r a = permission_new r' a'"
  from eq have "permission_resource (permission_new r a) = permission_resource (permission_new r' a')"
    by simp
  with r have "r = r'" by simp
  with eq show "r = r' \<and> a = a'" by (simp add: permission_new_def)
qed simp

lemma is_wildcard_new:
  assumes "CHR '':'' \<notin> set a"
  shows "is_wildcard (permission_new r a) \<longleftrightarrow> a = ''*''"
proof
  assume "is_wildcard (permission_new r a)"
  then obtain t where t: "r @ '':'' @ a = t @ '':*''"
    by (auto simp: is_wildcard_def permission_new_def ends_with_iff)
  then have "rev a @ CHR '':'' # rev r = CHR ''*'' # CHR '':'' # rev t"
    by (metis append.assoc append_Cons append_Nil rev.simps rev_append)
  then show "a = ''*''"
    using assms by (cases "rev a") (auto simp: Cons_eq_append_conv append_eq_Cons_conv)
next
  assume "a = ''*''"
  then show "is_wildcard (permission_new r a)"
    by (simp flip: permission_wildcard_new)
qed

text \<open>A permission built from a resource and an action grants exactly itself, or, when it is
  a wildcard, everything on its resource.\<close>

lemma grants_new_new:
  assumes "CHR '':'' \<notin> set r" "CHR '':'' \<notin> set a" "CHR '':'' \<notin> set r'"
  shows "grants (permission_new r a) (permission_new r' a') \<longleftrightarrow> r = r' \<and> (a = a' \<or> a = ''*'')"
proof -
  have "permission_str (permission_new r a) = permission_str (permission_new r' a') \<longleftrightarrow>
      r = r' \<and> a = a'"
    using permission_new_inject [OF assms(1,3), of a a'] by (simp add: permission_new_def)
  then show ?thesis
    using assms by (auto simp: grants_def is_wildcard_new)
qed

text \<open>Every entry of the permission tables is a resource and an action without colons.\<close>

definition simple_permission :: "permission \<Rightarrow> bool" where
  "simple_permission p \<longleftrightarrow>
     p = permission_new (permission_resource p) (permission_action p) \<and>
     CHR '':'' \<notin> set (permission_resource p) \<and> CHR '':'' \<notin> set (permission_action p)"

lemma permissions_simple: "p \<in> permissions r \<Longrightarrow> simple_permission p"
  by (cases r)
    (auto simp: permission_tables simple_permission_def permission_new_def permission_resource_def
      permission_action_def)

lemma grants_refl: "grants p p"
  by (simp add: grants_def)

lemma grants_wildcard:
  "CHR '':'' \<notin> set r \<Longrightarrow> grants (permission_wildcard r) (permission_new r a)"
  by (simp add: permission_wildcard_new grants_new_new)

lemma has_permission_new_iff:
  assumes "CHR '':'' \<notin> set res"
  shows "has_permission r (permission_new res act) \<longleftrightarrow>
    permission_new res act \<in> permissions r \<or> permission_wildcard res \<in> permissions r"
proof
  assume "has_permission r (permission_new res act)"
  then obtain q where q: "q \<in> permissions r" "grants q (permission_new res act)"
    by (auto simp: has_permission_def)
  let ?r = "permission_resource q" and ?a = "permission_action q"
  from permissions_simple [OF q(1)]
  have s: "q = permission_new ?r ?a" "CHR '':'' \<notin> set ?r" "CHR '':'' \<notin> set ?a"
    by (auto simp: simple_permission_def)
  from q(2) s have "?r = res \<and> (?a = act \<or> ?a = ''*'')"
    using grants_new_new [OF s(2,3) assms] by metis
  with q(1) s(1) show
    "permission_new res act \<in> permissions r \<or> permission_wildcard res \<in> permissions r"
    by (auto simp: permission_wildcard_new)
next
  assume "permission_new res act \<in> permissions r \<or> permission_wildcard res \<in> permissions r"
  then show "has_permission r (permission_new res act)"
    using assms by (auto simp: has_permission_def intro: grants_refl grants_wildcard)
qed

lemma role_to_string_ascii: "is_ascii (role_to_string r)"
  by (cases r) (simp_all add: is_ascii_def byte_def)

end
