(* ===== verification/Config.thy ===== *)
theory Config
  imports Rust_Str
begin

text \<open>
  \<open>iam-core/src/config.rs\<close>: the service configuration and \<open>Config::from_env\<close>.  The
  environment (after \<open>dotenv\<close>) is a function from variable names to values; the program
  ids come from \<open>SolanaProgramsConfig::from_env\<close> of the blockchain library and are an
  argument.
\<close>

record config =
  environment :: string
  port :: "16 word"
  database_url :: string
  redis_url :: string
  jwt_secret :: string
  jwt_expiration :: int
  encryption_secret :: string
  api_key_secret :: string
  log_level :: string
  test_mode :: bool
  solana_rpc_url :: string
  chain_bridge_url :: string
  solana_cluster :: string
  master_secret :: string
  kafka_brokers :: "string option"
  rabbitmq_url :: "string option"
  smtp_host :: string
  smtp_port :: "16 word"
  smtp_from :: string
  app_base_url :: string
  grpc_port :: "16 word option"
  registry_program_id :: string
  oracle_program_id :: string
  governance_program_id :: string
  energy_token_program_id :: string
  trading_program_id :: string
  auth_cpu_semaphore_limit :: "64 word"
  tokio_worker_threads :: "64 word option"
  database_max_connections :: "32 word"
  database_min_connections :: "32 word"
  request_timeout_secs :: "64 word"
  global_concurrency_limit :: "64 word"
  energy_token_mint :: string
  currency_token_mint :: string

record programs_config =
  pr_registry_program_id :: string
  pr_oracle_program_id :: string
  pr_governance_program_id :: string
  pr_energy_token_program_id :: string
  pr_trading_program_id :: string

datatype config_error = Required string | ParseInt

type_synonym env_vars = "string \<Rightarrow> string option"

text \<open>\<open>env::var(k).unwrap_or_else(|_| d)\<close>, and the typed \<open>parse\<close> of the result.\<close>

definition var_or :: "env_vars \<Rightarrow> string \<Rightarrow> string \<Rightarrow> string" where
  "var_or vars k d = (case vars k of None \<Rightarrow> d | Some v \<Rightarrow> v)"

definition parse_word :: "string \<Rightarrow> 'a::len word option" where
  "parse_word s = map_option of_nat (parse_unsigned LENGTH('a) s)"

definition parse_bool :: "string \<Rightarrow> bool option" where
  "parse_bool s = (if s = ''true'' then Some True else if s = ''false'' then Some False else None)"

text \<open>\<open>parse::<i64>\<close>: a sign, at least one digit, the range of a signed 64-bit number.\<close>

definition parse_i64 :: "string \<Rightarrow> int option" where
  "parse_i64 s =
     (case s of
        CHR ''-'' # ds \<Rightarrow>
          (if ds \<noteq> [] \<and> list_all is_ascii_digit ds \<and> digits_value ds \<le> 2 ^ 63
           then Some (- int (digits_value ds)) else None)
      | _ \<Rightarrow> map_option int (parse_unsigned 63 s))"

definition parsed :: "'a option \<Rightarrow> config_error + 'a" where
  "parsed v = (case v of None \<Rightarrow> Inl ParseInt | Some x \<Rightarrow> Inr x)"

definition res_bind :: "'e + 'a \<Rightarrow> ('a \<Rightarrow> 'e + 'b) \<Rightarrow> 'e + 'b" where
  "res_bind r k = (case r of Inl e \<Rightarrow> Inl e | Inr x \<Rightarrow> k x)"

lemma res_bind_simps [simp]:
  "res_bind (Inl e) k = Inl e"
  "res_bind (Inr x) k = k x"
  by (simp_all add: res_bind_def)

text \<open>
  \<open>Config::from_env\<close>, field by field: a struct expression evaluates its fields in the order
  written, so the first failing field decides the error.
\<close>

definition from_env :: "programs_config \<Rightarrow> env_vars \<Rightarrow> config_error + config" where
  "from_env programs vars =
     res_bind (parsed (parse_word (var_or vars ''IAM_PORT'' ''4010''))) (\<lambda>port_v.
     res_bind (case vars ''IAM_DATABASE_URL'' of
                 Some u \<Rightarrow> Inr u
               | None \<Rightarrow> (case vars ''DATABASE_URL'' of
                            Some u \<Rightarrow> Inr u
                          | None \<Rightarrow> Inl (Required ''IAM_DATABASE_URL or DATABASE_URL is required''))) (\<lambda>db.
     res_bind (case vars ''REDIS_URL'' of
                 Some u \<Rightarrow> Inr u
               | None \<Rightarrow> Inl (Required ''REDIS_URL is required'')) (\<lambda>redis.
     res_bind (parsed (parse_i64 (var_or vars ''JWT_EXPIRATION'' ''86400''))) (\<lambda>jwt_exp.
     res_bind (parsed (parse_word (var_or vars ''SMTP_PORT'' ''1025''))) (\<lambda>smtp.
     res_bind (parsed (parse_word (var_or vars ''AUTH_CPU_SEMAPHORE_LIMIT'' ''32''))) (\<lambda>sem.
     res_bind (parsed (parse_word (var_or vars ''DATABASE_MAX_CONNECTIONS'' ''50''))) (\<lambda>dbmax.
     res_bind (parsed (parse_word (var_or vars ''DATABASE_MIN_CONNECTIONS'' ''5''))) (\<lambda>dbmin.
     res_bind (parsed (parse_word (var_or vars ''REQUEST_TIMEOUT_SECS'' ''40''))) (\<lambda>timeout.
     res_bind (parsed (parse_word (var_or vars ''GLOBAL_CONCURRENCY_LIMIT'' ''100''))) (\<lambda>conc.
       Inr \<lparr>environment = var_or vars ''ENVIRONMENT'' ''development'',
            port = port_v,
            database_url = db,
            redis_url = redis,
            jwt_secret = var_or vars ''JWT_SECRET'' ''supersecretjwtkey'',
            jwt_expiration = jwt_exp,
            encryption_secret = var_or vars ''ENCRYPTION_SECRET'' ''supersecretencryptionkey'',
            api_key_secret = var_or vars ''API_KEY_SECRET'' ''supersecretapikey'',
            log_level = var_or vars ''LOG_LEVEL'' ''info'',
            test_mode = (case parse_bool (var_or vars ''TEST_MODE'' ''false'') of
                           None \<Rightarrow> False | Some b \<Rightarrow> b),
            solana_rpc_url = var_or vars ''SOLANA_RPC_URL'' ''http://127.0.0.1:8899'',
            chain_bridge_url = var_or vars ''CHAIN_BRIDGE_URL'' ''http://127.0.0.1:5040'',
            solana_cluster = var_or vars ''SOLANA_CLUSTER'' ''localnet'',
            master_secret = var_or vars ''MASTER_SECRET'' ''super-secret-master-key-change-me'',
            kafka_brokers = vars ''KAFKA_CMD_BROKERS'',
            rabbitmq_url = vars ''RABBITMQ_URL'',
            smtp_host = var_or vars ''SMTP_HOST'' ''localhost'',
            smtp_port = smtp,
            smtp_from = var_or vars ''SMTP_FROM'' ''noreply@gridtokenx.local'',
            app_base_url = var_or vars ''APP_BASE_URL'' ''http://localhost:3000'',
            grpc_port = Option.bind (vars ''IAM_GRPC_PORT'') parse_word,
            registry_program_id = pr_registry_program_id programs,
            oracle_program_id = pr_oracle_program_id programs,
            governance_program_id = pr_governance_program_id programs,
            energy_token_program_id = pr_energy_token_program_id programs,
            trading_program_id = pr_trading_program_id programs,
            auth_cpu_semaphore_limit = sem,
            tokio_worker_threads = Option.bind (vars ''TOKIO_WORKER_THREADS'') parse_word,
            database_max_connections = dbmax,
            database_min_connections = dbmin,
            request_timeout_secs = timeout,
            global_concurrency_limit = conc,
            energy_token_mint = var_or vars ''ENERGY_TOKEN_MINT'' [],
            currency_token_mint = var_or vars ''CURRENCY_TOKEN_MINT'' []\<rparr>))))))))))"

text \<open>
  The gRPC listener's port (\<open>startup.rs\<close>): \<open>grpc_port.unwrap_or(port + 10)\<close> in \<open>u16\<close>.  The
  sum is computed before \<open>unwrap_or\<close> is called; in a build without overflow checks it wraps.
\<close>

definition grpc_listen_port :: "config \<Rightarrow> 16 word" where
  "grpc_listen_port c = (case grpc_port c of None \<Rightarrow> port c + 10 | Some p \<Rightarrow> p)"

section \<open>What a loaded configuration satisfies\<close>

lemma parse_word_show:
  "n < 2 ^ LENGTH('a) \<Longrightarrow> parse_word (show_nat n) = Some (of_nat n :: 'a::len word)"
  by (simp add: parse_word_def parse_show_nat)

lemma res_bind_Inr_iff: "res_bind r k = Inr y \<longleftrightarrow> (\<exists>x. r = Inr x \<and> k x = Inr y)"
  by (cases r) simp_all

lemma parsed_Inr_iff: "parsed v = Inr x \<longleftrightarrow> v = Some x"
  by (simp add: parsed_def split: option.splits)

lemma from_env_urls:
  assumes "from_env programs vars = Inr c"
  shows "vars ''REDIS_URL'' = Some (redis_url c)"
    and "(case vars ''IAM_DATABASE_URL'' of None \<Rightarrow> vars ''DATABASE_URL'' | Some u \<Rightarrow> Some u)
           = Some (database_url c)"
  using assms by (auto simp: from_env_def res_bind_Inr_iff split: option.splits)

end
