(* ===== verification/Errors.thy ===== *)
theory Errors
  imports Rust_Str
begin

text \<open>
  The error taxonomy (\<open>iam-core/src/error/codes.rs\<close> and \<open>types.rs\<close>): the structured
  error codes with their numbers and messages, the application error \<open>ApiError\<close>, and its
  mapping to an HTTP status and to the response body.
\<close>

section \<open>Error codes\<close>

datatype error_code =
    InvalidCredentials | TokenExpired | TokenInvalid | TokenMissing | EmailNotVerified
  | AccountLocked | AccountDisabled
  | InsufficientPermissions | ResourceAccessDenied | RoleNotAuthorized
  | InvalidInput | MissingRequiredField | InvalidFormat | InvalidWalletAddress | InvalidAmount
  | InvalidEmail | InvalidPassword | PasswordTooWeak
  | NotFound | AlreadyExists | Conflict | Gone
  | DatabaseConnectionFailed | QueryFailed | DatabaseTransactionFailed | ConstraintViolation
  | ExternalServiceUnavailable | ExternalServiceTimeout | ExternalServiceError
  | EmailServiceFailed | ServiceUnavailable
  | RateLimitExceeded | TooManyRequests
  | InternalServerError | ConfigurationError | UnexpectedError

primrec code :: "error_code \<Rightarrow> 16 word" where
  "code InvalidCredentials = 1001"
| "code TokenExpired = 1002"
| "code TokenInvalid = 1003"
| "code TokenMissing = 1004"
| "code EmailNotVerified = 1005"
| "code AccountLocked = 1006"
| "code AccountDisabled = 1007"
| "code InsufficientPermissions = 2001"
| "code ResourceAccessDenied = 2002"
| "code RoleNotAuthorized = 2003"
| "code InvalidInput = 3001"
| "code MissingRequiredField = 3002"
| "code InvalidFormat = 3003"
| "code InvalidWalletAddress = 3004"
| "code InvalidAmount = 3005"
| "code InvalidEmail = 3006"
| "code InvalidPassword = 3007"
| "code PasswordTooWeak = 3008"
| "code NotFound = 4001"
| "code AlreadyExists = 4002"
| "code Conflict = 4003"
| "code Gone = 4004"
| "code DatabaseConnectionFailed = 7001"
| "code QueryFailed = 7002"
| "code DatabaseTransactionFailed = 7003"
| "code ConstraintViolation = 7004"
| "code ExternalServiceUnavailable = 8001"
| "code ExternalServiceTimeout = 8002"
| "code ExternalServiceError = 8003"
| "code EmailServiceFailed = 8004"
| "code ServiceUnavailable = 8005"
| "code RateLimitExceeded = 9001"
| "code TooManyRequests = 9002"
| "code InternalServerError = 9999"
| "code ConfigurationError = 9998"
| "code UnexpectedError = 9997"

text \<open>The name a code carries in JSON (\<open>#[serde(rename = ...)]\<close>).\<close>

primrec code_name :: "error_code \<Rightarrow> string" where
  "code_name InvalidCredentials = ''AUTH_1001''"
| "code_name TokenExpired = ''AUTH_1002''"
| "code_name TokenInvalid = ''AUTH_1003''"
| "code_name TokenMissing = ''AUTH_1004''"
| "code_name EmailNotVerified = ''AUTH_1005''"
| "code_name AccountLocked = ''AUTH_1006''"
| "code_name AccountDisabled = ''AUTH_1007''"
| "code_name InsufficientPermissions = ''AUTHZ_2001''"
| "code_name ResourceAccessDenied = ''AUTHZ_2002''"
| "code_name RoleNotAuthorized = ''AUTHZ_2003''"
| "code_name InvalidInput = ''VAL_3001''"
| "code_name MissingRequiredField = ''VAL_3002''"
| "code_name InvalidFormat = ''VAL_3003''"
| "code_name InvalidWalletAddress = ''VAL_3004''"
| "code_name InvalidAmount = ''VAL_3005''"
| "code_name InvalidEmail = ''VAL_3006''"
| "code_name InvalidPassword = ''VAL_3007''"
| "code_name PasswordTooWeak = ''VAL_3008''"
| "code_name NotFound = ''RES_4001''"
| "code_name AlreadyExists = ''RES_4002''"
| "code_name Conflict = ''RES_4003''"
| "code_name Gone = ''RES_4004''"
| "code_name DatabaseConnectionFailed = ''DB_7001''"
| "code_name QueryFailed = ''DB_7002''"
| "code_name DatabaseTransactionFailed = ''DB_7003''"
| "code_name ConstraintViolation = ''DB_7004''"
| "code_name ExternalServiceUnavailable = ''EXT_8001''"
| "code_name ExternalServiceTimeout = ''EXT_8002''"
| "code_name ExternalServiceError = ''EXT_8003''"
| "code_name EmailServiceFailed = ''EXT_8004''"
| "code_name ServiceUnavailable = ''EXT_8005''"
| "code_name RateLimitExceeded = ''RATE_9001''"
| "code_name TooManyRequests = ''RATE_9002''"
| "code_name InternalServerError = ''INT_9999''"
| "code_name ConfigurationError = ''INT_9998''"
| "code_name UnexpectedError = ''INT_9997''"

primrec code_message :: "error_code \<Rightarrow> string" where
  "code_message InvalidCredentials = ''Invalid email or password''"
| "code_message TokenExpired = ''Your session has expired. Please log in again''"
| "code_message TokenInvalid = ''Invalid authentication token''"
| "code_message TokenMissing = ''Authentication required. Please log in''"
| "code_message EmailNotVerified = ''Please verify your email address before proceeding''"
| "code_message AccountLocked = ''Your account has been locked. Please contact support''"
| "code_message AccountDisabled = ''Your account has been disabled. Please contact support''"
| "code_message InsufficientPermissions =
     ''You don'' @ [CHR 0x27] @ ''t have permission to perform this action''"
| "code_message ResourceAccessDenied = ''Access to this resource is denied''"
| "code_message RoleNotAuthorized = ''Your role is not authorized for this action''"
| "code_message InvalidInput = ''Invalid input provided''"
| "code_message MissingRequiredField = ''Required field is missing''"
| "code_message InvalidFormat = ''Invalid format provided''"
| "code_message InvalidWalletAddress = ''Invalid wallet address format''"
| "code_message InvalidAmount = ''Invalid amount provided''"
| "code_message InvalidEmail = ''Invalid email address format''"
| "code_message InvalidPassword = ''Invalid password''"
| "code_message PasswordTooWeak =
     ''Password is too weak. Use at least 8 characters with letters and numbers''"
| "code_message NotFound = ''The requested resource was not found''"
| "code_message AlreadyExists = ''This resource already exists''"
| "code_message Conflict = ''A conflict occurred with an existing resource''"
| "code_message Gone = ''This resource is no longer available''"
| "code_message DatabaseConnectionFailed = ''Database connection failed''"
| "code_message QueryFailed = ''Database query failed''"
| "code_message DatabaseTransactionFailed = ''Database transaction failed''"
| "code_message ConstraintViolation = ''Database constraint violation''"
| "code_message ExternalServiceUnavailable = ''External service is currently unavailable''"
| "code_message ExternalServiceTimeout = ''External service request timed out''"
| "code_message ExternalServiceError = ''External service error occurred''"
| "code_message EmailServiceFailed = ''Failed to send email''"
| "code_message ServiceUnavailable = ''Service is currently unavailable''"
| "code_message RateLimitExceeded = ''Rate limit exceeded. Please try again later''"
| "code_message TooManyRequests = ''Too many requests. Please slow down''"
| "code_message InternalServerError = ''An internal server error occurred''"
| "code_message ConfigurationError = ''Server configuration error''"
| "code_message UnexpectedError = ''An unexpected error occurred''"

section \<open>Application errors\<close>

text \<open>
  \<open>sqlx::Error\<close>: \<open>Error::Database\<close> with its \<open>is_unique_violation\<close> answer and its
  text, or any other variant (connection, pool, decoding, ...) with its text.
\<close>

datatype sqlx_error = SqlxDatabase bool string | SqlxOther string

fun sqlx_error_to_string :: "sqlx_error \<Rightarrow> string" where
  "sqlx_error_to_string (SqlxDatabase _ s) = s"
| "sqlx_error_to_string (SqlxOther s) = s"

datatype api_error =
    Authentication string
  | Authorization string
  | BadRequest string
  | Unauthorized string
  | Forbidden string
  | Validation string
  | Database sqlx_error
  | Redis string
  | Blockchain string
  | ExternalService string
  | Configuration string
  | NotFound string
  | Conflict string
  | Internal string
  | RateLimitExceeded string
  | WithCode error_code string
  | WithCodeAndDetails error_code string string
  | ValidationWithField error_code string string

type_synonym 'a api_result = "api_error + 'a"

text \<open>The \<open>Display\<close> form, from the \<open>#[error(...)]\<close> attributes.\<close>

primrec api_error_to_string :: "api_error \<Rightarrow> string" where
  "api_error_to_string (Authentication m) = ''Authentication failed: '' @ m"
| "api_error_to_string (Authorization m) = ''Authorization failed: '' @ m"
| "api_error_to_string (BadRequest m) = ''Bad request: '' @ m"
| "api_error_to_string (Unauthorized m) = ''Unauthorized: '' @ m"
| "api_error_to_string (Forbidden m) = ''Forbidden: '' @ m"
| "api_error_to_string (Validation m) = ''Validation error: '' @ m"
| "api_error_to_string (Database e) = ''Database error: '' @ sqlx_error_to_string e"
| "api_error_to_string (Redis m) = ''Redis error: '' @ m"
| "api_error_to_string (Blockchain m) = ''Blockchain error: '' @ m"
| "api_error_to_string (ExternalService m) = ''External service error: '' @ m"
| "api_error_to_string (Configuration m) = ''Configuration error: '' @ m"
| "api_error_to_string (api_error.NotFound m) = ''Not found: '' @ m"
| "api_error_to_string (api_error.Conflict m) = ''Conflict: '' @ m"
| "api_error_to_string (Internal m) = ''Internal server error: '' @ m"
| "api_error_to_string (api_error.RateLimitExceeded m) = ''Rate limit exceeded: '' @ m"
| "api_error_to_string (WithCode _ m) = m"
| "api_error_to_string (WithCodeAndDetails _ m _) = m"
| "api_error_to_string (ValidationWithField _ field _) = ''Validation failed: '' @ field"

definition with_code :: "error_code \<Rightarrow> string \<Rightarrow> api_error" where
  "with_code c m = WithCode c m"

definition with_details :: "error_code \<Rightarrow> string \<Rightarrow> string \<Rightarrow> api_error" where
  "with_details c m d = WithCodeAndDetails c m d"

primrec error_code_of :: "api_error \<Rightarrow> error_code" where
  "error_code_of (Authentication _) = InvalidCredentials"
| "error_code_of (Authorization _) = InsufficientPermissions"
| "error_code_of (BadRequest _) = InvalidInput"
| "error_code_of (Validation _) = InvalidInput"
| "error_code_of (Unauthorized _) = TokenMissing"
| "error_code_of (Forbidden _) = ResourceAccessDenied"
| "error_code_of (api_error.NotFound _) = error_code.NotFound"
| "error_code_of (api_error.Conflict _) = error_code.Conflict"
| "error_code_of (Database _) = QueryFailed"
| "error_code_of (Redis _) = ExternalServiceError"
| "error_code_of (ExternalService _) = ExternalServiceError"
| "error_code_of (Blockchain _) = InternalServerError"
| "error_code_of (Internal _) = InternalServerError"
| "error_code_of (Configuration _) = ConfigurationError"
| "error_code_of (api_error.RateLimitExceeded _) = error_code.RateLimitExceeded"
| "error_code_of (WithCode c _) = c"
| "error_code_of (WithCodeAndDetails c _ _) = c"
| "error_code_of (ValidationWithField c _ _) = c"

fun error_details :: "api_error \<Rightarrow> string option" where
  "error_details (WithCodeAndDetails _ _ d) = Some d"
| "error_details _ = None"

fun error_field :: "api_error \<Rightarrow> string option" where
  "error_field (ValidationWithField _ field _) = Some field"
| "error_field _ = None"

text \<open>The arms of \<open>status_code\<close> for \<open>ApiError::WithCode(code, _)\<close>.\<close>

definition with_code_status :: "error_code \<Rightarrow> nat" where
  "with_code_status c =
     (if c \<in> {InvalidCredentials, TokenExpired, TokenInvalid, TokenMissing, EmailNotVerified} then 401
      else if c \<in> {InsufficientPermissions, ResourceAccessDenied} then 403
      else if c \<in> {InvalidInput, MissingRequiredField, InvalidFormat, InvalidWalletAddress,
          InvalidAmount, InvalidEmail, InvalidPassword, PasswordTooWeak} then 400
      else if c = error_code.NotFound then 404
      else if c \<in> {error_code.Conflict, AlreadyExists} then 409
      else if c \<in> {ExternalServiceUnavailable, ServiceUnavailable} then 502
      else if c = error_code.RateLimitExceeded then 429
      else if c = AccountLocked then 423
      else 500)"

primrec status_code :: "api_error \<Rightarrow> nat" where
  "status_code (Authentication _) = 401"
| "status_code (Unauthorized _) = 401"
| "status_code (Authorization _) = 403"
| "status_code (Forbidden _) = 403"
| "status_code (BadRequest _) = 400"
| "status_code (Validation _) = 400"
| "status_code (ValidationWithField _ _ _) = 400"
| "status_code (api_error.NotFound _) = 404"
| "status_code (api_error.Conflict _) = 409"
| "status_code (Blockchain _) = 502"
| "status_code (ExternalService _) = 502"
| "status_code (api_error.RateLimitExceeded _) = 429"
| "status_code (WithCode c _) = with_code_status c"
| "status_code (Database _) = 500"
| "status_code (Redis _) = 500"
| "status_code (Configuration _) = 500"
| "status_code (Internal _) = 500"
| "status_code (WithCodeAndDetails _ _ _) = 500"

text \<open>
  \<open>From<anyhow::Error>\<close>: an \<open>ApiError\<close> that was wrapped comes out as it is, any other error becomes an
  internal one with its outermost message.
\<close>

datatype anyhow_error = Wrapped_api api_error | Other_error string

primrec from_anyhow :: "anyhow_error \<Rightarrow> api_error" where
  "from_anyhow (Wrapped_api e) = e"
| "from_anyhow (Other_error msg) = Internal msg"

definition internal :: "string \<Rightarrow> api_error" where
  "internal message = Internal message"

definition unauthorized :: "string \<Rightarrow> api_error" where
  "unauthorized message = Unauthorized message"

definition validation_error :: "string \<Rightarrow> api_error" where
  "validation_error message = Validation message"

definition invalid_credentials :: api_error where
  "invalid_credentials = WithCode InvalidCredentials ''Invalid username or password''"

definition service_unavailable :: "string \<Rightarrow> api_error" where
  "service_unavailable service =
     WithCodeAndDetails ServiceUnavailable (service @ '' service is currently unavailable'')
       ''Please try again later''"

definition already_exists :: "string \<Rightarrow> api_error" where
  "already_exists resource = WithCode AlreadyExists (resource @ '' already exists'')"

definition not_found :: "string \<Rightarrow> api_error" where
  "not_found resource = WithCode error_code.NotFound (resource @ '' not found'')"

definition invalid_wallet :: api_error where
  "invalid_wallet = WithCode InvalidWalletAddress ''Invalid wallet address''"

definition email_not_verified :: api_error where
  "email_not_verified = WithCode EmailNotVerified ''Email not verified''"

definition token_expired :: api_error where
  "token_expired = WithCode TokenExpired ''Token expired''"

definition validation_field :: "string \<Rightarrow> string \<Rightarrow> api_error" where
  "validation_field field message = ValidationWithField InvalidInput field message"

section \<open>The HTTP error response\<close>

record error_detail =
  ed_code :: error_code
  ed_code_number :: "16 word"
  ed_message :: string
  ed_details :: "string option"
  ed_field :: "string option"

record error_response =
  er_error :: error_detail
  er_request_id :: string
  er_timestamp :: string

text \<open>
  \<open>IntoResponse for ApiError\<close>: the status and the body; the fresh request id and the
  current time are arguments.
\<close>

definition response_message :: "api_error \<Rightarrow> string" where
  "response_message e = (case e of
       WithCode _ msg \<Rightarrow> msg
     | WithCodeAndDetails _ msg _ \<Rightarrow> msg
     | BadRequest msg \<Rightarrow> msg
     | Validation msg \<Rightarrow> msg
     | Internal msg \<Rightarrow> msg
     | ValidationWithField _ _ message \<Rightarrow> message
     | _ \<Rightarrow> code_message (error_code_of e))"

definition into_response :: "string \<Rightarrow> string \<Rightarrow> api_error \<Rightarrow> nat \<times> error_response" where
  "into_response request_id timestamp e =
     (status_code e,
      \<lparr>er_error = \<lparr>ed_code = error_code_of e, ed_code_number = code (error_code_of e),
          ed_message = response_message e, ed_details = error_details e, ed_field = error_field e\<rparr>,
        er_request_id = request_id, er_timestamp = timestamp\<rparr>)"

datatype log_level = Log_error | Log_warn | Log_none

text \<open>\<open>log_error\<close>: server errors are logged as errors, client errors as warnings.\<close>

definition log_level_of :: "api_error \<Rightarrow> log_level" where
  "log_level_of e =
     (let s = status_code e in
      if 500 \<le> s \<and> s < 600 then Log_error else if 400 \<le> s \<and> s < 500 then Log_warn else Log_none)"

section \<open>Rejected JSON bodies\<close>

text \<open>\<open>iam-api/src/error_helpers.rs\<close>: the rejections of axum's \<open>Json\<close> extractor, with
  the text the source formats.\<close>

datatype json_rejection =
    JsonDataError string
  | JsonSyntaxError
  | MissingJsonContentType
  | BytesRejection
  | OtherRejection string

fun handle_rejection :: "json_rejection \<Rightarrow> api_error" where
  "handle_rejection (JsonDataError e) = with_details InvalidInput ''Invalid input provided'' e"
| "handle_rejection JsonSyntaxError = with_code InvalidFormat ''Invalid JSON format''"
| "handle_rejection MissingJsonContentType = with_code InvalidFormat ''JSON content type required''"
| "handle_rejection BytesRejection = with_code InvalidInput ''Invalid request body format''"
| "handle_rejection (OtherRejection e) = with_details InvalidInput ''Invalid input provided'' e"

section \<open>Lemmas\<close>

text \<open>The class of a code: the thousands digit of its number.\<close>

definition code_class :: "error_code \<Rightarrow> nat" where
  "code_class c = unat (code c) div 1000"

text \<open>All codes, in declaration order.\<close>

definition all_codes :: "error_code list" where
  "all_codes =
     [InvalidCredentials, TokenExpired, TokenInvalid, TokenMissing, EmailNotVerified, AccountLocked,
      AccountDisabled, InsufficientPermissions, ResourceAccessDenied, RoleNotAuthorized, InvalidInput,
      MissingRequiredField, InvalidFormat, InvalidWalletAddress, InvalidAmount, InvalidEmail,
      InvalidPassword, PasswordTooWeak, error_code.NotFound, AlreadyExists, error_code.Conflict, Gone,
      DatabaseConnectionFailed, QueryFailed, DatabaseTransactionFailed, ConstraintViolation,
      ExternalServiceUnavailable, ExternalServiceTimeout, ExternalServiceError, EmailServiceFailed,
      ServiceUnavailable, error_code.RateLimitExceeded, TooManyRequests, InternalServerError,
      ConfigurationError, UnexpectedError]"

lemma all_codes_complete: "c \<in> set all_codes"
  by (cases c) (simp_all add: all_codes_def)

lemma distinct_code_numbers: "distinct (map (\<lambda>c. unat (code c)) all_codes)"
  by (simp add: all_codes_def)

lemma code_inject: "code c = code d \<longleftrightarrow> c = d"
  using distinct_code_numbers all_codes_complete by (metis distinct_map inj_onD)

lemma status_code_range: "status_code e \<in> {400, 401, 403, 404, 409, 423, 429, 500, 502}"
  by (cases e) (auto simp: with_code_status_def)

text \<open>Every error is logged: as an error exactly when the status is that of a server fault.\<close>

lemma log_level_by_status: "log_level_of e = (if 500 \<le> status_code e then Log_error else Log_warn)"
  using status_code_range [of e] by (auto simp: log_level_of_def Let_def)

text \<open>The status of a coded error, by the number of its code: the class of the number decides, with
  the exceptions listed first.\<close>

definition status_of_number :: "nat \<Rightarrow> nat" where
  "status_of_number n =
     (if n = 1006 then 423
      else if n \<in> {1007, 2003, 4004, 9002} then 500
      else if n < 2000 then 401 else if n < 3000 then 403 else if n < 4000 then 400
      else if n = 4001 then 404 else if n < 5000 then 409
      else if n \<in> {8001, 8005} then 502 else if n = 9001 then 429 else 500)"

lemma with_code_status_number: "with_code_status c = status_of_number (unat (code c))"
  by (cases c) (simp_all add: with_code_status_def status_of_number_def)

end
