(* ===== verification/Domain.thy ===== *)
theory Domain
  imports Rust_Str Complex_Main
begin

text \<open>
  The domain data of \<open>iam-core/src/domain/identity\<close> (\<open>models.rs\<close>, \<open>auth.rs\<close>,
  \<open>keys.rs\<close>, \<open>events.rs\<close>) as records and datatypes, the claims of a session token, and
  the Redis key formats.  Times are Unix milliseconds.
\<close>

section \<open>Numbers and JSON\<close>

text \<open>
  \<open>f64\<close>, as far as the service uses it (coordinates): a finite value, an infinity or NaN.
  \<open>as_i32\<close> is Rust's saturating, truncating \<open>as i32\<close>.
\<close>

datatype f64 = F_fin rat | F_inf bool | F_nan

definition f64_of_i32 :: "32 word \<Rightarrow> f64" where
  "f64_of_i32 x = F_fin (of_int (sint x))"

definition rat_trunc :: "rat \<Rightarrow> int" where
  "rat_trunc r = (if 0 \<le> r then \<lfloor>r\<rfloor> else \<lceil>r\<rceil>)"

fun as_i32 :: "f64 \<Rightarrow> 32 word" where
  "as_i32 F_nan = 0"
| "as_i32 (F_inf positive) = word_of_int (if positive then 2 ^ 31 - 1 else - (2 ^ 31))"
| "as_i32 (F_fin r) = word_of_int (max (- (2 ^ 31)) (min (2 ^ 31 - 1) (rat_trunc r)))"

lemma word_of_int_sint32: "word_of_int (sint x) = (x :: 32 word)"
  by transfer (simp add: take_bit_signed_take_bit)

lemma as_i32_of_i32: "as_i32 (f64_of_i32 x) = x"
proof -
  have b: "- (2 ^ 31) \<le> sint x" "sint x < 2 ^ 31"
    using sint_greater_eq [of x] sint_less [of x] by simp_all
  have "rat_trunc (of_int (sint x)) = sint x"
    by (simp add: rat_trunc_def del: of_int_sint)
  moreover from b have "max (- (2 ^ 31)) (min (2 ^ 31 - 1) (sint x)) = sint x"
    by simp
  ultimately show ?thesis
    by (simp add: f64_of_i32_def word_of_int_sint32 del: of_int_sint)
qed

text \<open>
  A \<open>serde_json::Value\<close>.  A number is an integer that fits 64 bits, or a finite \<open>f64\<close>; the fields
  of an object are listed in the order of the text.
\<close>

datatype json =
    JNull
  | JBool bool
  | JInt int
  | JFloat rat
  | JStr string
  | JArr "json list"
  | JObj "(string \<times> json) list"

fun json_get :: "json \<Rightarrow> string \<Rightarrow> json option" where
  "json_get (JObj fs) k = map_of fs k"
| "json_get _ _ = None"

fun json_as_str :: "json \<Rightarrow> string option" where
  "json_as_str (JStr s) = Some s"
| "json_as_str _ = None"

definition json_opt_str :: "string option \<Rightarrow> json" where
  "json_opt_str v = (case v of None \<Rightarrow> JNull | Some s \<Rightarrow> JStr s)"

section \<open>Users, wallets, keys\<close>

type_synonym uuid = "128 word"
type_synonym pubkey = "256 word"

datatype user_type = Prosumer | Consumer

record user =
  u_id :: uuid
  u_username :: string
  u_email :: string
  u_role :: string
  u_first_name :: "string option"
  u_last_name :: "string option"
  u_wallet_address :: "string option"
  u_is_active :: bool
  u_blockchain_registered :: bool
  u_user_type :: "user_type option"
  u_latitude :: "f64 option"
  u_longitude :: "f64 option"

record user_with_hash =
  uh_user :: user
  uh_password_hash :: string

record user_wallet =
  uw_id :: uuid
  uw_user_id :: uuid
  uw_wallet_address :: string
  uw_label :: "string option"
  uw_is_primary :: bool
  uw_verified :: bool
  uw_blockchain_registered :: bool
  uw_user_account_pda :: "string option"
  uw_shard_id :: "8 word option"
  uw_blockchain_tx_signature :: "string option"
  uw_created_at :: int

record new_user =
  nu_id :: uuid
  nu_username :: string
  nu_email :: string
  nu_password_hash :: string
  nu_role :: string
  nu_first_name :: "string option"
  nu_last_name :: "string option"
  nu_verification_token :: "string option"

record email_verification_state =
  vs_user_id :: uuid
  vs_username :: string
  vs_email_verified :: bool
  vs_verification_token :: "string option"

record api_key =
  ak_id :: uuid
  ak_key_hash :: string
  ak_name :: string
  ak_role :: string
  ak_permissions :: "string list"
  ak_is_active :: bool
  ak_created_at :: int
  ak_last_used_at :: "int option"

section \<open>Results of the service operations\<close>

record auth_result =
  ar_access_token :: string
  ar_expires_in :: int
  ar_user :: user

record registration_result =
  rr_id :: uuid
  rr_username :: string
  rr_email :: string
  rr_first_name :: "string option"
  rr_last_name :: "string option"
  rr_message :: string

record resend_verification_result =
  rv_status :: string
  rv_message :: string

record verify_email_result =
  ve_success :: bool
  ve_message :: string
  ve_wallet_address :: "string option"
  ve_auth :: "auth_result option"

record onchain_onboarding_result =
  oo_success :: bool
  oo_message :: string
  oo_transaction_signature :: "string option"

section \<open>Session claims\<close>

record claims =
  cl_sub :: uuid
  cl_username :: string
  cl_role :: string
  cl_exp :: int
  cl_iat :: int
  cl_iss :: string

definition timestamp :: "int \<Rightarrow> int" where
  "timestamp now = now div 1000"

definition iam_issuer :: string where
  "iam_issuer = ''gridtokenx-iam-service''"

text \<open>\<open>Claims::new\<close>; the current time is an argument.\<close>

definition claims_new :: "int \<Rightarrow> uuid \<Rightarrow> string \<Rightarrow> string \<Rightarrow> claims" where
  "claims_new now user_id username role =
     \<lparr>cl_sub = user_id, cl_username = username, cl_role = role,
      cl_exp = timestamp (now + 24 * 3600 * 1000), cl_iat = timestamp now, cl_iss = iam_issuer\<rparr>"

definition claims_is_expired :: "int \<Rightarrow> claims \<Rightarrow> bool" where
  "claims_is_expired now c \<longleftrightarrow> timestamp now > cl_exp c"

definition claims_has_role :: "claims \<Rightarrow> string \<Rightarrow> bool" where
  "claims_has_role c required_role \<longleftrightarrow> cl_role c = required_role"

definition claims_has_any_role :: "claims \<Rightarrow> string list \<Rightarrow> bool" where
  "claims_has_any_role c required_roles \<longleftrightarrow> cl_role c \<in> set required_roles"

lemma claims_new_lifetime: "cl_exp (claims_new now i u r) = cl_iat (claims_new now i u r) + 86400"
  by (simp add: claims_new_def timestamp_def)

section \<open>Redis keys\<close>

definition login_attempts :: "string \<Rightarrow> string" where
  "login_attempts identifier = ''iam:login_attempts:'' @ identifier"

definition account_lock :: "string \<Rightarrow> string" where
  "account_lock identifier = ''iam:account_lock:'' @ identifier"

definition user_profile :: "string \<Rightarrow> string" where
  "user_profile user_id = ''iam:user:profile:'' @ user_id"

definition api_key_key :: "string \<Rightarrow> string" where
  "api_key_key key_hash = ''iam:api_key:'' @ key_hash"

definition email_verification_token :: "string \<Rightarrow> string" where
  "email_verification_token token = ''iam:email_verify:'' @ token"

definition resend_verification_cooldown :: "string \<Rightarrow> string" where
  "resend_verification_cooldown user_id = ''iam:resend_cooldown:'' @ user_id"

definition password_reset_token :: "string \<Rightarrow> string" where
  "password_reset_token token = ''iam:password_reset:'' @ token"

definition rate_limit_key :: "string \<Rightarrow> string \<Rightarrow> string" where
  "rate_limit_key ip endpoint = ''iam:rate_limit:'' @ endpoint @ '':'' @ ip"

lemmas key_defs = login_attempts_def account_lock_def user_profile_def api_key_key_def
  email_verification_token_def resend_verification_cooldown_def password_reset_token_def
  rate_limit_key_def

text \<open>Different key families never meet, and within a family the key determines its argument.\<close>

lemma key_families_disjoint [simp]:
  "login_attempts a \<noteq> account_lock b" "account_lock b \<noteq> login_attempts a"
  "login_attempts a \<noteq> user_profile b" "user_profile b \<noteq> login_attempts a"
  "login_attempts a \<noteq> password_reset_token b" "password_reset_token b \<noteq> login_attempts a"
  "login_attempts a \<noteq> rate_limit_key c d" "rate_limit_key c d \<noteq> login_attempts a"
  "login_attempts a \<noteq> api_key_key b" "api_key_key b \<noteq> login_attempts a"
  "login_attempts a \<noteq> resend_verification_cooldown b"
  "resend_verification_cooldown b \<noteq> login_attempts a"
  "account_lock a \<noteq> user_profile b" "user_profile b \<noteq> account_lock a"
  "account_lock a \<noteq> password_reset_token b" "password_reset_token b \<noteq> account_lock a"
  "account_lock a \<noteq> rate_limit_key c d" "rate_limit_key c d \<noteq> account_lock a"
  "account_lock a \<noteq> api_key_key b" "api_key_key b \<noteq> account_lock a"
  "account_lock a \<noteq> resend_verification_cooldown b"
  "resend_verification_cooldown b \<noteq> account_lock a"
  "user_profile a \<noteq> password_reset_token b" "password_reset_token b \<noteq> user_profile a"
  "user_profile a \<noteq> rate_limit_key c d" "rate_limit_key c d \<noteq> user_profile a"
  "user_profile a \<noteq> api_key_key b" "api_key_key b \<noteq> user_profile a"
  "user_profile a \<noteq> resend_verification_cooldown b"
  "resend_verification_cooldown b \<noteq> user_profile a"
  "password_reset_token a \<noteq> rate_limit_key c d" "rate_limit_key c d \<noteq> password_reset_token a"
  "password_reset_token a \<noteq> api_key_key b" "api_key_key b \<noteq> password_reset_token a"
  "password_reset_token a \<noteq> resend_verification_cooldown b"
  "resend_verification_cooldown b \<noteq> password_reset_token a"
  "api_key_key a \<noteq> rate_limit_key c d" "rate_limit_key c d \<noteq> api_key_key a"
  "api_key_key a \<noteq> resend_verification_cooldown b"
  "resend_verification_cooldown b \<noteq> api_key_key a"
  "rate_limit_key c d \<noteq> resend_verification_cooldown b"
  "resend_verification_cooldown b \<noteq> rate_limit_key c d"
  by (simp_all add: key_defs)

lemma key_inject [simp]:
  "login_attempts a = login_attempts b \<longleftrightarrow> a = b"
  "account_lock a = account_lock b \<longleftrightarrow> a = b"
  "user_profile a = user_profile b \<longleftrightarrow> a = b"
  "api_key_key a = api_key_key b \<longleftrightarrow> a = b"
  "email_verification_token a = email_verification_token b \<longleftrightarrow> a = b"
  "resend_verification_cooldown a = resend_verification_cooldown b \<longleftrightarrow> a = b"
  "password_reset_token a = password_reset_token b \<longleftrightarrow> a = b"
  by (simp_all add: key_defs)

section \<open>Events\<close>

record event =
  ev_id :: uuid
  ev_event_type :: string
  ev_timestamp :: string
  ev_data :: "json option"
  ev_source :: string

record outbox_record =
  or_id :: uuid
  or_event_type :: string
  or_payload :: json

end
