(* ===== verification/World.thy ===== *)
theory World
  imports Prelude Config Errors Domain
begin

text \<open>
  What the service runs in.  The \<^emph>\<open>environment\<close> record holds the configuration and every
  piece of code that is not part of the repository (password hashing, token signing, the
  Solana client, Kafka, the generator of UUIDs, faults and delays of the network) as
  functions.  The \<^emph>\<open>world\<close> record is the state the service shares between requests: the
  Postgres tables, the Redis key space and event stream, the Kafka log, the detached tasks
  and the clock.
\<close>

section \<open>Stored rows\<close>

text \<open>\<open>UserRow\<close> (\<open>repository/user.rs\<close>): the columns the queries read.\<close>

record user_row =
  ur_id :: uuid
  ur_username :: string
  ur_email :: string
  ur_password_hash :: string
  ur_role :: string
  ur_first_name :: "string option"
  ur_last_name :: "string option"
  ur_wallet_address :: "string option"
  ur_blockchain_registered :: bool
  ur_user_type :: "string option"
  ur_latitude :: "f64 option"
  ur_longitude :: "f64 option"
  ur_kdf_version :: "16 word"

text \<open>A row of table \<open>users\<close>: the columns read, and those only written or tested in SQL.\<close>

record user_rec = user_row +
  is_active :: bool
  email_verified :: bool
  email_verified_at :: "int option"
  email_verification_token :: "string option"
  email_verification_sent_at :: "int option"
  email_verification_expires_at :: "int option"
  user_account_pda :: "string option"
  blockchain_tx_signature :: "string option"
  blockchain_submitted_at :: "int option"
  blockchain_confirmed_at :: "int option"
  blockchain_status :: string
  encrypted_private_key :: "string option"
  wallet_salt :: "string option"
  encryption_iv :: "string option"

text \<open>\<open>UserWalletRow\<close> (\<open>repository/wallet.rs\<close>): a row of \<open>user_wallets\<close>.\<close>

record wallet_row =
  w_id :: uuid
  w_user_id :: uuid
  w_wallet_address :: string
  w_label :: "string option"
  w_is_primary :: bool
  w_verified :: bool
  w_blockchain_registered :: bool
  w_user_account_pda :: "string option"
  w_shard_id :: "16 word option"
  w_blockchain_tx_signature :: "string option"
  w_created_at :: int

text \<open>\<open>ApiKeyRow\<close> (\<open>repository/api_key.rs\<close>) with the column \<open>expires_at\<close> of the table.\<close>

record api_key_row =
  kr_id :: uuid
  kr_key_hash :: string
  kr_name :: string
  kr_role :: string
  kr_permissions :: "string list option"
  kr_is_active :: "bool option"
  kr_created_at :: "int option"
  kr_last_used_at :: "int option"
  kr_expires_at :: "int option"

text \<open>A row of \<open>iam_outbox_events\<close>.\<close>

datatype outbox_status = PENDING | PROCESSED | FAILED

record outbox_rec =
  ob_id :: uuid
  ob_event_type :: string
  ob_payload :: json
  ob_status :: outbox_status
  ob_attempts :: nat
  ob_last_attempt_at :: "int option"
  ob_created_at :: int

text \<open>
  A Redis string.  The service stores serialised JSON; the two structured values it caches are
  kept as the values they deserialise to, the others as JSON.
\<close>

datatype cached = C_user user_with_hash | C_api_key api_key | C_json json

record entry =
  e_value :: cached
  e_expires :: "int option"

record kafka_record =
  k_topic :: string
  k_key :: string
  k_event :: event

text \<open>Detached tasks (\<open>tokio::spawn\<close>) that have not run yet.\<close>

datatype task =
    T_onchain uuid pubkey string user_type f64 f64
  | T_kafka event

record world =
  users :: "user_rec list"
  wallets :: "wallet_row list"
  api_keys :: "api_key_row list"
  outbox :: "outbox_rec list"
  redis :: "string \<Rightarrow> entry option"
  stream :: "event list"
  kafka_log :: "kafka_record list"
  tasks :: "task list"
  clock :: int
  io_ix :: nat
  rng_ix :: nat

section \<open>The environment\<close>

text \<open>What happened to a request sent over the network.\<close>

datatype outcome =
    Done
  | Lost_request string
  | Lost_reply string

datatype jwt_error = ExpiredSignature | InvalidToken | InvalidSignature | OtherJwtError string

text \<open>
  \<open>jsonwebtoken::Validation\<close> as the service configures it: algorithm HS256 is implied, the
  accepted issuers, whether \<open>exp\<close> is checked, and the tolerated clock skew in seconds.
\<close>

record validation =
  v_iss :: "string list"
  v_validate_exp :: bool
  v_leeway :: nat

record register_args =
  ra_authority :: pubkey
  ra_user_type :: user_type
  ra_lat_e7 :: "32 word"
  ra_long_e7 :: "32 word"
  ra_h3_index :: "64 word"
  ra_shard_id :: "8 word"

record env =
  cfg :: config
  kafka_up :: bool
  outbox_on :: bool
  fault :: "nat \<Rightarrow> outcome"
  latency :: "nat \<Rightarrow> nat"
  uuid_src :: "nat \<Rightarrow> uuid"
  uuid_to_string :: "uuid \<Rightarrow> string"
  uuid_parse :: "string \<Rightarrow> uuid option"
  pg_lower :: "string \<Rightarrow> string"
  to_rfc3339 :: "int \<Rightarrow> string"
  argon2_hash :: "nat \<Rightarrow> string \<Rightarrow> string + string"
  argon2_parse :: "string \<Rightarrow> string + string"
  argon2_verify :: "string \<Rightarrow> string \<Rightarrow> bool"
  bcrypt_verify :: "string \<Rightarrow> string \<Rightarrow> string + bool"
  jwt_encode :: "string \<Rightarrow> claims \<Rightarrow> string + string"
  jwt_decode :: "int \<Rightarrow> string \<Rightarrow> validation \<Rightarrow> string \<Rightarrow> jwt_error + claims"
  hmac_sha256 :: "string \<Rightarrow> string \<Rightarrow> string"
  hex_encode :: "string \<Rightarrow> string"
  hex_decode :: "string \<Rightarrow> string option"
  parse_pubkey :: "string \<Rightarrow> string + pubkey"
  pubkey_from_str :: "string \<Rightarrow> string + pubkey"
  pubkey_to_string :: "pubkey \<Rightarrow> string"
  user_pda :: "pubkey \<Rightarrow> pubkey \<Rightarrow> pubkey"
  create_keypair :: "nat \<Rightarrow> pubkey \<times> string"
  encrypt_private_key_versioned ::
    "nat \<Rightarrow> 8 word \<Rightarrow> string \<Rightarrow> string \<Rightarrow> string \<Rightarrow> string + (string \<times> string \<times> string)"
  b64_decode :: "string \<Rightarrow> string + string"
  current_kdf_version :: "8 word"
  rpc_register :: "nat \<Rightarrow> register_args \<Rightarrow> nat \<times> (string + string)"
  rpc_account_exists :: "nat \<Rightarrow> pubkey \<Rightarrow> string + bool"
  serde_error :: "cached \<Rightarrow> string"
  xadd_id :: "nat \<Rightarrow> string"
  xtrim_drop :: "nat \<Rightarrow> nat"
  kafka_offset :: "nat \<Rightarrow> nat \<times> nat"

type_synonym 'a act = "(world, api_error, 'a) comp"

section \<open>Primitive actions\<close>

text \<open>
  One request to Postgres, Redis or a remote service: time passes, and the request is carried
  out and answered, or lost (no effect), or its reply is lost (the effect is there, the caller
  sees an error).
\<close>

definition io :: "env \<Rightarrow> (string \<Rightarrow> 'e) \<Rightarrow> (world, 'e, 'a) comp \<Rightarrow> (world, 'e, 'a) comp" where
  "io E lost act w =
     (let i = io_ix w;
          w1 = w\<lparr>io_ix := Suc i, clock := clock w + int (latency E i)\<rparr>
      in case fault E i of
           Done \<Rightarrow> act w1
         | Lost_request s \<Rightarrow> (Inl (lost s), w1)
         | Lost_reply s \<Rightarrow> (Inl (lost s), snd (act w1)))"

text \<open>
  A query's transport errors are \<open>sqlx::Error\<close>s.  Redis errors are \<open>anyhow\<close> errors, displayed
  by the context that was attached to the call.
\<close>

definition db :: "env \<Rightarrow> 'a act \<Rightarrow> 'a act" where
  "db E act = io E (\<lambda>s. Database (SqlxOther s)) act"

definition redis_cmd ::
    "env \<Rightarrow> string \<Rightarrow> (world, string, 'a) comp \<Rightarrow> (world, string, 'a) comp" where
  "redis_cmd E context act = io E (\<lambda>_. context) act"

definition now :: "(world, 'e, int) comp" where
  "now = gets clock"

definition sleep_ms :: "nat \<Rightarrow> (world, 'e, unit) comp" where
  "sleep_ms d = modify (\<lambda>w. w\<lparr>clock := clock w + int d\<rparr>)"

text \<open>A draw from the random generators: \<open>Uuid::new_v4\<close>, \<open>OsRng\<close>.\<close>

definition draw :: "(nat \<Rightarrow> 'a) \<Rightarrow> (world, 'e, 'a) comp" where
  "draw src w = (Inr (src (rng_ix w)), w\<lparr>rng_ix := Suc (rng_ix w)\<rparr>)"

definition new_v4 :: "env \<Rightarrow> (world, 'e, uuid) comp" where
  "new_v4 E = draw (uuid_src E)"

definition spawn :: "task \<Rightarrow> (world, 'e, unit) comp" where
  "spawn t = modify (\<lambda>w. w\<lparr>tasks := tasks w @ [t]\<rparr>)"

text \<open>The working parts of a faultless environment, as used by the witnesses.\<close>

definition reliable :: "env \<Rightarrow> bool" where
  "reliable E \<longleftrightarrow> (\<forall>i. fault E i = Done)"

lemma io_reliable [simp]:
  "reliable E \<Longrightarrow>
   io E lost act w = act (w\<lparr>io_ix := Suc (io_ix w), clock := clock w + int (latency E (io_ix w))\<rparr>)"
  by (simp add: io_def reliable_def Let_def)

text \<open>... and, where the passing of time within a request does not matter, without delays.\<close>

definition instant :: "env \<Rightarrow> bool" where
  "instant E \<longleftrightarrow> reliable E \<and> (\<forall>i. latency E i = 0)"

lemma io_instant [simp]: "instant E \<Longrightarrow> io E lost act w = act (w\<lparr>io_ix := Suc (io_ix w)\<rparr>)"
proof -
  assume "instant E"
  moreover have "w\<lparr>io_ix := i, clock := clock w\<rparr> = w\<lparr>io_ix := i\<rparr>" for i
    by (cases w) simp
  ultimately show ?thesis by (simp add: instant_def)
qed

lemma reliable_fault: "reliable E \<Longrightarrow> fault E i = Done"
  by (simp add: reliable_def)

lemma draw_run [comp_simps]: "draw src w = (Inr (src (rng_ix w)), w\<lparr>rng_ix := Suc (rng_ix w)\<rparr>)"
  by (simp add: draw_def)

section \<open>Stability of the primitives\<close>

text \<open>
  An action that is stable on its own is stable when sent over the network, for every relation
  that the passing of time respects.
\<close>

locale timed_order = state_order R for R :: "world \<Rightarrow> world \<Rightarrow> bool" +
  assumes tick: "R w (w\<lparr>io_ix := i, clock := clock w + int d\<rparr>)"
    and tock: "R w (w\<lparr>rng_ix := j\<rparr>)"
    and elapse: "R w (w\<lparr>clock := clock w + int d\<rparr>)"
begin

lemma stable_io: "stable R act \<Longrightarrow> stable R (io E lost act)"
  unfolding stable_def io_def Let_def
  by (auto split: outcome.splits intro: trans tick)

lemma stable_db: "stable R act \<Longrightarrow> stable R (db E act)"
  by (simp add: db_def stable_io)

lemma stable_redis_cmd: "stable R act \<Longrightarrow> stable R (redis_cmd E c act)"
  by (simp add: redis_cmd_def stable_io)

lemma stable_draw: "stable R (draw src)"
  by (simp add: stable_def draw_run tock)

lemma stable_new_v4: "stable R (new_v4 E)"
  by (simp add: new_v4_def stable_draw)

lemma stable_now: "stable R now"
  by (simp add: now_def stable_gets)

lemma stable_sleep_ms: "stable R (sleep_ms d)"
  by (simp add: sleep_ms_def stable_modify elapse)

lemmas timed_intros = stable_db stable_redis_cmd stable_new_v4 stable_draw stable_now stable_sleep_ms

end

text \<open>The clock never runs backwards, whatever a request does.\<close>

interpretation mono_clock: timed_order "\<lambda>w w'. clock w \<le> clock w'"
  by unfold_locales auto

text \<open>
  A component of the world that neither the clock nor the counters are part of: the tables, the
  Redis keys, the queues.  Frame conditions and invariants over such components pass through
  the network primitives.
\<close>

definition untimed :: "(world \<Rightarrow> 'b) \<Rightarrow> bool" where
  "untimed f \<longleftrightarrow>
     (\<forall>w i d j. f (w\<lparr>io_ix := i, clock := clock w + int d\<rparr>) = f w \<and> f (w\<lparr>rng_ix := j\<rparr>) = f w
                \<and> f (w\<lparr>clock := clock w + int d\<rparr>) = f w)"

lemma untimed_components [simp, intro]:
  "untimed users" "untimed wallets" "untimed api_keys" "untimed outbox" "untimed redis"
  "untimed stream" "untimed kafka_log" "untimed tasks"
  by (simp_all add: untimed_def)

lemma untimed_at [intro]:
  "untimed (\<lambda>w. P1 (users w))" "untimed (\<lambda>w. P2 (wallets w))" "untimed (\<lambda>w. P3 (api_keys w))"
  "untimed (\<lambda>w. P4 (outbox w))" "untimed (\<lambda>w. P5 (redis w))" "untimed (\<lambda>w. P6 (stream w))"
  "untimed (\<lambda>w. P7 (kafka_log w))" "untimed (\<lambda>w. P8 (tasks w))"
  by (simp_all add: untimed_def)

lemma untimed_frame: "untimed f \<Longrightarrow> timed_order (\<lambda>w w'. f w' = f w)"
  by unfold_locales (auto simp: untimed_def)

lemma untimed_inv: "untimed P \<Longrightarrow> timed_order (\<lambda>w w'. P w \<longrightarrow> P w')"
  by unfold_locales (auto simp: untimed_def)

lemmas keeps_timed = timed_order.timed_intros [OF untimed_frame, folded keeps_def]
lemmas preserves_timed = timed_order.timed_intros [OF untimed_inv, folded preserves_def]

text \<open>
  The weaker condition for one environment: a network request of \<open>E\<close> as such is not seen by
  \<open>f\<close>.  It also holds for components that read the clock when \<open>E\<close> has no delays.
\<close>

definition passes :: "env \<Rightarrow> (world \<Rightarrow> 'b) \<Rightarrow> bool" where
  "passes E f \<longleftrightarrow>
     (\<forall>w. f (w\<lparr>io_ix := Suc (io_ix w), clock := clock w + int (latency E (io_ix w))\<rparr>) = f w) \<and>
     (\<forall>w j. f (w\<lparr>rng_ix := j\<rparr>) = f w)"

lemma passes_untimed: "untimed f \<Longrightarrow> passes E f"
  by (simp add: passes_def untimed_def)

lemma keeps_pass:
  assumes "passes E f"
  shows "keeps f act \<Longrightarrow> keeps f (io E lost act)" "keeps f act' \<Longrightarrow> keeps f (db E act')"
    "keeps f act'' \<Longrightarrow> keeps f (redis_cmd E c act'')" "keeps f (draw src)" "keeps f (new_v4 E')"
    "keeps f now"
  using assms
  by (auto simp: keeps_def stable_def passes_def io_def db_def redis_cmd_def Let_def draw_run new_v4_def
      now_def gets_run split: outcome.splits)

lemma keeps_spawn [intro]: "(\<And>w ts. f (w\<lparr>tasks := ts\<rparr>) = f w) \<Longrightarrow> keeps f (spawn t)"
  by (rule keepsI) (simp add: spawn_def modify_run)

end
