(* ===== verification/Cache.thy ===== *)
theory Cache
  imports World
begin

text \<open>
  \<open>iam-persistence/src/cache.rs\<close>: the Redis cache service.  First the Redis commands in use,
  with their expiry, on the key space alone; then the operations of \<open>CacheService\<close> and of
  \<open>CacheTrait\<close> that send them.
\<close>

section \<open>Redis commands\<close>

type_synonym store = "string \<Rightarrow> entry option"

text \<open>The entry of a key at time \<open>t\<close>: an entry is gone once its expiry time is reached.\<close>

definition alive :: "int \<Rightarrow> entry \<Rightarrow> bool" where
  "alive t e = (case e_expires e of None \<Rightarrow> True | Some x \<Rightarrow> t < x)"

definition live :: "int \<Rightarrow> store \<Rightarrow> string \<Rightarrow> entry option" where
  "live t s k = (case s k of None \<Rightarrow> None | Some e \<Rightarrow> if alive t e then Some e else None)"

definition valid_ttl :: "int \<Rightarrow> nat \<Rightarrow> bool" where
  "valid_ttl t ttl \<longleftrightarrow> 0 < ttl \<and> t + 1000 * int ttl < 2 ^ 63"

definition r_get :: "int \<Rightarrow> string \<Rightarrow> store \<Rightarrow> cached option" where
  "r_get t k s = map_option e_value (live t s k)"

definition r_exists :: "int \<Rightarrow> string \<Rightarrow> store \<Rightarrow> bool" where
  "r_exists t k s = (live t s k \<noteq> None)"

definition r_put :: "string \<Rightarrow> cached \<Rightarrow> int option \<Rightarrow> store \<Rightarrow> store" where
  "r_put k v x s = s(k \<mapsto> \<lparr>e_value = v, e_expires = x\<rparr>)"

definition r_set_ex :: "int \<Rightarrow> string \<Rightarrow> cached \<Rightarrow> nat \<Rightarrow> store \<Rightarrow> store" where
  "r_set_ex t k v ttl s = r_put k v (Some (t + 1000 * int ttl)) s"

definition r_del :: "string \<Rightarrow> store \<Rightarrow> store" where
  "r_del k s = s(k := None)"

text \<open>The integer a string value denotes for \<open>INCR\<close>; a missing key counts as 0.\<close>

definition as_counter :: "entry option \<Rightarrow> int option" where
  "as_counter v =
     (case v of None \<Rightarrow> Some 0
      | Some e \<Rightarrow> (case e_value e of C_json (JInt n) \<Rightarrow> Some n | _ \<Rightarrow> None))"

text \<open>\<open>INCR\<close> keeps the expiry of a live key and creates a key without one.\<close>

definition r_incr :: "int \<Rightarrow> string \<Rightarrow> store \<Rightarrow> (int \<times> store) option" where
  "r_incr t k s =
     (case as_counter (live t s k) of
        None \<Rightarrow> None
      | Some n \<Rightarrow>
          if n < 2 ^ 63 - 1
          then Some (n + 1, r_put k (C_json (JInt (n + 1))) (Option.bind (live t s k) e_expires) s)
          else None)"

definition r_expire :: "int \<Rightarrow> string \<Rightarrow> nat \<Rightarrow> store \<Rightarrow> store" where
  "r_expire t k ttl s =
     (case live t s k of
        None \<Rightarrow> s
      | Some e \<Rightarrow> if ttl = 0 then r_del k s else s(k \<mapsto> e\<lparr>e_expires := Some (t + 1000 * int ttl)\<rparr>))"

lemmas redis_defs = r_get_def r_exists_def r_put_def r_set_ex_def r_del_def r_expire_def live_def
  alive_def

text \<open>
  The contract the service relies on: an expiring key-value store.  \<open>armed\<close> is the gate that
  the login lock, the resend cooldown and the caches are: a value put with a lifetime is there
  until exactly that lifetime has passed, whatever happens to other keys.
\<close>

locale expiring_store =
  fixes get :: "int \<Rightarrow> 'k \<Rightarrow> 's \<Rightarrow> 'v option"
    and put :: "int \<Rightarrow> 'k \<Rightarrow> 'v \<Rightarrow> nat \<Rightarrow> 's \<Rightarrow> 's"
    and del :: "'k \<Rightarrow> 's \<Rightarrow> 's"
  assumes get_put: "get t k (put t0 k v ttl s) = (if t < t0 + 1000 * int ttl then Some v else None)"
    and get_put_other: "k' \<noteq> k \<Longrightarrow> get t k' (put t0 k v ttl s) = get t k' s"
    and get_del: "get t k (del k s) = None"
    and get_del_other: "k' \<noteq> k \<Longrightarrow> get t k' (del k s) = get t k' s"
    and expired_stays: "get t k s = None \<Longrightarrow> t \<le> t' \<Longrightarrow> get t' k s = None"
begin

text \<open>Operations on other keys, as they occur between arming a key and looking at it.\<close>

inductive untouched :: "'k \<Rightarrow> 's \<Rightarrow> 's \<Rightarrow> bool" for k where
  refl: "untouched k s s"
| put: "untouched k s s1 \<Longrightarrow> k' \<noteq> k \<Longrightarrow> untouched k s (put t0 k' v ttl s1)"
| del: "untouched k s s1 \<Longrightarrow> k' \<noteq> k \<Longrightarrow> untouched k s (del k' s1)"

lemma untouched_get: "untouched k s s' \<Longrightarrow> get t k s' = get t k s"
  by (induction rule: untouched.induct) (simp_all add: get_put_other get_del_other)

lemma armed_until:
  "untouched k (put t0 k v ttl s) s' \<Longrightarrow>
   get t k s' = (if t < t0 + 1000 * int ttl then Some v else None)"
  by (simp add: untouched_get get_put)

lemma disarmed: "untouched k (del k s) s' \<Longrightarrow> get t k s' = None"
  by (simp add: untouched_get get_del)

lemma rearm_longer:
  "untouched k (put t1 k v ttl s) s' \<Longrightarrow> t0 \<le> t1 \<Longrightarrow> t < t0 + 1000 * int ttl \<Longrightarrow> get t k s' = Some v"
  by (simp add: armed_until)

end

interpretation rs: expiring_store r_get r_set_ex r_del
  by unfold_locales (auto simp: redis_defs split: option.splits if_splits)

lemma r_exists_get: "r_exists t k s = (r_get t k s \<noteq> None)"
  by (simp add: r_exists_def r_get_def)

text \<open>The counter laws: consecutive increments count, and other keys are untouched.\<close>

lemma r_incr_other: "r_incr t k s = Some (n, s') \<Longrightarrow> k' \<noteq> k \<Longrightarrow> s' k' = s k'"
  by (auto simp: r_incr_def r_put_def split: option.splits if_splits)

lemma r_incr_live:
  "r_incr t k s = Some (n, s') \<Longrightarrow> live t s' k = Some \<lparr>e_value = C_json (JInt n),
     e_expires = Option.bind (live t s k) e_expires\<rparr>"
  by (auto simp: r_incr_def r_put_def live_def alive_def split: option.splits if_splits)

lemma r_incr_fresh: "live t s k = None \<Longrightarrow> r_incr t k s = Some (1, r_put k (C_json (JInt 1)) None s)"
  by (simp add: r_incr_def as_counter_def)

lemma r_expire_live:
  "live t s k = Some e \<Longrightarrow> 0 < ttl \<Longrightarrow>
   live t (r_expire t k ttl s) k = Some (e\<lparr>e_expires := Some (t + 1000 * int ttl)\<rparr>)"
  by (simp add: r_expire_def live_def alive_def)

lemma r_expire_other: "k' \<noteq> k \<Longrightarrow> r_expire t k ttl s k' = s k'"
  by (simp add: r_expire_def r_del_def split: option.splits)

section \<open>CacheService\<close>

definition DEFAULT_TTL_SECS :: nat where
  "DEFAULT_TTL_SECS = 300"

definition on_redis :: "(int \<Rightarrow> store \<Rightarrow> (string + 'a) \<times> store) \<Rightarrow> (world, string, 'a) comp" where
  "on_redis f w = (case f (clock w) (redis w) of (r, s) \<Rightarrow> (r, w\<lparr>redis := s\<rparr>))"

lemma on_redis_run [comp_simps]:
  "on_redis f w = (fst (f (clock w) (redis w)), w\<lparr>redis := snd (f (clock w) (redis w))\<rparr>)"
  by (simp add: on_redis_def case_prod_beta)

definition set_raw :: "env \<Rightarrow> string \<Rightarrow> cached \<Rightarrow> nat \<Rightarrow> (world, string, unit) comp" where
  "set_raw E key v ttl =
     redis_cmd E ''Redis SET failed'' (on_redis (\<lambda>t s.
       if valid_ttl t ttl then (Inr (), r_set_ex t key v ttl s) else (Inl ''Redis SET failed'', s)))"

definition get_raw :: "env \<Rightarrow> string \<Rightarrow> (world, string, cached option) comp" where
  "get_raw E key = redis_cmd E ''Redis GET failed'' (on_redis (\<lambda>t s. (Inr (r_get t key s), s)))"

definition delete_raw :: "env \<Rightarrow> string \<Rightarrow> (world, string, unit) comp" where
  "delete_raw E key = redis_cmd E ''Redis DEL failed'' (on_redis (\<lambda>t s. (Inr (), r_del key s)))"

text \<open>The reply must fit a \<open>u64\<close>; the command has been carried out when it does not.\<close>

definition increment_raw :: "env \<Rightarrow> string \<Rightarrow> (world, string, nat) comp" where
  "increment_raw E key =
     redis_cmd E ''Redis INCR failed'' (on_redis (\<lambda>t s.
       case r_incr t key s of
         None \<Rightarrow> (Inl ''Redis INCR failed'', s)
       | Some (n, s') \<Rightarrow> (if n < 0 then Inl ''Redis INCR failed'' else Inr (nat n), s')))"

definition exists_raw :: "env \<Rightarrow> string \<Rightarrow> (world, string, bool) comp" where
  "exists_raw E key = redis_cmd E ''Redis EXISTS failed'' (on_redis (\<lambda>t s. (Inr (r_exists t key s), s)))"

text \<open>
  \<open>MULTI; INCR; EXPIRE; EXEC\<close>: one atomic request.  A failing \<open>INCR\<close> does not stop the
  \<open>EXPIRE\<close> that follows it.
\<close>

definition increment_with_ttl_raw :: "env \<Rightarrow> string \<Rightarrow> nat \<Rightarrow> (world, string, int) comp" where
  "increment_with_ttl_raw E key ttl_secs =
     redis_cmd E ''Redis INCR pipeline failed'' (on_redis (\<lambda>t s.
       case r_incr t key s of
         None \<Rightarrow> (Inl ''Redis INCR pipeline failed'', r_expire t key ttl_secs s)
       | Some (n, s') \<Rightarrow> (Inr n, r_expire t key ttl_secs s')))"

definition set_if_not_exists :: "env \<Rightarrow> string \<Rightarrow> cached \<Rightarrow> nat \<Rightarrow> (world, string, bool) comp" where
  "set_if_not_exists E key v ttl_secs =
     redis_cmd E ''Redis SET NX failed'' (on_redis (\<lambda>t s.
       if \<not> valid_ttl t ttl_secs then (Inl ''Redis SET NX failed'', s)
       else if r_exists t key s then (Inr False, s)
       else (Inr True, r_set_ex t key v ttl_secs s)))"

definition release_lock :: "env \<Rightarrow> string \<Rightarrow> (world, string, unit) comp" where
  "release_lock E key =
     redis_cmd E ''Redis lock release failed'' (on_redis (\<lambda>t s. (Inr (), r_del key s)))"

definition ping_raw :: "env \<Rightarrow> (world, string, string) comp" where
  "ping_raw E = redis_cmd E ''Redis ping failed'' (ok ''PONG'')"

definition cache_health_check :: "env \<Rightarrow> (world, 'e, bool) comp" where
  "cache_health_check E =
     bnd (attempt (redis_cmd E ''Redis ping failed'' (ok ''PONG''))) (\<lambda>r.
     ok (case r of Inl _ \<Rightarrow> False | Inr _ \<Rightarrow> True))"

section \<open>CacheTrait for CacheService\<close>

definition ping :: "env \<Rightarrow> unit act" where
  "ping E = map_err Internal (andthen (ping_raw E) (ok ()))"

definition get_value :: "env \<Rightarrow> string \<Rightarrow> cached option act" where
  "get_value E key = map_err Internal (get_raw E key)"

definition set_value :: "env \<Rightarrow> string \<Rightarrow> cached \<Rightarrow> nat option \<Rightarrow> unit act" where
  "set_value E key v ttl_secs =
     map_err Internal (set_raw E key v (case ttl_secs of None \<Rightarrow> DEFAULT_TTL_SECS | Some t \<Rightarrow> t))"

definition delete :: "env \<Rightarrow> string \<Rightarrow> unit act" where
  "delete E key = map_err Internal (delete_raw E key)"

definition increment :: "env \<Rightarrow> string \<Rightarrow> nat act" where
  "increment E key = map_err Internal (increment_raw E key)"

definition increment_with_ttl :: "env \<Rightarrow> string \<Rightarrow> nat \<Rightarrow> nat act" where
  "increment_with_ttl E key ttl_secs =
     map_err Internal (bnd (increment_with_ttl_raw E key ttl_secs) (\<lambda>v. ok (nat (max v 0))))"

definition exists_key :: "env \<Rightarrow> string \<Rightarrow> bool act" where
  "exists_key E key = map_err Internal (exists_raw E key)"

text \<open>
  \<open>AuthService::cache_get\<close> and \<open>cache_set\<close>: the typed views.  A value of another shape does
  not deserialise.
\<close>

definition cache_get :: "env \<Rightarrow> (cached \<Rightarrow> 'a option) \<Rightarrow> string \<Rightarrow> 'a option act" where
  "cache_get E view key =
     bnd (get_value E key) (\<lambda>v.
     case v of
       None \<Rightarrow> ok None
     | Some c \<Rightarrow> (case view c of
                   None \<Rightarrow> throw (Internal (serde_error E c))
                 | Some x \<Rightarrow> ok (Some x)))"

definition cache_set :: "env \<Rightarrow> ('a \<Rightarrow> cached) \<Rightarrow> string \<Rightarrow> 'a \<Rightarrow> nat option \<Rightarrow> unit act" where
  "cache_set E to_value key v ttl = set_value E key (to_value v) ttl"

fun as_user :: "cached \<Rightarrow> user_with_hash option" where
  "as_user (C_user u) = Some u"
| "as_user _ = None"

fun as_api_key :: "cached \<Rightarrow> api_key option" where
  "as_api_key (C_api_key k) = Some k"
| "as_api_key _ = None"

fun as_string :: "cached \<Rightarrow> string option" where
  "as_string (C_json j) = json_as_str j"
| "as_string _ = None"

lemmas cache_raw_defs = set_raw_def get_raw_def delete_raw_def increment_raw_def exists_raw_def
  increment_with_ttl_raw_def set_if_not_exists_def release_lock_def ping_raw_def

lemmas cache_defs = ping_def get_value_def set_value_def delete_def increment_def
  increment_with_ttl_def exists_key_def

section \<open>The key patterns of the cache crate\<close>

text \<open>
  Module \<open>keys\<close> of \<open>cache.rs\<close> writes six of the key formats of \<open>iam-core\<close> a second time.  The two
  copies agree, so a key built with either one names the same entry.
\<close>

definition keys_login_attempts :: "string \<Rightarrow> string" where
  "keys_login_attempts identifier = ''iam:login_attempts:'' @ identifier"

definition keys_account_lock :: "string \<Rightarrow> string" where
  "keys_account_lock identifier = ''iam:account_lock:'' @ identifier"

definition keys_user_profile :: "string \<Rightarrow> string" where
  "keys_user_profile user_id = ''iam:user:profile:'' @ user_id"

definition keys_api_key :: "string \<Rightarrow> string" where
  "keys_api_key key_hash = ''iam:api_key:'' @ key_hash"

definition keys_email_verification_token :: "string \<Rightarrow> string" where
  "keys_email_verification_token token = ''iam:email_verify:'' @ token"

definition keys_password_reset_token :: "string \<Rightarrow> string" where
  "keys_password_reset_token token = ''iam:password_reset:'' @ token"

lemma key_patterns_agree:
  "keys_login_attempts = login_attempts" "keys_account_lock = account_lock" "keys_user_profile = user_profile"
  "keys_api_key = api_key_key" "keys_email_verification_token = Domain.email_verification_token"
  "keys_password_reset_token = password_reset_token"
  by (simp_all add: fun_eq_iff key_defs keys_login_attempts_def keys_account_lock_def keys_user_profile_def
      keys_api_key_def keys_email_verification_token_def keys_password_reset_token_def)

section \<open>What the cache operations change\<close>

lemma keeps_on_redis: "(\<And>w s. f (w\<lparr>redis := s\<rparr>) = f w) \<Longrightarrow> keeps f (on_redis g)"
  by (rule keepsI) (simp add: on_redis_run)

lemmas keeps_step = keeps_intros keeps_timed keeps_on_redis

lemma keeps_cache_raw:
  assumes f: "untimed f" "\<And>w s. f (w\<lparr>redis := s\<rparr>) = f w"
  shows "keeps f (set_raw E k v ttl)" "keeps f (get_raw E k)" "keeps f (delete_raw E k)"
    "keeps f (increment_raw E k)" "keeps f (exists_raw E k)"
    "keeps f (increment_with_ttl_raw E k ttl)" "keeps f (set_if_not_exists E k v ttl)"
    "keeps f (release_lock E k)" "keeps f (ping_raw E)"
  unfolding cache_raw_defs by (intro keeps_step f)+

lemma keeps_cache:
  assumes f: "untimed f" "\<And>w s. f (w\<lparr>redis := s\<rparr>) = f w"
  shows "keeps f (ping E)" "keeps f (get_value E k)" "keeps f (set_value E k v t)" "keeps f (delete E k)"
    "keeps f (increment E k)" "keeps f (increment_with_ttl E k ttl)" "keeps f (exists_key E k)"
    "keeps f (cache_get E view k)" "keeps f (cache_set E to_value k x t)"
  unfolding cache_defs cache_get_def cache_set_def
  by (intro keeps_step keeps_cache_raw f)+

end
