(* ===== verification/Serde.thy ===== *)
theory Serde
  imports Domain "HOL-Library.Log_Nat"
begin

text \<open>
  The code that \<open>#[derive(Serialize, Deserialize)]\<close> generates for the data of the service, as far
  as its types need it: the JSON forms of strings, numbers, options, lists and unit enums, and the
  reading of a struct from an object or an array.  A reader ends in \<open>None\<close> where serde reports an
  error.
\<close>

section \<open>Values\<close>

fun de_string :: "json \<Rightarrow> string option" where
  "de_string (JStr s) = Some s"
| "de_string _ = None"

fun de_bool :: "json \<Rightarrow> bool option" where
  "de_bool (JBool b) = Some b"
| "de_bool _ = None"

text \<open>Machine integers: a number with a fraction or out of range is an error, never wrapped.\<close>

fun de_unsigned :: "json \<Rightarrow> 'n::len word option" where
  "de_unsigned (JInt n) =
     (if 0 \<le> n \<and> n < 2 ^ LENGTH('n) then Some (word_of_int n) else None)"
| "de_unsigned _ = None"

fun de_signed :: "json \<Rightarrow> 'n::len word option" where
  "de_signed (JInt n) =
     (if - (2 ^ (LENGTH('n) - 1)) \<le> n \<and> n < 2 ^ (LENGTH('n) - 1) then Some (word_of_int n) else None)"
| "de_signed _ = None"

text \<open>The conversion of integers to \<open>f64\<close>: 53 significant bits, rounded to the nearest, ties to even.\<close>

definition round53 :: "nat \<Rightarrow> nat" where
  "round53 n =
     (let k = floorlog 2 n - 53; q = n div 2 ^ k; r = n mod 2 ^ k;
          up = (2 ^ k < 2 * r \<or> 2 ^ k = 2 * r \<and> odd q)
      in (if up then Suc q else q) * 2 ^ k)"

fun de_f64 :: "json \<Rightarrow> f64 option" where
  "de_f64 (JFloat r) = Some (F_fin r)"
| "de_f64 (JInt n) = Some (F_fin (of_int (sgn n * int (round53 (nat \<bar>n\<bar>)))))"
| "de_f64 _ = None"

text \<open>JSON has no infinities and no NaN: they are written as \<open>null\<close>.\<close>

fun ser_f64 :: "f64 \<Rightarrow> json" where
  "ser_f64 (F_fin r) = JFloat r"
| "ser_f64 _ = JNull"

definition ser_option :: "('a \<Rightarrow> json) \<Rightarrow> 'a option \<Rightarrow> json" where
  "ser_option ser v = (case v of None \<Rightarrow> JNull | Some x \<Rightarrow> ser x)"

definition de_option :: "(json \<Rightarrow> 'a option) \<Rightarrow> json \<Rightarrow> 'a option option" where
  "de_option de j = (if j = JNull then Some None else map_option Some (de j))"

fun de_all :: "(json \<Rightarrow> 'a option) \<Rightarrow> json list \<Rightarrow> 'a list option" where
  "de_all de [] = Some []"
| "de_all de (j # js) = Option.bind (de j) (\<lambda>x. map_option (Cons x) (de_all de js))"

fun de_vec :: "(json \<Rightarrow> 'a option) \<Rightarrow> json \<Rightarrow> 'a list option" where
  "de_vec de (JArr js) = de_all de js"
| "de_vec de _ = None"

text \<open>
  A unit enum, given by the names of its variants: the name as a string, or as the only key of an
  object with the value \<open>null\<close>.
\<close>

fun de_unit_enum :: "(string \<times> 'a) list \<Rightarrow> json \<Rightarrow> 'a option" where
  "de_unit_enum variants (JStr s) = map_of variants s"
| "de_unit_enum variants (JObj fs) =
     (case fs of [(s, v)] \<Rightarrow> if v = JNull then map_of variants s else None | _ \<Rightarrow> None)"
| "de_unit_enum variants _ = None"

section \<open>Structs\<close>

text \<open>
  The fields of a struct, in their order, each with whether it has \<open>#[serde(default)]\<close>.  An object
  gives them by name, where unknown names are ignored and a known name must not come twice; an
  array gives them by position, where only fields with a default may be missing.
\<close>

definition at_most_once :: "string \<Rightarrow> (string \<times> json) list \<Rightarrow> bool" where
  "at_most_once k fs \<longleftrightarrow> length (filter (\<lambda>f. fst f = k) fs) \<le> 1"

fun struct_fields :: "(string \<times> bool) list \<Rightarrow> json \<Rightarrow> (string \<Rightarrow> json option) option" where
  "struct_fields spec (JObj fs) =
     (if list_all (\<lambda>f. at_most_once (fst f) fs) spec then Some (map_of fs) else None)"
| "struct_fields spec (JArr js) =
     (if length js \<le> length spec \<and> list_all snd (drop (length js) spec)
      then Some (map_of (zip (map fst spec) js)) else None)"
| "struct_fields spec _ = None"

definition req :: "(string \<Rightarrow> json option) \<Rightarrow> string \<Rightarrow> (json \<Rightarrow> 'a option) \<Rightarrow> 'a option" where
  "req f k de = Option.bind (f k) de"

text \<open>A missing field of type \<open>Option\<close> reads as \<open>None\<close>.\<close>

definition opt :: "(string \<Rightarrow> json option) \<Rightarrow> string \<Rightarrow> (json \<Rightarrow> 'a option) \<Rightarrow> 'a option option" where
  "opt f k de = (case f k of None \<Rightarrow> Some None | Some j \<Rightarrow> de_option de j)"

section \<open>Laws\<close>

lemma de_option_ser:
  assumes "\<And>x. v = Some x \<Longrightarrow> ser x \<noteq> JNull \<and> de (ser x) = Some x"
  shows "de_option de (ser_option ser v) = Some v"
  using assms by (cases v) (simp_all add: de_option_def ser_option_def)

lemma de_option_str [simp]: "de_option de_string (ser_option JStr v) = Some v"
  by (rule de_option_ser) simp

lemma de_all_map: "(\<And>x. x \<in> set xs \<Longrightarrow> de (ser x) = Some x) \<Longrightarrow> de_all de (map ser xs) = Some xs"
  by (induction xs) simp_all

lemma de_unsigned_uint [simp]: "de_unsigned (JInt (uint x)) = Some x"
  using uint_bounded [of x] by simp

lemma de_signed_sint [simp]: "de_signed (JInt (sint (x :: 32 word))) = Some x"
  using sint_greater_eq [of x] sint_less [of x] by (simp add: word_of_int_sint32)

text \<open>Integers below \<open>2 ^ 53\<close> are exact.\<close>

lemma round53_exact:
  assumes "n < 2 ^ 53"
  shows "round53 n = n"
proof -
  have "floorlog 2 n \<le> 53" using assms by (intro floorlog_leI) simp_all
  then show ?thesis by (simp add: round53_def)
qed

text \<open>The order of the fields of an object and unknown fields do not matter.\<close>

lemma struct_fields_lookup:
  assumes "struct_fields spec (JObj fs) = Some f" "(k, b) \<in> set spec" "f k = Some j"
  shows "filter (\<lambda>x. fst x = k) fs = [(k, j)]"
proof -
  have l: "at_most_once k fs" "map_of fs k = Some j"
    using assms by (auto simp: list_all_iff split: if_splits)
  then have "(k, j) \<in> set (filter (\<lambda>x. fst x = k) fs)" by (simp add: map_of_SomeD)
  with l(1) show ?thesis
    by (cases "filter (\<lambda>x. fst x = k) fs") (auto simp: at_most_once_def)
qed

lemma struct_fields_unknown:
  assumes "k \<notin> fst ` set spec" "k' \<in> fst ` set spec"
  shows "map_option (\<lambda>f. f k') (struct_fields spec (JObj ((k, j) # fs))) =
    map_option (\<lambda>f. f k') (struct_fields spec (JObj fs))"
proof -
  have "at_most_once (fst x) ((k, j) # fs) = at_most_once (fst x) fs" if "x \<in> set spec" for x
    using assms(1) that by (auto simp: at_most_once_def)
  then have "list_all (\<lambda>f. at_most_once (fst f) ((k, j) # fs)) spec = list_all (\<lambda>f. at_most_once (fst f) fs) spec"
    by (simp add: list_all_iff)
  then show ?thesis using assms by auto
qed

end
