(* ===== verification/Events.thy ===== *)
theory Events
  imports World Serde
begin

text \<open>
  \<open>iam-core/src/domain/identity/events.rs\<close>: the domain events, their constructors, and the JSON
  form in which they are stored in the outbox and read back.
\<close>

section \<open>Construction\<close>

definition event_new :: "env \<Rightarrow> string \<Rightarrow> string \<Rightarrow> event act" where
  "event_new E event_type source =
     bnd (new_v4 E) (\<lambda>i.
     bnd now (\<lambda>t.
     ok \<lparr>ev_id = i, ev_event_type = event_type, ev_timestamp = to_rfc3339 E t,
         ev_data = None, ev_source = source\<rparr>))"

definition with_data :: "json \<Rightarrow> event \<Rightarrow> event" where
  "with_data d e = e\<lparr>ev_data := Some d\<rparr>"

definition iam_event :: "env \<Rightarrow> string \<Rightarrow> (string \<times> json) list \<Rightarrow> event act" where
  "iam_event E event_type fs =
     bnd (event_new E event_type ''gridtokenx-iam'') (\<lambda>e. ok (with_data (JObj fs) e))"

definition user_registered :: "env \<Rightarrow> uuid \<Rightarrow> string \<Rightarrow> string \<Rightarrow> event act" where
  "user_registered E user_id username email =
     iam_event E ''UserRegistered''
       [(''user_id'', JStr (uuid_to_string E user_id)), (''username'', JStr username),
        (''email'', JStr email)]"

definition user_logged_in ::
    "env \<Rightarrow> uuid \<Rightarrow> string \<Rightarrow> string option \<Rightarrow> event act" where
  "user_logged_in E user_id username ip =
     iam_event E ''UserLoggedIn''
       [(''user_id'', JStr (uuid_to_string E user_id)), (''username'', JStr username),
        (''ip_address'', json_opt_str ip)]"

definition verification_email_requested ::
    "env \<Rightarrow> uuid \<Rightarrow> string \<Rightarrow> string \<Rightarrow> string \<Rightarrow> event act" where
  "verification_email_requested E user_id username email token =
     iam_event E ''VerificationEmailRequested''
       [(''user_id'', JStr (uuid_to_string E user_id)), (''username'', JStr username),
        (''email'', JStr email), (''token'', JStr token)]"

definition email_verified_event ::
    "env \<Rightarrow> uuid \<Rightarrow> string \<Rightarrow> string \<Rightarrow> string \<Rightarrow> event act" where
  "email_verified_event E user_id username email wallet_address =
     iam_event E ''EmailVerified''
       [(''user_id'', JStr (uuid_to_string E user_id)), (''username'', JStr username),
        (''email'', JStr email), (''wallet_address'', JStr wallet_address)]"

definition user_onboarded ::
    "env \<Rightarrow> uuid \<Rightarrow> string \<Rightarrow> string \<Rightarrow> string \<Rightarrow> string \<Rightarrow> 8 word \<Rightarrow> event act" where
  "user_onboarded E user_id wallet_address pda tx_signature user_type shard_id =
     iam_event E ''UserOnboarded''
       [(''user_id'', JStr (uuid_to_string E user_id)), (''wallet_address'', JStr wallet_address),
        (''user_account_pda'', JStr pda), (''transaction_signature'', JStr tx_signature),
        (''user_type'', JStr user_type), (''shard_id'', JInt (uint shard_id))]"

definition login_attempt ::
    "env \<Rightarrow> string \<Rightarrow> bool \<Rightarrow> string option \<Rightarrow> event act" where
  "login_attempt E identifier success ip =
     iam_event E ''LoginAttempt''
       [(''identifier'', JStr identifier), (''success'', JBool success),
        (''ip_address'', json_opt_str ip)]"

definition account_locked :: "env \<Rightarrow> string \<Rightarrow> nat \<Rightarrow> event act" where
  "account_locked E identifier lockout_secs =
     iam_event E ''AccountLocked''
       [(''identifier'', JStr identifier), (''lockout_secs'', JInt (int lockout_secs))]"

definition api_key_verified :: "env \<Rightarrow> string \<Rightarrow> string \<Rightarrow> event act" where
  "api_key_verified E key_name role =
     iam_event E ''ApiKeyVerified'' [(''key_name'', JStr key_name), (''role'', JStr role)]"

definition user_wallet_linked ::
    "env \<Rightarrow> uuid \<Rightarrow> string \<Rightarrow> string \<Rightarrow> string \<Rightarrow> 8 word \<Rightarrow> event act" where
  "user_wallet_linked E user_id wallet_address pda tx_signature shard_id =
     iam_event E ''UserWalletLinked''
       [(''user_id'', JStr (uuid_to_string E user_id)), (''wallet_address'', JStr wallet_address),
        (''user_account_pda'', JStr pda), (''transaction_signature'', JStr tx_signature),
        (''shard_id'', JInt (uint shard_id))]"

definition password_reset_requested ::
    "env \<Rightarrow> uuid \<Rightarrow> string \<Rightarrow> string \<Rightarrow> event act" where
  "password_reset_requested E user_id email reset_url =
     iam_event E ''PasswordResetRequested''
       [(''user_id'', JStr (uuid_to_string E user_id)), (''email'', JStr email),
        (''reset_url'', JStr reset_url)]"

lemmas event_ctor_defs = user_registered_def user_logged_in_def verification_email_requested_def
  email_verified_event_def user_onboarded_def login_attempt_def account_locked_def
  api_key_verified_def user_wallet_linked_def password_reset_requested_def

lemma iam_event_run [comp_simps]:
  "iam_event E ty fs w =
     (Inr \<lparr>ev_id = uuid_src E (rng_ix w), ev_event_type = ty, ev_timestamp = to_rfc3339 E (clock w),
           ev_data = Some (JObj fs), ev_source = ''gridtokenx-iam''\<rparr>, w\<lparr>rng_ix := Suc (rng_ix w)\<rparr>)"
  by (simp add: iam_event_def event_new_def with_data_def new_v4_def now_def comp_simps)

section \<open>JSON form\<close>

text \<open>
  \<open>#[derive(Serialize)]\<close>: \<open>data\<close> is left out when it is \<open>None\<close>.  \<open>#[derive(Deserialize)]\<close>: a
  missing or null \<open>data\<close> of an object reads as \<open>None\<close>, and a missing or ill-typed other field is
  an error.
\<close>

definition event_to_value :: "env \<Rightarrow> event \<Rightarrow> json" where
  "event_to_value E e =
     JObj ([(''id'', JStr (uuid_to_string E (ev_id e))),
            (''event_type'', JStr (ev_event_type e)),
            (''timestamp'', JStr (ev_timestamp e))]
           @ (case ev_data e of None \<Rightarrow> [] | Some d \<Rightarrow> [(''data'', d)])
           @ [(''source'', JStr (ev_source e))])"

definition event_fields :: "(string \<times> bool) list" where
  "event_fields = [(''id'', False), (''event_type'', False), (''timestamp'', False), (''data'', False),
     (''source'', False)]"

definition de_uuid :: "env \<Rightarrow> json \<Rightarrow> uuid option" where
  "de_uuid E j = Option.bind (de_string j) (uuid_parse E)"

definition event_from_value :: "env \<Rightarrow> json \<Rightarrow> event option" where
  "event_from_value E v =
     Option.bind (struct_fields event_fields v) (\<lambda>f.
     Option.bind (req f ''id'' (de_uuid E)) (\<lambda>i.
     Option.bind (req f ''event_type'' de_string) (\<lambda>ty.
     Option.bind (req f ''timestamp'' de_string) (\<lambda>ts.
     Option.bind (opt f ''data'' Some) (\<lambda>d.
     Option.bind (req f ''source'' de_string) (\<lambda>src.
       Some \<lparr>ev_id = i, ev_event_type = ty, ev_timestamp = ts, ev_data = d, ev_source = src\<rparr>))))))"

text \<open>The documented law of the UUID library: parsing the hyphenated form gives the UUID back.\<close>

definition uuid_roundtrip :: "env \<Rightarrow> bool" where
  "uuid_roundtrip E \<longleftrightarrow> (\<forall>i. uuid_parse E (uuid_to_string E i) = Some i)"

lemma de_uuid_text [simp]: "uuid_roundtrip E \<Longrightarrow> de_uuid E (JStr (uuid_to_string E i)) = Some i"
  by (simp add: de_uuid_def uuid_roundtrip_def)

lemmas serde_eval = at_most_once_def req_def opt_def

lemma event_roundtrip:
  assumes "uuid_roundtrip E" and "ev_data e \<noteq> Some JNull"
  shows "event_from_value E (event_to_value E e) = Some e"
  using assms
  by (cases "ev_data e")
    (simp_all add: event_from_value_def event_to_value_def event_fields_def serde_eval de_option_def)

end
