(* ===== verification/Outbox.thy ===== *)
theory Outbox
  imports Events
begin

text \<open>
  \<open>iam-persistence/src/repository/outbox.rs\<close>: the transactional outbox on the table
  \<open>iam_outbox_events\<close>.
\<close>

definition MAX_ATTEMPTS :: nat where
  "MAX_ATTEMPTS = 10"

text \<open>\<open>INSERT INTO iam_outbox_events (event_type, payload)\<close>: the other columns take their defaults.\<close>

definition outbox_insert :: "uuid \<Rightarrow> event \<Rightarrow> json \<Rightarrow> unit act" where
  "outbox_insert i e payload w =
     (if i \<in> ob_id ` set (outbox w)
      then (Inl (Database (SqlxDatabase True ''duplicate key value violates unique constraint'')), w)
      else (Inr (), w\<lparr>outbox := outbox w @
             [\<lparr>ob_id = i, ob_event_type = ev_event_type e, ob_payload = payload, ob_status = PENDING,
               ob_attempts = 0, ob_last_attempt_at = None, ob_created_at = clock w\<rparr>]\<rparr>))"

definition enqueue :: "env \<Rightarrow> event \<Rightarrow> unit act" where
  "enqueue E e =
     (let payload = event_to_value E e in
      db E (bnd (new_v4 E) (\<lambda>i. outbox_insert i e payload)))"

definition pending :: "outbox_rec list \<Rightarrow> outbox_rec list" where
  "pending t = sort_key ob_created_at (filter (\<lambda>r. ob_status r = PENDING) t)"

definition to_outbox_record :: "outbox_rec \<Rightarrow> outbox_record" where
  "to_outbox_record r = \<lparr>or_id = ob_id r, or_event_type = ob_event_type r, or_payload = ob_payload r\<rparr>"

definition fetch_pending :: "env \<Rightarrow> nat \<Rightarrow> outbox_record list act" where
  "fetch_pending E limit = db E (gets (\<lambda>w. map to_outbox_record (take limit (pending (outbox w)))))"

definition set_processed :: "int \<Rightarrow> outbox_rec \<Rightarrow> outbox_rec" where
  "set_processed t r = r\<lparr>ob_status := PROCESSED, ob_last_attempt_at := Some t\<rparr>"

definition set_failed :: "int \<Rightarrow> outbox_rec \<Rightarrow> outbox_rec" where
  "set_failed t r =
     r\<lparr>ob_attempts := ob_attempts r + 1, ob_last_attempt_at := Some t,
       ob_status := (if ob_attempts r + 1 \<ge> MAX_ATTEMPTS then FAILED else PENDING)\<rparr>"

definition update_id :: "uuid \<Rightarrow> (outbox_rec \<Rightarrow> outbox_rec) \<Rightarrow> outbox_rec list \<Rightarrow> outbox_rec list" where
  "update_id i f t = map (\<lambda>r. if ob_id r = i then f r else r) t"

definition mark_processed :: "env \<Rightarrow> uuid \<Rightarrow> unit act" where
  "mark_processed E i =
     db E (modify (\<lambda>w. w\<lparr>outbox := update_id i (set_processed (clock w)) (outbox w)\<rparr>))"

definition mark_failed :: "env \<Rightarrow> uuid \<Rightarrow> unit act" where
  "mark_failed E i =
     db E (modify (\<lambda>w. w\<lparr>outbox := update_id i (set_failed (clock w)) (outbox w)\<rparr>))"

section \<open>The row invariant\<close>

text \<open>
  Row ids are distinct; a row waits for delivery as long as its attempts are below the budget
  and is quarantined only when they have reached it.
\<close>

definition outbox_wf :: "outbox_rec list \<Rightarrow> bool" where
  "outbox_wf t \<longleftrightarrow> distinct (map ob_id t) \<and>
     (\<forall>r \<in> set t. (ob_status r = PENDING \<longrightarrow> ob_attempts r < MAX_ATTEMPTS) \<and>
                  (ob_status r = FAILED \<longrightarrow> MAX_ATTEMPTS \<le> ob_attempts r))"

lemma outbox_ids_set [simp]:
  "ob_id (set_processed t r) = ob_id r" "ob_id (set_failed t r) = ob_id r"
  "ob_payload (set_processed t r) = ob_payload r" "ob_payload (set_failed t r) = ob_payload r"
  by (simp_all add: set_processed_def set_failed_def)

lemma map_ob_id_update [simp]: "(\<And>r. ob_id (f r) = ob_id r) \<Longrightarrow> map ob_id (update_id i f t) = map ob_id t"
  by (simp add: update_id_def)

lemma set_update_id:
  "set (update_id i f t) = (\<lambda>r. if ob_id r = i then f r else r) ` set t"
  by (simp add: update_id_def)

definition row_wf :: "outbox_rec \<Rightarrow> bool" where
  "row_wf r \<longleftrightarrow> (ob_status r = PENDING \<longrightarrow> ob_attempts r < MAX_ATTEMPTS) \<and>
                (ob_status r = FAILED \<longrightarrow> MAX_ATTEMPTS \<le> ob_attempts r)"

lemma row_wf_set: "row_wf (set_processed c r)" "row_wf (set_failed c r)"
  by (simp_all add: row_wf_def set_processed_def set_failed_def split: if_split)

lemma outbox_wf_rows: "outbox_wf t \<longleftrightarrow> distinct (map ob_id t) \<and> (\<forall>r \<in> set t. row_wf r)"
  by (simp add: outbox_wf_def row_wf_def)

lemma outbox_wf_update:
  assumes "\<And>r. ob_id (f r) = ob_id r" and "\<And>r. row_wf (f r)" and "outbox_wf t"
  shows "outbox_wf (update_id i f t)"
  using assms by (auto simp: outbox_wf_rows set_update_id)

lemmas outbox_wf_processed = outbox_wf_update [of "set_processed c" for c, simplified row_wf_set, simplified]
lemmas outbox_wf_failed = outbox_wf_update [of "set_failed c" for c, simplified row_wf_set, simplified]

lemma outbox_wf_insert:
  "outbox_wf (outbox w) \<Longrightarrow> outbox_wf (outbox (snd (outbox_insert i e p w)))"
  by (auto simp: outbox_insert_def outbox_wf_def MAX_ATTEMPTS_def)

lemma preserves_outbox_wf:
  "preserves (\<lambda>w. outbox_wf (outbox w)) (enqueue E e)"
  "preserves (\<lambda>w. outbox_wf (outbox w)) (mark_processed E i)"
  "preserves (\<lambda>w. outbox_wf (outbox w)) (mark_failed E i)"
  unfolding enqueue_def mark_processed_def mark_failed_def Let_def
  by (intro preserves_timed preserves_intros untimed_at preservesI [of _ "outbox_insert _ _ _"]
        preservesI [of _ "modify _"];
      simp add: outbox_wf_insert modify_run outbox_wf_processed outbox_wf_failed)+

lemma fetch_pending_sound:
  "r \<in> set (take n (pending t)) \<Longrightarrow> r \<in> set t \<and> ob_status r = PENDING"
  by (auto simp: pending_def dest: in_set_takeD)

lemma pending_sorted: "sorted (map ob_created_at (take n (pending t)))"
  by (simp add: pending_def take_map [symmetric] sorted_wrt_take)

end
