(* ===== verification/Samples.thy ===== *)
theory Samples
  imports World
begin

text \<open>
  A concrete environment and world, on which the hypotheses of the properties are shown to hold:
  a configuration with the defaults of \<open>config.rs\<close>, working stand-ins for the libraries, no
  faults and no delays.
\<close>

unbundle bit_operations_syntax

definition sample_config :: config where
  "sample_config =
     \<lparr>environment = ''production'', port = 4010, database_url = ''postgres://localhost'',
      redis_url = ''redis://localhost'', jwt_secret = ''supersecretjwtkey'', jwt_expiration = 86400,
      encryption_secret = ''supersecretencryptionkey'', api_key_secret = ''supersecretapikey'',
      log_level = ''info'', test_mode = False, solana_rpc_url = ''http://127.0.0.1:8899'',
      chain_bridge_url = ''http://127.0.0.1:5040'', solana_cluster = ''localnet'',
      master_secret = ''super-secret-master-key-change-me'', kafka_brokers = Some ''localhost:9092'',
      rabbitmq_url = None, smtp_host = ''localhost'', smtp_port = 1025,
      smtp_from = ''noreply@gridtokenx.local'', app_base_url = ''http://localhost:3000'',
      grpc_port = None, registry_program_id = ''7'', oracle_program_id = ''8'',
      governance_program_id = ''9'', energy_token_program_id = ''10'', trading_program_id = ''11'',
      auth_cpu_semaphore_limit = 32, tokio_worker_threads = None, database_max_connections = 50,
      database_min_connections = 5, request_timeout_secs = 40, global_concurrency_limit = 100,
      energy_token_mint = [], currency_token_mint = []\<rparr>"

definition number_of :: "nat \<Rightarrow> string \<Rightarrow> string + nat" where
  "number_of w s = (case parse_unsigned w s of None \<Rightarrow> Inl ''not a number'' | Some n \<Rightarrow> Inr n)"

text \<open>A readable stand-in for signed tokens: the secret and the claims, field by field, in hexadecimal.\<close>

definition hex_digit :: "nat \<Rightarrow> char" where
  "hex_digit d = char_of (97 + d)"

fun to_hex :: "string \<Rightarrow> string" where
  "to_hex [] = []"
| "to_hex (c # cs) = hex_digit (of_char c div 16) # hex_digit (of_char c mod 16) # to_hex cs"

fun of_hex :: "string \<Rightarrow> string option" where
  "of_hex [] = Some []"
| "of_hex [c] = None"
| "of_hex (a # b # cs) =
     map_option ((#) (char_of (16 * (of_char a - 97) + (of_char b - 97 :: nat)))) (of_hex cs)"

definition show_int :: "int \<Rightarrow> string" where
  "show_int i = (if i < 0 then ''-'' @ show_nat (nat (- i)) else show_nat (nat i))"

definition read_int :: "string \<Rightarrow> int" where
  "read_int s =
     (if s \<noteq> [] \<and> hd s = CHR ''-'' then - int (digits_value (tl s)) else int (digits_value s))"

definition token_of :: "string \<Rightarrow> claims \<Rightarrow> string" where
  "token_of secret c =
     to_hex secret @ CHR ''.'' # to_hex (show_nat (unat (cl_sub c))) @ CHR ''.'' # to_hex (cl_username c)
     @ CHR ''.'' # to_hex (cl_role c) @ CHR ''.'' # to_hex (show_int (cl_exp c))
     @ CHR ''.'' # to_hex (show_int (cl_iat c)) @ CHR ''.'' # to_hex (cl_iss c)"

definition claims_of :: "string \<Rightarrow> (string \<times> claims) option" where
  "claims_of tok =
     (case map of_hex (split_on (CHR ''.'') tok) of
        [Some secret, Some sub, Some name, Some r, Some ex, Some ia, Some is] \<Rightarrow>
          Some (secret, \<lparr>cl_sub = of_nat (digits_value sub), cl_username = name, cl_role = r,
                         cl_exp = read_int ex, cl_iat = read_int ia, cl_iss = is\<rparr>)
      | _ \<Rightarrow> None)"

definition token_check :: "int \<Rightarrow> string \<Rightarrow> validation \<Rightarrow> string \<Rightarrow> jwt_error + claims" where
  "token_check t secret v tok =
     (case claims_of tok of
        None \<Rightarrow> Inl InvalidToken
      | Some (s, c) \<Rightarrow>
          if s \<noteq> secret then Inl InvalidSignature
          else if cl_iss c \<notin> set (v_iss v) then Inl (OtherJwtError ''InvalidIssuer'')
          else if v_validate_exp v \<and> cl_exp c < timestamp t - int (v_leeway v) then Inl ExpiredSignature
          else Inr c)"

definition sample_env :: env where
  "sample_env =
     \<lparr>cfg = sample_config, kafka_up = True, outbox_on = True,
      fault = (\<lambda>_. Done), latency = (\<lambda>_. 0),
      uuid_src = (\<lambda>n. of_nat (Suc n)),
      uuid_to_string = (\<lambda>u. show_nat (unat u)),
      uuid_parse = (\<lambda>s. map_option of_nat (parse_unsigned 128 s)),
      pg_lower = to_lowercase,
      to_rfc3339 = (\<lambda>t. show_nat (nat t)),
      argon2_hash = (\<lambda>_ p. Inr (''$argon2id$'' @ p)),
      argon2_parse = Inr,
      argon2_verify = (\<lambda>p h. h = ''$argon2id$'' @ p),
      bcrypt_verify = (\<lambda>p h. Inr (h = ''$2b$'' @ p)),
      jwt_encode = (\<lambda>s c. Inr (token_of s c)),
      jwt_decode = token_check,
      hmac_sha256 = (\<lambda>k m. k @ m),
      hex_encode = to_hex,
      hex_decode = of_hex,
      parse_pubkey = (\<lambda>s. map_sum id of_nat (number_of 256 s)),
      pubkey_from_str = (\<lambda>s. map_sum id of_nat (number_of 256 s)),
      pubkey_to_string = (\<lambda>p. show_nat (unat p)),
      user_pda = (\<lambda>p q. p XOR q),
      create_keypair = (\<lambda>n. (of_nat (1000 + n), ''key'')),
      encrypt_private_key_versioned = (\<lambda>_ _ _ _ k. Inr (k, ''salt'', ''iv'')),
      b64_decode = Inr,
      current_kdf_version = 2,
      rpc_register = (\<lambda>_ _. (1000, Inr ''sig'')),
      rpc_account_exists = (\<lambda>_ _. Inr True),
      serde_error = (\<lambda>_. ''invalid type''),
      xadd_id = (\<lambda>n. show_nat n),
      xtrim_drop = (\<lambda>_. 0),
      kafka_offset = (\<lambda>n. (0, n))\<rparr>"

definition empty_world :: world where
  "empty_world =
     \<lparr>users = [], wallets = [], api_keys = [], outbox = [], redis = (\<lambda>_. None), stream = [],
      kafka_log = [], tasks = [], clock = 0, io_ix = 0, rng_ix = 0\<rparr>"

lemma sample_env_reliable [simp]: "reliable sample_env"
  by (simp add: reliable_def sample_env_def)

lemma sample_env_instant [simp]: "instant sample_env"
  by (simp add: instant_def) (simp add: sample_env_def)

lemma sample_env_uuid [simp]: "uuid_parse sample_env (uuid_to_string sample_env i) = Some i"
proof -
  have "unat i < 2 ^ 128" using unsigned_less [of i, where 'a = nat] by simp
  then show ?thesis by (simp add: sample_env_def parse_show_nat)
qed

lemma of_hex_to_hex [simp]: "of_hex (to_hex s) = Some s"
proof (induction s)
  case (Cons c s)
  have b: "of_char c < (256 :: nat)" by (rule nat_of_char_less_256)
  have d: "of_char (hex_digit n) = 97 + n" if "n < 16" for n
    using that by (simp add: hex_digit_def of_char_of)
  have h: "of_char c div 16 < (16 :: nat)" "of_char c mod 16 < (16 :: nat)"
    using b less_mult_imp_div_less [of "of_char c" 16 16] by simp_all
  have "char_of (16 * (of_char c div 16) + of_char c mod 16 :: nat) = c"
    by (simp only: mult_div_mod_eq char_of_char)
  then show ?case using Cons by (simp add: d [OF h(1)] d [OF h(2)])
qed simp

lemma to_hex_no_dot: "CHR ''.'' \<notin> set (to_hex s)"
proof (induction s)
  case (Cons c s)
  have d: "CHR ''.'' \<noteq> hex_digit n" if "n < 16" for n
  proof -
    have "(of_char (hex_digit n) :: nat) \<noteq> of_char (CHR ''.'')"
      using that by (simp add: hex_digit_def of_char_of)
    then show ?thesis by metis
  qed
  have "of_char c div 16 < (16 :: nat)" "of_char c mod 16 < (16 :: nat)"
    using nat_of_char_less_256 [of c] less_mult_imp_div_less [of "of_char c" 16 16] by simp_all
  then show ?case using Cons d by simp
qed simp

lemma read_show_int: "read_int (show_int i) = i"
proof (cases "i < 0")
  case True
  then show ?thesis by (simp add: show_int_def read_int_def digits_value_show_nat)
next
  case False
  obtain c t where "show_nat (nat i) = c # t" "is_ascii_digit c"
    using show_nat_no_plus [of "nat i"] by blast
  then have "c \<noteq> CHR ''-''" by (auto simp: is_ascii_digit_def byte_def)
  with False \<open>show_nat (nat i) = c # t\<close> show ?thesis
    using digits_value_show_nat [of "nat i"]
    by (simp add: show_int_def read_int_def)
qed

lemma claims_of_token: "claims_of (token_of s c) = Some (s, c)"
  by (simp add: claims_of_def token_of_def split_on_append split_on_single to_hex_no_dot
      digits_value_show_nat read_show_int)

end
