(* ===== verification/EventBus.thy ===== *)
theory EventBus
  imports Outbox Samples
begin

text \<open>
  \<open>iam-persistence/src/event_bus.rs\<close>, \<open>event_bus/kafka.rs\<close> and \<open>outbox_worker.rs\<close>: publishing
  to the Redis stream and, through the outbox, to Kafka; and the worker that drains the outbox.
\<close>

section \<open>Kafka producer\<close>

record kafka_topics =
  user_events :: string
  kyc_events :: string
  audit_events :: string

definition with_prefix :: "string \<Rightarrow> kafka_topics" where
  "with_prefix pre =
     \<lparr>user_events = pre @ ''.user.events'', kyc_events = pre @ ''.kyc.events'',
      audit_events = pre @ ''.audit.events''\<rparr>"

definition default_topics :: kafka_topics where
  "default_topics = with_prefix ''iam''"

definition route_topic :: "kafka_topics \<Rightarrow> string \<Rightarrow> string" where
  "route_topic topics event_type =
     (if event_type \<in> {''UserRegistered'', ''UserLoggedIn'', ''EmailVerified'',
                       ''PasswordResetRequested'', ''UserOnboarded'', ''UserWalletLinked''}
      then user_events topics
      else if event_type \<in> {''KycSubmitted'', ''KycVerified'', ''KycRejected''}
      then kyc_events topics
      else audit_events topics)"

definition partition_key :: "event \<Rightarrow> string" where
  "partition_key e =
     (case Option.bind (Option.bind (ev_data e) (\<lambda>d. json_get d ''user_id'')) json_as_str of
        None \<Rightarrow> [] | Some u \<Rightarrow> u)"

definition kafka_record_of :: "event \<Rightarrow> kafka_record" where
  "kafka_record_of e =
     \<lparr>k_topic = route_topic default_topics (ev_event_type e), k_key = partition_key e, k_event = e\<rparr>"

definition kafka_append :: "env \<Rightarrow> event \<Rightarrow> (world, string, string) comp" where
  "kafka_append E e w =
     (let r = kafka_record_of e; po = kafka_offset E (length (kafka_log w))
      in (Inr (k_topic r @ '':'' @ show_nat (fst po) @ '':'' @ show_nat (snd po)),
          w\<lparr>kafka_log := kafka_log w @ [r]\<rparr>))"

definition kafka_publish :: "env \<Rightarrow> event \<Rightarrow> (world, string, string) comp" where
  "kafka_publish E e = io E (\<lambda>s. ''Kafka produce error: '' @ s) (kafka_append E e)"

primrec kafka_publish_batch :: "env \<Rightarrow> event list \<Rightarrow> (world, string, unit) comp" where
  "kafka_publish_batch E [] = ok ()"
| "kafka_publish_batch E (e # es) = andthen (kafka_publish E e) (kafka_publish_batch E es)"

section \<open>Redis Streams bus with the Kafka dual write\<close>

definition MAX_STREAM_LEN :: nat where
  "MAX_STREAM_LEN = 100000"

definition KAFKA_SKIP_EVENT_TYPES :: "string list" where
  "KAFKA_SKIP_EVENT_TYPES = [''ApiKeyVerified'']"

definition skip_kafka_dual_write :: "string \<Rightarrow> bool" where
  "skip_kafka_dual_write event_type \<longleftrightarrow> event_type \<in> set KAFKA_SKIP_EVENT_TYPES"

definition spawn_kafka_publish :: "env \<Rightarrow> event \<Rightarrow> (world, 'e, unit) comp" where
  "spawn_kafka_publish E e = (if kafka_up E then spawn (T_kafka e) else ok ())"

definition dispatch_kafka :: "env \<Rightarrow> event \<Rightarrow> (world, 'e, unit) comp" where
  "dispatch_kafka E e =
     (if skip_kafka_dual_write (ev_event_type e) then ok ()
      else if outbox_on E \<and> kafka_up E
      then bnd (attempt (enqueue E e)) (\<lambda>r.
           case r of Inl _ \<Rightarrow> spawn_kafka_publish E e | Inr _ \<Rightarrow> ok ())
      else spawn_kafka_publish E e)"

definition xadd :: "env \<Rightarrow> event \<Rightarrow> (world, string, string) comp" where
  "xadd E e =
     redis_cmd E ''Redis XADD failed''
       (\<lambda>w. (Inr (xadd_id E (io_ix w)), w\<lparr>stream := stream w @ [e]\<rparr>))"

text \<open>
  \<open>XTRIM ... MAXLEN ~ 100000\<close>: Redis drops whole blocks of old entries, and never so many that
  fewer than the bound remain.
\<close>

definition xtrim :: "env \<Rightarrow> (world, string, unit) comp" where
  "xtrim E =
     redis_cmd E ''XTRIM failed''
       (modify (\<lambda>w. w\<lparr>stream := drop (min (xtrim_drop E (io_ix w)) (length (stream w) - MAX_STREAM_LEN))
                                    (stream w)\<rparr>))"

definition publish_raw_no_kafka :: "env \<Rightarrow> event \<Rightarrow> (world, string, string) comp" where
  "publish_raw_no_kafka E e =
     bnd (xadd E e) (\<lambda>entry_id.
     andthen (ignoring (xtrim E)) (ok entry_id))"

definition publish_raw :: "env \<Rightarrow> event \<Rightarrow> (world, string, string) comp" where
  "publish_raw E e =
     andthen (dispatch_kafka E e)
     (bnd (xadd E e) (\<lambda>entry_id.
      andthen (ignoring (xtrim E)) (ok entry_id)))"

primrec dispatch_all :: "env \<Rightarrow> event list \<Rightarrow> (world, 'e, unit) comp" where
  "dispatch_all E [] = ok ()"
| "dispatch_all E (e # es) = andthen (dispatch_kafka E e) (dispatch_all E es)"

primrec stream_all :: "env \<Rightarrow> event list \<Rightarrow> (world, string, string list) comp" where
  "stream_all E [] = ok []"
| "stream_all E (e # es) =
     bnd (publish_raw_no_kafka E e) (\<lambda>i. bnd (stream_all E es) (\<lambda>ids. ok (i # ids)))"

definition publish_batch_raw :: "env \<Rightarrow> event list \<Rightarrow> (world, string, string list) comp" where
  "publish_batch_raw E es =
     andthen (if kafka_up E then dispatch_all E es else ok ()) (stream_all E es)"

definition publish :: "env \<Rightarrow> event \<Rightarrow> unit act" where
  "publish E e = map_err Internal (andthen (publish_raw E e) (ok ()))"

definition publish_batch :: "env \<Rightarrow> event list \<Rightarrow> unit act" where
  "publish_batch E es = map_err Internal (andthen (publish_batch_raw E es) (ok ()))"

text \<open>\<open>publish(&Event::...)\<close>: build the event, then publish it.\<close>

definition emit :: "env \<Rightarrow> event act \<Rightarrow> unit act" where
  "emit E mk = bnd mk (publish E)"

text \<open>The body of the detached Kafka task.\<close>

definition run_kafka_task :: "env \<Rightarrow> event \<Rightarrow> unit act" where
  "run_kafka_task E e = ignoring (kafka_publish E e)"

section \<open>Outbox worker\<close>

definition batch_size :: nat where
  "batch_size = 100"

definition idle_interval_ms :: nat where
  "idle_interval_ms = 500"

definition relay :: "env \<Rightarrow> outbox_record \<Rightarrow> unit act" where
  "relay E r =
     (case event_from_value E (or_payload r) of
        None \<Rightarrow> ignoring (mark_failed E (or_id r))
      | Some ev \<Rightarrow>
          bnd (attempt (kafka_publish E ev)) (\<lambda>res.
          case res of
            Inr _ \<Rightarrow> ignoring (mark_processed E (or_id r))
          | Inl _ \<Rightarrow> ignoring (mark_failed E (or_id r))))"

primrec relay_all :: "env \<Rightarrow> outbox_record list \<Rightarrow> unit act" where
  "relay_all E [] = ok ()"
| "relay_all E (r # rs) = andthen (relay E r) (relay_all E rs)"

definition tick :: "env \<Rightarrow> nat act" where
  "tick E =
     bnd (attempt (fetch_pending E batch_size)) (\<lambda>res.
     case res of
       Inl _ \<Rightarrow> andthen (sleep_ms 5000) (ok 0)
     | Inr rs \<Rightarrow> andthen (relay_all E rs) (ok (length rs)))"

text \<open>\<open>OutboxWorker::run\<close> never returns; this is its loop for \<open>n\<close> rounds.\<close>

primrec worker_rounds :: "env \<Rightarrow> nat \<Rightarrow> unit act" where
  "worker_rounds E 0 = ok ()"
| "worker_rounds E (Suc n) =
     andthen (bnd (tick E) (\<lambda>c. if c = 0 then sleep_ms idle_interval_ms else ok ()))
       (worker_rounds E n)"

section \<open>Frame conditions of publishing\<close>

text \<open>
  Publishing writes the stream, the outbox and the task list, and nothing else: a client's rows
  and keys are as they were.
\<close>

lemma keeps_outbox_ops:
  assumes f: "passes E f" "\<And>w s. f (w\<lparr>outbox := s\<rparr>) = f w"
  shows "keeps f (enqueue E e)" "keeps f (mark_processed E i)" "keeps f (mark_failed E i)"
    "keeps f (fetch_pending E n)"
  unfolding enqueue_def mark_processed_def mark_failed_def fetch_pending_def Let_def
  by (intro keeps_intros keeps_pass [OF f(1)] keepsI [of _ "outbox_insert _ _ _"] keepsI [of _ "modify _"];
      simp add: outbox_insert_def modify_run f)+

locale stream_frame =
  fixes E :: env and f :: "world \<Rightarrow> 'b"
  assumes passes_f: "passes E f"
    and stream_f: "f (w\<lparr>stream := es\<rparr>) = f w"
begin

lemma keeps_xadd: "keeps f (xadd E e)"
  unfolding xadd_def by (intro keeps_pass [OF passes_f] keepsI) (simp add: stream_f)

lemma keeps_xtrim: "keeps f (xtrim E)"
  unfolding xtrim_def by (intro keeps_pass [OF passes_f] keepsI) (simp add: stream_f modify_run)

lemma publish_keeps_dispatched: "f (snd (publish E e w)) = f (snd ((dispatch_kafka E e :: (world, string, unit) comp) w))"
proof -
  have "keeps f (bnd (xadd E e) (\<lambda>i. andthen (ignoring (xtrim E)) (ok i)))"
    by (intro keeps_intros keeps_xadd keeps_xtrim)
  then show ?thesis
    by (simp add: publish_def publish_raw_def map_err_run andthen_run ok_run keepsD split: sum.splits)
qed

end

locale bus_frame = stream_frame +
  assumes outbox_f: "f (w\<lparr>outbox := s\<rparr>) = f w"
    and tasks_f: "f (w\<lparr>tasks := ts\<rparr>) = f w"
begin

lemma keeps_dispatch: "keeps f (dispatch_kafka E e)"
  unfolding dispatch_kafka_def spawn_kafka_publish_def
  by (intro keeps_intros keeps_outbox_ops keeps_spawn passes_f) (simp_all add: outbox_f tasks_f)

lemma keeps_publish: "keeps f (publish E e)"
  unfolding publish_def publish_raw_def
  by (intro keeps_intros keeps_dispatch keeps_xadd keeps_xtrim)

lemma keeps_dispatch_all: "keeps f (dispatch_all E es)"
  by (induction es) (auto intro!: keeps_intros keeps_dispatch)

lemma keeps_stream_all: "keeps f (stream_all E es)"
  by (induction es)
    (auto simp: publish_raw_no_kafka_def intro!: keeps_intros keeps_xadd keeps_xtrim)

lemma keeps_publish_batch: "keeps f (publish_batch E es)"
  unfolding publish_batch_def publish_batch_raw_def
  by (intro keeps_intros keeps_dispatch_all keeps_stream_all)

lemma keeps_iam_event: "keeps f (iam_event E ty fs)"
  unfolding iam_event_def event_new_def by (intro keeps_intros keeps_pass [OF passes_f])

lemma keeps_emit: "keeps f mk \<Longrightarrow> keeps f (emit E mk)"
  unfolding emit_def by (intro keeps_intros keeps_publish)

lemmas keeps_bus = keeps_publish keeps_publish_batch keeps_emit keeps_iam_event

end

text \<open>The parts of the state that are no concern of the bus.\<close>

interpretation stream_outbox: stream_frame E outbox for E by unfold_locales (simp_all add: passes_untimed)
interpretation stream_tasks: stream_frame E tasks for E by unfold_locales (simp_all add: passes_untimed)
interpretation stream_log: stream_frame E kafka_log for E by unfold_locales (simp_all add: passes_untimed)

interpretation bus_users: bus_frame E users for E by unfold_locales (simp_all add: passes_untimed)
interpretation bus_wallets: bus_frame E wallets for E by unfold_locales (simp_all add: passes_untimed)
interpretation bus_api_keys: bus_frame E api_keys for E by unfold_locales (simp_all add: passes_untimed)
interpretation bus_redis: bus_frame E redis for E by unfold_locales (simp_all add: passes_untimed)

section \<open>Delivery\<close>

text \<open>What the worker promises: a row is marked delivered only when its event is in the log.\<close>

definition delivered :: "env \<Rightarrow> kafka_record list \<Rightarrow> outbox_rec \<Rightarrow> bool" where
  "delivered E lg r \<longleftrightarrow> (\<exists>ev. event_from_value E (ob_payload r) = Some ev \<and> kafka_record_of ev \<in> set lg)"

definition delivery_inv :: "env \<Rightarrow> world \<Rightarrow> bool" where
  "delivery_inv E w \<longleftrightarrow>
     outbox_wf (outbox w) \<and>
     (\<forall>r \<in> set (outbox w). ob_status r = PROCESSED \<longrightarrow> delivered E (kafka_log w) r)"

text \<open>A fetched record still shows the payload of the row with its id.\<close>

definition current :: "world \<Rightarrow> outbox_record \<Rightarrow> bool" where
  "current w x \<longleftrightarrow> (\<forall>r \<in> set (outbox w). ob_id r = or_id x \<longrightarrow> ob_payload r = or_payload x)"

lemma delivered_mono: "delivered E lg r \<Longrightarrow> delivered E (lg @ l) r"
  by (auto simp: delivered_def)

definition relay_inv :: "env \<Rightarrow> outbox_record set \<Rightarrow> world \<Rightarrow> bool" where
  "relay_inv E X w \<longleftrightarrow> delivery_inv E w \<and> (\<forall>x \<in> X. current w x)"

lemmas relay_inv_unfold = relay_inv_def delivery_inv_def current_def

lemma untimed_relay_inv: "untimed (relay_inv E X)"
  by (simp add: untimed_def relay_inv_unfold)

lemma inv_update_failed:
  "relay_inv E X w \<Longrightarrow> relay_inv E X (w\<lparr>outbox := update_id i (set_failed t) (outbox w)\<rparr>)"
  by (auto simp: relay_inv_unfold outbox_wf_failed set_update_id set_failed_def
        delivered_def split: if_splits)

lemma inv_update_processed:
  assumes "relay_inv E X w" "current w y"
    and "event_from_value E (or_payload y) = Some ev" "kafka_record_of ev \<in> set (kafka_log w)"
  shows "relay_inv E X (w\<lparr>outbox := update_id (or_id y) (set_processed t) (outbox w)\<rparr>)"
  using assms
  by (auto simp: relay_inv_unfold outbox_wf_processed set_update_id set_processed_def
        delivered_def split: if_splits)

lemma preserves_mark_failed_inv: "preserves (relay_inv E X) (mark_failed E i)"
  unfolding mark_failed_def
  by (intro preserves_timed preservesI [of _ "modify _"] untimed_relay_inv)
    (simp add: modify_run inv_update_failed)

lemma mark_processed_inv:
  assumes "relay_inv E X w" "current w y"
    and "event_from_value E (or_payload y) = Some ev" "kafka_record_of ev \<in> set (kafka_log w)"
  shows "relay_inv E X (snd (mark_processed E (or_id y) w))"
proof -
  let ?w = "w\<lparr>io_ix := Suc (io_ix w), clock := clock w + int (latency E (io_ix w))\<rparr>"
  have "relay_inv E X ?w" "current ?w y" "kafka_record_of ev \<in> set (kafka_log ?w)"
    using assms by (simp_all add: relay_inv_unfold)
  then show ?thesis
    using inv_update_processed [of E X ?w y ev "clock ?w"] assms(3)
    by (simp add: mark_processed_def db_def io_def Let_def modify_run split: outcome.splits)
qed

lemma kafka_publish_inv:
  assumes "relay_inv E X w"
  shows "relay_inv E X (snd (kafka_publish E ev w))"
    and "outbox (snd (kafka_publish E ev w)) = outbox w"
    and "fst (kafka_publish E ev w) = Inr s \<Longrightarrow>
         kafka_record_of ev \<in> set (kafka_log (snd (kafka_publish E ev w)))"
  using assms
  by (auto simp: kafka_publish_def io_def Let_def kafka_append_def relay_inv_unfold
      delivered_mono split: outcome.splits)

lemma relay_preserves: "r \<in> X \<Longrightarrow> preserves (relay_inv E X) (relay E r)"
proof (rule preservesI)
  fix w
  assume r: "r \<in> X" and inv: "relay_inv E X w"
  let ?p = "\<lambda>ev. kafka_publish E ev w"
  have failed: "relay_inv E X w' \<Longrightarrow> relay_inv E X (snd (mark_failed E (or_id r) w'))" for w'
    by (rule preservesD [OF preserves_mark_failed_inv])
  have cur: "current (snd (?p ev)) r" for ev
    using kafka_publish_inv(1) [OF inv, of ev] r by (simp add: relay_inv_def)
  show "relay_inv E X (snd (relay E r w))"
  proof (cases "event_from_value E (or_payload r)")
    case None
    then show ?thesis using failed [OF inv] by (simp add: relay_def comp_simps)
  next
    case (Some ev)
    show ?thesis
    proof (cases "fst (?p ev)")
      case (Inl e)
      then show ?thesis
        using failed [OF kafka_publish_inv(1) [OF inv, of ev]] Some
        by (simp add: relay_def comp_simps)
    next
      case (Inr s)
      then show ?thesis
        using mark_processed_inv [OF kafka_publish_inv(1) [OF inv, of ev] cur Some
            kafka_publish_inv(3) [OF inv Inr]] Some
        by (simp add: relay_def comp_simps)
    qed
  qed
qed

lemma relay_all_preserves: "set rs \<subseteq> X \<Longrightarrow> preserves (relay_inv E X) (relay_all E rs)"
  by (induction rs) (auto intro!: preserves_intros relay_preserves)

lemma fetched_current:
  assumes "outbox_wf (outbox w)" "x \<in> set (map to_outbox_record (take n (pending (outbox w))))"
  shows "current w x"
proof -
  obtain r where x: "x = to_outbox_record r" and "r \<in> set (take n (pending (outbox w)))"
    using assms(2) by auto
  then have r: "r \<in> set (outbox w)"
    using fetch_pending_sound by blast
  have "r' = r" if "r' \<in> set (outbox w)" "ob_id r' = ob_id r" for r'
    using assms(1) r that by (auto simp: outbox_wf_def distinct_map inj_on_def)
  with x show ?thesis by (auto simp: current_def to_outbox_record_def)
qed

lemma tick_preserves: "preserves (delivery_inv E) (tick E)"
proof (rule preservesI)
  fix w
  assume inv: "delivery_inv E w"
  define f where "f = fetch_pending E batch_size w"
  have inv': "delivery_inv E (snd f)" and ob: "outbox (snd f) = outbox w"
    using inv by (simp_all add: f_def fetch_pending_def db_def io_def Let_def gets_run
        delivery_inv_def split: outcome.splits)
  show "delivery_inv E (snd (tick E w))"
  proof (cases "fst f")
    case (Inl e)
    then show ?thesis using inv'
      by (simp add: tick_def comp_simps f_def [symmetric] sleep_ms_def delivery_inv_def)
  next
    case (Inr rs)
    then have rs: "rs = map to_outbox_record (take batch_size (pending (outbox (snd f))))"
      by (auto simp: f_def fetch_pending_def db_def io_def Let_def gets_run split: outcome.splits)
    then have "relay_inv E (set rs) (snd f)"
      using inv' fetched_current [of "snd f"] by (auto simp: relay_inv_def delivery_inv_def)
    then have "relay_inv E (set rs) (snd (relay_all E rs (snd f)))"
      by (rule preservesD [OF relay_all_preserves [OF order_refl]])
    then show ?thesis using Inr
      by (auto simp: tick_def comp_simps f_def [symmetric] relay_inv_def split: sum.splits)
  qed
qed

lemma worker_preserves: "preserves (delivery_inv E) (worker_rounds E n)"
proof -
  have "preserves (delivery_inv E) (sleep_ms d)" for d
    by (rule preservesI) (simp add: sleep_ms_def modify_run delivery_inv_def)
  then show ?thesis
    by (induction n) (auto intro!: preserves_intros tick_preserves)
qed

section \<open>Progress without faults\<close>

definition relayed :: "env \<Rightarrow> int \<Rightarrow> outbox_rec \<Rightarrow> outbox_rec" where
  "relayed E t r =
     (if event_from_value E (ob_payload r) = None then set_failed t r else set_processed t r)"

lemma relay_reliable:
  "reliable E \<Longrightarrow> \<exists>t. outbox (snd (relay E x w)) =
     update_id (or_id x)
       (if event_from_value E (or_payload x) = None then set_failed t else set_processed t) (outbox w)"
  by (auto simp: relay_def comp_simps mark_failed_def mark_processed_def db_def kafka_publish_def
      kafka_append_def Let_def split: option.splits)

text \<open>
  Relaying a batch of records with distinct ids changes exactly the rows with those ids, each
  of them once.
\<close>

lemma relay_all_reliable:
  assumes "reliable E" "distinct (map or_id xs)" "\<forall>x \<in> set xs. current w x"
  shows "\<exists>g. outbox (snd (relay_all E xs w)) = map g (outbox w) \<and>
    (\<forall>r \<in> set (outbox w). if ob_id r \<in> or_id ` set xs then \<exists>t. g r = relayed E t r else g r = r)"
  using assms(2-)
proof (induction xs arbitrary: w)
  case Nil
  show ?case by (rule exI [of _ id]) (simp add: comp_simps)
next
  case (Cons x xs)
  define w1 where "w1 = snd (relay E x w)"
  obtain t where t: "outbox w1 = update_id (or_id x)
      (if event_from_value E (or_payload x) = None then set_failed t else set_processed t) (outbox w)"
    using relay_reliable [OF assms(1)] w1_def by blast
  define h where "h r = (if ob_id r = or_id x then relayed E t r else r)" for r
  have w1: "outbox w1 = map h (outbox w)"
    using Cons.prems(2) by (auto simp: t update_id_def h_def relayed_def current_def)
  have h: "ob_id (h r) = ob_id r" "ob_payload (h r) = ob_payload r" for r
    by (simp_all add: h_def relayed_def)
  have "\<forall>y \<in> set xs. current w1 y"
    using Cons.prems(2) by (auto simp: current_def w1 h)
  then obtain g where g: "outbox (snd (relay_all E xs w1)) = map g (outbox w1)"
    "\<forall>r \<in> set (outbox w1). if ob_id r \<in> or_id ` set xs then \<exists>t. g r = relayed E t r else g r = r"
    using Cons.IH [of w1] Cons.prems(1) by auto
  have ok: "fst (relay E x w) = Inr ()"
    by (simp add: relay_def comp_simps split: option.splits sum.splits)
  have x: "or_id x \<notin> or_id ` set xs" using Cons.prems(1) by auto
  show ?case
  proof (intro exI conjI ballI)
    show "outbox (snd (relay_all E (x # xs) w)) = map (g \<circ> h) (outbox w)"
      using g(1) by (simp add: comp_simps ok w1_def [symmetric] w1)
  next
    fix r assume r: "r \<in> set (outbox w)"
    then have "if ob_id r \<in> or_id ` set xs then \<exists>t. g (h r) = relayed E t (h r) else g (h r) = h r"
      using bspec [OF g(2), of "h r"] by (simp add: w1 h)
    then show "if ob_id r \<in> or_id ` set (x # xs) then \<exists>t. (g \<circ> h) r = relayed E t r else (g \<circ> h) r = r"
      using x by (auto simp: h_def split: if_splits)
  qed
qed

text \<open>One round over an outbox that fits in a batch handles every pending row and no other.\<close>

lemma tick_reliable:
  assumes E: "reliable E" and wf: "outbox_wf (outbox w)" and n: "length (pending (outbox w)) \<le> batch_size"
  shows "\<exists>g. outbox (snd (tick E w)) = map g (outbox w) \<and>
    (\<forall>r \<in> set (outbox w). if ob_status r = PENDING then \<exists>t. g r = relayed E t r else g r = r)"
    and "fst (tick E w) = Inr (length (pending (outbox w)))"
proof -
  define w1 where "w1 = w\<lparr>io_ix := Suc (io_ix w), clock := clock w + int (latency E (io_ix w))\<rparr>"
  define xs where "xs = map to_outbox_record (pending (outbox w))"
  have ob: "outbox w1 = outbox w" by (simp add: w1_def)
  have fetch: "fetch_pending E batch_size w = (Inr xs, w1)"
    using E n by (simp add: fetch_pending_def db_def gets_run xs_def w1_def)
  have ok: "fst (relay_all E ys v) = Inr ()" for ys v
    by (induction ys arbitrary: v)
      (simp_all add: comp_simps relay_def split: option.splits sum.splits)
  have ids: "map or_id xs = map ob_id (pending (outbox w))"
    by (simp add: xs_def to_outbox_record_def)
  have inj: "inj_on ob_id (set (outbox w))"
    using wf by (simp add: outbox_wf_def distinct_map)
  have pend: "set (pending (outbox w)) = {r \<in> set (outbox w). ob_status r = PENDING}"
    by (auto simp: pending_def)
  have "distinct (map or_id xs)"
    using wf unfolding ids
    by (auto simp: pending_def outbox_wf_def distinct_map distinct_filter inj_on_def)
  moreover have "\<forall>x \<in> set xs. current w1 x"
    using fetched_current [of w1 _ batch_size] wf n by (simp add: ob xs_def)
  ultimately obtain g where g: "outbox (snd (relay_all E xs w1)) = map g (outbox w)"
    "\<forall>r \<in> set (outbox w). if ob_id r \<in> or_id ` set xs then \<exists>t. g r = relayed E t r else g r = r"
    using relay_all_reliable [OF E, of xs w1] by (auto simp: ob)
  have mem: "ob_id r \<in> or_id ` set xs \<longleftrightarrow> ob_status r = PENDING" if "r \<in> set (outbox w)" for r
  proof -
    have "or_id ` set xs = ob_id ` set (pending (outbox w))"
      using arg_cong [OF ids, of set] by simp
    then show ?thesis using that inj by (auto simp: pend inj_on_def)
  qed
  have run: "tick E w = (Inr (length xs), snd (relay_all E xs w1))"
    by (simp add: tick_def comp_simps fetch ok)
  show "\<exists>g. outbox (snd (tick E w)) = map g (outbox w) \<and>
    (\<forall>r \<in> set (outbox w). if ob_status r = PENDING then \<exists>t. g r = relayed E t r else g r = r)"
    using g mem by (intro exI [of _ g]) (simp add: run)
  show "fst (tick E w) = Inr (length (pending (outbox w)))"
    by (simp add: run xs_def)
qed

lemma preserves_wf_worker:
  "preserves (\<lambda>w. outbox_wf (outbox w)) (tick E)"
  "preserves (\<lambda>w. outbox_wf (outbox w)) (worker_rounds E n)"
proof -
  let ?P = "\<lambda>w. outbox_wf (outbox w)"
  have k: "preserves ?P (kafka_publish E e)" for e
    by (rule preservesI) (auto simp: kafka_publish_def io_def Let_def kafka_append_def split: outcome.splits)
  have r: "preserves ?P (relay_all E rs)" for rs
    by (induction rs) (auto simp: relay_def intro!: preserves_intros preserves_outbox_wf k)
  have f: "preserves ?P (fetch_pending E m)" for m
    unfolding fetch_pending_def by (intro preserves_timed preserves_intros untimed_at)
  have s: "preserves ?P (sleep_ms d)" for d
    by (rule preservesI) (simp add: sleep_ms_def modify_run)
  show t: "preserves ?P (tick E)"
    unfolding tick_def by (intro preserves_intros r f s)
  show "preserves ?P (worker_rounds E n)"
    by (induction n) (auto intro!: preserves_intros t s)
qed

definition round_outbox :: "env \<Rightarrow> world \<Rightarrow> world" where
  "round_outbox E w = snd (bnd (tick E) (\<lambda>c. if c = 0 then sleep_ms idle_interval_ms else ok ()) w)"

lemma worker_rounds_Suc:
  "reliable E \<Longrightarrow> outbox_wf (outbox w) \<Longrightarrow> length (outbox w) \<le> batch_size \<Longrightarrow>
   snd (worker_rounds E (Suc n) w) = snd (worker_rounds E n (round_outbox E w))"
  and round_outbox_tick:
  "reliable E \<Longrightarrow> outbox_wf (outbox w) \<Longrightarrow> length (outbox w) \<le> batch_size \<Longrightarrow>
   outbox (round_outbox E w) = outbox (snd (tick E w))"
proof -
  assume a: "reliable E" "outbox_wf (outbox w)" "length (outbox w) \<le> batch_size"
  have "length (pending (outbox w)) \<le> length (outbox w)" by (simp add: pending_def)
  with a have "length (pending (outbox w)) \<le> batch_size" by linarith
  note t = tick_reliable(2) [OF a(1,2) this]
  show "snd (worker_rounds E (Suc n) w) = snd (worker_rounds E n (round_outbox E w))"
    by (simp add: round_outbox_def comp_simps t sleep_ms_def)
  show "outbox (round_outbox E w) = outbox (snd (tick E w))"
    by (simp add: round_outbox_def comp_simps t sleep_ms_def)
qed

lemma round_row:
  assumes "reliable E" "outbox_wf (outbox w)" "length (outbox w) \<le> batch_size" "r \<in> set (outbox w)"
  shows "\<exists>r' \<in> set (outbox (round_outbox E w)).
    if ob_status r = PENDING then \<exists>t. r' = relayed E t r else r' = r"
    and "length (outbox (round_outbox E w)) = length (outbox w)"
    and "outbox_wf (outbox (round_outbox E w))"
proof -
  have "length (pending (outbox w)) \<le> length (outbox w)" by (simp add: pending_def)
  with assms have "length (pending (outbox w)) \<le> batch_size" by linarith
  from tick_reliable(1) [OF assms(1,2) this] obtain g
    where g: "outbox (round_outbox E w) = map g (outbox w)"
      "\<forall>r \<in> set (outbox w). if ob_status r = PENDING then \<exists>t. g r = relayed E t r else g r = r"
    using round_outbox_tick [OF assms(1-3)] by auto
  show "\<exists>r' \<in> set (outbox (round_outbox E w)).
    if ob_status r = PENDING then \<exists>t. r' = relayed E t r else r' = r"
    using g assms(4) by (intro bexI [of _ "g r"]) auto
  show "length (outbox (round_outbox E w)) = length (outbox w)" by (simp add: g)
  show "outbox_wf (outbox (round_outbox E w))"
    using preservesD [OF preserves_wf_worker(1) [of E], of w] assms
    by (simp add: round_outbox_tick)
qed

lemma poison_row_rounds:
  assumes "reliable E"
  shows "outbox_wf (outbox w) \<Longrightarrow> length (outbox w) \<le> batch_size \<Longrightarrow> r \<in> set (outbox w) \<Longrightarrow>
    event_from_value E (ob_payload r) = None \<Longrightarrow> ob_attempts r \<le> MAX_ATTEMPTS \<Longrightarrow>
    ob_status r = (if ob_attempts r < MAX_ATTEMPTS then PENDING else FAILED) \<Longrightarrow>
    \<exists>r' \<in> set (outbox (snd (worker_rounds E n w))). ob_id r' = ob_id r \<and>
      ob_attempts r' = min (ob_attempts r + n) MAX_ATTEMPTS \<and>
      ob_status r' = (if ob_attempts r + n < MAX_ATTEMPTS then PENDING else FAILED)"
proof (induction n arbitrary: w r)
  case 0
  then show ?case by (intro bexI [of _ r]) (auto simp: comp_simps)
next
  case (Suc n)
  obtain r1 where r1: "r1 \<in> set (outbox (round_outbox E w))"
    "if ob_status r = PENDING then \<exists>t. r1 = relayed E t r else r1 = r"
    using round_row(1) [OF assms Suc.prems(1-3)] by blast
  have p: "ob_payload r1 = ob_payload r" "ob_id r1 = ob_id r"
    using r1(2) by (auto simp: relayed_def split: if_splits)
  have a: "ob_attempts r1 = min (ob_attempts r + 1) MAX_ATTEMPTS"
    "ob_status r1 = (if ob_attempts r1 < MAX_ATTEMPTS then PENDING else FAILED)"
    using r1(2) Suc.prems(4-6) by (auto simp: relayed_def set_failed_def split: if_splits)
  have b: "ob_attempts r1 + n < MAX_ATTEMPTS \<longleftrightarrow> ob_attempts r + Suc n < MAX_ATTEMPTS"
    "min (ob_attempts r1 + n) MAX_ATTEMPTS = min (ob_attempts r + Suc n) MAX_ATTEMPTS"
    using a(1) by auto
  have "\<exists>r' \<in> set (outbox (snd (worker_rounds E n (round_outbox E w)))). ob_id r' = ob_id r1 \<and>
      ob_attempts r' = min (ob_attempts r1 + n) MAX_ATTEMPTS \<and>
      ob_status r' = (if ob_attempts r1 + n < MAX_ATTEMPTS then PENDING else FAILED)"
    using round_row(2,3) [OF assms Suc.prems(1-3)] r1(1) p a Suc.prems(2,4) by (intro Suc.IH) auto
  then show ?case
    unfolding worker_rounds_Suc [OF assms Suc.prems(1,2)] b p(2) .
qed

section \<open>Properties\<close>

text \<open>C4. At-least-once delivery.  However many rounds the outbox worker runs, and whatever
  requests to the database or to Kafka are lost on the way, a row of the outbox is marked
  \<open>PROCESSED\<close> only when the event it stores is in the Kafka log, on the topic and with the
  partition key the producer computes for it.\<close>

theorem outbox_processed_delivered:
  assumes "outbox_wf (outbox w)" and "\<forall>r \<in> set (outbox w). ob_status r \<noteq> PROCESSED"
    and "r \<in> set (outbox (snd (worker_rounds E n w)))" and "ob_status r = PROCESSED"
  shows "\<exists>ev. event_from_value E (ob_payload r) = Some ev \<and>
    kafka_record_of ev \<in> set (kafka_log (snd (worker_rounds E n w)))"
proof -
  have "delivery_inv E w" using assms(1,2) by (simp add: delivery_inv_def)
  then have "delivery_inv E (snd (worker_rounds E n w))"
    by (rule preservesD [OF worker_preserves])
  with assms(3,4) show ?thesis by (auto simp: delivery_inv_def delivered_def)
qed

definition sample_event :: event where
  "sample_event = \<lparr>ev_id = 5, ev_event_type = ''UserRegistered'', ev_timestamp = ''0'',
     ev_data = Some (JObj [(''user_id'', JStr ''9'')]), ev_source = ''gridtokenx-iam''\<rparr>"

definition outbox_row :: "uuid \<Rightarrow> json \<Rightarrow> outbox_rec" where
  "outbox_row i p = \<lparr>ob_id = i, ob_event_type = ''UserRegistered'', ob_payload = p,
     ob_status = PENDING, ob_attempts = 0, ob_last_attempt_at = None, ob_created_at = 0\<rparr>"

definition outbox_world :: "outbox_rec list \<Rightarrow> world" where
  "outbox_world rs = empty_world\<lparr>outbox := rs\<rparr>"

lemma sample_payload:
  "event_from_value sample_env (event_to_value sample_env sample_event) = Some sample_event"
  by (rule event_roundtrip) (simp_all add: uuid_roundtrip_def sample_event_def)

lemma sample_round:
  "outbox (snd (worker_rounds sample_env 1 (outbox_world [outbox_row 1 (event_to_value sample_env sample_event)])))
     = [set_processed 0 (outbox_row 1 (event_to_value sample_env sample_event))]"
  using sample_payload
  by (simp add: outbox_world_def empty_world_def outbox_row_def comp_simps tick_def fetch_pending_def
      db_def pending_def batch_size_def to_outbox_record_def relay_def kafka_publish_def kafka_append_def
      Let_def mark_processed_def update_id_def set_processed_def io_def sample_env_def)

definition sample_pending :: world where
  "sample_pending = outbox_world [outbox_row 1 (event_to_value sample_env sample_event)]"

theorem outbox_processed_delivered_witness:
  "\<exists>ev. event_from_value sample_env (event_to_value sample_env sample_event) = Some ev \<and>
    kafka_record_of ev \<in> set (kafka_log (snd (worker_rounds sample_env 1 sample_pending)))"
  using outbox_processed_delivered [of sample_pending
      "set_processed 0 (outbox_row 1 (event_to_value sample_env sample_event))" sample_env 1]
  unfolding sample_pending_def sample_round
  by (simp add: outbox_world_def outbox_row_def outbox_wf_def MAX_ATTEMPTS_def set_processed_def)

text \<open>C27. Without faults one round of the worker drains an outbox of at most one batch whose payloads can all be
  read (those the service enqueues can): afterwards
  no deliverable row is still pending, every row that was pending is marked \<open>PROCESSED\<close>, and
  rows that were not pending are unchanged.\<close>

theorem outbox_round_drains:
  assumes "reliable E" and "outbox_wf (outbox w)" and "length (pending (outbox w)) \<le> batch_size"
    and "\<forall>r \<in> set (outbox w). event_from_value E (ob_payload r) \<noteq> None"
  shows "fst (tick E w) = Inr (length (pending (outbox w))) \<and>
    pending (outbox (snd (tick E w))) = [] \<and>
    list_all2 (\<lambda>r r'. if ob_status r = PENDING
        then ob_id r' = ob_id r \<and> ob_payload r' = ob_payload r \<and> ob_status r' = PROCESSED
        else r' = r) (outbox w) (outbox (snd (tick E w)))"
proof -
  obtain g where g: "outbox (snd (tick E w)) = map g (outbox w)"
    "\<forall>r \<in> set (outbox w). if ob_status r = PENDING then \<exists>t. g r = relayed E t r else g r = r"
    using tick_reliable(1) [OF assms(1-3)] by blast
  have each: "if ob_status r = PENDING
      then ob_id (g r) = ob_id r \<and> ob_payload (g r) = ob_payload r \<and> ob_status (g r) = PROCESSED
      else g r = r" if "r \<in> set (outbox w)" for r
    using g(2) assms(4) that by (fastforce simp: relayed_def set_processed_def)
  have "ob_status (g r) \<noteq> PENDING" if "r \<in> set (outbox w)" for r
    using each [OF that] by (auto split: if_splits)
  then have "pending (outbox (snd (tick E w))) = []"
    by (simp add: pending_def g filter_empty_conv)
  moreover have "list_all2 (\<lambda>r r'. if ob_status r = PENDING
        then ob_id r' = ob_id r \<and> ob_payload r' = ob_payload r \<and> ob_status r' = PROCESSED
        else r' = r) (outbox w) (outbox (snd (tick E w)))"
    using each by (simp add: g list_all2_conv_all_nth)
  ultimately show ?thesis using tick_reliable(2) [OF assms(1-3)] by simp
qed

theorem outbox_round_drains_witness:
  "pending (outbox sample_pending) \<noteq> [] \<and> pending (outbox (snd (tick sample_env sample_pending))) = []"
  using outbox_round_drains [of sample_env sample_pending] sample_payload
  by (simp add: sample_pending_def outbox_world_def outbox_row_def outbox_wf_def MAX_ATTEMPTS_def
      pending_def batch_size_def)

text \<open>C28. The row of an event whose payload cannot be read back is quarantined by its tenth attempt, and not by
  its first, as the worker's comment has it: after \<open>n\<close> rounds of a worker without faults it has \<open>min n 10\<close>
  attempts, is still pending, and fetched again, before the tenth, and is \<open>FAILED\<close> from the tenth on.\<close>

theorem outbox_poison_quarantined:
  assumes "reliable E" and "outbox_wf (outbox w)" and "length (outbox w) \<le> batch_size"
    and "r \<in> set (outbox w)" and "event_from_value E (ob_payload r) = None"
    and "ob_status r = PENDING" and "ob_attempts r = 0"
  shows "\<exists>r' \<in> set (outbox (snd (worker_rounds E n w))). ob_id r' = ob_id r \<and>
    ob_attempts r' = min n 10 \<and> ob_status r' = (if n < 10 then PENDING else FAILED)"
  using poison_row_rounds [OF assms(1-5), of n] assms(6,7) by (simp add: MAX_ATTEMPTS_def)

theorem outbox_poison_quarantined_witness:
  "\<exists>r' \<in> set (outbox (snd (worker_rounds sample_env 12 (outbox_world [outbox_row 1 JNull])))).
     ob_id r' = 1 \<and> ob_attempts r' = 10 \<and> ob_status r' = FAILED"
  using outbox_poison_quarantined [of sample_env "outbox_world [outbox_row 1 JNull]" "outbox_row 1 JNull" 12]
  by (simp add: outbox_world_def outbox_row_def outbox_wf_def MAX_ATTEMPTS_def batch_size_def
      event_from_value_def)

end
