(* ===== verification/Tables.thy ===== *)
theory Tables
  imports World
begin

text \<open>
  The SQL statements of the repositories on tables as lists of rows: \<open>UPDATE ... WHERE\<close>,
  \<open>DELETE ... WHERE\<close>, \<open>SELECT ... LIMIT 1\<close>, column widths, unique keys.  A table is listed in
  insertion order, which is the order an unordered \<open>SELECT\<close> returns here.
\<close>

definition update_where :: "('r \<Rightarrow> bool) \<Rightarrow> ('r \<Rightarrow> 'r) \<Rightarrow> 'r list \<Rightarrow> 'r list" where
  "update_where P f t = map (\<lambda>r. if P r then f r else r) t"

definition rows_affected :: "('r \<Rightarrow> bool) \<Rightarrow> 'r list \<Rightarrow> nat" where
  "rows_affected P t = length (filter P t)"

text \<open>
  \<open>VARCHAR(n)\<close> bounds the number of characters: the bytes that do not continue a UTF-8
  sequence.
\<close>

definition char_count :: "string \<Rightarrow> nat" where
  "char_count s = length (filter (\<lambda>c. byte c < 128 \<or> 192 \<le> byte c) s)"

definition fits :: "nat \<Rightarrow> string \<Rightarrow> bool" where
  "fits n s \<longleftrightarrow> char_count s \<le> n"

definition fits_opt :: "nat \<Rightarrow> string option \<Rightarrow> bool" where
  "fits_opt n v \<longleftrightarrow> (case v of None \<Rightarrow> True | Some s \<Rightarrow> fits n s)"

definition unique_on :: "('r \<Rightarrow> 'k) \<Rightarrow> 'r list \<Rightarrow> bool" where
  "unique_on key t \<longleftrightarrow> distinct (map key t)"

text \<open>A unique column that may be \<open>NULL\<close> constrains only the rows where it is set.\<close>

definition unique_some :: "('r \<Rightarrow> 'k option) \<Rightarrow> 'r list \<Rightarrow> bool" where
  "unique_some key t \<longleftrightarrow> distinct (List.map_filter key t)"

definition unique_violation :: api_error where
  "unique_violation = Database (SqlxDatabase True ''duplicate key value violates unique constraint'')"

definition value_too_long :: api_error where
  "value_too_long = Database (SqlxDatabase False ''value too long for type character varying'')"

section \<open>Laws\<close>

lemma set_update_where: "set (update_where P f t) = (\<lambda>r. if P r then f r else r) ` set t"
  by (simp add: update_where_def)

lemma in_update_where:
  "r \<in> set (update_where P f t) \<longleftrightarrow> (\<exists>x \<in> set t. if P x then r = f x else r = x)"
  by (auto simp: update_where_def)

lemma list_all_update_where:
  "list_all Q t \<Longrightarrow> (\<And>r. P r \<Longrightarrow> Q r \<Longrightarrow> Q (f r)) \<Longrightarrow> list_all Q (update_where P f t)"
  by (auto simp: list_all_iff in_update_where split: if_splits)

lemma update_where_Nil [simp]: "update_where P f [] = []"
  by (simp add: update_where_def)

lemma length_update_where [simp]: "length (update_where P f t) = length t"
  by (simp add: update_where_def)

lemma map_update_where:
  "(\<And>r. P r \<Longrightarrow> key (f r) = key r) \<Longrightarrow> map key (update_where P f t) = map key t"
  by (simp add: update_where_def)

lemma unique_on_update:
  "(\<And>r. P r \<Longrightarrow> key (f r) = key r) \<Longrightarrow> unique_on key (update_where P f t) = unique_on key t"
  by (simp add: unique_on_def map_update_where)

lemma unique_some_update:
  "(\<And>r. P r \<Longrightarrow> key (f r) = key r) \<Longrightarrow> unique_some key (update_where P f t) = unique_some key t"
proof -
  assume k: "\<And>r. P r \<Longrightarrow> key (f r) = key r"
  have "List.map_filter key (update_where P f t) = List.map_filter key t"
    by (induction t) (simp_all add: update_where_def map_filter_def k)
  then show ?thesis by (simp add: unique_some_def)
qed

lemma unique_on_filter: "unique_on key t \<Longrightarrow> unique_on key (filter P t)"
  by (simp add: unique_on_def distinct_map_filter)

lemma unique_some_Cons:
  "unique_some p (a # t) \<longleftrightarrow> unique_some p t \<and> (\<forall>r \<in> set t. p a \<noteq> None \<longrightarrow> p r \<noteq> p a)"
proof -
  have mem: "k \<in> set (List.map_filter p t) \<longleftrightarrow> (\<exists>r \<in> set t. p r = Some k)" for k
    by (force simp: map_filter_def)
  show ?thesis by (cases "p a") (auto simp: unique_some_def map_filter_simps mem)
qed

lemma unique_some_filter: "unique_some p t \<Longrightarrow> unique_some p (filter P t)"
proof (induction t)
  case (Cons a t)
  then show ?case by (simp add: unique_some_Cons)
qed simp

lemma unique_on_append: "unique_on key (t @ [r]) \<longleftrightarrow> unique_on key t \<and> key r \<notin> key ` set t"
  by (auto simp: unique_on_def)

lemma unique_onD: "unique_on key t \<Longrightarrow> r \<in> set t \<Longrightarrow> r' \<in> set t \<Longrightarrow> key r = key r' \<Longrightarrow> r = r'"
  by (auto simp: unique_on_def distinct_map inj_on_def)

lemma unique_someD:
  "unique_some key t \<Longrightarrow> r \<in> set t \<Longrightarrow> r' \<in> set t \<Longrightarrow> key r = Some k \<Longrightarrow> key r' = Some k \<Longrightarrow> r = r'"
proof (induction t)
  case (Cons a t)
  have mem: "r \<in> set t \<Longrightarrow> key r = Some k \<Longrightarrow> k \<in> set (List.map_filter key t)" for r k
    by (force simp: map_filter_def)
  from Cons show ?case
    by (auto simp: unique_some_def map_filter_simps mem split: option.splits)
qed simp

text \<open>With a key at hand, uniqueness of a nullable column is a statement about pairs of rows.\<close>

lemma unique_some_iff:
  assumes "unique_on key t"
  shows "unique_some p t \<longleftrightarrow>
    (\<forall>r \<in> set t. \<forall>r' \<in> set t. p r \<noteq> None \<longrightarrow> p r = p r' \<longrightarrow> key r = key r')"
  using assms
proof (induction t)
  case Nil
  show ?case by (simp add: unique_some_def map_filter_simps)
next
  case (Cons a t)
  have k: "key r \<noteq> key a" if "r \<in> set t" for r
    using Cons.prems that by (auto simp: unique_on_def) (metis imageI)
  have "unique_on key t" using Cons.prems by (simp add: unique_on_def)
  note IH = Cons.IH [OF this]
  show ?case
  proof
    assume "unique_some p (a # t)"
    then show "\<forall>r \<in> set (a # t). \<forall>r' \<in> set (a # t). p r \<noteq> None \<longrightarrow> p r = p r' \<longrightarrow> key r = key r'"
      using IH unfolding unique_some_Cons by (metis set_ConsD)
  next
    assume r: "\<forall>r \<in> set (a # t). \<forall>r' \<in> set (a # t). p r \<noteq> None \<longrightarrow> p r = p r' \<longrightarrow> key r = key r'"
    then have "unique_some p t" unfolding IH by (meson list.set_intros(2))
    moreover have "p a \<noteq> None \<longrightarrow> p r \<noteq> p a" if "r \<in> set t" for r
      using r k [OF that] that by (metis list.set_intros)
    ultimately show "unique_some p (a # t)" by (simp add: unique_some_Cons)
  qed
qed

lemma update_where_absent: "(\<And>r. r \<in> set t \<Longrightarrow> \<not> P r) \<Longrightarrow> update_where P f t = t"
  by (simp add: update_where_def map_idI)

lemma rows_affected_0: "rows_affected P t = 0 \<longleftrightarrow> (\<forall>r \<in> set t. \<not> P r)"
  by (simp add: rows_affected_def filter_empty_conv)

lemma find_SomeD: "find P t = Some r \<Longrightarrow> r \<in> set t \<and> P r"
  by (auto simp: find_Some_iff)

lemma find_update_where:
  "(\<And>r. P r \<Longrightarrow> Q (f r) = Q r) \<Longrightarrow>
   find Q (update_where P f t) = map_option (\<lambda>r. if P r then f r else r) (find Q t)"
  by (induction t) (simp_all add: update_where_def)

end
