(* ===== verification/Users.thy ===== *)
theory Users
  imports Tables
begin

text \<open>
  \<open>iam-persistence/src/repository/user.rs\<close>: the user repository on table \<open>users\<close>, with the
  constraints of the migrations: unique \<open>id\<close>, \<open>email\<close>, \<open>lower(email)\<close>, \<open>username\<close> and
  \<open>wallet_address\<close>, the column widths, the enum \<open>user_role\<close>, and the trigger on
  \<open>blockchain_tx_signature\<close>.
\<close>

section \<open>Rows\<close>

definition row_user_type :: "string \<Rightarrow> user_type option" where
  "row_user_type s =
     (if s \<in> {''Prosumer'', ''0''} then Some Prosumer
      else if s \<in> {''Consumer'', ''1''} then Some user_type.Consumer
      else None)"

definition user_into_domain :: "user_row \<Rightarrow> user" where
  "user_into_domain r =
     \<lparr>u_id = ur_id r, u_username = ur_username r, u_email = ur_email r, u_role = ur_role r,
      u_first_name = ur_first_name r, u_last_name = ur_last_name r,
      u_wallet_address = ur_wallet_address r, u_is_active = True,
      u_blockchain_registered = ur_blockchain_registered r,
      u_user_type = Option.bind (ur_user_type r) row_user_type,
      u_latitude = ur_latitude r, u_longitude = ur_longitude r\<rparr>"

definition into_domain_with_hash :: "user_row \<Rightarrow> user_with_hash" where
  "into_domain_with_hash r = \<lparr>uh_user = user_into_domain r, uh_password_hash = ur_password_hash r\<rparr>"

definition user_roles :: "string list" where
  "user_roles = [''user'', ''admin'', ''prosumer'', ''consumer'', ''corporate'']"

definition user_fits :: "user_rec \<Rightarrow> bool" where
  "user_fits r \<longleftrightarrow>
     fits 50 (ur_username r) \<and> fits 255 (ur_email r) \<and> fits 255 (ur_password_hash r) \<and>
     fits_opt 88 (ur_wallet_address r) \<and> fits_opt 20 (ur_user_type r) \<and>
     fits_opt 100 (ur_first_name r) \<and> fits_opt 100 (ur_last_name r) \<and>
     fits_opt 128 (email_verification_token r) \<and> fits_opt 88 (user_account_pda r) \<and>
     fits_opt 88 (blockchain_tx_signature r) \<and> fits 20 (blockchain_status r)"

definition users_unique :: "env \<Rightarrow> user_rec list \<Rightarrow> bool" where
  "users_unique E t \<longleftrightarrow>
     unique_on ur_id t \<and> unique_on ur_email t \<and> unique_on (\<lambda>r. pg_lower E (ur_email r)) t \<and>
     unique_on ur_username t \<and> unique_some ur_wallet_address t"

definition write_users :: "env \<Rightarrow> user_rec list \<Rightarrow> unit act" where
  "write_users E t w =
     (if \<not> list_all user_fits t then (Inl value_too_long, w)
      else if \<not> users_unique E t then (Inl unique_violation, w)
      else (Inr (), w\<lparr>users := t\<rparr>))"

definition new_user_row :: "int \<Rightarrow> new_user \<Rightarrow> user_rec" where
  "new_user_row t nu =
     \<lparr>ur_id = nu_id nu, ur_username = nu_username nu, ur_email = nu_email nu,
      ur_password_hash = nu_password_hash nu, ur_role = nu_role nu,
      ur_first_name = nu_first_name nu, ur_last_name = nu_last_name nu,
      ur_wallet_address = None, ur_blockchain_registered = False, ur_user_type = None,
      ur_latitude = None, ur_longitude = None, ur_kdf_version = 1,
      is_active = False, email_verified = False, email_verified_at = None,
      email_verification_token = nu_verification_token nu,
      email_verification_sent_at = (case nu_verification_token nu of None \<Rightarrow> None | Some _ \<Rightarrow> Some t),
      email_verification_expires_at =
        (case nu_verification_token nu of None \<Rightarrow> None | Some _ \<Rightarrow> Some (t + 24 * 3600 * 1000)),
      user_account_pda = None, blockchain_tx_signature = None, blockchain_submitted_at = None,
      blockchain_confirmed_at = None, blockchain_status = ''pending'',
      encrypted_private_key = None, wallet_salt = None, encryption_iv = None\<rparr>"

section \<open>Queries\<close>

definition active_identity :: "string \<Rightarrow> user_rec \<Rightarrow> bool" where
  "active_identity x r \<longleftrightarrow> (ur_username r = x \<or> ur_email r = x) \<and> is_active r"

definition find_by_username_or_email :: "env \<Rightarrow> string \<Rightarrow> user_with_hash option act" where
  "find_by_username_or_email E x =
     db E (gets (\<lambda>w. map_option (into_domain_with_hash \<circ> user_row.truncate)
                       (find (active_identity x) (users w))))"

definition find_by_id :: "env \<Rightarrow> uuid \<Rightarrow> user option act" where
  "find_by_id E i =
     db E (gets (\<lambda>w. map_option (user_into_domain \<circ> user_row.truncate)
                       (find (\<lambda>r. ur_id r = i \<and> is_active r) (users w))))"

definition create :: "env \<Rightarrow> new_user \<Rightarrow> unit act" where
  "create E nu =
     db E (\<lambda>w. if nu_role nu \<notin> set user_roles
               then (Inl (Database (SqlxDatabase False ''invalid input value for enum user_role'')), w)
               else write_users E (users w @ [new_user_row (clock w) nu]) w)"

definition activate :: "int \<Rightarrow> user_rec \<Rightarrow> user_rec" where
  "activate t r = r\<lparr>is_active := True, email_verified := True, email_verified_at := Some t\<rparr>"

definition repo_verify_email :: "env \<Rightarrow> string \<Rightarrow> user option act" where
  "repo_verify_email E email =
     db E (\<lambda>w.
       andthen (write_users E (update_where (\<lambda>r. ur_email r = email) (activate (clock w)) (users w)))
       (gets (\<lambda>w1. map_option (user_into_domain \<circ> user_row.truncate)
                     (find (\<lambda>r. ur_email r = email) (users w1)))) w)"

definition set_wallet_address :: "env \<Rightarrow> uuid \<Rightarrow> string \<Rightarrow> unit act" where
  "set_wallet_address E i address =
     db E (\<lambda>w. write_users E
       (update_where (\<lambda>r. ur_id r = i) (\<lambda>r. r\<lparr>ur_wallet_address := Some address\<rparr>) (users w)) w)"

text \<open>A comparison with \<open>NULL\<close> is not true.\<close>

definition after :: "int option \<Rightarrow> int \<Rightarrow> bool" where
  "after v t \<longleftrightarrow> (case v of None \<Rightarrow> False | Some x \<Rightarrow> t < x)"

definition find_email_by_token :: "env \<Rightarrow> string \<Rightarrow> string option act" where
  "find_email_by_token E token =
     db E (gets (\<lambda>w. map_option ur_email
       (find (\<lambda>r. email_verification_token r = Some token \<and>
                  after (email_verification_expires_at r) (clock w)) (users w))))"

definition verification_state_of :: "int \<Rightarrow> user_rec \<Rightarrow> email_verification_state" where
  "verification_state_of t r =
     \<lparr>vs_user_id = ur_id r, vs_username = ur_username r, vs_email_verified = email_verified r,
      vs_verification_token =
        (if after (email_verification_expires_at r) t then email_verification_token r else None)\<rparr>"

text \<open>
  \<open>Debug for EmailVerificationState\<close>, with the quoting of strings by \<open>Debug for str\<close> as a parameter:
  it shows whether there is a token, and not which.
\<close>

definition debug_verification_state :: "env \<Rightarrow> (string \<Rightarrow> string) \<Rightarrow> email_verification_state \<Rightarrow> string" where
  "debug_verification_state E quoted v =
     ''EmailVerificationState { user_id: '' @ uuid_to_string E (vs_user_id v)
     @ '', username: '' @ quoted (vs_username v)
     @ '', email_verified: '' @ (if vs_email_verified v then ''true'' else ''false'')
     @ '', verification_token: ''
     @ (case vs_verification_token v of None \<Rightarrow> ''None'' | Some _ \<Rightarrow> ''Some('' @ quoted ''<redacted>'' @ '')'')
     @ '' }''"

lemma debug_redacts_token:
  "debug_verification_state E quoted (v\<lparr>vs_verification_token := Some a\<rparr>) =
   debug_verification_state E quoted (v\<lparr>vs_verification_token := Some b\<rparr>)"
  by (simp add: debug_verification_state_def)

definition find_verification_state_by_email ::
    "env \<Rightarrow> string \<Rightarrow> email_verification_state option act" where
  "find_verification_state_by_email E email =
     db E (gets (\<lambda>w. map_option (verification_state_of (clock w))
       (find (\<lambda>r. pg_lower E (ur_email r) = pg_lower E email) (users w))))"

definition set_verification_token :: "env \<Rightarrow> uuid \<Rightarrow> string \<Rightarrow> unit act" where
  "set_verification_token E i token =
     db E (\<lambda>w. write_users E
       (update_where (\<lambda>r. ur_id r = i)
          (\<lambda>r. r\<lparr>email_verification_token := Some token,
                 email_verification_sent_at := Some (clock w),
                 email_verification_expires_at := Some (clock w + 24 * 3600 * 1000)\<rparr>) (users w)) w)"

definition update_password :: "env \<Rightarrow> string \<Rightarrow> string \<Rightarrow> nat act" where
  "update_password E email password_hash =
     db E (\<lambda>w.
       let P = (\<lambda>r. pg_lower E (ur_email r) = pg_lower E email \<and> is_active r)
       in andthen
            (write_users E (update_where P (\<lambda>r. r\<lparr>ur_password_hash := password_hash\<rparr>) (users w)))
            (ok (rows_affected P (users w))) w)"

text \<open>The \<open>BEFORE UPDATE\<close> trigger \<open>update_blockchain_status_on_hash\<close>.\<close>

definition status_trigger :: "int \<Rightarrow> user_rec \<Rightarrow> user_rec \<Rightarrow> user_rec" where
  "status_trigger t old new =
     (if blockchain_tx_signature new \<noteq> None \<and> blockchain_tx_signature old = None
         \<and> blockchain_status new = ''pending''
      then new\<lparr>blockchain_status := ''submitted'', blockchain_submitted_at := Some t\<rparr>
      else new)"

definition onboard_row ::
    "int \<Rightarrow> string \<Rightarrow> f64 \<Rightarrow> f64 \<Rightarrow> string \<Rightarrow> string \<Rightarrow> user_rec \<Rightarrow> user_rec" where
  "onboard_row t user_type lat long pda signature r =
     status_trigger t r
       (r\<lparr>ur_blockchain_registered := True, ur_user_type := Some user_type,
          ur_latitude := Some lat, ur_longitude := Some long, user_account_pda := Some pda,
          blockchain_tx_signature := Some signature, blockchain_confirmed_at := Some t,
          blockchain_status := ''confirmed''\<rparr>)"

definition mark_user_onboarded ::
    "env \<Rightarrow> uuid \<Rightarrow> string \<Rightarrow> f64 \<Rightarrow> f64 \<Rightarrow> string \<Rightarrow> string \<Rightarrow> unit act" where
  "mark_user_onboarded E i user_type lat long pda signature =
     db E (\<lambda>w. write_users E
       (update_where (\<lambda>r. ur_id r = i) (onboard_row (clock w) user_type lat long pda signature)
          (users w)) w)"

definition repo_health_check :: "env \<Rightarrow> unit act" where
  "repo_health_check E = db E (ok ())"

section \<open>The table constraints hold in every state\<close>

definition users_ok :: "env \<Rightarrow> user_rec list \<Rightarrow> bool" where
  "users_ok E t \<longleftrightarrow> users_unique E t \<and> list_all user_fits t"

lemmas user_op_defs = find_by_username_or_email_def find_by_id_def create_def repo_verify_email_def
  set_wallet_address_def find_email_by_token_def find_verification_state_by_email_def
  set_verification_token_def update_password_def mark_user_onboarded_def repo_health_check_def

lemma write_users_run:
  "write_users E t w =
     (if list_all user_fits t \<and> users_unique E t then (Inr (), w\<lparr>users := t\<rparr>)
      else (Inl (if list_all user_fits t then unique_violation else value_too_long), w))"
  by (simp add: write_users_def)

lemma write_users_keeps_ok: "users_ok E (users w) \<Longrightarrow> users_ok E (users (snd (write_users E t w)))"
  by (simp add: write_users_run users_ok_def)

text \<open>
  A statement on the table either leaves it alone or replaces it by the table it computed; so a
  relation between tables holds across an operation when it holds for the computed table.
\<close>

locale users_order = timed_order R for R :: "world \<Rightarrow> world \<Rightarrow> bool"
begin

lemma stable_write:
  "(\<And>w. users_ok E (t w) \<Longrightarrow> R w (w\<lparr>users := t w\<rparr>)) \<Longrightarrow> stable R (\<lambda>w. write_users E (t w) w)"
  by (simp add: stable_def write_users_run users_ok_def refl)

lemma stable_reads:
  "stable R (find_by_username_or_email E x)" "stable R (find_by_id E i)"
  "stable R (find_email_by_token E token)" "stable R (find_verification_state_by_email E email)"
  "stable R (repo_health_check E)"
  unfolding user_op_defs by (intro stable_db stable_gets stable_ok)+

lemma stable_write_then:
  assumes "\<And>w. users_ok E (t w) \<Longrightarrow> R w (w\<lparr>users := t w\<rparr>)" and "\<And>w. stable R (k w)"
  shows "stable R (\<lambda>w. andthen (write_users E (t w)) (k w) w)"
  using assms by (auto simp: stable_def andthen_run write_users_run users_ok_def refl intro: trans)

end

interpretation constraints: users_order "\<lambda>w w'. users_ok E (users w) \<longrightarrow> users_ok E (users w')" for E
  by unfold_locales auto

lemma preserves_users_ok:
  "preserves (\<lambda>w. users_ok E (users w)) (set_wallet_address E i a)"
  "preserves (\<lambda>w. users_ok E (users w)) (set_verification_token E i token)"
  "preserves (\<lambda>w. users_ok E (users w)) (mark_user_onboarded E i ut lat long pda sig)"
  "preserves (\<lambda>w. users_ok E (users w)) (update_password E email h)"
  "preserves (\<lambda>w. users_ok E (users w)) (repo_verify_email E email)"
  "preserves (\<lambda>w. users_ok E (users w)) (create E nu)"
  unfolding user_op_defs preserves_def Let_def
  by (intro constraints.stable_db constraints.stable_write constraints.stable_write_then
        inv.stable_gets inv.stable_ok;
      simp add: stable_def write_users_run users_ok_def)+

section \<open>Accounts evolve; identities do not\<close>

definition ident :: "user_rec \<Rightarrow> uuid \<times> string \<times> string \<times> string" where
  "ident r = (ur_id r, ur_username r, ur_email r, ur_role r)"

text \<open>
  One account over time: id, name, email and role never change; activation, verification and
  on-chain registration are never taken back; an account is activated only with its email
  verified.
\<close>

definition account_step :: "user_rec \<Rightarrow> user_rec \<Rightarrow> bool" where
  "account_step r r' \<longleftrightarrow>
     ident r' = ident r \<and> (is_active r \<longrightarrow> is_active r') \<and> (email_verified r \<longrightarrow> email_verified r') \<and>
     (ur_blockchain_registered r \<longrightarrow> ur_blockchain_registered r') \<and>
     (is_active r' \<and> \<not> is_active r \<longrightarrow> email_verified r')"

text \<open>The whole table: old accounts evolve in place, new ones are inactive ordinary users.\<close>

definition fresh_account :: "user_rec \<Rightarrow> bool" where
  "fresh_account r \<longleftrightarrow> ur_role r = ''user'' \<and> (is_active r \<longrightarrow> email_verified r)"

definition users_evolve :: "user_rec list \<Rightarrow> user_rec list \<Rightarrow> bool" where
  "users_evolve t t' \<longleftrightarrow>
     (\<exists>t1 t2. t' = t1 @ t2 \<and> list_all2 account_step t t1 \<and> list_all fresh_account t2)"

lemma account_step_refl [simp]: "account_step r r"
  by (simp add: account_step_def)

lemma account_step_trans: "account_step a b \<Longrightarrow> account_step b c \<Longrightarrow> account_step a c"
  by (auto simp: account_step_def)

lemma fresh_account_step: "fresh_account r \<Longrightarrow> account_step r r' \<Longrightarrow> fresh_account r'"
  by (auto simp: fresh_account_def account_step_def ident_def)

lemma users_evolve_refl [simp]: "users_evolve t t"
  unfolding users_evolve_def by (rule exI [of _ t]) (simp add: list_all2_refl)

lemma users_evolve_trans:
  assumes "users_evolve a b" "users_evolve b c"
  shows "users_evolve a c"
proof -
  obtain b1 b2 where b: "b = b1 @ b2" "list_all2 account_step a b1" "list_all fresh_account b2"
    using assms(1) by (auto simp: users_evolve_def)
  obtain c1 c2 where c: "c = c1 @ c2" "list_all2 account_step b c1" "list_all fresh_account c2"
    using assms(2) by (auto simp: users_evolve_def)
  obtain d1 d2 where d: "c1 = d1 @ d2" "list_all2 account_step b1 d1" "list_all2 account_step b2 d2"
    using c(2) b(1) by (auto simp: list_all2_append1)
  have "list_all2 account_step a d1"
    by (rule list_all2_trans [OF _ b(2) d(2)]) (rule account_step_trans)
  moreover have "list_all fresh_account d2"
    using b(3) d(3) by (auto simp: list_all2_conv_all_nth list_all_length intro: fresh_account_step)
  ultimately show ?thesis
    using c(1,3) d(1) unfolding users_evolve_def by (intro exI [of _ d1] exI [of _ "d2 @ c2"]) simp
qed

interpretation evolve: users_order "\<lambda>w w'. users_evolve (users w) (users w')"
  by unfold_locales (auto intro: users_evolve_trans)

lemma users_evolve_update:
  "(\<And>r. P r \<Longrightarrow> account_step r (f r)) \<Longrightarrow> users_evolve t (update_where P f t)"
  unfolding users_evolve_def
  by (intro exI [of _ "update_where P f t"] exI [of _ "[]"])
    (simp add: update_where_def list_all2_conv_all_nth)

lemma users_evolve_insert: "fresh_account r \<Longrightarrow> users_evolve t (t @ [r])"
  unfolding users_evolve_def by (intro exI [of _ t] exI [of _ "[r]"]) (simp add: list_all2_refl)

definition evolves :: "(world, 'e, 'a) comp \<Rightarrow> bool" where
  "evolves m \<longleftrightarrow> stable (\<lambda>w w'. users_evolve (users w) (users w')) m"

lemmas evolves_intros = evolve.stable_intros [folded evolves_def]
  evolve.timed_intros [folded evolves_def] evolve.stable_reads [folded evolves_def]

lemma evolves_updates:
  "evolves (set_wallet_address E i a)" "evolves (set_verification_token E i token)"
  "evolves (mark_user_onboarded E i ut lat long pda sig)"
  unfolding set_wallet_address_def set_verification_token_def mark_user_onboarded_def evolves_def
  by (intro evolve.stable_db evolve.stable_write;
      simp; intro users_evolve_update;
      simp add: account_step_def ident_def onboard_row_def status_trigger_def)+

lemma evolves_update_password: "evolves (update_password E email h)"
  unfolding update_password_def evolves_def Let_def
  by (intro evolve.stable_db evolve.stable_write_then evolve.stable_ok; simp)
    (intro users_evolve_update; simp add: account_step_def ident_def)

lemma evolves_repo_verify_email: "evolves (repo_verify_email E email)"
  unfolding repo_verify_email_def evolves_def
  by (intro evolve.stable_db evolve.stable_write_then evolve.stable_gets; simp)
    (intro users_evolve_update; simp add: account_step_def ident_def activate_def)

lemma evolves_create: "nu_role nu = ''user'' \<Longrightarrow> evolves (create E nu)"
  unfolding create_def evolves_def
  by (intro evolve.stable_db)
    (simp add: stable_def write_users_run users_evolve_insert fresh_account_def new_user_row_def)

lemmas evolves_ops = evolves_updates evolves_update_password evolves_repo_verify_email evolves_create

end
