(* ===== verification/Wallets.thy ===== *)
theory Wallets
  imports Users
begin

text \<open>
  \<open>iam-persistence/src/repository/wallet.rs\<close>: the wallet repository on table \<open>user_wallets\<close>,
  with its constraints: unique \<open>id\<close> and (globally) \<open>wallet_address\<close>, at most one primary wallet
  per user (a partial unique index), a foreign key to \<open>users\<close>, column widths; and the database
  transactions two of its operations use.
\<close>

section \<open>Rows and constraints\<close>

definition wallet_into_domain :: "wallet_row \<Rightarrow> user_wallet" where
  "wallet_into_domain r =
     \<lparr>uw_id = w_id r, uw_user_id = w_user_id r, uw_wallet_address = w_wallet_address r,
      uw_label = w_label r, uw_is_primary = w_is_primary r, uw_verified = w_verified r,
      uw_blockchain_registered = w_blockchain_registered r,
      uw_user_account_pda = w_user_account_pda r, uw_shard_id = map_option ucast (w_shard_id r),
      uw_blockchain_tx_signature = w_blockchain_tx_signature r, uw_created_at = w_created_at r\<rparr>"

definition wallet_fits :: "wallet_row \<Rightarrow> bool" where
  "wallet_fits r \<longleftrightarrow>
     fits 64 (w_wallet_address r) \<and> fits_opt 50 (w_label r) \<and> fits_opt 88 (w_user_account_pda r) \<and>
     fits_opt 128 (w_blockchain_tx_signature r)"

definition primary_owner :: "wallet_row \<Rightarrow> uuid option" where
  "primary_owner r = (if w_is_primary r then Some (w_user_id r) else None)"

definition wallets_unique :: "wallet_row list \<Rightarrow> bool" where
  "wallets_unique t \<longleftrightarrow> unique_on w_id t \<and> unique_on w_wallet_address t \<and> unique_some primary_owner t"

definition owners_exist :: "user_rec list \<Rightarrow> wallet_row list \<Rightarrow> bool" where
  "owners_exist us t \<longleftrightarrow> list_all (\<lambda>r. w_user_id r \<in> ur_id ` set us) t"

definition foreign_key_violation :: api_error where
  "foreign_key_violation =
     Database (SqlxDatabase False ''insert or update on table violates foreign key constraint'')"

definition write_wallets :: "wallet_row list \<Rightarrow> unit act" where
  "write_wallets t w =
     (if \<not> list_all wallet_fits t then (Inl value_too_long, w)
      else if \<not> wallets_unique t then (Inl unique_violation, w)
      else if \<not> owners_exist (users w) t then (Inl foreign_key_violation, w)
      else (Inr (), w\<lparr>wallets := t\<rparr>))"

section \<open>Transactions\<close>

definition rollback :: "world \<Rightarrow> world \<Rightarrow> world" where
  "rollback w0 w = w\<lparr>users := users w0, wallets := wallets w0, api_keys := api_keys w0, outbox := outbox w0\<rparr>"

text \<open>
  \<open>BEGIN\<close>; the statements; \<open>COMMIT\<close>.  A failing statement drops the transaction.  When the
  reply to \<open>COMMIT\<close> is lost the changes stay although the caller sees an error.
\<close>

definition transaction :: "env \<Rightarrow> 'a act \<Rightarrow> 'a act" where
  "transaction E body w =
     (case db E (ok ()) w of
        (Inl e, w1) \<Rightarrow> (Inl e, w1)
      | (Inr _, w1) \<Rightarrow>
          (case body w1 of
             (Inl e, w2) \<Rightarrow> (Inl e, rollback w1 w2)
           | (Inr x, w2) \<Rightarrow>
               (case fault E (io_ix w2) of
                  Lost_request s \<Rightarrow>
                    (Inl (Database (SqlxOther s)),
                     rollback w1 (w2\<lparr>io_ix := Suc (io_ix w2), clock := clock w2 + int (latency E (io_ix w2))\<rparr>))
                | _ \<Rightarrow> andthen (db E (ok ())) (ok x) w2)))"

section \<open>Queries\<close>

definition order_wallets :: "wallet_row list \<Rightarrow> wallet_row list" where
  "order_wallets t = sort_key (\<lambda>r. if w_is_primary r then 0 else 1 :: nat) (sort_key w_created_at t)"

definition list_by_user_id :: "env \<Rightarrow> uuid \<Rightarrow> user_wallet list act" where
  "list_by_user_id E u =
     db E (gets (\<lambda>w. map wallet_into_domain (order_wallets (filter (\<lambda>r. w_user_id r = u) (wallets w)))))"

definition is_wallet :: "uuid \<Rightarrow> uuid \<Rightarrow> wallet_row \<Rightarrow> bool" where
  "is_wallet i u r \<longleftrightarrow> w_id r = i \<and> w_user_id r = u"

definition find_by_id_and_user_id :: "env \<Rightarrow> uuid \<Rightarrow> uuid \<Rightarrow> user_wallet option act" where
  "find_by_id_and_user_id E i u =
     db E (gets (\<lambda>w. map_option wallet_into_domain (find (is_wallet i u) (wallets w))))"

definition demote_all :: "uuid \<Rightarrow> wallet_row list \<Rightarrow> wallet_row list" where
  "demote_all u t = update_where (\<lambda>r. w_user_id r = u) (\<lambda>r. r\<lparr>w_is_primary := False\<rparr>) t"

definition promote :: "uuid \<Rightarrow> uuid \<Rightarrow> wallet_row list \<Rightarrow> wallet_row list" where
  "promote i u t = update_where (is_wallet i u) (\<lambda>r. r\<lparr>w_is_primary := True\<rparr>) t"

definition clear_primary :: "env \<Rightarrow> uuid \<Rightarrow> unit act" where
  "clear_primary E u = db E (\<lambda>w. write_wallets (demote_all u (wallets w)) w)"

definition set_primary :: "env \<Rightarrow> uuid \<Rightarrow> uuid \<Rightarrow> user_wallet option act" where
  "set_primary E u i =
     transaction E
       (andthen (db E (\<lambda>w. write_wallets (demote_all u (wallets w)) w))
        (db E (\<lambda>w. andthen (write_wallets (promote i u (wallets w)))
                 (gets (\<lambda>w1. map_option wallet_into_domain (find (is_wallet i u) (wallets w1)))) w)))"

definition delete_if_not_primary :: "env \<Rightarrow> uuid \<Rightarrow> uuid \<Rightarrow> bool act" where
  "delete_if_not_primary E u i =
     db E (\<lambda>w. let P = (\<lambda>r. is_wallet i u r \<and> \<not> w_is_primary r)
               in (Inr (0 < rows_affected P (wallets w)), w\<lparr>wallets := filter (\<lambda>r. \<not> P r) (wallets w)\<rparr>))"

definition wallet_exists :: "env \<Rightarrow> uuid \<Rightarrow> uuid \<Rightarrow> bool act" where
  "wallet_exists E u i = db E (gets (\<lambda>w. list_ex (is_wallet i u) (wallets w)))"

definition has_any_wallet :: "env \<Rightarrow> uuid \<Rightarrow> bool act" where
  "has_any_wallet E u = db E (gets (\<lambda>w. list_ex (\<lambda>r. w_user_id r = u) (wallets w)))"

definition new_wallet_row :: "int \<Rightarrow> uuid \<Rightarrow> uuid \<Rightarrow> string \<Rightarrow> string option \<Rightarrow> bool \<Rightarrow> wallet_row" where
  "new_wallet_row t i u address label is_primary =
     \<lparr>w_id = i, w_user_id = u, w_wallet_address = address, w_label = label, w_is_primary = is_primary,
      w_verified = False, w_blockchain_registered = False, w_user_account_pda = None,
      w_shard_id = None, w_blockchain_tx_signature = None, w_created_at = t\<rparr>"

definition insert_wallet_row :: "uuid \<Rightarrow> uuid \<Rightarrow> string \<Rightarrow> string option \<Rightarrow> bool \<Rightarrow> wallet_row act" where
  "insert_wallet_row i u address label is_primary w =
     (let r = new_wallet_row (clock w) i u address label is_primary
      in andthen (write_wallets (wallets w @ [r])) (ok r) w)"

definition wallet_conflict :: "string \<Rightarrow> api_error \<Rightarrow> api_error" where
  "wallet_conflict address e =
     (case e of
        Database (SqlxDatabase True _) \<Rightarrow>
          api_error.Conflict (''Wallet address '' @ address @ '' is already linked'')
      | _ \<Rightarrow> e)"

definition wallet_insert :: "env \<Rightarrow> uuid \<Rightarrow> string \<Rightarrow> string option \<Rightarrow> bool \<Rightarrow> user_wallet act" where
  "wallet_insert E u address label is_primary =
     bnd (new_v4 E) (\<lambda>i.
     bnd (map_err (wallet_conflict address) (db E (insert_wallet_row i u address label is_primary))) (\<lambda>r.
     ok (wallet_into_domain r)))"

definition find_primary_address :: "env \<Rightarrow> uuid \<Rightarrow> string option act" where
  "find_primary_address E u =
     db E (gets (\<lambda>w. map_option w_wallet_address (find (\<lambda>r. w_user_id r = u \<and> w_is_primary r) (wallets w))))"

definition mark_registered :: "env \<Rightarrow> uuid \<Rightarrow> string \<Rightarrow> string \<Rightarrow> unit act" where
  "mark_registered E u address signature =
     db E (\<lambda>w. write_wallets
       (update_where (\<lambda>r. w_user_id r = u \<and> w_wallet_address r = address)
          (\<lambda>r. r\<lparr>w_blockchain_registered := True, w_blockchain_tx_signature := Some signature\<rparr>)
          (wallets w)) w)"

definition persist_custodial_wallet ::
    "env \<Rightarrow> uuid \<Rightarrow> string \<Rightarrow> string option \<Rightarrow> string \<Rightarrow> string \<Rightarrow> string \<Rightarrow> 16 word \<Rightarrow> user_wallet act" where
  "persist_custodial_wallet E u address label key salt iv kdf_version =
     transaction E
       (andthen (db E (\<lambda>w. write_wallets (demote_all u (wallets w)) w))
       (bnd (new_v4 E) (\<lambda>i.
        bnd (db E (insert_wallet_row i u address label True)) (\<lambda>r.
        andthen (db E (\<lambda>w. write_users E
          (update_where (\<lambda>x. ur_id x = u)
             (\<lambda>x. x\<lparr>encrypted_private_key := Some key, wallet_salt := Some salt,
                    encryption_iv := Some iv, ur_kdf_version := kdf_version,
                    ur_wallet_address := Some address\<rparr>) (users w)) w))
        (ok (wallet_into_domain r))))))"

lemmas wallet_op_defs = list_by_user_id_def find_by_id_and_user_id_def clear_primary_def set_primary_def
  delete_if_not_primary_def wallet_exists_def has_any_wallet_def wallet_insert_def
  find_primary_address_def mark_registered_def persist_custodial_wallet_def

section \<open>Stability across transactions\<close>

text \<open>
  A relation on worlds that looks at the tables: a rolled-back transaction is invisible to it.
\<close>

locale table_order = users_order R for R :: "world \<Rightarrow> world \<Rightarrow> bool" +
  assumes rolls_back: "R w (rollback w w')"
begin

lemma stable_transaction:
  assumes "stable R body"
  shows "stable R (transaction E body)"
  unfolding stable_def
proof
  fix w
  let ?b = "db E (ok ()) :: unit act"
  have "stable R ?b" by (intro stable_db stable_ok)
  then have b: "R w (snd (?b w))" for w by (simp add: stable_def)
  obtain r1 w1 where 1: "?b w = (r1, w1)" by (cases "?b w")
  obtain r2 w2 where 2: "body w1 = (r2, w2)" by (cases "body w1")
  have w1: "R w w1" using b [of w] 1 by simp
  have "R w1 (snd (body w1))" using assms by (simp add: stable_def)
  with 2 have w2: "R w w2" using trans [OF w1] by simp
  have c0: "R w2 (snd (andthen ?b (ok x) w2))" for x :: 'b
    using b [of w2] by (simp add: andthen_run ok_run split: sum.splits)
  have c: "R w (snd (andthen ?b (ok x) w2))" for x :: 'b
    by (rule trans [OF w2 c0])
  have rb: "R w (rollback w1 w')" for w'
    by (rule trans [OF w1 rolls_back])
  show "R w (snd (transaction E body w))"
    by (simp add: transaction_def 1 2 w1 rb c split: sum.splits outcome.splits)
qed

lemma stable_wallet_reads:
  "stable R (list_by_user_id E u)" "stable R (find_by_id_and_user_id E i u)"
  "stable R (wallet_exists E u i)" "stable R (has_any_wallet E u)" "stable R (find_primary_address E u)"
  unfolding wallet_op_defs by (intro stable_db stable_gets)+

end

interpretation evolve: table_order "\<lambda>w w'. users_evolve (users w) (users w')"
  by unfold_locales (simp add: rollback_def)

lemma write_wallets_users [simp]: "users (snd (write_wallets t w)) = users w"
  by (simp add: write_wallets_def)

lemma evolves_write_wallets: "evolves (\<lambda>w. write_wallets (t w) w)"
  by (simp add: evolves_def stable_def)

lemma evolves_write_wallets_then:
  assumes "\<And>w. evolves (k w)"
  shows "evolves (\<lambda>w. andthen (write_wallets (t w)) (k w) w)"
proof -
  have "users_evolve (users w) (users (snd (k w' w)))" for w w'
    using assms by (simp add: evolves_def stable_def)
  from this [of "snd (write_wallets (t w) w)" for w] show ?thesis
    by (simp add: evolves_def stable_def andthen_run split: sum.splits)
qed

lemma evolves_insert_wallet_row: "evolves (insert_wallet_row i u a l p)"
  unfolding insert_wallet_row_def Let_def by (intro evolves_write_wallets_then evolves_intros)

lemma evolves_custodial_key:
  "evolves (\<lambda>w. write_users E
     (update_where (\<lambda>x. ur_id x = u)
        (\<lambda>x. x\<lparr>encrypted_private_key := k, wallet_salt := s, encryption_iv := iv, ur_kdf_version := v,
               ur_wallet_address := a\<rparr>) (users w)) w)"
  unfolding evolves_def
  by (intro evolve.stable_write) (simp, intro users_evolve_update, simp add: account_step_def ident_def)

lemmas evolves_tx = evolve.stable_transaction [folded evolves_def]

lemma evolves_delete: "evolves (delete_if_not_primary E u i)"
  by (simp add: delete_if_not_primary_def evolves_def stable_def db_def io_def Let_def
      split: outcome.splits)

lemma evolves_wallet_ops:
  "evolves (clear_primary E u)" "evolves (set_primary E u i)" "evolves (delete_if_not_primary E u i)"
  "evolves (wallet_insert E u a l p)" "evolves (mark_registered E u a sig)"
  "evolves (persist_custodial_wallet E u a l k s iv v)"
  unfolding clear_primary_def set_primary_def wallet_insert_def mark_registered_def
    persist_custodial_wallet_def
  by (intro evolves_intros evolves_tx evolves_write_wallets evolves_write_wallets_then
        evolves_insert_wallet_row evolves_custodial_key evolves_delete)+

lemmas evolves_wallet_reads = evolve.stable_wallet_reads [folded evolves_def]

section \<open>The constraints hold in every state\<close>

definition wallets_ok :: "user_rec list \<Rightarrow> wallet_row list \<Rightarrow> bool" where
  "wallets_ok us t \<longleftrightarrow> list_all wallet_fits t \<and> wallets_unique t \<and> owners_exist us t"

definition db_ok :: "env \<Rightarrow> world \<Rightarrow> bool" where
  "db_ok E w \<longleftrightarrow> users_ok E (users w) \<and> wallets_ok (users w) (wallets w)"

lemma write_wallets_run:
  "write_wallets t w =
     (if wallets_ok (users w) t then (Inr (), w\<lparr>wallets := t\<rparr>)
      else (Inl (if \<not> list_all wallet_fits t then value_too_long
                 else if \<not> wallets_unique t then unique_violation else foreign_key_violation), w))"
  by (simp add: write_wallets_def wallets_ok_def)

interpretation dbinv: table_order "\<lambda>w w'. db_ok E w \<longrightarrow> db_ok E w'" for E
  by unfold_locales (auto simp: db_ok_def rollback_def)

lemmas preserves_tx = dbinv.stable_transaction [folded preserves_def]

lemma untimed_db_ok: "untimed (db_ok E)"
  by (simp add: untimed_def db_ok_def)

lemma db_ok_wallets: "db_ok E w \<Longrightarrow> wallets_ok (users w) t \<Longrightarrow> db_ok E (w\<lparr>wallets := t\<rparr>)"
  by (simp add: db_ok_def)

lemma db_ok_users:
  "db_ok E w \<Longrightarrow> users_ok E t \<Longrightarrow> ur_id ` set (users w) \<subseteq> ur_id ` set t \<Longrightarrow> db_ok E (w\<lparr>users := t\<rparr>)"
  by (auto simp: db_ok_def wallets_ok_def owners_exist_def list_all_iff)

lemma preserves_db_write_wallets: "preserves (db_ok E) (\<lambda>w. write_wallets (t w) w)"
  by (rule preservesI) (simp add: write_wallets_run db_ok_wallets)

lemma preserves_db_write_wallets_then:
  "(\<And>w. preserves (db_ok E) (k w)) \<Longrightarrow> preserves (db_ok E) (\<lambda>w. andthen (write_wallets (t w)) (k w) w)"
  by (rule preservesI) (simp add: andthen_run write_wallets_run db_ok_wallets preservesD)

lemma preserves_db_write_users:
  "(\<And>w. ur_id ` set (users w) \<subseteq> ur_id ` set (t w)) \<Longrightarrow>
   preserves (db_ok E) (\<lambda>w. write_users E (t w) w)"
  unfolding preserves_def
  by (rule dbinv.stable_write) (simp add: db_ok_users)

lemma preserves_db_write_users_then:
  "(\<And>w. ur_id ` set (users w) \<subseteq> ur_id ` set (t w)) \<Longrightarrow> (\<And>w. preserves (db_ok E) (k w)) \<Longrightarrow>
   preserves (db_ok E) (\<lambda>w. andthen (write_users E (t w)) (k w) w)"
  unfolding preserves_def
  by (rule dbinv.stable_write_then) (simp_all add: db_ok_users)

lemma ids_update: "(\<And>r. ur_id (f r) = ur_id r) \<Longrightarrow> ur_id ` set t \<subseteq> ur_id ` set (update_where P f t)"
  using map_update_where [of P ur_id f t] by (metis list.set_map order_refl)

lemma wallets_ok_filter: "wallets_ok us t \<Longrightarrow> wallets_ok us (filter P t)"
  by (auto simp: wallets_ok_def wallets_unique_def owners_exist_def list_all_iff
      intro: unique_on_filter unique_some_filter)

lemma preserves_db_reads:
  "preserves (db_ok E) (find_by_username_or_email E' x)" "preserves (db_ok E) (find_by_id E' i)"
  "preserves (db_ok E) (find_email_by_token E' token)"
  "preserves (db_ok E) (find_verification_state_by_email E' email)"
  "preserves (db_ok E) (repo_health_check E')"
  "preserves (db_ok E) (list_by_user_id E' u)" "preserves (db_ok E) (find_by_id_and_user_id E' i u)"
  "preserves (db_ok E) (wallet_exists E' u i)" "preserves (db_ok E) (has_any_wallet E' u)"
  "preserves (db_ok E) (find_primary_address E' u)"
  unfolding user_op_defs wallet_op_defs by (intro preserves_timed preserves_intros untimed_db_ok)+

lemma preserves_db_users:
  "preserves (db_ok E) (set_wallet_address E i a)"
  "preserves (db_ok E) (set_verification_token E i token)"
  "preserves (db_ok E) (mark_user_onboarded E i ut lat long pda sig)"
  "preserves (db_ok E) (update_password E email h)"
  "preserves (db_ok E) (repo_verify_email E email)"
  unfolding set_wallet_address_def set_verification_token_def mark_user_onboarded_def
    update_password_def repo_verify_email_def Let_def
  by (intro preserves_timed preserves_intros untimed_db_ok preserves_db_write_users
        preserves_db_write_users_then ids_update;
      simp add: onboard_row_def status_trigger_def activate_def)+

lemma preserves_db_create: "preserves (db_ok E) (create E nu)"
proof -
  have "preserves (db_ok E) (\<lambda>w. write_users E (users w @ [new_user_row (clock w) nu]) w)"
    by (rule preserves_db_write_users) auto
  then show ?thesis
    unfolding create_def
    by (intro preserves_timed untimed_db_ok) (auto simp: preserves_def stable_def)
qed

lemma preserves_db_insert_row: "preserves (db_ok E) (insert_wallet_row i u a l p)"
  unfolding insert_wallet_row_def Let_def by (intro preserves_db_write_wallets_then preserves_intros)

lemma preserves_db_delete: "preserves (db_ok E) (delete_if_not_primary E u i)"
  unfolding delete_if_not_primary_def Let_def
  by (intro preserves_timed untimed_db_ok preservesI)
    (simp add: db_ok_wallets wallets_ok_filter db_ok_def)

lemma preserves_db_wallets:
  "preserves (db_ok E) (clear_primary E u)" "preserves (db_ok E) (set_primary E u i)"
  "preserves (db_ok E) (wallet_insert E u a l p)" "preserves (db_ok E) (mark_registered E u a sig)"
  "preserves (db_ok E) (persist_custodial_wallet E u a l k s iv v)"
  unfolding clear_primary_def set_primary_def wallet_insert_def mark_registered_def
    persist_custodial_wallet_def
  by (intro preserves_intros preserves_timed untimed_db_ok preserves_tx preserves_db_write_wallets
      preserves_db_write_wallets_then preserves_db_insert_row preserves_db_write_users ids_update; simp)+

lemmas preserves_db_ops = preserves_db_reads preserves_db_users preserves_db_create
  preserves_db_delete preserves_db_wallets

section \<open>What the operations compute\<close>

lemma wallets_ok_update:
  assumes "wallets_ok us t"
    and "\<And>r. P r \<Longrightarrow> w_id (f r) = w_id r \<and> w_wallet_address (f r) = w_wallet_address r \<and> w_user_id (f r) = w_user_id r"
    and "\<And>r. P r \<Longrightarrow> wallet_fits r \<Longrightarrow> wallet_fits (f r)"
    and "unique_some primary_owner (update_where P f t)"
  shows "wallets_ok us (update_where P f t)"
  using assms
  by (simp add: wallets_ok_def wallets_unique_def owners_exist_def unique_on_update
      list_all_update_where)

lemma demote_all_primary:
  assumes "r \<in> set (demote_all u t)" "primary_owner r \<noteq> None"
  shows "r \<in> set t \<and> primary_owner r \<noteq> Some u"
proof -
  obtain x where x: "x \<in> set t"
    and r: "if w_user_id x = u then r = x\<lparr>w_is_primary := False\<rparr> else r = x"
    using assms(1) unfolding demote_all_def in_update_where by blast
  have "w_user_id x \<noteq> u"
    using assms(2) r by (auto simp: primary_owner_def)
  with x r show ?thesis by (simp add: primary_owner_def)
qed

lemma demote_all_unique: "wallets_unique t \<Longrightarrow> unique_on w_id (demote_all u t)"
  by (simp add: wallets_unique_def demote_all_def unique_on_update)

lemma demote_all_ok: "wallets_ok us t \<Longrightarrow> wallets_ok us (demote_all u t)"
proof -
  assume ok: "wallets_ok us t"
  then have u: "wallets_unique t" by (simp add: wallets_ok_def)
  have "unique_some primary_owner (demote_all u t)"
    unfolding unique_some_iff [OF demote_all_unique [OF u]]
  proof (intro ballI impI)
    fix r r'
    assume r: "r \<in> set (demote_all u t)" "r' \<in> set (demote_all u t)" "primary_owner r \<noteq> None"
      "primary_owner r = primary_owner r'"
    have "r \<in> set t" "r' \<in> set t"
      using demote_all_primary [OF r(1)] demote_all_primary [OF r(2)] r(3,4) by simp_all
    then show "w_id r = w_id r'"
      using u r(3,4) unique_someD [of primary_owner t r r'] by (auto simp: wallets_unique_def)
  qed
  with ok show ?thesis
    unfolding demote_all_def by (intro wallets_ok_update) (simp_all add: wallet_fits_def)
qed

lemma promote_ok: "wallets_ok us t \<Longrightarrow> wallets_ok us (promote i u (demote_all u t))"
proof -
  assume ok: "wallets_ok us t"
  let ?d = "demote_all u t" let ?t = "promote i u ?d"
  have d: "wallets_ok us ?d" using ok by (rule demote_all_ok)
  then have u: "unique_on w_id ?d" "unique_some primary_owner ?d"
    by (simp_all add: wallets_ok_def wallets_unique_def)
  have k: "unique_on w_id ?t"
    using u by (simp add: promote_def unique_on_update)
  have new: "w_id x = i \<and> primary_owner x = Some u \<or> x \<in> set ?d \<and> primary_owner x \<noteq> Some u"
    if x: "x \<in> set ?t" "primary_owner x \<noteq> None" for x
  proof (cases "x \<in> set ?d")
    case True
    then show ?thesis using demote_all_primary [OF True x(2)] by simp
  next
    case False
    then show ?thesis using x(1)
      by (auto simp: promote_def in_update_where is_wallet_def primary_owner_def split: if_splits)
  qed
  have "unique_some primary_owner ?t"
    unfolding unique_some_iff [OF k]
  proof (intro ballI impI)
    fix r r'
    assume r: "r \<in> set ?t" "r' \<in> set ?t" "primary_owner r \<noteq> None" "primary_owner r = primary_owner r'"
    show "w_id r = w_id r'"
    proof (cases "primary_owner r = Some u")
      case True
      with new [of r] new [of r'] r show ?thesis by auto
    next
      case False
      with new [of r] new [of r'] r have "r \<in> set ?d" "r' \<in> set ?d" by auto
      with u(2) r(3,4) show ?thesis unfolding unique_some_iff [OF u(1)] by blast
    qed
  qed
  with d show ?thesis
    unfolding promote_def by (intro wallets_ok_update) (simp_all add: wallet_fits_def)
qed

text \<open>\<open>set_primary\<close> without faults: the whole effect and the result, found or not.\<close>

lemma set_primary_run:
  assumes "reliable E" "db_ok E w"
  shows "\<exists>w'. set_primary E u i w =
      (Inr (map_option wallet_into_domain (find (is_wallet i u) (promote i u (demote_all u (wallets w))))), w')
    \<and> wallets w' = promote i u (demote_all u (wallets w)) \<and> users w' = users w"
proof -
  have "wallets_ok (users w) (wallets w)" using assms(2) by (simp add: db_ok_def)
  then have "wallets_ok (users w) (demote_all u (wallets w))"
    "wallets_ok (users w) (promote i u (demote_all u (wallets w)))"
    by (simp_all add: demote_all_ok promote_ok)
  with assms(1) show ?thesis
    by (simp add: set_primary_def transaction_def db_def comp_simps write_wallets_run
        reliable_fault)
qed

end
