(* ===== verification/ApiKeys.thy ===== *)
theory ApiKeys
  imports Tables
begin

text \<open>
  \<open>iam-persistence/src/repository/api_key.rs\<close>: the API-key repository.  The table also has a
  column \<open>expires_at\<close>, which no query reads.
\<close>

definition api_key_into_domain :: "api_key_row \<Rightarrow> api_key" where
  "api_key_into_domain r =
     \<lparr>ak_id = kr_id r, ak_key_hash = kr_key_hash r, ak_name = kr_name r, ak_role = kr_role r,
      ak_permissions = (case kr_permissions r of None \<Rightarrow> [] | Some ps \<Rightarrow> ps),
      ak_is_active = (case kr_is_active r of None \<Rightarrow> True | Some b \<Rightarrow> b),
      ak_created_at = (case kr_created_at r of None \<Rightarrow> 0 | Some t \<Rightarrow> t),
      ak_last_used_at = kr_last_used_at r\<rparr>"

definition usable_key :: "string \<Rightarrow> api_key_row \<Rightarrow> bool" where
  "usable_key h r \<longleftrightarrow> kr_key_hash r = h \<and> (kr_is_active r = Some True \<or> kr_is_active r = None)"

definition find_by_hash :: "env \<Rightarrow> string \<Rightarrow> api_key option act" where
  "find_by_hash E h =
     db E (gets (\<lambda>w. map_option api_key_into_domain (find (usable_key h) (api_keys w))))"

definition update_last_used :: "env \<Rightarrow> uuid \<Rightarrow> unit act" where
  "update_last_used E i =
     db E (modify (\<lambda>w. w\<lparr>api_keys :=
       update_where (\<lambda>r. kr_id r = i) (\<lambda>r. r\<lparr>kr_last_used_at := Some (clock w)\<rparr>) (api_keys w)\<rparr>))"

lemma keeps_api_key_ops:
  assumes f: "untimed f" "\<And>w s. f (w\<lparr>api_keys := s\<rparr>) = f w"
  shows "keeps f (find_by_hash E h)" "keeps f (update_last_used E i)"
  unfolding find_by_hash_def update_last_used_def
  by (intro keeps_intros keeps_timed f keepsI [of _ "modify _"]; simp add: modify_run f)+

text \<open>A key found is active: the domain value never carries \<open>is_active = false\<close>.\<close>

lemma find_by_hash_active:
  "fst (find_by_hash E h w) = Inr (Some k) \<Longrightarrow> ak_is_active k \<and> ak_key_hash k = h \<and>
     (\<exists>r \<in> set (api_keys w). usable_key h r \<and> k = api_key_into_domain r)"
  by (auto simp: find_by_hash_def db_def io_def Let_def gets_run usable_key_def
      api_key_into_domain_def split: outcome.splits dest!: find_SomeD)

end
