(* ===== verification/Password.thy ===== *)
theory Password
  imports Samples "HOL-Library.Multiset"
begin

text \<open>
  \<open>iam-logic/src/password.rs\<close>: the password policy, hashing and verification (the hash functions
  themselves are parameters), and the generator of temporary passwords.
\<close>

section \<open>Policy\<close>

definition special_chars :: string where
  "special_chars = ''!@#$%^&*()_+-=[]{}|;:,.<>?''"

fun join :: "string \<Rightarrow> string list \<Rightarrow> string" where
  "join sep [] = []"
| "join sep [x] = x"
| "join sep (x # y # zs) = x @ sep @ join sep (y # zs)"

definition strength_checks :: "string \<Rightarrow> (bool \<times> string) list" where
  "strength_checks p =
     [(list_ex is_ascii_lowercase p, ''at least one lowercase letter''),
      (list_ex is_ascii_uppercase p, ''at least one uppercase letter''),
      (list_ex is_ascii_digit p, ''at least one digit''),
      (list_ex (\<lambda>c. c \<in> set special_chars) p,
       ''at least one special character (!@#$%^&*()_+-=[]{}|;:,.<>?)'')]"

definition weak_patterns :: "string list" where
  "weak_patterns = [''password'', ''123456'', ''qwerty'', ''admin'', ''letmein'', ''welcome'', ''monkey'',
     ''dragon'']"

definition missing_requirements :: "string \<Rightarrow> string list" where
  "missing_requirements p = map snd (filter (\<lambda>x. \<not> fst x) (strength_checks p))"

definition validate_password_strength :: "string \<Rightarrow> api_error + unit" where
  "validate_password_strength p =
     (if length p < 8 then Inl (BadRequest ''Password must be at least 8 characters long'')
      else if length p > 128 then Inl (BadRequest ''Password must be no more than 128 characters long'')
      else if missing_requirements p \<noteq> []
      then Inl (BadRequest (''Password must contain: '' @ join '', '' (missing_requirements p)))
      else if list_ex (str_contains (to_lowercase p)) weak_patterns
      then Inl (BadRequest ''Password contains common weak patterns'')
      else Inr ())"

section \<open>Hashing and verification\<close>

definition hash_password :: "env \<Rightarrow> string \<Rightarrow> string act" where
  "hash_password E p =
     andthen (from_result (validate_password_strength p))
     (bnd (draw (argon2_hash E)) (\<lambda>hash.
      from_result (map_sum (\<lambda>e. Internal (''Argon2 hashing failed: '' @ e)) id (hash p))))"

definition verify_password :: "env \<Rightarrow> string \<Rightarrow> string \<Rightarrow> api_error + bool" where
  "verify_password E p hash =
     (if starts_with hash ''$argon2''
      then (case argon2_parse E hash of
              Inl e \<Rightarrow> Inl (Internal (''Invalid Argon2 hash format: '' @ e))
            | Inr h \<Rightarrow> Inr (argon2_verify E p h))
      else if starts_with hash ''$2''
      then map_sum (\<lambda>e. Internal (''Bcrypt verification failed: '' @ e)) id (bcrypt_verify E p hash)
      else Inl (Internal ''Unknown password hash format''))"

text \<open>What the service relies on: a hash verifies against the password it was made from.\<close>

definition argon2_law :: "env \<Rightarrow> bool" where
  "argon2_law E \<longleftrightarrow>
     (\<forall>n p h. argon2_hash E n p = Inr h \<longrightarrow>
        starts_with h ''$argon2'' \<and> (\<exists>x. argon2_parse E h = Inr x \<and> argon2_verify E p x))"

section \<open>Temporary passwords\<close>

text \<open>
  The random numbers are arguments.  \<open>pick xs n\<close> is the element \<open>gen_range(0..xs.len())\<close>
  selects: every element of a non-empty \<open>xs\<close>, and nothing else, can be the result.
\<close>

definition pick :: "'a list \<Rightarrow> nat \<Rightarrow> 'a" where
  "pick xs n = xs ! (n mod length xs)"

definition upper_case :: string where
  "upper_case = ''ABCDEFGHIJKLMNOPQRSTUVWXYZ''"

definition lower_case :: string where
  "lower_case = ''abcdefghijklmnopqrstuvwxyz''"

definition digit_chars :: string where
  "digit_chars = ''0123456789''"

definition SPECIAL_CHARS :: string where
  "SPECIAL_CHARS = ''!@#$%^&*''"

definition ALPHANUMERIC :: string where
  "ALPHANUMERIC = upper_case @ lower_case @ digit_chars"

definition swap_chars :: "'a list \<Rightarrow> nat \<Rightarrow> nat \<Rightarrow> 'a list" where
  "swap_chars xs i j = xs[i := xs ! j, j := xs ! i]"

fun shuffle :: "nat \<Rightarrow> nat list \<Rightarrow> 'a list \<Rightarrow> 'a list" where
  "shuffle i [] xs = xs"
| "shuffle i (n # ns) xs = shuffle (Suc i) ns (swap_chars xs i (n mod length xs))"

definition generate_temporary_password ::
    "nat \<Rightarrow> nat \<Rightarrow> nat \<Rightarrow> nat \<Rightarrow> (nat \<Rightarrow> nat) \<Rightarrow> (nat \<Rightarrow> nat) \<Rightarrow> string" where
  "generate_temporary_password a b c d fill js =
     (let p = [pick upper_case a, pick lower_case b, pick digit_chars c, pick SPECIAL_CHARS d]
              @ map (\<lambda>i. pick ALPHANUMERIC (fill i)) [0..<8]
      in shuffle 0 (map js [0..<length p]) p)"

section \<open>Facts\<close>

lemma join_Nil_iff: "(\<forall>x \<in> set xs. x \<noteq> []) \<Longrightarrow> join sep xs = [] \<longleftrightarrow> xs = []"
  by (induction sep xs rule: join.induct) auto

lemma missing_Nil:
  "missing_requirements p = [] \<longleftrightarrow>
     list_ex is_ascii_lowercase p \<and> list_ex is_ascii_uppercase p \<and> list_ex is_ascii_digit p \<and>
     list_ex (\<lambda>c. c \<in> set special_chars) p"
  by (simp add: missing_requirements_def strength_checks_def)

lemma validate_ok_iff:
  "validate_password_strength p = Inr () \<longleftrightarrow>
     8 \<le> length p \<and> length p \<le> 128 \<and> missing_requirements p = [] \<and>
     \<not> list_ex (str_contains (to_lowercase p)) weak_patterns"
  by (auto simp: validate_password_strength_def)

lemma hash_password_run:
  "hash_password E p w =
     (case validate_password_strength p of
        Inl e \<Rightarrow> (Inl e, w)
      | Inr _ \<Rightarrow> (map_sum (\<lambda>e. Internal (''Argon2 hashing failed: '' @ e)) id (argon2_hash E (rng_ix w) p),
                 w\<lparr>rng_ix := Suc (rng_ix w)\<rparr>))"
  by (simp add: hash_password_def comp_simps split: sum.splits)

lemma map_sum_Inr: "map_sum f id r = Inr x \<Longrightarrow> r = Inr x"
  by (cases r) simp_all

lemma mset_swap_chars: "i < length xs \<Longrightarrow> j < length xs \<Longrightarrow> mset (swap_chars xs i j) = mset xs"
  unfolding swap_chars_def by (rule mset_swap)

lemma length_swap_chars [simp]: "length (swap_chars xs i j) = length xs"
  by (simp add: swap_chars_def)

lemma mset_shuffle: "i + length ns \<le> length xs \<Longrightarrow> mset (shuffle i ns xs) = mset xs"
proof (induction i ns xs rule: shuffle.induct)
  case (2 i n ns xs)
  then have "n mod length xs < length xs" by (cases xs) auto
  with 2 show ?case by (simp add: mset_swap_chars)
qed simp

lemma pick_in: "xs \<noteq> [] \<Longrightarrow> pick xs n \<in> set xs"
  by (simp add: pick_def)

lemma chars_of:
  "set upper_case \<subseteq> {c. is_ascii_uppercase c}" "set lower_case \<subseteq> {c. is_ascii_lowercase c}"
  "set digit_chars \<subseteq> {c. is_ascii_digit c}" "set SPECIAL_CHARS \<subseteq> set special_chars"
  by (simp_all add: upper_case_def lower_case_def digit_chars_def SPECIAL_CHARS_def special_chars_def
      is_ascii_uppercase_def is_ascii_lowercase_def is_ascii_digit_def byte_def)

lemma chars_nonempty: "upper_case \<noteq> []" "lower_case \<noteq> []" "digit_chars \<noteq> []" "SPECIAL_CHARS \<noteq> []"
  by (simp_all add: upper_case_def lower_case_def digit_chars_def SPECIAL_CHARS_def)

lemma temporary_password_classes:
  fixes a b c d fill js
  defines "p \<equiv> generate_temporary_password a b c d fill js"
  shows "length p = 12" and "missing_requirements p = []"
proof -
  define base where "base = [pick upper_case a, pick lower_case b, pick digit_chars c, pick SPECIAL_CHARS d]
    @ map (\<lambda>i. pick ALPHANUMERIC (fill i)) [0..<8]"
  have "p = shuffle 0 (map js [0..<length base]) base"
    by (simp only: p_def generate_temporary_password_def base_def Let_def)
  then have m: "mset p = mset base"
    by (simp add: mset_shuffle)
  then have set: "set p = set base" by (rule mset_eq_setD)
  show "length p = 12"
    using mset_eq_length [OF m] by (simp add: base_def)
  have "pick upper_case a \<in> set p" "pick lower_case b \<in> set p" "pick digit_chars c \<in> set p"
    "pick SPECIAL_CHARS d \<in> set p"
    by (simp_all add: set base_def)
  moreover have "is_ascii_uppercase (pick upper_case a)" "is_ascii_lowercase (pick lower_case b)"
    "is_ascii_digit (pick digit_chars c)" "pick SPECIAL_CHARS d \<in> set special_chars"
    using pick_in chars_of chars_nonempty by blast+
  ultimately show "missing_requirements p = []"
    unfolding missing_Nil list_ex_iff by blast
qed

lemma sample_password_ok: "validate_password_strength ''GridTokenX123!'' = Inr ()"
proof -
  have "to_lowercase ''GridTokenX123!'' = ''gridtokenx123!''"
    by (subst to_lowercase_ascii) (simp_all add: is_ascii_def byte_def to_ascii_lowercase_def is_ascii_uppercase_def char_of_eq_iff)
  then show ?thesis
    by (simp add: validate_ok_iff missing_Nil weak_patterns_def starts_with_def is_ascii_lowercase_def
        is_ascii_uppercase_def is_ascii_digit_def byte_def special_chars_def)
qed

section \<open>Properties\<close>

text \<open>The password policy, with its lists written out.  Lengths are in bytes.\<close>

lemma password_policy_exact:
  "validate_password_strength p = Inr () \<longleftrightarrow>
     8 \<le> length p \<and> length p \<le> 128 \<and>
     (\<exists>c \<in> set p. is_ascii_lowercase c) \<and> (\<exists>c \<in> set p. is_ascii_uppercase c) \<and>
     (\<exists>c \<in> set p. is_ascii_digit c) \<and> (\<exists>c \<in> set p. c \<in> set ''!@#$%^&*()_+-=[]{}|;:,.<>?'') \<and>
     (\<nexists>pre pat post. to_lowercase p = pre @ pat @ post \<and>
        pat \<in> {''password'', ''123456'', ''qwerty'', ''admin'', ''letmein'', ''welcome'', ''monkey'', ''dragon''})"
proof -
  have "validate_password_strength p = Inr () \<longleftrightarrow>
     8 \<le> length p \<and> length p \<le> 128 \<and>
     (\<exists>c \<in> set p. is_ascii_lowercase c) \<and> (\<exists>c \<in> set p. is_ascii_uppercase c) \<and>
     (\<exists>c \<in> set p. is_ascii_digit c) \<and> (\<exists>c \<in> set p. c \<in> set special_chars) \<and>
     (\<nexists>pre pat post. to_lowercase p = pre @ pat @ post \<and> pat \<in> set weak_patterns)"
    by (auto simp: validate_ok_iff missing_Nil list_ex_iff str_contains_iff)
  then show ?thesis by (simp only: special_chars_def weak_patterns_def list.set)
qed

text \<open>The password of the API reference is one the policy rejects.\<close>

theorem documented_password_rejected:
  "validate_password_strength ''SecurePassword123!'' = Inl (BadRequest ''Password contains common weak patterns'')"
proof -
  have "to_lowercase ''SecurePassword123!'' = ''securepassword123!''"
    by (subst to_lowercase_ascii) (simp_all add: is_ascii_def byte_def to_ascii_lowercase_def is_ascii_uppercase_def char_of_eq_iff)
  then show ?thesis
    by (simp add: validate_password_strength_def missing_Nil weak_patterns_def starts_with_def is_ascii_lowercase_def
        is_ascii_uppercase_def is_ascii_digit_def byte_def special_chars_def)
qed

text \<open>Hashing and verification fit together: a password that was hashed satisfies the policy, and the
  stored hash is recognised as Argon2 and accepted for that password.  (The law assumed of the
  Argon2 library: its hashes are PHC strings that start with \<open>$argon2\<close>, parse, and verify
  against the password they were made from.)\<close>

theorem hash_verify_roundtrip:
  assumes "argon2_law E" and "fst (hash_password E p w) = Inr h"
  shows "validate_password_strength p = Inr () \<and> verify_password E p h = Inr True"
proof -
  have v: "validate_password_strength p = Inr ()" and "argon2_hash E (rng_ix w) p = Inr h"
    using assms(2) by (auto simp: hash_password_run split: sum.splits dest!: map_sum_Inr)
  then obtain x where "starts_with h ''$argon2''" "argon2_parse E h = Inr x" "argon2_verify E p x"
    using assms(1) unfolding argon2_law_def by blast
  with v show ?thesis by (simp add: verify_password_def)
qed

theorem hash_verify_roundtrip_witness:
  "argon2_law sample_env \<and>
   validate_password_strength ''GridTokenX123!'' = Inr () \<and>
   verify_password sample_env ''GridTokenX123!'' ''$argon2id$GridTokenX123!'' = Inr True"
proof -
  have law: "argon2_law sample_env"
    by (simp add: argon2_law_def sample_env_def starts_with_iff)
  from sample_password_ok have "fst (hash_password sample_env ''GridTokenX123!'' empty_world) = Inr ''$argon2id$GridTokenX123!''"
    by (simp add: hash_password_run sample_env_def)
  from hash_verify_roundtrip [OF law this] law show ?thesis by simp
qed

lemma temporary_password_validate:
  "validate_password_strength (generate_temporary_password a b c d fill js) =
     (if list_ex (str_contains (to_lowercase (generate_temporary_password a b c d fill js))) weak_patterns
      then Inl (BadRequest ''Password contains common weak patterns'') else Inr ())"
  using temporary_password_classes [of a b c d fill js] by (simp add: validate_password_strength_def)

text \<open>A generated temporary password always has 12 characters of all four required classes, so the
  only way the policy can reject it is that the random characters spell a weak pattern.\<close>

theorem temporary_password_policy:
  "validate_password_strength (generate_temporary_password a b c d fill js) =
     (if list_ex (str_contains (to_lowercase (generate_temporary_password a b c d fill js))) weak_patterns
      then Inl (BadRequest ''Password contains common weak patterns'') else Inr ())"
  by (rule temporary_password_validate)

text \<open>The random characters can spell one: there are draws for which the generated temporary password
  is rejected by the policy.\<close>

theorem temporary_password_may_be_weak:
  "\<exists>a b c d fill js. validate_password_strength (generate_temporary_password a b c d fill js) =
     Inl (BadRequest ''Password contains common weak patterns'')"
proof -
  let ?fill = "\<lambda>i. [26, 29, 38, 34, 39, 0, 0, 0] ! i" let ?js = "\<lambda>i. i"
  have "list_ex (str_contains (to_lowercase (generate_temporary_password 0 0 0 0 ?fill ?js))) weak_patterns"
    by code_simp
  then show ?thesis
    unfolding temporary_password_validate by (intro exI [of _ 0] exI [of _ ?fill] exI [of _ ?js]) simp
qed

end
