(* ===== verification/Tokens.thy ===== *)
theory Tokens
  imports Samples
begin

text \<open>
  \<open>iam-logic/src/jwt_service.rs\<close>: session tokens (\<open>JwtService\<close>) and API-key hashing
  (\<open>ApiKeyService\<close>).  Signing and the HMAC are parameters.
\<close>

section \<open>JwtService\<close>

text \<open>
  \<open>JwtService::new\<close>: HS256, the one accepted issuer, expiry checked; \<open>Validation::new\<close> tolerates
  60 seconds of clock skew.
\<close>

definition jwt_validation :: validation where
  "jwt_validation = \<lparr>v_iss = [''gridtokenx-iam-service''], v_validate_exp = True, v_leeway = 60\<rparr>"

definition encode_token :: "env \<Rightarrow> claims \<Rightarrow> api_error + string" where
  "encode_token E c =
     map_sum (\<lambda>_. Internal ''Failed to encode JWT token'') id (jwt_encode E (jwt_secret (cfg E)) c)"

fun decode_error :: "jwt_error \<Rightarrow> api_error" where
  "decode_error ExpiredSignature = with_code TokenExpired ''Token has expired''"
| "decode_error InvalidToken = with_code TokenInvalid ''Invalid token''"
| "decode_error InvalidSignature = with_code TokenInvalid ''Invalid token signature''"
| "decode_error (OtherJwtError e) = with_code TokenInvalid (''Invalid token: '' @ e)"

definition decode_token :: "env \<Rightarrow> int \<Rightarrow> string \<Rightarrow> api_error + claims" where
  "decode_token E t token =
     map_sum decode_error id (jwt_decode E t (jwt_secret (cfg E)) jwt_validation token)"

definition jwt_refresh_token :: "env \<Rightarrow> int \<Rightarrow> string \<Rightarrow> api_error + string" where
  "jwt_refresh_token E t old_token =
     res_bind (decode_token E t old_token) (\<lambda>c.
     encode_token E (claims_new t (cl_sub c) (cl_username c) (cl_role c)))"

section \<open>ApiKeyService\<close>

definition hash_key :: "env \<Rightarrow> string \<Rightarrow> string" where
  "hash_key E key = hex_encode E (hmac_sha256 E (api_key_secret (cfg E)) key)"

definition verify_key :: "env \<Rightarrow> string \<Rightarrow> string \<Rightarrow> bool" where
  "verify_key E key stored_hash =
     (case hex_decode E stored_hash of
        None \<Rightarrow> False
      | Some expected \<Rightarrow> hmac_sha256 E (api_key_secret (cfg E)) key = expected)"

definition generate_key :: "env \<Rightarrow> (world, 'e, string \<times> string) comp" where
  "generate_key E =
     bnd (new_v4 E) (\<lambda>i.
     let key = ''ak_'' @ filter (\<lambda>c. c \<noteq> CHR ''-'') (uuid_to_string E i)
     in ok (key, hash_key E key))"

section \<open>Laws of the libraries\<close>

text \<open>
  A token decodes to the claims it was made from, if the issuer is accepted and the claims have
  not expired; and a token that decodes is one the same secret signed, with an accepted issuer
  and, when expiry is checked, not expired beyond the tolerated skew.
\<close>

definition jwt_complete :: "env \<Rightarrow> bool" where
  "jwt_complete E \<longleftrightarrow>
     (\<forall>t s v c tok. jwt_encode E s c = Inr tok \<longrightarrow> cl_iss c \<in> set (v_iss v) \<longrightarrow>
        timestamp t - int (v_leeway v) \<le> cl_exp c \<longrightarrow> jwt_decode E t s v tok = Inr c)"

definition jwt_sound :: "env \<Rightarrow> bool" where
  "jwt_sound E \<longleftrightarrow>
     (\<forall>t s v c tok. jwt_decode E t s v tok = Inr c \<longrightarrow>
        cl_iss c \<in> set (v_iss v) \<and>
        (v_validate_exp v \<longrightarrow> timestamp t - int (v_leeway v) \<le> cl_exp c))"

lemma sample_jwt_complete: "jwt_complete sample_env"
  by (auto simp: jwt_complete_def sample_env_def token_check_def claims_of_token)

lemma token_check_Inr:
  assumes "token_check t s v tok = Inr c"
  shows "cl_iss c \<in> set (v_iss v)" "v_validate_exp v \<Longrightarrow> timestamp t - int (v_leeway v) \<le> cl_exp c"
proof -
  obtain s' c' where "claims_of tok = Some (s', c')"
    using assms by (cases "claims_of tok") (auto simp: token_check_def)
  with assms show "cl_iss c \<in> set (v_iss v)" "v_validate_exp v \<Longrightarrow> timestamp t - int (v_leeway v) \<le> cl_exp c"
    by (auto simp: token_check_def split: if_splits)
qed

lemma sample_jwt_sound: "jwt_sound sample_env"
  using token_check_Inr by (auto simp: jwt_sound_def sample_env_def)

lemma decode_token_status:
  assumes "decode_token E t tok = Inl e"
  shows "status_code e = 401"
proof -
  obtain j where "e = decode_error j"
    using assms by (cases "jwt_decode E t (jwt_secret (cfg E)) jwt_validation tok") (auto simp: decode_token_def)
  then show ?thesis
    by (cases j) (simp_all add: with_code_def with_code_status_def)
qed

section \<open>Properties\<close>

text \<open>C29. A session token is accepted for the claims it was issued for during its 24 hours and the 60
  seconds of tolerated skew, whatever the instant of issue.\<close>

theorem issued_token_accepted:
  assumes "jwt_complete E" and "encode_token E (claims_new t0 i name r) = Inr tok"
    and "timestamp t \<le> timestamp t0 + 86460"
  shows "decode_token E t tok = Inr (claims_new t0 i name r)"
proof -
  have "jwt_encode E (jwt_secret (cfg E)) (claims_new t0 i name r) = Inr tok"
    using assms(2) by (cases "jwt_encode E (jwt_secret (cfg E)) (claims_new t0 i name r)")
      (simp_all add: encode_token_def)
  moreover have "cl_iss (claims_new t0 i name r) \<in> set (v_iss jwt_validation)"
    by (simp add: claims_new_def jwt_validation_def iam_issuer_def)
  moreover have "timestamp t - int (v_leeway jwt_validation) \<le> cl_exp (claims_new t0 i name r)"
    using assms(3) by (simp add: claims_new_def jwt_validation_def timestamp_def)
  ultimately show ?thesis
    using assms(1) by (simp add: decode_token_def jwt_complete_def)
qed

theorem issued_token_accepted_witness:
  "decode_token sample_env 90000000 (token_of ''supersecretjwtkey'' (claims_new 4000000 7 ''alice'' ''user''))
     = Inr (claims_new 4000000 7 ''alice'' ''user'')"
  by (rule issued_token_accepted [OF sample_jwt_complete])
    (simp_all add: encode_token_def sample_env_def sample_config_def timestamp_def)

text \<open>A token that has expired by more than the tolerated skew, or that names another issuer, is never
  accepted, and refreshing it fails with the same error.\<close>

theorem expired_token_rejected:
  assumes "jwt_sound E"
  shows "(\<forall>c. decode_token E t tok = Inr c \<longrightarrow>
            timestamp t \<le> cl_exp c + 60 \<and> cl_iss c = ''gridtokenx-iam-service'') \<and>
         (\<forall>e. decode_token E t tok = Inl e \<longrightarrow>
            jwt_refresh_token E t tok = Inl e \<and> status_code e = 401)"
proof (intro conjI allI impI)
  fix c assume "decode_token E t tok = Inr c"
  then have "jwt_decode E t (jwt_secret (cfg E)) jwt_validation tok = Inr c"
    by (cases "jwt_decode E t (jwt_secret (cfg E)) jwt_validation tok") (simp_all add: decode_token_def)
  with assms have "cl_iss c \<in> set (v_iss jwt_validation)"
    "v_validate_exp jwt_validation \<longrightarrow> timestamp t - int (v_leeway jwt_validation) \<le> cl_exp c"
    unfolding jwt_sound_def by blast+
  then show "timestamp t \<le> cl_exp c + 60" "cl_iss c = ''gridtokenx-iam-service''"
    by (simp_all add: jwt_validation_def)
next
  fix e assume e: "decode_token E t tok = Inl e"
  then show "jwt_refresh_token E t tok = Inl e" by (simp add: jwt_refresh_token_def)
  from e show "status_code e = 401" by (rule decode_token_status)
qed

theorem expired_token_rejected_witness:
  "decode_token sample_env 86461000 (token_of ''supersecretjwtkey'' (claims_new 0 7 ''alice'' ''user'')) \<noteq>
     Inr (claims_new 0 7 ''alice'' ''user'')"
proof
  assume "decode_token sample_env 86461000 (token_of ''supersecretjwtkey'' (claims_new 0 7 ''alice'' ''user'')) =
      Inr (claims_new 0 7 ''alice'' ''user'')"
  with expired_token_rejected [OF sample_jwt_sound]
  have "timestamp 86461000 \<le> cl_exp (claims_new 0 7 ''alice'' ''user'') + 60" by blast
  then show False by (simp add: timestamp_def claims_new_def)
qed

end
