(* ===== verification/Blockchain.thy ===== *)
theory Blockchain
  imports Samples
begin

text \<open>
  \<open>iam-logic/src/blockchain_provider.rs\<close>: the on-chain registration call with its timeout and
  retry, the existence check of an account; and the confirmation poll of
  \<open>AuthService::confirm_registered\<close>.  The remote calls are parameters: a registration takes some
  milliseconds and ends in a signature or an error.
\<close>

section \<open>Registration with timeout and retry\<close>

definition max_attempts :: nat where
  "max_attempts = 1"

definition rpc_timeout_ms :: nat where
  "rpc_timeout_ms = 15000"

datatype rpc_outcome = Signature string | Rpc_error string | Timed_out

definition rpc_call :: "env \<Rightarrow> register_args \<Rightarrow> rpc_outcome act" where
  "rpc_call E a w =
     (let i = io_ix w; (d, r) = rpc_register E i a
      in if d < rpc_timeout_ms
         then (Inr (case r of Inl e \<Rightarrow> Rpc_error e | Inr s \<Rightarrow> Signature s),
               w\<lparr>io_ix := Suc i, clock := clock w + int d\<rparr>)
         else (Inr Timed_out, w\<lparr>io_ix := Suc i, clock := clock w + int rpc_timeout_ms\<rparr>))"

text \<open>The loop: a failed attempt below the limit waits \<open>2 ^ attempts\<close> seconds and tries again.\<close>

function register_loop :: "env \<Rightarrow> register_args \<Rightarrow> nat \<Rightarrow> string act" where
  "register_loop E a attempts =
     bnd (rpc_call E a) (\<lambda>r.
     case r of
       Signature s \<Rightarrow> ok s
     | Rpc_error e \<Rightarrow>
         if attempts < max_attempts
         then andthen (sleep_ms (1000 * 2 ^ (attempts + 1))) (register_loop E a (attempts + 1))
         else throw (Internal (''On-chain registration failed: '' @ e))
     | Timed_out \<Rightarrow>
         if attempts < max_attempts
         then andthen (sleep_ms (1000 * 2 ^ (attempts + 1))) (register_loop E a (attempts + 1))
         else throw (Internal ''On-chain registration timed out''))"
  by auto
termination
  by (relation "measure (\<lambda>(E, a, attempts). max_attempts - attempts)") auto

declare register_loop.simps [simp del]

definition register_user_on_chain :: "env \<Rightarrow> register_args \<Rightarrow> string act" where
  "register_user_on_chain E a = register_loop E a 0"

definition account_exists :: "env \<Rightarrow> pubkey \<Rightarrow> bool act" where
  "account_exists E p =
     io E (\<lambda>s. Internal (''Account existence check failed: '' @ s))
       (\<lambda>w. (map_sum (\<lambda>e. Internal (''Account existence check failed: '' @ e)) id
               (rpc_account_exists E (io_ix w) p), w))"

section \<open>Confirmation\<close>

primrec poll_account :: "env \<Rightarrow> pubkey \<Rightarrow> nat \<Rightarrow> bool act" where
  "poll_account E p 0 = ok False"
| "poll_account E p (Suc n) =
     bnd (unwrap_or False (account_exists E p)) (\<lambda>b.
     if b then ok True else andthen (sleep_ms 750) (poll_account E p n))"

definition confirm_registered :: "env \<Rightarrow> pubkey \<Rightarrow> bool act" where
  "confirm_registered E p =
     (case pubkey_from_str E (registry_program_id (cfg E)) of
        Inl _ \<Rightarrow> ok False
      | Inr program_id \<Rightarrow> poll_account E (user_pda E p program_id) 20)"

section \<open>Bounds\<close>

text \<open>Only time and the request counter pass in a remote call.\<close>

lemma rpc_call_run:
  "\<exists>x d. rpc_call E a w = (Inr x, w\<lparr>io_ix := Suc (io_ix w), clock := clock w + int d\<rparr>) \<and> d \<le> rpc_timeout_ms"
  by (auto simp: rpc_call_def Let_def split: prod.splits)

lemma register_loop_elapsed:
  assumes "k + attempts = max_attempts"
  shows "\<exists>r n d. register_loop E a attempts w = (r, w\<lparr>io_ix := io_ix w + n, clock := clock w + int d\<rparr>) \<and>
    1 \<le> n \<and> n \<le> Suc k \<and> d \<le> Suc k * rpc_timeout_ms + 1000 * (\<Sum>i<k. 2 ^ (attempts + 1 + i))"
  using assms
proof (induction k arbitrary: attempts w)
  case 0
  obtain x d where "rpc_call E a w = (Inr x, w\<lparr>io_ix := Suc (io_ix w), clock := clock w + int d\<rparr>)"
    "d \<le> rpc_timeout_ms" using rpc_call_run by blast
  with 0 have "\<exists>r. register_loop E a attempts w = (r, w\<lparr>io_ix := io_ix w + 1, clock := clock w + int d\<rparr>)"
    by (subst register_loop.simps, cases x) (simp_all add: comp_simps)
  with \<open>d \<le> rpc_timeout_ms\<close> show ?case by fastforce
next
  case (Suc k)
  obtain x d where x: "rpc_call E a w = (Inr x, w\<lparr>io_ix := Suc (io_ix w), clock := clock w + int d\<rparr>)"
    "d \<le> rpc_timeout_ms" using rpc_call_run by blast
  have lt: "attempts < max_attempts" using Suc.prems by simp
  show ?case
  proof (cases "\<exists>s. x = Signature s")
    case True
    with x(1) have "\<exists>r. register_loop E a attempts w = (r, w\<lparr>io_ix := io_ix w + 1, clock := clock w + int d\<rparr>)"
      by (subst register_loop.simps) (auto simp: comp_simps)
    moreover have "d \<le> Suc (Suc k) * rpc_timeout_ms + 1000 * (\<Sum>i<Suc k. 2 ^ (attempts + 1 + i))"
      using x(2) by (simp add: trans_le_add1)
    ultimately show ?thesis by fastforce
  next
    case False
    define w1 where "w1 = w\<lparr>io_ix := Suc (io_ix w), clock := clock w + int d + int (1000 * 2 ^ (attempts + 1))\<rparr>"
    have eq: "register_loop E a attempts w = register_loop E a (attempts + 1) w1"
      using False x(1) lt
      by (subst register_loop.simps, cases x) (simp_all add: comp_simps sleep_ms_def w1_def)
    obtain r n d' where r: "register_loop E a (attempts + 1) w1 =
        (r, w1\<lparr>io_ix := io_ix w1 + n, clock := clock w1 + int d'\<rparr>)" "1 \<le> n" "n \<le> Suc k"
        "d' \<le> Suc k * rpc_timeout_ms + 1000 * (\<Sum>i<k. 2 ^ (attempts + 1 + 1 + i))"
      using Suc.IH [of "attempts + 1" w1] Suc.prems by auto
    have "(\<Sum>i<Suc k. 2 ^ (attempts + 1 + i) :: nat) = 2 ^ (attempts + 1) + (\<Sum>i<k. 2 ^ (attempts + 1 + 1 + i))"
      by (subst sum.lessThan_Suc_shift) simp
    then show ?thesis
      using r x(2) unfolding eq
      by (intro exI [of _ r] exI [of _ "Suc n"] exI [of _ "d + 1000 * 2 ^ (attempts + 1) + d'"])
        (simp add: w1_def algebra_simps)
  qed
qed

text \<open>A poll only passes time as well, and answers yes only on a positive reply.\<close>

lemma account_exists_run:
  "\<exists>r d. account_exists E p w = (r, w\<lparr>io_ix := Suc (io_ix w), clock := clock w + int d\<rparr>) \<and>
     (r = Inr True \<longrightarrow> rpc_account_exists E (Suc (io_ix w)) p = Inr True)"
proof -
  have "map_sum f id x = Inr True \<longleftrightarrow> x = Inr True" for f :: "string \<Rightarrow> api_error" and x
    by (cases x) simp_all
  then show ?thesis
    by (cases "fault E (io_ix w)"; intro exI [of _ "fst (account_exists E p w)"] exI [of _ "latency E (io_ix w)"])
      (simp_all add: account_exists_def io_def Let_def)
qed

lemma poll_account_run:
  "\<exists>b m d. poll_account E p n w = (Inr b, w\<lparr>io_ix := io_ix w + m, clock := clock w + int d\<rparr>) \<and> m \<le> n \<and>
     (b \<longrightarrow> (\<exists>i \<le> io_ix w + m. rpc_account_exists E i p = Inr True)) \<and> (\<not> b \<longrightarrow> 750 * n \<le> d)"
proof (induction n arbitrary: w)
  case 0
  show ?case by (rule exI [of _ False], rule exI [of _ 0], rule exI [of _ 0]) (simp add: ok_run)
next
  case (Suc n)
  obtain r d where r: "account_exists E p w = (r, w\<lparr>io_ix := Suc (io_ix w), clock := clock w + int d\<rparr>)"
    "r = Inr True \<longrightarrow> rpc_account_exists E (Suc (io_ix w)) p = Inr True"
    using account_exists_run by blast
  show ?case
  proof (cases "r = Inr True")
    case True
    then have "poll_account E p (Suc n) w = (Inr True, w\<lparr>io_ix := io_ix w + 1, clock := clock w + int d\<rparr>)"
      using r(1) by (simp add: comp_simps)
    moreover have "\<exists>i \<le> io_ix w + 1. rpc_account_exists E i p = Inr True"
      using True r(2) by (intro exI [of _ "Suc (io_ix w)"]) simp
    ultimately show ?thesis
      by (intro exI [of _ True] exI [of _ 1] exI [of _ d]) simp
  next
    case False
    define w1 where "w1 = w\<lparr>io_ix := Suc (io_ix w), clock := clock w + int d + 750\<rparr>"
    have eq: "poll_account E p (Suc n) w = poll_account E p n w1"
      using False r(1) by (cases r) (simp_all add: comp_simps sleep_ms_def w1_def)
    obtain b m d' where "poll_account E p n w1 = (Inr b, w1\<lparr>io_ix := io_ix w1 + m, clock := clock w1 + int d'\<rparr>)"
      "m \<le> n" "b \<longrightarrow> (\<exists>i \<le> io_ix w1 + m. rpc_account_exists E i p = Inr True)" "\<not> b \<longrightarrow> 750 * n \<le> d'"
      using Suc.IH by blast
    then show ?thesis
      unfolding eq
      by (intro exI [of _ b] exI [of _ "Suc m"] exI [of _ "d + 750 + d'"]) (auto simp: w1_def algebra_simps)
  qed
qed

lemma register_run:
  "\<exists>r n d. register_user_on_chain E a w = (r, w\<lparr>io_ix := io_ix w + n, clock := clock w + int d\<rparr>) \<and>
     1 \<le> n \<and> n \<le> 2 \<and> d \<le> 32000"
  using register_loop_elapsed [of 1 0 E a w]
  by (simp add: register_user_on_chain_def max_attempts_def rpc_timeout_ms_def numeral_2_eq_2)

lemma confirm_run:
  "\<exists>b m d. confirm_registered E p w = (Inr b, w\<lparr>io_ix := io_ix w + m, clock := clock w + int d\<rparr>) \<and>
     (b \<longrightarrow> (\<exists>q i. pubkey_from_str E (registry_program_id (cfg E)) = Inr q \<and>
                  rpc_account_exists E i (user_pda E p q) = Inr True))"
proof (cases "pubkey_from_str E (registry_program_id (cfg E))")
  case (Inl e)
  then show ?thesis
    by (intro exI [of _ False] exI [of _ 0]) (simp add: confirm_registered_def ok_run)
next
  case (Inr q)
  with poll_account_run [of E "user_pda E p q" 20 w] show ?thesis
    by (fastforce simp: confirm_registered_def)
qed

text \<open>So the chain calls keep every component of the world but the clock and the counter.\<close>

lemma keeps_chain:
  assumes f: "\<And>w i c. f (w\<lparr>io_ix := i, clock := c\<rparr>) = f w"
  shows "keeps f (register_user_on_chain E a)" "keeps f (account_exists E p)"
    "keeps f (poll_account E p n)" "keeps f (confirm_registered E p)"
proof -
  show "keeps f (register_user_on_chain E a)"
  proof (rule keepsI)
    fix w show "f (snd (register_user_on_chain E a w)) = f w"
      using register_run [of E a w] f by auto
  qed
  show "keeps f (account_exists E p)"
  proof (rule keepsI)
    fix w show "f (snd (account_exists E p w)) = f w"
      using account_exists_run [of E p w] f by auto
  qed
  show "keeps f (poll_account E p n)"
  proof (rule keepsI)
    fix w show "f (snd (poll_account E p n w)) = f w"
      using poll_account_run [of E p n w] f by auto
  qed
  show "keeps f (confirm_registered E p)"
  proof (rule keepsI)
    fix w show "f (snd (confirm_registered E p w)) = f w"
      using confirm_run [of E p w] f by auto
  qed
qed

section \<open>Properties\<close>

text \<open>C32. A registration call always returns: after at most two remote calls and at most 32 seconds,
  below the default request timeout of 40 seconds; and it touches nothing but the clock and
  the request counter.\<close>

theorem registration_bounded:
  "\<exists>r n d. register_user_on_chain E a w = (r, w\<lparr>io_ix := io_ix w + n, clock := clock w + int d\<rparr>) \<and>
     1 \<le> n \<and> n \<le> 2 \<and> d \<le> 32 * 1000"
  using register_run [of E a w] by simp

text \<open>The confirmation poll answers yes only when the remote node has reported the user's account
  address (derived from the wallet and the configured Registry program) as existing; it asks at
  most 20 times and waits at least 15 seconds before it gives up.\<close>

theorem confirmation_observed:
  assumes "pubkey_from_str E (registry_program_id (cfg E)) = Inr q"
  shows "\<exists>b m d. confirm_registered E p w = (Inr b, w\<lparr>io_ix := io_ix w + m, clock := clock w + int d\<rparr>) \<and>
    m \<le> 20 \<and> (b \<longrightarrow> (\<exists>i \<le> io_ix w + m. rpc_account_exists E i (user_pda E p q) = Inr True)) \<and>
    (\<not> b \<longrightarrow> 15000 \<le> d)"
  using poll_account_run [of E "user_pda E p q" 20 w] assms by (simp add: confirm_registered_def)

theorem confirmation_observed_witness:
  "\<exists>b m d. confirm_registered sample_env 5 empty_world =
      (Inr b, empty_world\<lparr>io_ix := io_ix empty_world + m, clock := clock empty_world + int d\<rparr>) \<and> m \<le> 20"
proof -
  have "pubkey_from_str sample_env (registry_program_id (cfg sample_env)) = Inr 7"
    by (simp add: sample_env_def sample_config_def number_of_def parse_unsigned_def digits_value_def
        is_ascii_digit_def byte_def)
  then show ?thesis
    using confirmation_observed [of sample_env 7 5 empty_world] by blast
qed

end
