(* ===== verification/Auth.thy ===== *)
theory Auth
  imports Roles Cache EventBus Wallets ApiKeys Password Tokens Blockchain
begin

text \<open>
  \<open>iam-logic/src/auth_service.rs\<close>, authentication: login with lockout, registration, email
  verification with the custodial wallet, resend, API keys, password reset, rate limiting.  The
  CPU semaphore (never closed, see \<open>Permits\<close>) and the panics of worker threads are left out; logging and
  metrics (see \<open>Metrics\<close>) have no effect on the model.
\<close>

definition RESEND_VERIFICATION_COOLDOWN_SECS :: nat where
  "RESEND_VERIFICATION_COOLDOWN_SECS = 60"

definition LOGIN_MAX_FAILED_ATTEMPTS :: nat where
  "LOGIN_MAX_FAILED_ATTEMPTS = 5"

definition LOGIN_LOCKOUT_SECS :: nat where
  "LOGIN_LOCKOUT_SECS = 900"

definition API_KEY_CACHE_TTL_SECS :: nat where
  "API_KEY_CACHE_TTL_SECS = 30"

section \<open>Sessions\<close>

text \<open>\<open>Claims::new\<close> followed by \<open>encode_token\<close>, at the current time.\<close>

definition issue_token :: "env \<Rightarrow> uuid \<Rightarrow> string \<Rightarrow> string \<Rightarrow> string act" where
  "issue_token E i name role = bnd now (\<lambda>t. from_result (encode_token E (claims_new t i name role)))"

definition refresh_token :: "env \<Rightarrow> claims \<Rightarrow> (string \<times> int) act" where
  "refresh_token E c =
     bnd (issue_token E (cl_sub c) (cl_username c) (cl_role c)) (\<lambda>token.
     ok (token, jwt_expiration (cfg E)))"

section \<open>Login\<close>

definition lookup_login_user :: "env \<Rightarrow> string \<Rightarrow> user_with_hash act" where
  "lookup_login_user E username =
     bnd (unwrap_or None (cache_get E as_user (user_profile username))) (\<lambda>cached_user.
     case cached_user of
       Some u \<Rightarrow> ok u
     | None \<Rightarrow>
         bnd (find_by_username_or_email E username) (\<lambda>row.
         bnd (ok_or invalid_credentials row) (\<lambda>db_user.
         andthen (ignoring (cache_set E C_user (user_profile username) db_user (Some 300)))
         (ok db_user))))"

definition lock_account :: "env \<Rightarrow> string \<Rightarrow> unit act" where
  "lock_account E username =
     andthen (ignoring (cache_set E C_json (account_lock username) (JBool True) (Some LOGIN_LOCKOUT_SECS)))
     (andthen (ignoring (delete E (login_attempts username)))
      (ignoring (emit E (account_locked E username LOGIN_LOCKOUT_SECS))))"

definition login_failed :: "env \<Rightarrow> string \<Rightarrow> 'a act" where
  "login_failed E username =
     bnd (unwrap_or 0 (increment_with_ttl E (login_attempts username) LOGIN_LOCKOUT_SECS)) (\<lambda>attempts.
     andthen (ignoring (emit E (login_attempt E username False None)))
     (if attempts \<ge> LOGIN_MAX_FAILED_ATTEMPTS
      then andthen (lock_account E username)
           (throw (with_code AccountLocked
             (''Account locked for '' @ show_nat LOGIN_LOCKOUT_SECS
              @ '' seconds due to too many failed attempts'')))
      else throw invalid_credentials))"

definition login_succeeded :: "env \<Rightarrow> string \<Rightarrow> user \<Rightarrow> auth_result act" where
  "login_succeeded E username u =
     andthen (ignoring (delete E (login_attempts username)))
     (bnd (issue_token E (u_id u) (u_username u) (u_role u)) (\<lambda>token.
      bnd (login_attempt E username True None) (\<lambda>attempt_event.
      bnd (user_logged_in E (u_id u) (u_username u) None) (\<lambda>login_event.
      andthen (ignoring (publish_batch E [attempt_event, login_event]))
      (ok \<lparr>ar_access_token = token, ar_expires_in = jwt_expiration (cfg E), ar_user = u\<rparr>)))))"

definition login :: "env \<Rightarrow> string \<Rightarrow> string \<Rightarrow> auth_result act" where
  "login E username password =
     bnd (unwrap_or False (exists_key E (account_lock username))) (\<lambda>locked.
     if locked
     then andthen (ignoring (emit E (login_attempt E username False None)))
          (throw (with_code AccountLocked
            ''Account temporarily locked due to too many failed attempts''))
     else
       bnd (lookup_login_user E username) (\<lambda>u.
       bnd (from_result (verify_password E password (uh_password_hash u))) (\<lambda>is_valid.
       if \<not> is_valid then login_failed E username
       else login_succeeded E username (uh_user u))))"

section \<open>Registration\<close>

definition register_conflict :: "api_error \<Rightarrow> api_error" where
  "register_conflict e =
     (case e of
        Database (SqlxDatabase True _) \<Rightarrow> api_error.Conflict ''Username or email already exists''
      | _ \<Rightarrow> e)"

text \<open>The \<open>NewUser\<close> that \<open>register\<close> hands to the repository.\<close>

definition new_account ::
    "uuid \<Rightarrow> string \<Rightarrow> string \<Rightarrow> string \<Rightarrow> string option \<Rightarrow> string option \<Rightarrow> string \<Rightarrow> new_user" where
  "new_account user_id username email password_hash first_name last_name verification_token =
     \<lparr>nu_id = user_id, nu_username = username, nu_email = email, nu_password_hash = password_hash,
      nu_role = role_to_string User, nu_first_name = first_name, nu_last_name = last_name,
      nu_verification_token = Some verification_token\<rparr>"

lemma new_account_fields [simp]:
  "nu_id (new_account i n e h f l t) = i" "nu_username (new_account i n e h f l t) = n"
  "nu_email (new_account i n e h f l t) = e" "nu_password_hash (new_account i n e h f l t) = h"
  "nu_role (new_account i n e h f l t) = role_to_string User" "nu_first_name (new_account i n e h f l t) = f"
  "nu_last_name (new_account i n e h f l t) = l" "nu_verification_token (new_account i n e h f l t) = Some t"
  by (simp_all add: new_account_def)

definition register ::
    "env \<Rightarrow> string \<Rightarrow> string \<Rightarrow> string \<Rightarrow> string option \<Rightarrow> string option \<Rightarrow> registration_result act" where
  "register E username email password first_name last_name =
     (if CHR ''@'' \<notin> set email \<or> length email < 5
      then throw (with_code InvalidEmail ''Invalid email format'')
      else
        bnd (hash_password E password) (\<lambda>password_hash.
        bnd (new_v4 E) (\<lambda>user_id.
        bnd (new_v4 E) (\<lambda>token_id.
        let verification_token = uuid_to_string E token_id in
        andthen (map_err register_conflict (create E
          (new_account user_id username email password_hash first_name last_name verification_token)))
        (andthen (ignoring (emit E (user_registered E user_id username email)))
        (andthen (ignoring (emit E (verification_email_requested E user_id username email verification_token)))
         (ok \<lparr>rr_id = user_id, rr_username = username, rr_email = email, rr_first_name = first_name,
              rr_last_name = last_name,
              rr_message = ''User registered successfully. Please verify your email.''\<rparr>)))))))"

section \<open>Email verification and the custodial wallet\<close>

definition user_type_str :: "user_type \<Rightarrow> string" where
  "user_type_str t = (case t of Prosumer \<Rightarrow> ''Prosumer'' | user_type.Consumer \<Rightarrow> ''Consumer'')"

definition internal_err :: "string + 'a \<Rightarrow> api_error + 'a" where
  "internal_err r = map_sum Internal id r"

definition spawn_onchain_registration ::
    "uuid \<Rightarrow> pubkey \<Rightarrow> string \<Rightarrow> user_type \<Rightarrow> f64 \<Rightarrow> f64 \<Rightarrow> unit act" where
  "spawn_onchain_registration user_id pk wallet_address ut latitude longitude =
     spawn (T_onchain user_id pk wallet_address ut latitude longitude)"

definition or_zero :: "f64 option \<Rightarrow> f64" where
  "or_zero v = (case v of None \<Rightarrow> F_fin 0 | Some x \<Rightarrow> x)"

definition provision_custodial_wallet :: "env \<Rightarrow> user \<Rightarrow> user_wallet act" where
  "provision_custodial_wallet E u =
     bnd (draw (create_keypair E)) (\<lambda>(pk, key_bytes).
     let wallet_address = pubkey_to_string E pk in
     bnd (draw (encrypt_private_key_versioned E)) (\<lambda>encrypt.
     bnd (from_result (internal_err (encrypt (current_kdf_version E) (encryption_secret (cfg E))
            (master_secret (cfg E)) key_bytes))) (\<lambda>(enc_b64, salt_b64, iv_b64).
     bnd (from_result (internal_err (b64_decode E enc_b64))) (\<lambda>encrypted.
     bnd (from_result (internal_err (b64_decode E salt_b64))) (\<lambda>salt.
     bnd (from_result (internal_err (b64_decode E iv_b64))) (\<lambda>iv.
     bnd (persist_custodial_wallet E (u_id u) wallet_address (Some ''Custodial'') encrypted salt iv
            (ucast (current_kdf_version E))) (\<lambda>wallet.
     andthen (spawn_onchain_registration (u_id u) pk wallet_address
                (case u_user_type u of None \<Rightarrow> user_type.Consumer | Some t \<Rightarrow> t)
                (or_zero (u_latitude u)) (or_zero (u_longitude u)))
     (ok wallet))))))))"

text \<open>The body of the detached registration task.\<close>

definition run_onchain_task ::
    "env \<Rightarrow> uuid \<Rightarrow> pubkey \<Rightarrow> string \<Rightarrow> user_type \<Rightarrow> f64 \<Rightarrow> f64 \<Rightarrow> unit act" where
  "run_onchain_task E user_id pk wallet_address ut latitude longitude =
     bnd (attempt (register_user_on_chain E
       \<lparr>ra_authority = pk, ra_user_type = ut, ra_lat_e7 = 0, ra_long_e7 = 0, ra_h3_index = 0,
        ra_shard_id = 0\<rparr>)) (\<lambda>r.
     case r of
       Inl _ \<Rightarrow> ok ()
     | Inr sig \<Rightarrow>
         bnd (confirm_registered E pk) (\<lambda>confirmed.
         if \<not> confirmed then ok ()
         else
           andthen (ignoring (mark_registered E user_id wallet_address sig))
           (let pda = (case pubkey_from_str E (registry_program_id (cfg E)) of
                         Inl _ \<Rightarrow> [] | Inr program_id \<Rightarrow> pubkey_to_string E (user_pda E pk program_id))
            in ignoring (mark_user_onboarded E user_id (user_type_str ut) latitude longitude pda sig))))"

definition verification_email_of :: "env \<Rightarrow> string \<Rightarrow> string act" where
  "verification_email_of E token =
     (if \<not> eq_ignore_ascii_case (environment (cfg E)) ''production'' \<and> starts_with token ''verify_''
      then ok (trim_start_matches token ''verify_'')
      else bnd (find_email_by_token E token) (\<lambda>row.
           ok_or (BadRequest ''Invalid or expired verification token'') row))"

definition provision_if_needed :: "env \<Rightarrow> user \<Rightarrow> user act" where
  "provision_if_needed E u =
     bnd (unwrap_or True (has_any_wallet E (u_id u))) (\<lambda>has_wallet.
     if u_wallet_address u = None \<and> \<not> has_wallet
     then bnd (attempt (provision_custodial_wallet E u)) (\<lambda>r.
          case r of
            Inl _ \<Rightarrow> ok u
          | Inr wallet \<Rightarrow> ok (u\<lparr>u_wallet_address := Some (uw_wallet_address wallet),
                              u_blockchain_registered := uw_blockchain_registered wallet\<rparr>))
     else ok u)"

definition verify_email :: "env \<Rightarrow> string \<Rightarrow> verify_email_result act" where
  "verify_email E token =
     bnd (verification_email_of E token) (\<lambda>email.
     bnd (repo_verify_email E email) (\<lambda>row.
     bnd (ok_or (api_error.NotFound ''User not found'') row) (\<lambda>u0.
     bnd (provision_if_needed E u0) (\<lambda>u.
     bnd (issue_token E (u_id u) (u_username u) (u_role u)) (\<lambda>auth_token.
     andthen (ignoring (emit E (email_verified_event E (u_id u) (u_username u) (u_email u)
                (case u_wallet_address u of None \<Rightarrow> [] | Some a \<Rightarrow> a))))
     (andthen (ignoring (delete E (user_profile (u_email u))))
     (andthen (ignoring (delete E (user_profile (u_username u))))
      (ok \<lparr>ve_success = True, ve_message = ''Email verified successfully'',
           ve_wallet_address = u_wallet_address u,
           ve_auth = Some \<lparr>ar_access_token = auth_token, ar_expires_in = jwt_expiration (cfg E),
                           ar_user = u\<lparr>u_is_active := True\<rparr>\<rparr>\<rparr>))))))))"

section \<open>Resending the verification email\<close>

definition resend_sent :: resend_verification_result where
  "resend_sent =
     \<lparr>rv_status = ''sent'',
      rv_message = ''If that email is registered and unverified, a new verification email has been sent''\<rparr>"

definition resend_verification :: "env \<Rightarrow> string \<Rightarrow> resend_verification_result act" where
  "resend_verification E email =
     bnd (find_verification_state_by_email E email) (\<lambda>found.
     case found of
       None \<Rightarrow> ok resend_sent
     | Some state \<Rightarrow>
         if vs_email_verified state then ok resend_sent
         else
           let cooldown_key = resend_verification_cooldown (uuid_to_string E (vs_user_id state)) in
           bnd (unwrap_or False (exists_key E cooldown_key)) (\<lambda>cooling.
           if cooling then ok resend_sent
           else
             bnd (case vs_verification_token state of
                    Some token \<Rightarrow> ok token
                  | None \<Rightarrow>
                      bnd (new_v4 E) (\<lambda>i.
                      andthen (set_verification_token E (vs_user_id state) (uuid_to_string E i))
                      (ok (uuid_to_string E i)))) (\<lambda>token.
             andthen (ignoring (emit E (verification_email_requested E (vs_user_id state)
                        (vs_username state) email token)))
             (andthen (ignoring (cache_set E C_json cooldown_key (JBool True)
                        (Some RESEND_VERIFICATION_COOLDOWN_SECS)))
              (ok resend_sent)))))"

section \<open>API keys\<close>

definition verify_api_key :: "env \<Rightarrow> string \<Rightarrow> api_key act" where
  "verify_api_key E key =
     (let key_hash = hash_key E key; cache_key = api_key_key key_hash in
      bnd (unwrap_or None (cache_get E as_api_key cache_key)) (\<lambda>cached_key.
      case cached_key of
        Some k \<Rightarrow> ok k
      | None \<Rightarrow>
          bnd (find_by_hash E key_hash) (\<lambda>row.
          bnd (ok_or (Unauthorized ''Invalid API Key'') row) (\<lambda>k.
          andthen (ignoring (update_last_used E (ak_id k)))
          (andthen (ignoring (cache_set E C_api_key cache_key k (Some API_KEY_CACHE_TTL_SECS)))
          (andthen (ignoring (emit E (api_key_verified E (ak_name k) (ak_role k))))
           (ok k)))))))"

section \<open>Profile and password reset\<close>

definition get_user_profile :: "env \<Rightarrow> uuid \<Rightarrow> user act" where
  "get_user_profile E i =
     bnd (find_by_id E i) (\<lambda>row. ok_or (api_error.NotFound ''User not found'') row)"

definition forgot_password :: "env \<Rightarrow> string \<Rightarrow> unit act" where
  "forgot_password E email =
     bnd (find_by_username_or_email E email) (\<lambda>row.
     case row of
       None \<Rightarrow> ok ()
     | Some u \<Rightarrow>
         bnd (new_v4 E) (\<lambda>i.
         let token = uuid_to_string E i;
             reset_url = app_base_url (cfg E) @ ''/reset-password?token='' @ token in
         andthen (cache_set E C_json (password_reset_token token) (JStr (to_lowercase email)) (Some 900))
         (andthen (ignoring (emit E (password_reset_requested E (u_id (uh_user u)) email reset_url)))
          (ok ()))))"

definition reset_password :: "env \<Rightarrow> string \<Rightarrow> string \<Rightarrow> unit act" where
  "reset_password E token new_password =
     (let key = password_reset_token token in
      bnd (cache_get E as_string key) (\<lambda>cached_email.
      bnd (ok_or (BadRequest ''Invalid or expired reset token'') cached_email) (\<lambda>email.
      bnd (find_by_username_or_email E email) (\<lambda>user_opt.
      bnd (hash_password E new_password) (\<lambda>password_hash.
      bnd (update_password E email password_hash) (\<lambda>rows.
      if rows = 0 then throw (api_error.NotFound ''User not found'')
      else
        andthen (ignoring (delete E (user_profile email)))
        (andthen (case user_opt of
                    None \<Rightarrow> ok ()
                  | Some u \<Rightarrow> ignoring (delete E (user_profile (u_username (uh_user u)))))
        (andthen (ignoring (delete E key)) (ok ())))))))))"

section \<open>Rate limiting\<close>

definition check_rate_limit :: "env \<Rightarrow> string \<Rightarrow> string \<Rightarrow> nat \<Rightarrow> nat \<Rightarrow> unit act" where
  "check_rate_limit E ip endpoint limit window_secs =
     (let key = rate_limit_key ip endpoint in
      bnd (increment E key) (\<lambda>count.
      andthen (if count = 1
               then ignoring (set_value E key (C_json (JInt (int count))) (Some window_secs))
               else ok ())
      (if count > limit
       then throw (with_code TooManyRequests
              (''Rate limit exceeded. Please try again in '' @ show_nat window_secs @ '' seconds.''))
       else ok ())))"

section \<open>Detached tasks\<close>

definition run_task :: "env \<Rightarrow> task \<Rightarrow> unit act" where
  "run_task E t =
     (case t of
        T_onchain user_id pk wallet_address ut latitude longitude \<Rightarrow>
          run_onchain_task E user_id pk wallet_address ut latitude longitude
      | T_kafka e \<Rightarrow> run_kafka_task E e)"

text \<open>The scheduler runs any waiting task to its end.\<close>

definition run_waiting_task :: "env \<Rightarrow> nat \<Rightarrow> unit act" where
  "run_waiting_task E n w =
     (if n < length (tasks w)
      then run_task E (tasks w ! n) (w\<lparr>tasks := take n (tasks w) @ drop (Suc n) (tasks w)\<rparr>)
      else (Inr (), w))"

end
