(* ===== verification/WalletOps.thy ===== *)
theory WalletOps
  imports Auth
begin

text \<open>
  \<open>iam-logic/src/auth_service.rs\<close>, wallets: listing, linking, unlinking, choosing the primary
  wallet, and the on-chain registration of a user.
\<close>

definition list_wallets :: "env \<Rightarrow> uuid \<Rightarrow> user_wallet list act" where
  "list_wallets E u = list_by_user_id E u"

definition get_primary_wallet_address :: "env \<Rightarrow> uuid \<Rightarrow> string act" where
  "get_primary_wallet_address E u =
     bnd (find_primary_address E u) (\<lambda>a. ok_or (api_error.NotFound ''No primary wallet found'') a)"

definition get_wallet :: "env \<Rightarrow> uuid \<Rightarrow> uuid \<Rightarrow> user_wallet act" where
  "get_wallet E u i =
     bnd (find_by_id_and_user_id E i u) (\<lambda>r. ok_or (api_error.NotFound ''Wallet not found'') r)"

definition set_primary_wallet :: "env \<Rightarrow> uuid \<Rightarrow> uuid \<Rightarrow> user_wallet act" where
  "set_primary_wallet E u i =
     bnd (set_primary E u i) (\<lambda>r.
     bnd (ok_or (api_error.NotFound ''Wallet not found'') r) (\<lambda>wallet.
     andthen (ignoring (set_wallet_address E u (uw_wallet_address wallet)))
     (ok wallet)))"

definition unlink_wallet :: "env \<Rightarrow> uuid \<Rightarrow> uuid \<Rightarrow> unit act" where
  "unlink_wallet E u i =
     bnd (delete_if_not_primary E u i) (\<lambda>deleted.
     if \<not> deleted
     then bnd (wallet_exists E u i) (\<lambda>b.
          if b then throw (BadRequest ''Cannot delete primary wallet'')
          else throw (api_error.NotFound ''Wallet not found''))
     else ok ())"

definition auto_register :: "env \<Rightarrow> uuid \<Rightarrow> string \<Rightarrow> user \<Rightarrow> user_wallet \<Rightarrow> user_wallet act" where
  "auto_register E u address usr wallet =
     bnd (from_result (map_sum BadRequest id (parse_pubkey E address))) (\<lambda>pk.
     let ut = (case u_user_type usr of None \<Rightarrow> user_type.Consumer | Some t \<Rightarrow> t) in
     bnd (attempt (register_user_on_chain E
       \<lparr>ra_authority = pk, ra_user_type = ut, ra_lat_e7 = as_i32 (or_zero (u_latitude usr)),
        ra_long_e7 = as_i32 (or_zero (u_longitude usr)), ra_h3_index = 0, ra_shard_id = 0\<rparr>)) (\<lambda>r.
     case r of
       Inl _ \<Rightarrow> ok wallet
     | Inr sig \<Rightarrow>
         bnd (confirm_registered E pk) (\<lambda>confirmed.
         if \<not> confirmed then ok wallet
         else
           andthen (ignoring (mark_registered E u address sig))
           (bnd (from_result (map_sum
                  (\<lambda>e. Configuration (''Invalid registry program ID '' @ [CHR 0x27]
                         @ registry_program_id (cfg E) @ [CHR 0x27] @ '': '' @ e)) id
                  (pubkey_from_str E (registry_program_id (cfg E))))) (\<lambda>program_id.
            let pda = pubkey_to_string E (user_pda E pk program_id) in
            andthen (ignoring (emit E (user_wallet_linked E u address pda sig 0)))
            (ok (wallet\<lparr>uw_blockchain_registered := True, uw_blockchain_tx_signature := Some sig,
                        uw_user_account_pda := Some pda\<rparr>)))))))"

definition link_wallet :: "env \<Rightarrow> uuid \<Rightarrow> string \<Rightarrow> string option \<Rightarrow> bool \<Rightarrow> user_wallet act" where
  "link_wallet E u address label is_primary =
     andthen (from_result (map_sum (\<lambda>e. BadRequest (''invalid wallet address: '' @ e)) id (parse_pubkey E address)))
     (bnd (has_any_wallet E u) (\<lambda>has_existing.
      andthen (if has_existing \<and> is_primary then clear_primary E u else ok ())
      (bnd (wallet_insert E u address label is_primary) (\<lambda>wallet.
       andthen (if is_primary \<or> \<not> has_existing then ignoring (set_wallet_address E u address) else ok ())
       (bnd (attempt (find_by_id E u)) (\<lambda>r.
        case r of
          Inl _ \<Rightarrow> ok wallet
        | Inr None \<Rightarrow> ok wallet
        | Inr (Some usr) \<Rightarrow>
            if u_blockchain_registered usr then auto_register E u address usr wallet else ok wallet))))))"

section \<open>On-chain onboarding\<close>

definition onboarded :: "bool \<Rightarrow> string \<Rightarrow> string option \<Rightarrow> onchain_onboarding_result" where
  "onboarded success message sig = \<lparr>oo_success = success, oo_message = message, oo_transaction_signature = sig\<rparr>"

definition persist_onboarding ::
    "env \<Rightarrow> uuid \<Rightarrow> string \<Rightarrow> user_type \<Rightarrow> 32 word \<Rightarrow> 32 word \<Rightarrow> 8 word \<Rightarrow> string \<Rightarrow> string
     \<Rightarrow> onchain_onboarding_result act" where
  "persist_onboarding E u address ut lat long shard_id pda sig =
     bnd (attempt (mark_user_onboarded E u (user_type_str ut) (f64_of_i32 lat) (f64_of_i32 long) pda sig)) (\<lambda>r1.
     bnd (attempt (mark_registered E u address sig)) (\<lambda>r2.
     andthen (ignoring (emit E (user_onboarded E u address pda sig (user_type_str ut) shard_id)))
     (ok (onboarded True
       (case (r1, r2) of
          (Inr _, Inr _) \<Rightarrow> ''User registered on-chain''
        | _ \<Rightarrow> ''User registered on-chain; DB persistence lagged '' @ [CHR 0xE2, CHR 0x80, CHR 0x94]
               @ '' reconciliation pending'')
       (Some sig)))))"

definition onboard_user_on_chain ::
    "env \<Rightarrow> uuid \<Rightarrow> user_type \<Rightarrow> 32 word \<Rightarrow> 32 word \<Rightarrow> 64 word option \<Rightarrow> 8 word option
     \<Rightarrow> onchain_onboarding_result act" where
  "onboard_user_on_chain E u ut lat long h3_index shard =
     bnd (find_primary_address E u) (\<lambda>a.
     bnd (ok_or (BadRequest ''No primary wallet found'') a) (\<lambda>address.
     bnd (from_result (map_sum BadRequest id (parse_pubkey E address))) (\<lambda>pk.
     let h3 = (case h3_index of None \<Rightarrow> 0 | Some h \<Rightarrow> h);
         shard_id = (case shard of None \<Rightarrow> 0 | Some s \<Rightarrow> s) in
     bnd (from_result (map_sum (\<lambda>e. Internal (''Invalid registry program ID: '' @ e)) id
            (pubkey_from_str E (registry_program_id (cfg E))))) (\<lambda>program_id.
     let pda_key = user_pda E pk program_id; pda = pubkey_to_string E pda_key in
     bnd (unwrap_or False (account_exists E pda_key)) (\<lambda>already.
     if already
     then andthen (ignoring (mark_user_onboarded E u (user_type_str ut) (f64_of_i32 lat) (f64_of_i32 long)
                     pda ''preexisting-onchain''))
          (andthen (ignoring (mark_registered E u address ''preexisting-onchain''))
           (ok (onboarded True ''User already registered on-chain'' None)))
     else
       bnd (attempt (register_user_on_chain E
         \<lparr>ra_authority = pk, ra_user_type = ut, ra_lat_e7 = lat, ra_long_e7 = long, ra_h3_index = h3,
          ra_shard_id = shard_id\<rparr>)) (\<lambda>r.
       case r of
         Inl e \<Rightarrow> ok (onboarded False (api_error_to_string e) None)
       | Inr sig \<Rightarrow>
           bnd (poll_account E pda_key 20) (\<lambda>confirmed.
           if \<not> confirmed
           then ok (onboarded False
                  ''On-chain registration submitted but not confirmed on-chain; please retry'' (Some sig))
           else persist_onboarding E u address ut lat long shard_id pda sig)))))))"

definition initialize_user_wallet :: "env \<Rightarrow> uuid \<Rightarrow> string \<Rightarrow> string act" where
  "initialize_user_wallet E u address =
     bnd (from_result (map_sum BadRequest id (parse_pubkey E address))) (\<lambda>pk.
     bnd (map_err (\<lambda>e. Internal (api_error_to_string e)) (register_user_on_chain E
       \<lparr>ra_authority = pk, ra_user_type = user_type.Consumer, ra_lat_e7 = 0, ra_long_e7 = 0, ra_h3_index = 0,
        ra_shard_id = 0\<rparr>)) (\<lambda>sig.
     bnd (confirm_registered E pk) (\<lambda>confirmed.
     if \<not> confirmed
     then throw (Internal ''On-chain registration submitted but not confirmed on-chain; please retry'')
     else andthen (mark_registered E u address sig) (ok sig))))"

end
