(* ===== verification/Invariants.thy ===== *)
theory Invariants
  imports WalletOps
begin

text \<open>
  Invariants of the whole service.  A step relation has one step per database or cache request, so
  it contains every interleaving of concurrent handlers; every handler, with every pattern of
  lost requests, is a run of it; and every run keeps the table constraints, leaves no record half
  written and lets accounts only evolve.
\<close>

section \<open>What does not write the tables\<close>

definition tables :: "world \<Rightarrow> user_rec list \<times> wallet_row list" where
  "tables w = (users w, wallets w)"

lemma untimed_tables [simp]: "untimed tables"
  by (simp add: untimed_def tables_def)

interpretation bus_tables: bus_frame E tables for E
  by unfold_locales (simp_all add: passes_untimed, simp_all add: tables_def)

lemma keeps_tables_ops:
  "keeps tables (get_value E k)" "keeps tables (set_value E k v t)" "keeps tables (delete E k)"
  "keeps tables (increment E k)" "keeps tables (increment_with_ttl E k ttl)" "keeps tables (exists_key E k)"
  "keeps tables (cache_get E view k)" "keeps tables (cache_set E to_value k x t)"
  "keeps tables (find_by_hash E h)" "keeps tables (update_last_used E i)" "keeps tables (spawn tk)"
  "keeps tables (register_user_on_chain E a)" "keeps tables (account_exists E p)"
  "keeps tables (poll_account E p n)" "keeps tables (confirm_registered E p)"
  by (intro keeps_cache keeps_api_key_ops keeps_spawn keeps_chain; simp add: tables_def)+

lemma keeps_tables_hash: "keeps tables (hash_password E pw)"
  unfolding hash_password_def by (intro keeps_intros keeps_timed untimed_tables)

lemma keeps_tables_kafka: "keeps tables (kafka_publish E e)"
  by (rule keepsI)
    (simp add: kafka_publish_def io_def Let_def kafka_append_def tables_def split: outcome.splits)

lemma keeps_tables_timed:
  "keeps tables now" "keeps tables (new_v4 E)" "keeps tables (draw src)" "keeps tables (sleep_ms d)"
  by (intro keeps_timed untimed_tables)+

lemma keeps_tables_events:
  "keeps tables (user_registered E i n e)" "keeps tables (user_logged_in E i n ip)"
  "keeps tables (verification_email_requested E i n e t)" "keeps tables (email_verified_event E i n e a)"
  "keeps tables (user_onboarded E i a p s t sh)" "keeps tables (login_attempt E n b ip)"
  "keeps tables (account_locked E n secs)" "keeps tables (api_key_verified E n r)"
  "keeps tables (user_wallet_linked E i a p s sh)" "keeps tables (password_reset_requested E i e url)"
  unfolding event_ctor_defs by (intro bus_tables.keeps_bus)+

lemma keeps_tables_token: "keeps tables (issue_token E i n r)" "keeps tables (refresh_token E c)"
  unfolding issue_token_def refresh_token_def by (intro keeps_intros keeps_tables_timed)+

lemmas keeps_tables_all = keeps_intros keeps_tables_ops keeps_tables_hash keeps_tables_kafka
  keeps_tables_timed keeps_tables_events keeps_tables_token bus_tables.keeps_bus

lemma keeps_tables_emit: "keeps tables mk \<Longrightarrow> keeps tables (emit E mk)"
  by (rule bus_tables.keeps_emit)

section \<open>Interleavings\<close>

text \<open>
  The service handles requests concurrently: between two database or cache requests of one
  handler, requests of others are carried out.  A step is one such request, with any arguments;
  a handler is a sequence of steps, so \<open>run E\<close> contains every interleaving of any number of
  handlers, background tasks and outbox rounds.  A transaction is one step.  Users are
  inserted by registration only, as the \<open>NewUser\<close> it builds; \<open>other\<close> stands for everything that
  does not write these tables (cache, stream, outbox, remote calls, the passing of time).
\<close>

inductive step :: "env \<Rightarrow> world \<Rightarrow> world \<Rightarrow> bool" for E where
  create: "step E w (snd (create E (new_account i name email h first_name last_name tok) w))"
| verify: "step E w (snd (repo_verify_email E email w))"
| address: "step E w (snd (set_wallet_address E i a w))"
| token: "step E w (snd (set_verification_token E i t w))"
| password: "step E w (snd (update_password E email h w))"
| onboarded: "step E w (snd (mark_user_onboarded E i ut lat long pda sig w))"
| clear: "step E w (snd (clear_primary E u w))"
| primary: "step E w (snd (set_primary E u i w))"
| unlink: "step E w (snd (delete_if_not_primary E u i w))"
| link: "step E w (snd (wallet_insert E u a l p w))"
| registered: "step E w (snd (mark_registered E u a sig w))"
| custodial: "step E w (snd (persist_custodial_wallet E u a l k s iv v w))"
| other: "tables w' = tables w \<Longrightarrow> step E w w'"

inductive run :: "env \<Rightarrow> world \<Rightarrow> world \<Rightarrow> bool" for E where
  start: "run E w w"
| extend: "run E w w1 \<Longrightarrow> step E w1 w2 \<Longrightarrow> run E w w2"

inductive_cases stepE: "step E w w'"
inductive_simps run_start_iff: "run E w w"

lemma evolvesD: "evolves m \<Longrightarrow> users_evolve (users w) (users (snd (m w)))"
  by (simp add: evolves_def stable_def)

lemma step_db_ok: "step E w w' \<Longrightarrow> db_ok E w \<Longrightarrow> db_ok E w'"
proof (induction rule: step.induct)
  case (other w' w)
  then show ?case by (simp add: db_ok_def tables_def)
qed (blast intro: preservesD preserves_db_ops)+

lemma step_evolves: "step E w w' \<Longrightarrow> users_evolve (users w) (users w')"
proof (induction rule: step.induct)
  case (other w' w)
  then show ?case by (simp add: tables_def)
next
  case (create w i name email h first_name last_name tok)
  show ?case by (rule evolvesD, rule evolves_create) simp
qed (blast intro: evolvesD evolves_ops evolves_wallet_ops)+

lemma run_db_ok: "run E w w' \<Longrightarrow> db_ok E w \<Longrightarrow> db_ok E w'"
  by (induction rule: run.induct) (auto dest: step_db_ok)

lemma run_evolves: "run E w w' \<Longrightarrow> users_evolve (users w) (users w')"
  by (induction rule: run.induct) (auto dest: step_evolves intro: users_evolve_trans)

section \<open>Every handler is a run\<close>

lemma run_trans: "run E w1 w2 \<Longrightarrow> run E w w1 \<Longrightarrow> run E w w2"
  by (induction rule: run.induct) (auto intro: run.extend)

lemma step_run: "step E w w' \<Longrightarrow> run E w w'"
  by (blast intro: run.intros)

interpretation runs: timed_order "run E" for E
proof unfold_locales
  show "run E w w" for w by (rule run.start)
  show "run E w1 w2 \<Longrightarrow> run E w2 w3 \<Longrightarrow> run E w1 w3" for w1 w2 w3 by (rule run_trans)
qed (rule step_run, rule step.other, simp add: tables_def)+

definition steps :: "env \<Rightarrow> (world, 'e, 'a) comp \<Rightarrow> bool" where
  "steps E m \<longleftrightarrow> stable (run E) m"

lemma stepsI: "(\<And>w. step E w (snd (m w))) \<Longrightarrow> steps E m"
  by (simp add: steps_def stable_def step_run)

lemma steps_of_keeps: "keeps tables m \<Longrightarrow> steps E m"
  by (rule stepsI) (rule step.other, simp add: keeps_def stable_def)

lemma steps_users:
  "steps E (create E (new_account j n e h' f l tok))" "steps E (repo_verify_email E email)"
  "steps E (set_wallet_address E i a)" "steps E (set_verification_token E i t)"
  "steps E (update_password E email h)" "steps E (mark_user_onboarded E i ut lat long pda sig)"
  by (auto intro: stepsI step.intros)

lemma steps_wallets:
  "steps E (clear_primary E u)" "steps E (set_primary E u i)" "steps E (delete_if_not_primary E u i)"
  "steps E (wallet_insert E u a l p)" "steps E (mark_registered E u a sig)"
  "steps E (persist_custodial_wallet E u a l k s iv v)"
  by (auto intro: stepsI step.intros)

lemma keeps_tables_reads:
  "keeps tables (find_by_username_or_email E x)" "keeps tables (find_by_id E i)"
  "keeps tables (find_email_by_token E token)" "keeps tables (find_verification_state_by_email E email)"
  "keeps tables (repo_health_check E)" "keeps tables (list_by_user_id E u)"
  "keeps tables (find_by_id_and_user_id E i u)" "keeps tables (wallet_exists E u i)"
  "keeps tables (has_any_wallet E u)" "keeps tables (find_primary_address E u)"
  unfolding user_op_defs wallet_op_defs by (intro keeps_timed keeps_intros untimed_tables)+

lemmas steps_prims = keeps_tables_ops [THEN steps_of_keeps] keeps_tables_hash [THEN steps_of_keeps]
  keeps_tables_reads [THEN steps_of_keeps] keeps_tables_timed [THEN steps_of_keeps]
  keeps_tables_events [THEN steps_of_keeps] keeps_tables_token [THEN steps_of_keeps]
  bus_tables.keeps_publish [THEN steps_of_keeps] bus_tables.keeps_publish_batch [THEN steps_of_keeps]

lemmas steps_all = runs.stable_intros [folded steps_def] steps_users steps_wallets steps_prims

lemma steps_emit: "steps E mk \<Longrightarrow> steps E (emit E' mk)"
  unfolding emit_def by (intro steps_all)

lemma steps_login: "steps E (login E username password)"
  unfolding login_def lookup_login_user_def login_failed_def lock_account_def login_succeeded_def
  by (intro steps_all steps_emit)

lemma steps_register: "steps E (register E username email password first last_name)"
  unfolding register_def by (intro steps_all steps_emit)

lemma steps_verify_email: "steps E (verify_email E token)"
  unfolding verify_email_def verification_email_of_def provision_if_needed_def
    provision_custodial_wallet_def spawn_onchain_registration_def
  by (intro steps_all steps_emit)

lemma steps_account:
  "steps E (resend_verification E email)" "steps E (verify_api_key E key)"
  "steps E (forgot_password E email)" "steps E (reset_password E token p)"
  "steps E (get_user_profile E i)" "steps E (check_rate_limit E ip ep limit window)"
  "steps E (refresh_token E c)"
  unfolding resend_verification_def verify_api_key_def forgot_password_def reset_password_def
    get_user_profile_def check_rate_limit_def
  by (intro steps_all steps_emit)+

lemma steps_onchain_task: "steps E (run_onchain_task E i pk a ut lat long)"
  unfolding run_onchain_task_def by (intro steps_all)

lemma steps_wallet_handlers:
  "steps E (list_wallets E u)" "steps E (get_primary_wallet_address E u)" "steps E (get_wallet E u i)"
  "steps E (set_primary_wallet E u i)" "steps E (unlink_wallet E u i)"
  unfolding list_wallets_def get_primary_wallet_address_def get_wallet_def set_primary_wallet_def
    unlink_wallet_def
  by (intro steps_all)+

lemma steps_link_wallet: "steps E (link_wallet E u a l p)"
  unfolding link_wallet_def auto_register_def by (intro steps_all steps_emit)

lemma steps_onboard: "steps E (onboard_user_on_chain E u ut lat long h3 sh)"
  unfolding onboard_user_on_chain_def persist_onboarding_def by (intro steps_all steps_emit)

lemma steps_initialize: "steps E (initialize_user_wallet E u a)"
  unfolding initialize_user_wallet_def by (intro steps_all)

lemmas steps_handlers = steps_login steps_register steps_verify_email steps_account
  steps_wallet_handlers steps_link_wallet steps_onboard steps_initialize

lemma stepsD: "steps E m \<Longrightarrow> run E w (snd (m w))"
  by (simp add: steps_def stable_def)

lemma kafka_task_tables: "tables (snd (run_kafka_task E e w)) = tables w"
  using keepsD [OF keeps_tables_kafka] by (simp add: run_kafka_task_def ignoring_run)

lemma worker_tables: "tables (snd (tick E w)) = tables w"
proof -
  have o: "keeps tables (mark_processed E i)" "keeps tables (mark_failed E i)" "keeps tables (fetch_pending E n)" for i n
    by (intro keeps_outbox_ops passes_untimed; simp add: tables_def)+
  have "keeps tables (relay_all E rs)" for rs
    by (induction rs) (auto simp: relay_def intro!: keeps_tables_all o)
  then have "keeps tables (tick E)"
    unfolding tick_def by (intro keeps_tables_all o)
  then show ?thesis by (rule keepsD)
qed

text \<open>Every request handler of the service, whatever calls fail in it, is a run of the step relation:
  a sequence of single database, cache and remote requests.  So what holds in every
  interleaving of steps holds for concurrent handlers.\<close>

lemma handlers_are_runs:
  "run E w (snd (login E name pw w)) \<and> run E w (snd (register E name email pw first last_name w)) \<and>
   run E w (snd (verify_email E token w)) \<and> run E w (snd (resend_verification E email w)) \<and>
   run E w (snd (verify_api_key E key w)) \<and> run E w (snd (forgot_password E email w)) \<and>
   run E w (snd (reset_password E token pw w)) \<and> run E w (snd (link_wallet E u a l p w)) \<and>
   run E w (snd (unlink_wallet E u i w)) \<and> run E w (snd (set_primary_wallet E u i w)) \<and>
   run E w (snd (onboard_user_on_chain E u ut lat long h3 sh w)) \<and>
   run E w (snd (initialize_user_wallet E u a w)) \<and>
   run E w (snd (run_onchain_task E u pk a ut flat flong w)) \<and> run E w (snd (tick E w)) \<and>
   run E w (snd (get_user_profile E u w)) \<and> run E w (snd (refresh_token E c w)) \<and>
   run E w (snd (list_wallets E u w)) \<and> run E w (snd (get_wallet E u i w)) \<and>
   run E w (snd (get_primary_wallet_address E u w)) \<and> run E w (snd (check_rate_limit E ip ep limit window w))"
proof -
  have "run E w (snd (tick E w))"
    by (intro step_run step.other) (rule worker_tables)
  then show ?thesis
    by (intro conjI stepsD [OF steps_handlers(1)] stepsD [OF steps_register] stepsD [OF steps_verify_email]
        stepsD [OF steps_account(1)] stepsD [OF steps_account(2)] stepsD [OF steps_account(3)]
        stepsD [OF steps_account(4)] stepsD [OF steps_link_wallet] stepsD [OF steps_wallet_handlers(4)]
        stepsD [OF steps_wallet_handlers(5)] stepsD [OF steps_onboard] stepsD [OF steps_initialize]
        stepsD [OF steps_onchain_task] stepsD [OF steps_account(5)] stepsD [OF steps_account(7)]
        stepsD [OF steps_wallet_handlers(1)] stepsD [OF steps_wallet_handlers(3)]
        stepsD [OF steps_wallet_handlers(2)] stepsD [OF steps_account(6)])
qed

section \<open>Records are complete\<close>

text \<open>
  Columns that belong together are written together: an active account has a verified address and
  the time of the verification, a verification token lives 24 hours from its sending, an account recorded
  as registered on-chain is confirmed and has its PDA, signature, confirmation time, type and location, an
  encrypted key has its salt, its IV and the address it belongs to.  None of this is a constraint of
  the tables.
\<close>

definition account_complete :: "user_rec \<Rightarrow> bool" where
  "account_complete r \<longleftrightarrow>
     (is_active r \<longrightarrow> email_verified r) \<and> (email_verified r \<longleftrightarrow> email_verified_at r \<noteq> None) \<and>
     (email_verification_token r \<noteq> None \<longrightarrow> email_verification_sent_at r \<noteq> None) \<and>
     email_verification_expires_at r = map_option (\<lambda>t. t + 24 * 3600 * 1000) (email_verification_sent_at r) \<and>
     (ur_blockchain_registered r \<longrightarrow>
        blockchain_status r = ''confirmed'' \<and> blockchain_confirmed_at r \<noteq> None \<and>
        user_account_pda r \<noteq> None \<and> blockchain_tx_signature r \<noteq> None \<and> ur_user_type r \<noteq> None \<and>
        ur_latitude r \<noteq> None \<and> ur_longitude r \<noteq> None) \<and>
     (encrypted_private_key r \<noteq> None \<longrightarrow>
        wallet_salt r \<noteq> None \<and> encryption_iv r \<noteq> None \<and> ur_wallet_address r \<noteq> None)"

definition wallet_complete :: "wallet_row \<Rightarrow> bool" where
  "wallet_complete r \<longleftrightarrow> (w_blockchain_registered r \<longleftrightarrow> w_blockchain_tx_signature r \<noteq> None)"

definition records_complete :: "world \<Rightarrow> bool" where
  "records_complete w \<longleftrightarrow> list_all account_complete (users w) \<and> list_all wallet_complete (wallets w)"

lemma untimed_records: "untimed records_complete"
  by (simp add: untimed_def records_complete_def)

interpretation complete: table_order "\<lambda>w w'. records_complete w \<longrightarrow> records_complete w'"
  by unfold_locales (auto simp: records_complete_def rollback_def)

lemmas complete_timed = complete.timed_intros [folded preserves_def]
lemmas complete_tx = complete.stable_transaction [folded preserves_def]

lemma write_users_complete:
  assumes "\<And>r. account_complete r \<Longrightarrow> P r \<Longrightarrow> account_complete (f r)"
  shows "records_complete w \<Longrightarrow> records_complete (snd (write_users E (update_where P f (users w)) w))"
  using assms by (simp add: records_complete_def write_users_run list_all_update_where)

lemma write_wallets_complete:
  assumes "\<And>r. wallet_complete r \<Longrightarrow> P r \<Longrightarrow> wallet_complete (f r)"
  shows "records_complete w \<Longrightarrow> records_complete (snd (write_wallets (update_where P f (wallets w)) w))"
  using assms by (simp add: records_complete_def write_wallets_run list_all_update_where)

text \<open>A write followed by a read of its result.\<close>

lemma then_complete:
  "(records_complete w \<Longrightarrow> records_complete (snd (m w))) \<Longrightarrow> records_complete w \<Longrightarrow>
   records_complete (snd (andthen m (gets g) w)) \<and> records_complete (snd (andthen m (ok x) w))"
  by (simp add: andthen_run gets_run ok_run split: sum.splits)

lemma complete_user_updates:
  "preserves records_complete (set_wallet_address E i a)"
  "preserves records_complete (set_verification_token E i tok)"
  "preserves records_complete (mark_user_onboarded E i ut lat long pda sig)"
  unfolding set_wallet_address_def set_verification_token_def mark_user_onboarded_def
  by (intro complete_timed preservesI write_users_complete;
      auto simp: account_complete_def onboard_row_def status_trigger_def)+

lemma complete_user_updates_then:
  "preserves records_complete (repo_verify_email E email)"
  "preserves records_complete (update_password E email h)"
  unfolding repo_verify_email_def update_password_def Let_def
  by (intro complete_timed preservesI then_complete [THEN conjunct1] then_complete [THEN conjunct2]
        write_users_complete; auto simp: account_complete_def activate_def)+

lemma complete_create: "preserves records_complete (create E (new_account i n e h f l tok))"
proof -
  have "account_complete (new_user_row t (new_account i n e h f l tok))" for t
    by (simp add: account_complete_def new_user_row_def)
  then show ?thesis
    unfolding create_def
    by (intro complete_timed preservesI) (simp add: records_complete_def write_users_run)
qed

lemma complete_insert_row: "preserves records_complete (insert_wallet_row i u a l p)"
proof -
  have "wallet_complete (new_wallet_row t i u a l p)" for t
    by (simp add: wallet_complete_def new_wallet_row_def)
  then show ?thesis
    unfolding insert_wallet_row_def Let_def
    by (intro preservesI then_complete [THEN conjunct2]) (simp_all add: records_complete_def write_wallets_run)
qed

lemma complete_demote: "preserves records_complete (\<lambda>w. write_wallets (demote_all u (wallets w)) w)"
  unfolding demote_all_def by (intro preservesI write_wallets_complete) (simp_all add: wallet_complete_def)

lemma complete_promote:
  "preserves records_complete (\<lambda>w. andthen (write_wallets (promote i u (wallets w))) (gets g) w)"
  unfolding promote_def
  by (intro preservesI then_complete [THEN conjunct1] write_wallets_complete) (simp_all add: wallet_complete_def)

lemma complete_custodial_key:
  "preserves records_complete (\<lambda>w. write_users E
     (update_where (\<lambda>x. ur_id x = u)
        (\<lambda>x. x\<lparr>encrypted_private_key := Some k, wallet_salt := Some s, encryption_iv := Some iv,
               ur_kdf_version := v, ur_wallet_address := Some a\<rparr>) (users w)) w)"
  by (intro preservesI write_users_complete) (auto simp: account_complete_def)

lemma complete_delete: "preserves records_complete (delete_if_not_primary E u i)"
  unfolding delete_if_not_primary_def Let_def
  by (intro complete_timed preservesI) (simp add: records_complete_def list_all_iff)

lemma complete_wallet_ops:
  "preserves records_complete (clear_primary E u)" "preserves records_complete (set_primary E u i)"
  "preserves records_complete (wallet_insert E u a l p)"
  "preserves records_complete (persist_custodial_wallet E u a l k s iv v)"
  unfolding clear_primary_def set_primary_def wallet_insert_def persist_custodial_wallet_def
  by (intro preserves_intros complete_timed complete_tx complete_demote complete_promote complete_insert_row
        complete_custodial_key)+

lemma complete_mark_registered: "preserves records_complete (mark_registered E u a sig)"
  unfolding mark_registered_def
  by (intro complete_timed preservesI write_wallets_complete) (simp_all add: wallet_complete_def)

lemmas complete_ops = complete_user_updates complete_user_updates_then complete_create complete_delete
  complete_wallet_ops complete_mark_registered

lemma step_complete: "step E w w' \<Longrightarrow> records_complete w \<Longrightarrow> records_complete w'"
proof (induction rule: step.induct)
  case (other w' w)
  then show ?case by (simp add: records_complete_def tables_def)
qed (blast intro: preservesD complete_ops)+

lemma run_complete: "run E w w' \<Longrightarrow> records_complete w \<Longrightarrow> records_complete w'"
  by (induction rule: run.induct) (auto dest: step_complete)

text \<open>Whatever requests run, in whatever interleaving, and whatever calls to the database are lost or
  left without a reply: from a state where the table constraints hold, every state that is
  reached has no two users with the same id, user name or email (compared case-insensitively),
  no wallet address linked twice, at most one primary wallet per user, and no wallet without
  its owner.  The database tests this before every write.\<close>

lemma concurrent_table_constraints:
  assumes "db_ok E w" and "run E w w'"
  shows "unique_on ur_id (users w') \<and> unique_on ur_username (users w') \<and>
    unique_on (\<lambda>r. pg_lower E (ur_email r)) (users w') \<and>
    unique_on w_wallet_address (wallets w') \<and>
    (\<forall>x \<in> set (wallets w'). \<forall>y \<in> set (wallets w').
       w_is_primary x \<longrightarrow> w_is_primary y \<longrightarrow> w_user_id x = w_user_id y \<longrightarrow> x = y) \<and>
    (\<forall>x \<in> set (wallets w'). w_user_id x \<in> ur_id ` set (users w'))"
proof -
  have ok: "users_ok E (users w')" "wallets_ok (users w') (wallets w')"
    using run_db_ok [OF assms(2,1)] by (simp_all add: db_ok_def)
  have "x = y" if "x \<in> set (wallets w')" "y \<in> set (wallets w')" "w_is_primary x" "w_is_primary y"
    "w_user_id x = w_user_id y" for x y
    using unique_someD [of primary_owner "wallets w'" x y "w_user_id x"] ok(2) that
    by (simp add: wallets_ok_def wallets_unique_def primary_owner_def)
  with ok show ?thesis
    by (auto simp: users_ok_def users_unique_def wallets_ok_def wallets_unique_def owners_exist_def
        list_all_iff)
qed

lemma unique_on_appendD: "unique_on key (a @ b) \<Longrightarrow> x \<in> set a \<Longrightarrow> y \<in> set b \<Longrightarrow> key y \<noteq> key x"
  by (auto simp: unique_on_def)

section \<open>Properties\<close>

definition sample_user :: user_rec where
  "sample_user = activate 0 (new_user_row 0
     \<lparr>nu_id = 7, nu_username = ''alice'', nu_email = ''alice@x.io'', nu_password_hash = ''$argon2id$GridTokenX123!'',
      nu_role = ''user'', nu_first_name = None, nu_last_name = None, nu_verification_token = Some ''tok''\<rparr>)"

definition sample_world :: world where
  "sample_world = empty_world\<lparr>users := [sample_user]\<rparr>"

lemmas fits_eval = fits_opt_def fits_def char_count_def byte_def
lemmas table_eval = db_ok_def users_ok_def users_unique_def wallets_ok_def wallets_unique_def owners_exist_def
  unique_on_def unique_some_def map_filter_def sample_world_def empty_world_def

lemma sample_user_fits: "user_fits sample_user"
  by (simp add: sample_user_def activate_def new_user_row_def user_fits_def fits_eval)

lemma sample_world_ok: "db_ok sample_env sample_world"
  using sample_user_fits by (simp add: table_eval)

lemma sample_world_complete: "records_complete sample_world"
  by (simp add: records_complete_def account_complete_def sample_world_def empty_world_def sample_user_def
      activate_def new_user_row_def)

text \<open>C2. Whatever requests run, in whatever interleaving, and whatever calls are lost or left without a reply:
  no stored record is ever half written.  In every state reached from complete records, an active account has a
  verified address and the time it was verified; a verification token expires exactly 24 hours after it was
  sent; an account recorded as registered on-chain is \<open>confirmed\<close> and has its PDA, signature,
  confirmation time, type and location; an encrypted key is stored with its salt, its IV and its wallet
  address; and a wallet is marked as registered exactly when it has its transaction signature.\<close>

theorem concurrent_records_complete:
  assumes "records_complete w" and "run E w w'"
  shows "(\<forall>r \<in> set (users w').
      (is_active r \<longrightarrow> email_verified r) \<and> (email_verified r \<longleftrightarrow> email_verified_at r \<noteq> None) \<and>
      (\<forall>tok. email_verification_token r = Some tok \<longrightarrow>
         (\<exists>t. email_verification_sent_at r = Some t \<and> email_verification_expires_at r = Some (t + 86400000))) \<and>
      (ur_blockchain_registered r \<longrightarrow>
         blockchain_status r = ''confirmed'' \<and> blockchain_confirmed_at r \<noteq> None \<and> user_account_pda r \<noteq> None \<and>
         blockchain_tx_signature r \<noteq> None \<and> ur_user_type r \<noteq> None \<and> ur_latitude r \<noteq> None \<and>
         ur_longitude r \<noteq> None) \<and>
      (encrypted_private_key r \<noteq> None \<longrightarrow>
         wallet_salt r \<noteq> None \<and> encryption_iv r \<noteq> None \<and> ur_wallet_address r \<noteq> None)) \<and>
    (\<forall>x \<in> set (wallets w'). w_blockchain_registered x \<longleftrightarrow> w_blockchain_tx_signature x \<noteq> None)"
  using run_complete [OF assms(2,1)]
  by (auto simp: records_complete_def account_complete_def wallet_complete_def list_all_iff)

definition sample_linked :: world where
  "sample_linked = sample_world\<lparr>wallets := [new_wallet_row 0 1 7 ''A'' None True]\<rparr>"

lemma sample_linked_marked:
  "wallets (snd (mark_registered sample_env 7 ''A'' ''sig'' sample_linked)) =
     [(new_wallet_row 0 1 7 ''A'' None True)\<lparr>w_blockchain_registered := True, w_blockchain_tx_signature := Some ''sig''\<rparr>]"
  by (simp add: mark_registered_def db_def sample_linked_def write_wallets_run wallets_ok_def table_eval
      new_wallet_row_def update_where_def wallet_fits_def fits_eval sample_user_def activate_def new_user_row_def
      primary_owner_def)

theorem concurrent_records_complete_witness:
  "\<exists>x. wallets (snd (mark_registered sample_env 7 ''A'' ''sig'' sample_linked)) = [x] \<and>
     w_blockchain_registered x \<and> w_blockchain_tx_signature x \<noteq> None"
proof -
  have c: "records_complete sample_linked"
    using sample_world_complete
    by (simp add: records_complete_def sample_linked_def wallet_complete_def new_wallet_row_def)
  show ?thesis
    using concurrent_records_complete [OF c step_run [OF step.registered [of sample_env sample_linked 7 "''A''" "''sig''"]]]
    by (simp add: sample_linked_marked)
qed

text \<open>C16. No request, and no interleaving of requests, changes the id, name, email or role of an account,
  removes an account or takes its activation back.  Every account the service adds has the role \<open>user\<close> and a
  new id, name and address; and an account, old or new, becomes active only with its email verified.\<close>

theorem no_privilege_escalation:
  assumes "db_ok E w" and "run E w w'"
  shows "\<exists>old added. users w' = old @ added \<and>
    list_all2 (\<lambda>r r'. ur_id r' = ur_id r \<and> ur_username r' = ur_username r \<and> ur_email r' = ur_email r \<and>
        ur_role r' = ur_role r \<and> (is_active r \<longrightarrow> is_active r') \<and>
        (is_active r' \<longrightarrow> is_active r \<or> email_verified r')) (users w) old \<and>
    (\<forall>r' \<in> set added. ur_role r' = ''user'' \<and> (is_active r' \<longrightarrow> email_verified r') \<and>
        (\<forall>r \<in> set (users w). ur_id r' \<noteq> ur_id r \<and> ur_username r' \<noteq> ur_username r \<and>
           pg_lower E (ur_email r') \<noteq> pg_lower E (ur_email r)))"
proof -
  obtain old added where t: "users w' = old @ added" "list_all2 account_step (users w) old"
      "list_all fresh_account added"
    using run_evolves [OF assms(2)] by (auto simp: users_evolve_def)
  have same: "map ident old = map ident (users w)"
    using t(2) by (auto simp: list_all2_conv_all_nth account_step_def intro: nth_equalityI)
  have new: "ur_id r' \<noteq> ur_id r \<and> ur_username r' \<noteq> ur_username r \<and> pg_lower E (ur_email r') \<noteq> pg_lower E (ur_email r)"
    if "r' \<in> set added" "r \<in> set (users w)" for r r'
  proof -
    have "ident r \<in> set (map ident old)" using that(2) same by simp
    then obtain q where q: "q \<in> set old" "ident q = ident r" by auto
    have "unique_on ur_id (old @ added)" "unique_on ur_username (old @ added)"
      "unique_on (\<lambda>r. pg_lower E (ur_email r)) (old @ added)"
      using run_db_ok [OF assms(2,1)] t(1) by (simp_all add: db_ok_def users_ok_def users_unique_def)
    from this [THEN unique_on_appendD, OF q(1) that(1)] q(2) show ?thesis
      by (simp add: ident_def)
  qed
  show ?thesis
    using t new
    by (intro exI [of _ old] exI [of _ added])
      (auto simp: account_step_def ident_def fresh_account_def list_all_iff elim!: list_all2_mono)
qed

lemmas ascii_eval = char_of_eq_iff is_ascii_def byte_def to_ascii_lowercase_def is_ascii_uppercase_def

lemma sample_lower:
  "pg_lower sample_env ''alice@x.io'' = ''alice@x.io''" "pg_lower sample_env ''Alice@x.io'' = ''alice@x.io''"
  "pg_lower sample_env ''ALICE@x.io'' = ''alice@x.io''" "pg_lower sample_env ''bob@x.io'' = ''bob@x.io''"
proof -
  have "pg_lower sample_env s = map to_ascii_lowercase s" if "is_ascii s" for s
    using to_lowercase_ascii [OF that] by (simp add: sample_env_def)
  then show "pg_lower sample_env ''alice@x.io'' = ''alice@x.io''" "pg_lower sample_env ''Alice@x.io'' = ''alice@x.io''"
    "pg_lower sample_env ''ALICE@x.io'' = ''alice@x.io''" "pg_lower sample_env ''bob@x.io'' = ''bob@x.io''"
    by (simp_all add: ascii_eval)
qed

lemma bob_created:
  "users (snd (create sample_env (new_account 8 ''bob'' ''bob@x.io'' ''h'' None None ''t'') sample_world)) =
     [sample_user, new_user_row 0 (new_account 8 ''bob'' ''bob@x.io'' ''h'' None None ''t'')]"
proof -
  have "user_fits (new_user_row 0 (new_account 8 ''bob'' ''bob@x.io'' ''h'' None None ''t''))"
    by (simp add: new_user_row_def user_fits_def fits_eval)
  then show ?thesis
    using sample_user_fits
    by (simp add: create_def db_def write_users_run table_eval user_roles_def sample_user_def activate_def
        new_user_row_def sample_lower)
qed

theorem no_privilege_escalation_witness:
  "\<exists>a b. users (snd (create sample_env (new_account 8 ''bob'' ''bob@x.io'' ''h'' None None ''t'') sample_world)) = [a, b] \<and>
     ur_username a = ''alice'' \<and> ur_role b = ''user'' \<and> ur_username b \<noteq> ''alice''"
proof -
  have u: "users sample_world = [sample_user]" "ur_username sample_user = ''alice''"
    by (simp_all add: sample_world_def sample_user_def activate_def new_user_row_def)
  show ?thesis
    using no_privilege_escalation [OF sample_world_ok step_run [OF step.create
        [of sample_env sample_world 8 "''bob''" "''bob@x.io''" "''h''" None None "''t''"]]]
    unfolding u(1) bob_created by (auto simp: list_all2_Cons1 u(2))
qed

end
