(* ===== verification/WalletSafety.thy ===== *)
theory WalletSafety
  imports Invariants
begin

text \<open>
  What the wallet handlers guarantee about a user's primary wallet and about the record of an
  on-chain registration.
\<close>

section \<open>The primary wallet\<close>

lemma in_demote_all:
  "y \<in> set (demote_all u t) \<longleftrightarrow>
   (\<exists>x \<in> set t. y = (if w_user_id x = u then x\<lparr>w_is_primary := False\<rparr> else x))"
  unfolding demote_all_def in_update_where by auto

lemma in_promote:
  "y \<in> set (promote i u t) \<longleftrightarrow>
   (\<exists>x \<in> set t. y = (if is_wallet i u x then x\<lparr>w_is_primary := True\<rparr> else x))"
  unfolding promote_def in_update_where by auto

lemma promoted_primary:
  assumes "y \<in> set (promote i u (demote_all u t))" "w_user_id y = u"
  shows "w_is_primary y \<longleftrightarrow> w_id y = i"
proof -
  obtain d where d: "d \<in> set (demote_all u t)" "y = (if is_wallet i u d then d\<lparr>w_is_primary := True\<rparr> else d)"
    using assms(1) unfolding in_promote by blast
  obtain x where x: "d = (if w_user_id x = u then x\<lparr>w_is_primary := False\<rparr> else x)"
    using d(1) unfolding in_demote_all by blast
  have "w_user_id d = u" using assms(2) d(2) by (simp split: if_splits)
  moreover from this have "\<not> w_is_primary d" using x by (simp split: if_splits)
  ultimately show ?thesis using d(2) by (simp add: is_wallet_def)
qed

lemma demoted_ident:
  assumes "y \<in> set (promote i u (demote_all u t))"
  shows "\<exists>x \<in> set t. w_id y = w_id x \<and> w_user_id y = w_user_id x"
proof -
  have "map (\<lambda>r. (w_id r, w_user_id r)) (promote i u (demote_all u t)) = map (\<lambda>r. (w_id r, w_user_id r)) t"
    by (simp add: promote_def demote_all_def map_update_where)
  from arg_cong [OF this, of set]
  have "(\<lambda>r. (w_id r, w_user_id r)) ` set (promote i u (demote_all u t)) = (\<lambda>r. (w_id r, w_user_id r)) ` set t"
    by (simp only: list.set_map)
  then have "(w_id y, w_user_id y) \<in> (\<lambda>r. (w_id r, w_user_id r)) ` set t" using assms by blast
  then show ?thesis by auto
qed

lemma find_promoted:
  "find (is_wallet i u) (promote i u (demote_all u t)) =
     map_option (\<lambda>x. x\<lparr>w_is_primary := True\<rparr>) (find (is_wallet i u) t)"
  by (induction t) (auto simp: promote_def demote_all_def update_where_def is_wallet_def)

lemma set_wallet_address_wallets: "keeps wallets (set_wallet_address E u a)"
  unfolding set_wallet_address_def
  by (intro keeps_timed untimed_components keepsI) (simp add: write_users_run)

lemma set_primary_wallet_run:
  assumes "reliable E" "db_ok E w"
  shows "wallets (snd (set_primary_wallet E u i w)) = promote i u (demote_all u (wallets w))"
    and "fst (set_primary_wallet E u i w) =
       (case find (is_wallet i u) (wallets w) of
          None \<Rightarrow> Inl (api_error.NotFound ''Wallet not found'')
        | Some x \<Rightarrow> Inr (wallet_into_domain (x\<lparr>w_is_primary := True\<rparr>)))"
proof -
  obtain w1 where "set_primary E u i w =
      (Inr (map_option wallet_into_domain (find (is_wallet i u) (promote i u (demote_all u (wallets w))))), w1)"
    "wallets w1 = promote i u (demote_all u (wallets w))"
    using set_primary_run [OF assms] by blast
  then show "wallets (snd (set_primary_wallet E u i w)) = promote i u (demote_all u (wallets w))"
    "fst (set_primary_wallet E u i w) =
       (case find (is_wallet i u) (wallets w) of
          None \<Rightarrow> Inl (api_error.NotFound ''Wallet not found'')
        | Some x \<Rightarrow> Inr (wallet_into_domain (x\<lparr>w_is_primary := True\<rparr>)))"
    using keepsD [OF set_wallet_address_wallets]
    by (simp_all add: set_primary_wallet_def comp_simps find_promoted split: option.splits)
qed

lemma find_unique_wallet:
  "unique_on w_id t \<Longrightarrow> x \<in> set t \<Longrightarrow> w_id x = i \<Longrightarrow> w_user_id x = u \<Longrightarrow> find (is_wallet i u) t = Some x"
  by (induction t) (auto simp: unique_on_def is_wallet_def)

lemma demoted_not_primary: "y \<in> set (demote_all u t) \<Longrightarrow> w_user_id y = u \<Longrightarrow> \<not> w_is_primary y"
  using demote_all_primary [of y u t] by (auto simp: primary_owner_def)

lemma linked_twice_rejected:
  assumes "wallets_ok us t" "a \<in> set (map w_wallet_address t)" "fits_opt 50 l"
  shows "\<not> wallets_unique (t @ [new_wallet_row c i u a l p]) \<and>
    list_all wallet_fits (t @ [new_wallet_row c i u a l p])"
  using assms
  by (auto simp: wallets_ok_def wallets_unique_def unique_on_def new_wallet_row_def wallet_fits_def list_all_iff
      fits_opt_def)

lemma link_wallet_taken:
  assumes "reliable E" "db_ok E w" "parse_pubkey E a = Inr pk" "x \<in> set (wallets w)" "w_wallet_address x = a"
    "y \<in> set (wallets w)" "w_user_id y = u" "fits_opt 50 l"
  shows "fst (link_wallet E u a l True w) = Inl (api_error.Conflict (''Wallet address '' @ a @ '' is already linked''))"
    and "wallets (snd (link_wallet E u a l True w)) = demote_all u (wallets w)"
proof -
  have ok: "wallets_ok (users w) (demote_all u (wallets w))"
    using assms(2) by (simp add: db_ok_def demote_all_ok)
  have "map w_wallet_address (demote_all u (wallets w)) = map w_wallet_address (wallets w)"
    by (simp add: demote_all_def map_update_where)
  then have taken: "a \<in> set (map w_wallet_address (demote_all u (wallets w)))"
    using assms(4,5) by auto
  have rej: "\<not> wallets_ok (users w) (demote_all u (wallets w) @ [new_wallet_row t i u a l True])"
    "\<not> wallets_unique (demote_all u (wallets w) @ [new_wallet_row t i u a l True])"
    "list_all wallet_fits (demote_all u (wallets w) @ [new_wallet_row t i u a l True])" for t i
    using linked_twice_rejected [OF ok taken assms(8)] by (simp_all add: wallets_ok_def)
  have "list_ex (\<lambda>r. w_user_id r = u) (wallets w)"
    using assms(6,7) by (auto simp: list_ex_iff)
  with assms(1,3) ok rej
  show "fst (link_wallet E u a l True w) = Inl (api_error.Conflict (''Wallet address '' @ a @ '' is already linked''))"
    "wallets (snd (link_wallet E u a l True w)) = demote_all u (wallets w)"
    by (simp_all add: link_wallet_def has_any_wallet_def clear_primary_def wallet_insert_def insert_wallet_row_def
        db_def comp_simps write_wallets_run new_v4_def wallet_conflict_def unique_violation_def Let_def)
qed

section \<open>Registration is recorded only when observed\<close>

text \<open>The wallets and users recorded as registered on-chain, and that there are no new ones.\<close>

definition registered :: "world \<Rightarrow> string set \<times> uuid set" where
  "registered w =
     (w_wallet_address ` {r \<in> set (wallets w). w_blockchain_registered r},
      ur_id ` {r \<in> set (users w). ur_blockchain_registered r})"

definition none_new :: "world \<Rightarrow> world \<Rightarrow> bool" where
  "none_new w w' \<longleftrightarrow>
     fst (registered w') \<subseteq> fst (registered w) \<and> snd (registered w') \<subseteq> snd (registered w)"

interpretation reg: table_order none_new
  by (unfold_locales; unfold none_new_def) (simp, blast, simp_all add: registered_def rollback_def)

lemma reg_of_tables: "keeps tables m \<Longrightarrow> stable none_new m"
  by (simp add: keeps_def stable_def none_new_def registered_def tables_def)

lemma reg_users_update:
  assumes "\<And>w r. ur_blockchain_registered (f w r) = ur_blockchain_registered r" "\<And>w r. ur_id (f w r) = ur_id r"
  shows "stable none_new (\<lambda>w. write_users E (update_where P (f w) (users w)) w)"
proof (rule reg.stable_write)
  fix w
  have "ur_id ` {r \<in> set (update_where P (f w) (users w)). ur_blockchain_registered r} \<subseteq>
      ur_id ` {r \<in> set (users w). ur_blockchain_registered r}"
    using assms by (auto simp: in_update_where split: if_splits)
  then show "none_new w (w\<lparr>users := update_where P (f w) (users w)\<rparr>)"
    by (simp add: none_new_def registered_def)
qed

lemma reg_wallets:
  assumes "\<And>w. w_wallet_address ` {r \<in> set (t w). w_blockchain_registered r} \<subseteq>
      w_wallet_address ` {r \<in> set (wallets w). w_blockchain_registered r}"
  shows "stable none_new (\<lambda>w. write_wallets (t w) w)"
  using assms by (simp add: stable_def write_wallets_run none_new_def registered_def)

lemma reg_demote: "w_wallet_address ` {r \<in> set (demote_all u t). w_blockchain_registered r} \<subseteq>
    w_wallet_address ` {r \<in> set t. w_blockchain_registered r}"
  by (auto simp: demote_all_def in_update_where split: if_splits)

lemma reg_insert_row: "stable none_new (insert_wallet_row i u a l p)"
proof -
  have "stable none_new (\<lambda>w. write_wallets (wallets w @ [new_wallet_row (clock w) i u a l p]) w)"
    by (rule reg_wallets) (auto simp: new_wallet_row_def)
  then show ?thesis
    by (auto simp: stable_def insert_wallet_row_def Let_def andthen_run ok_run split: sum.splits)
qed

lemma reg_ops:
  "stable none_new (set_wallet_address E u a)" "stable none_new (clear_primary E u)"
  "stable none_new (wallet_insert E u a l p)"
  unfolding set_wallet_address_def clear_primary_def wallet_insert_def
  by (intro reg.stable_db reg_users_update reg_wallets reg_demote reg.stable_intros reg.stable_new_v4
        reg_insert_row; simp)+

text \<open>A chain on which no account is ever observed.\<close>

definition unobserved :: "env \<Rightarrow> bool" where
  "unobserved E \<longleftrightarrow> (\<forall>i p. rpc_account_exists E i p \<noteq> Inr True)"

lemma unobserved_checks:
  assumes "unobserved E"
  shows "fst (confirm_registered E p w) = Inr False" "fst (poll_account E p n w) = Inr False"
    "fst (unwrap_or False (account_exists E p) w) = Inr False"
proof -
  show "fst (confirm_registered E p w) = Inr False"
    using confirm_run [of E p w] assms by (auto simp: unobserved_def)
  show "fst (poll_account E p n w) = Inr False"
    using poll_account_run [of E p n w] assms by (auto simp: unobserved_def)
  obtain r where "fst (account_exists E p w) = r" "r \<noteq> Inr True"
    using account_exists_run [of E p w] assms by (auto simp: unobserved_def)
  then show "fst (unwrap_or False (account_exists E p) w) = Inr False"
    by (cases r) (auto simp: unwrap_or_run)
qed

lemma stable_bnd_known:
  assumes "stable R m" "\<And>w. fst (m w) = Inr x" "stable R (k x)" "state_order R"
  shows "stable R (bnd m k)"
proof -
  have "R w (snd (k x (snd (m w))))" for w
    using assms(1,3) state_order.trans [OF assms(4)] by (metis stable_def)
  then show ?thesis using assms(2) by (simp add: stable_def bnd_run)
qed

lemmas reg_frames = keeps_tables_ops [THEN reg_of_tables] keeps_tables_timed [THEN reg_of_tables]
  keeps_tables_reads [THEN reg_of_tables] keeps_tables_events [THEN reg_of_tables]
  bus_tables.keeps_publish [THEN reg_of_tables]

lemma unobserved_steps:
  assumes "unobserved E"
  shows "stable none_new (k False) \<Longrightarrow> stable none_new (bnd (confirm_registered E p) k)"
    and "stable none_new (k False) \<Longrightarrow> stable none_new (bnd (poll_account E q n) k)"
    and "stable none_new (k False) \<Longrightarrow> stable none_new (bnd (unwrap_or False (account_exists E q)) k)"
  using unobserved_checks [OF assms] reg.state_order_axioms
  by (auto intro!: stable_bnd_known [where x = False] reg_frames reg.stable_unwrap_or)

lemma reg_emit: "stable none_new mk \<Longrightarrow> stable none_new (emit E mk)"
  unfolding emit_def by (intro reg.stable_intros reg_frames)

lemma unobserved_handlers:
  assumes "unobserved E"
  shows "stable none_new (link_wallet E u a l p)"
    "stable none_new (onboard_user_on_chain E u ut lat long h3 sh)"
    "stable none_new (initialize_user_wallet E u a)"
    "stable none_new (run_onchain_task E u pk a ut x y)"
  unfolding link_wallet_def auto_register_def onboard_user_on_chain_def initialize_user_wallet_def
    run_onchain_task_def
  by (rule unobserved_steps [OF assms] reg.stable_intros reg_ops reg_frames | simp)+

section \<open>Sample wallets\<close>

definition wallet_world :: world where
  "wallet_world = sample_world\<lparr>wallets := [new_wallet_row 0 3 7 ''12'' None True, new_wallet_row 0 4 7 ''13'' None False]\<rparr>"

lemma wallet_world_ok: "db_ok sample_env wallet_world"
proof -
  have "ur_id sample_user = 7" by (simp add: sample_user_def activate_def new_user_row_def)
  then show ?thesis
    using sample_user_fits
    by (simp add: table_eval wallet_world_def new_wallet_row_def wallet_fits_def primary_owner_def fits_eval)
qed

lemma wallet_world_unknown: "\<forall>x \<in> set (wallets wallet_world). \<not> (w_id x = 5 \<and> w_user_id x = 7)"
  by (simp add: wallet_world_def new_wallet_row_def)

lemma wallet_world_wallets:
  "wallets wallet_world = [new_wallet_row 0 3 7 ''12'' None True, new_wallet_row 0 4 7 ''13'' None False]"
  by (simp add: wallet_world_def)

text \<open>A slow chain: the first submission fails late, the second succeeds late, and the account is never seen.\<close>

definition slow_env :: env where
  "slow_env = sample_env\<lparr>
     rpc_register := (\<lambda>n a. (14999, if even n then Inl ''node is behind'' else Inr ''sig'')),
     rpc_account_exists := (\<lambda>_ _. Inr False)\<rparr>"

lemma slow_instant: "instant slow_env"
  using sample_env_instant by (simp add: slow_env_def instant_def reliable_def)

lemma slow_register:
  assumes "even (io_ix w)"
  shows "register_user_on_chain slow_env a w =
    (Inr ''sig'', w\<lparr>io_ix := Suc (Suc (io_ix w)), clock := clock w + 31998\<rparr>)"
proof -
  have step: "rpc_call slow_env a w = (Inr (if even (io_ix w) then Rpc_error ''node is behind'' else Signature ''sig''),
      w\<lparr>io_ix := Suc (io_ix w), clock := clock w + 14999\<rparr>)" for w
    by (simp add: rpc_call_def slow_env_def rpc_timeout_ms_def)
  have second: "register_loop slow_env a 1 w = (Inr ''sig'', w\<lparr>io_ix := Suc (io_ix w), clock := clock w + 14999\<rparr>)"
    if "odd (io_ix w)" for w
    using that by (subst register_loop.simps) (simp add: step comp_simps)
  show ?thesis
    using assms second unfolding register_user_on_chain_def
    by (subst register_loop.simps) (simp add: step comp_simps max_attempts_def sleep_ms_def)
qed

lemma slow_poll:
  "\<exists>m d. poll_account slow_env p 20 w = (Inr False, w\<lparr>io_ix := io_ix w + m, clock := clock w + int d\<rparr>) \<and> 15000 \<le> d"
proof -
  have "rpc_account_exists slow_env i p \<noteq> Inr True" for i by (simp add: slow_env_def)
  then show ?thesis using poll_account_run [of slow_env p 20 w] by fastforce
qed

lemma slow_onboarding:
  "46998 \<le> clock (snd (onboard_user_on_chain slow_env 7 Prosumer 0 0 None None wallet_world)) - clock wallet_world"
proof -
  have "io_ix wallet_world = 0" by (simp add: wallet_world_def sample_world_def empty_world_def)
  define w1 where "w1 = wallet_world\<lparr>io_ix := 1\<rparr>"
  define w2 where "w2 = wallet_world\<lparr>io_ix := 2\<rparr>"
  have a: "find_primary_address slow_env 7 wallet_world = (Inr (Some ''12''), w1)"
    by (simp add: w1_def \<open>io_ix wallet_world = 0\<close> find_primary_address_def db_def slow_instant comp_simps wallet_world_wallets new_wallet_row_def)
  have k: "parse_pubkey slow_env ''12'' = Inr 12" "pubkey_from_str slow_env (registry_program_id (cfg slow_env)) = Inr 7"
    by (simp_all add: slow_env_def sample_env_def sample_config_def number_of_def parse_unsigned_def digits_value_def
        is_ascii_digit_def byte_def)
  have e: "account_exists slow_env p w1 = (Inr False, w2)" for p
    by (simp add: w1_def w2_def account_exists_def io_def slow_env_def sample_env_def unwrap_or_run)
  have "even (io_ix w2)" "clock w2 = clock wallet_world" by (simp_all add: w2_def)
  obtain r w3 where w3: "onboard_user_on_chain slow_env 7 Prosumer 0 0 None None wallet_world = (r, w3)"
     "clock w2 + 46998 \<le> clock w3"
    using slow_poll [of "user_pda slow_env 12 7" "w2\<lparr>io_ix := Suc (Suc (io_ix w2)), clock := clock w2 + 31998\<rparr>"]
    by (auto simp: onboard_user_on_chain_def Let_def comp_simps a k e slow_register [OF \<open>even (io_ix w2)\<close>])
  with \<open>clock w2 = clock wallet_world\<close> show ?thesis by simp
qed

section \<open>Properties\<close>

text \<open>C13. Choosing a primary wallet: without faults the chosen wallet of the user is afterwards the one and
  only primary wallet of that user, and it is the wallet returned.\<close>

theorem set_primary_exact:
  assumes "reliable E" and "db_ok E w" and "x \<in> set (wallets w)" and "w_id x = i" and "w_user_id x = u"
  shows "fst (set_primary_wallet E u i w) = Inr (wallet_into_domain (x\<lparr>w_is_primary := True\<rparr>)) \<and>
    (\<forall>y \<in> set (wallets (snd (set_primary_wallet E u i w))). w_user_id y = u \<longrightarrow> (w_is_primary y \<longleftrightarrow> w_id y = i))"
proof -
  have "unique_on w_id (wallets w)"
    using assms(2) by (simp add: db_ok_def wallets_ok_def wallets_unique_def)
  then have "find (is_wallet i u) (wallets w) = Some x"
    using assms(3-5) find_unique_wallet by blast
  then show ?thesis
    using set_primary_wallet_run [OF assms(1,2), of u i] promoted_primary by simp
qed

theorem set_primary_exact_witness:
  "fst (set_primary_wallet sample_env 7 4 wallet_world) =
     Inr (wallet_into_domain (new_wallet_row 0 4 7 ''13'' None True))"
  using set_primary_exact [OF sample_env_reliable wallet_world_ok, of "new_wallet_row 0 4 7 ''13'' None False" 4 7]
  by (simp add: wallet_world_wallets new_wallet_row_def)

text \<open>Choosing a wallet that the user does not have is answered with \<open>NotFound\<close>, but the transaction
  is committed with its first half: the user is left without any primary wallet.\<close>

theorem set_primary_unknown_demotes:
  assumes "reliable E" and "db_ok E w" and "\<forall>x \<in> set (wallets w). \<not> (w_id x = i \<and> w_user_id x = u)"
  shows "fst (set_primary_wallet E u i w) = Inl (api_error.NotFound ''Wallet not found'') \<and>
    (\<forall>y \<in> set (wallets (snd (set_primary_wallet E u i w))). w_user_id y = u \<longrightarrow> \<not> w_is_primary y)"
proof -
  have "find (is_wallet i u) (wallets w) = None"
    using assms(3) by (simp add: find_None_iff is_wallet_def)
  moreover have "\<not> w_is_primary y" if "y \<in> set (promote i u (demote_all u (wallets w)))" "w_user_id y = u" for y
    using promoted_primary [OF that] demoted_ident [OF that(1)] that(2) assms(3) by metis
  ultimately show ?thesis
    using set_primary_wallet_run [OF assms(1,2), of u i] by simp
qed

theorem set_primary_unknown_demotes_witness:
  "fst (set_primary_wallet sample_env 7 5 wallet_world) = Inl (api_error.NotFound ''Wallet not found'') \<and>
   \<not> list_ex (\<lambda>y. w_user_id y = 7 \<and> w_is_primary y) (wallets (snd (set_primary_wallet sample_env 7 5 wallet_world)))"
proof -
  from set_primary_unknown_demotes [OF sample_env_reliable wallet_world_ok wallet_world_unknown]
  show ?thesis by (simp only: list_ex_iff) blast
qed

text \<open>C35. Linking a wallet as primary whose address is already linked is answered with \<open>Conflict\<close>, but
  by then the old primary flag is cleared: the user is left without any primary wallet.\<close>

theorem link_conflict_clears_primary:
  assumes "reliable E" and "db_ok E w" and "parse_pubkey E a = Inr pk" and "x \<in> set (wallets w)"
    and "w_wallet_address x = a" and "y \<in> set (wallets w)" and "w_user_id y = u" and "fits_opt 50 l"
  shows "fst (link_wallet E u a l True w) =
      Inl (api_error.Conflict (''Wallet address '' @ a @ '' is already linked'')) \<and>
    (\<forall>z \<in> set (wallets (snd (link_wallet E u a l True w))). w_user_id z = u \<longrightarrow> \<not> w_is_primary z)"
  using link_wallet_taken [OF assms] demoted_not_primary by auto

theorem link_conflict_clears_primary_witness:
  "fst (link_wallet sample_env 7 ''13'' None True wallet_world) =
     Inl (api_error.Conflict (''Wallet address '' @ ''13'' @ '' is already linked''))"
proof -
  have "parse_pubkey sample_env ''13'' = Inr 13"
    by (simp add: sample_env_def number_of_def parse_unsigned_def digits_value_def is_ascii_digit_def byte_def)
  then show ?thesis
    using link_conflict_clears_primary [OF sample_env_reliable wallet_world_ok, of "''13''" 13
        "new_wallet_row 0 4 7 ''13'' None False" "new_wallet_row 0 3 7 ''12'' None True" 7 None]
    by (simp add: wallet_world_wallets new_wallet_row_def fits_opt_def)
qed

text \<open>C24. A wallet or user is recorded as registered on-chain only when the chain was seen to hold an
  account: while no account is ever observed, none of the four paths that register (linking a
  wallet, onboarding, the gRPC initialisation and the detached task after email verification)
  records a registration, whatever signatures the submission returns.\<close>

theorem registration_needs_observation:
  assumes "unobserved E"
  shows "none_new w (snd (link_wallet E u a l p w)) \<and>
    none_new w (snd (onboard_user_on_chain E u ut lat long h3 sh w)) \<and>
    none_new w (snd (initialize_user_wallet E u a w)) \<and>
    none_new w (snd (run_onchain_task E u pk a ut x y w))"
proof -
  have "stable none_new (link_wallet E u a l p)" "stable none_new (onboard_user_on_chain E u ut lat long h3 sh)"
    "stable none_new (initialize_user_wallet E u a)" "stable none_new (run_onchain_task E u pk a ut x y)"
    using unobserved_handlers [OF assms] by blast+
  then show ?thesis by (simp add: stable_def)
qed

theorem registration_needs_observation_witness:
  "none_new wallet_world (snd (onboard_user_on_chain slow_env 7 Prosumer 0 0 None None wallet_world))"
proof -
  have "unobserved slow_env" by (simp add: unobserved_def slow_env_def)
  from registration_needs_observation [OF this, of wallet_world] show ?thesis by blast
qed

text \<open>Onboarding can outlast the request timeout: with the default timeout of 40 seconds there is a
  slow chain on which the handler takes more than 46 seconds, because the retried submission (up
  to 32 seconds) is followed by the confirmation poll (15 seconds) in the same request.\<close>

theorem onboarding_outlasts_timeout:
  "instant slow_env \<and> request_timeout_secs (cfg slow_env) = 40 \<and>
   46998 \<le> clock (snd (onboard_user_on_chain slow_env 7 Prosumer 0 0 None None wallet_world)) - clock wallet_world"
proof (intro conjI)
  show "instant slow_env" by (rule slow_instant)
  show "request_timeout_secs (cfg slow_env) = 40"
    by (simp add: slow_env_def sample_env_def sample_config_def)
  show "46998 \<le> clock (snd (onboard_user_on_chain slow_env 7 Prosumer 0 0 None None wallet_world)) - clock wallet_world"
    by (rule slow_onboarding)
qed

end
