(* ===== verification/Lockout.thy ===== *)
theory Lockout
  imports Invariants
begin

text \<open>
  Login against an abstract specification.  In an environment without faults and delays, what a
  login sees and changes is the user table, the cache and the clock; over these it is simulated by
  the same handler on plain functions, and that in turn implements a lockout automaton with the
  failures counted and the time the lock ends as its state.
\<close>

section \<open>The view of a login\<close>

record view =
  v_users :: "user_rec list"
  v_redis :: store
  v_clock :: int

definition view_of :: "world \<Rightarrow> view" where
  "view_of w = \<lparr>v_users = users w, v_redis = redis w, v_clock = clock w\<rparr>"

type_synonym 'a vact = "(view, api_error, 'a) comp"

definition on_view :: "(int \<Rightarrow> store \<Rightarrow> (api_error + 'a) \<times> store) \<Rightarrow> 'a vact" where
  "on_view f v = (case f (v_clock v) (v_redis v) of (r, s) \<Rightarrow> (r, v\<lparr>v_redis := s\<rparr>))"

definition a_exists :: "string \<Rightarrow> bool vact" where
  "a_exists k = gets (\<lambda>v. r_exists (v_clock v) k (v_redis v))"

definition a_get :: "env \<Rightarrow> (cached \<Rightarrow> 'a option) \<Rightarrow> string \<Rightarrow> 'a option vact" where
  "a_get E vw k v =
     (case r_get (v_clock v) k (v_redis v) of
        None \<Rightarrow> (Inr None, v)
      | Some c \<Rightarrow> (case vw c of None \<Rightarrow> (Inl (Internal (serde_error E c)), v) | Some x \<Rightarrow> (Inr (Some x), v)))"

definition a_set :: "string \<Rightarrow> cached \<Rightarrow> nat \<Rightarrow> unit vact" where
  "a_set k c ttl =
     on_view (\<lambda>t s. if valid_ttl t ttl then (Inr (), r_set_ex t k c ttl s)
                    else (Inl (Internal ''Redis SET failed''), s))"

definition a_del :: "string \<Rightarrow> unit vact" where
  "a_del k = on_view (\<lambda>t s. (Inr (), r_del k s))"

definition a_incr_ttl :: "string \<Rightarrow> nat \<Rightarrow> nat vact" where
  "a_incr_ttl k ttl =
     on_view (\<lambda>t s. case r_incr t k s of
        None \<Rightarrow> (Inl (Internal ''Redis INCR pipeline failed''), r_expire t k ttl s)
      | Some (n, s') \<Rightarrow> (Inr (nat (max n 0)), r_expire t k ttl s'))"

definition a_find :: "string \<Rightarrow> user_with_hash option vact" where
  "a_find x = gets (\<lambda>v. map_option (into_domain_with_hash \<circ> user_row.truncate)
                          (find (active_identity x) (v_users v)))"

lemma view_of_sel [simp]:
  "v_users (view_of w) = users w" "v_redis (view_of w) = redis w" "v_clock (view_of w) = clock w"
  by (simp_all add: view_of_def)

lemma view_of_io [simp]: "view_of (w\<lparr>io_ix := i\<rparr>) = view_of w"
  by (simp add: view_of_def)

lemma simulates_io_view:
  "instant E \<Longrightarrow> simulates view_of act f \<Longrightarrow> simulates view_of (io E lost act) f"
  unfolding simulates_def
proof
  fix w
  assume E: "instant E" and "\<forall>w. f (view_of w) = (fst (act w), view_of (snd (act w)))"
  then have "f (view_of (w\<lparr>io_ix := Suc (io_ix w)\<rparr>)) =
      (fst (act (w\<lparr>io_ix := Suc (io_ix w)\<rparr>)), view_of (snd (act (w\<lparr>io_ix := Suc (io_ix w)\<rparr>))))"
    by blast
  with E show "f (view_of w) = (fst (io E lost act w), view_of (snd (io E lost act w)))" by simp
qed

lemma cache_simulation:
  assumes "instant E"
  shows "simulates view_of (exists_key E k) (a_exists k)"
    and "simulates view_of (cache_get E vw k) (a_get E vw k)"
    and "simulates view_of (cache_set E tv k x (Some ttl)) (a_set k (tv x) ttl)"
    and "simulates view_of (delete E k) (a_del k)"
    and "simulates view_of (increment_with_ttl E k ttl) (a_incr_ttl k ttl)"
    and "simulates view_of (find_by_username_or_email E name) (a_find name)"
  using assms
  by (auto simp: simulates_def exists_key_def exists_raw_def cache_get_def get_value_def get_raw_def
      cache_set_def set_value_def set_raw_def delete_def delete_raw_def increment_with_ttl_def
      increment_with_ttl_raw_def find_by_username_or_email_def redis_cmd_def db_def comp_simps on_view_def
      a_exists_def a_get_def a_set_def a_del_def a_incr_ttl_def a_find_def view_of_def
      split: option.splits prod.splits)

section \<open>Login on the view\<close>

definition a_lookup :: "env \<Rightarrow> string \<Rightarrow> user_with_hash vact" where
  "a_lookup E name =
     bnd (unwrap_or None (a_get E as_user (user_profile name))) (\<lambda>c.
     case c of
       Some u \<Rightarrow> ok u
     | None \<Rightarrow>
         bnd (a_find name) (\<lambda>row.
         bnd (ok_or invalid_credentials row) (\<lambda>u.
         andthen (ignoring (a_set (user_profile name) (C_user u) 300)) (ok u))))"

definition lock_message :: string where
  "lock_message = ''Account locked for '' @ show_nat LOGIN_LOCKOUT_SECS
     @ '' seconds due to too many failed attempts''"

definition a_failed :: "string \<Rightarrow> 'a vact" where
  "a_failed name =
     bnd (unwrap_or 0 (a_incr_ttl (login_attempts name) LOGIN_LOCKOUT_SECS)) (\<lambda>n.
     if n \<ge> LOGIN_MAX_FAILED_ATTEMPTS
     then andthen (andthen (ignoring (a_set (account_lock name) (C_json (JBool True)) LOGIN_LOCKOUT_SECS))
            (andthen (ignoring (a_del (login_attempts name))) (ok ())))
          (throw (with_code AccountLocked lock_message))
     else throw invalid_credentials)"

definition a_succeeded :: "env \<Rightarrow> string \<Rightarrow> user \<Rightarrow> auth_result vact" where
  "a_succeeded E name u =
     andthen (ignoring (a_del (login_attempts name)))
     (bnd (bnd (gets v_clock) (\<lambda>t. from_result (encode_token E (claims_new t (u_id u) (u_username u) (u_role u)))))
      (\<lambda>token. ok \<lparr>ar_access_token = token, ar_expires_in = jwt_expiration (cfg E), ar_user = u\<rparr>))"

definition a_login :: "env \<Rightarrow> string \<Rightarrow> string \<Rightarrow> auth_result vact" where
  "a_login E name pw =
     bnd (unwrap_or False (a_exists (account_lock name))) (\<lambda>locked.
     if locked
     then throw (with_code AccountLocked ''Account temporarily locked due to too many failed attempts'')
     else
       bnd (a_lookup E name) (\<lambda>u.
       bnd (from_result (verify_password E pw (uh_password_hash u))) (\<lambda>valid.
       if \<not> valid then a_failed name else a_succeeded E name (uh_user u))))"

lemma passes_view: "instant E \<Longrightarrow> passes E view_of"
  by (simp add: passes_def instant_def view_of_def)

lemma bus_view: "instant E \<Longrightarrow> bus_frame E view_of"
  by unfold_locales (rule passes_view, assumption, simp_all add: view_of_def)

lemmas keeps_view = bus_frame.keeps_bus [OF bus_view]

lemma event_succeeds: "\<exists>x. fst (iam_event E ty fs w) = Inr x"
  by (simp add: iam_event_run)

lemmas visible_steps =
  simulates_andthen [OF simulates_ignoring [OF cache_simulation(3)]]
  simulates_andthen [OF simulates_ignoring [OF cache_simulation(4)]]
  simulates_bnd [OF simulates_unwrap_or [OF cache_simulation(1)]]
  simulates_bnd [OF simulates_unwrap_or [OF cache_simulation(2)]]
  simulates_bnd [OF simulates_unwrap_or [OF cache_simulation(5)]]
  simulates_bnd [OF cache_simulation(6)] simulates_skip simulates_invisible

lemma login_failed_simulation:
  "instant E \<Longrightarrow> simulates view_of (login_failed E name) (a_failed name)"
  unfolding login_failed_def a_failed_def lock_account_def lock_message_def event_ctor_defs
  by (rule visible_steps simulates_intros keeps_view | assumption)+

lemma login_succeeded_simulation:
  "instant E \<Longrightarrow> simulates view_of (login_succeeded E name u) (a_succeeded E name u)"
  unfolding login_succeeded_def a_succeeded_def issue_token_def now_def event_ctor_defs
  by (rule visible_steps(2) simulates_bnd_skip [OF keeps_view(4) event_succeeds] simulates_skip simulates_bnd
        simulates_gets simulates_from_result simulates_ok keeps_view
      | assumption | simp add: view_of_def)+

lemma login_simulation: "instant E \<Longrightarrow> simulates view_of (login E name pw) (a_login E name pw)"
  unfolding login_def a_login_def lookup_login_user_def a_lookup_def login_attempt_def
  by (rule visible_steps simulates_intros login_failed_simulation login_succeeded_simulation keeps_view
      | assumption)+

section \<open>The lockout automaton\<close>

text \<open>
  What a login promises about one identifier: the failures counted and the time their count
  lapses, and the time a lock ends.
\<close>

record gate =
  g_failures :: "(nat \<times> int) option"
  g_lock :: "int option"

datatype verdict = Refused | Wrong | Locks | Granted

definition locked_at :: "int \<Rightarrow> gate \<Rightarrow> bool" where
  "locked_at t g = (case g_lock g of None \<Rightarrow> False | Some x \<Rightarrow> t < x)"

definition failures_at :: "int \<Rightarrow> gate \<Rightarrow> nat" where
  "failures_at t g = (case g_failures g of None \<Rightarrow> 0 | Some (n, x) \<Rightarrow> if t < x then n else 0)"

definition attempt_login :: "int \<Rightarrow> bool \<Rightarrow> gate \<Rightarrow> verdict \<times> gate" where
  "attempt_login t valid g =
     (if locked_at t g then (Refused, g)
      else if valid then (Granted, g\<lparr>g_failures := None\<rparr>)
      else if failures_at t g + 1 \<ge> 5 then (Locks, \<lparr>g_failures = None, g_lock = Some (t + 900000)\<rparr>)
      else (Wrong, g\<lparr>g_failures := Some (failures_at t g + 1, t + 900000)\<rparr>))"

text \<open>The state of the automaton in the cache.\<close>

definition counted :: "entry \<Rightarrow> (nat \<times> int) option" where
  "counted e =
     (case (e_value e, e_expires e) of (C_json (JInt n), Some x) \<Rightarrow> Some (nat n, x) | _ \<Rightarrow> None)"

definition gate_of :: "string \<Rightarrow> store \<Rightarrow> gate" where
  "gate_of name s =
     \<lparr>g_failures = Option.bind (s (login_attempts name)) counted,
      g_lock = Option.bind (s (account_lock name)) e_expires\<rparr>"

definition counter_ok :: "entry \<Rightarrow> bool" where
  "counter_ok e \<longleftrightarrow> (\<exists>n x. e = \<lparr>e_value = C_json (JInt (int n)), e_expires = Some x\<rparr> \<and> n < 5)"

definition gate_ok :: "string \<Rightarrow> store \<Rightarrow> bool" where
  "gate_ok name s \<longleftrightarrow>
     (\<forall>e. s (login_attempts name) = Some e \<longrightarrow> counter_ok e) \<and>
     (\<forall>e. s (account_lock name) = Some e \<longrightarrow> e_expires e \<noteq> None)"

text \<open>The account behind the identifier, in the database and, when cached, in the cache.\<close>

definition knows :: "string \<Rightarrow> user_with_hash \<Rightarrow> view \<Rightarrow> bool" where
  "knows name u v \<longleftrightarrow>
     map_option (into_domain_with_hash \<circ> user_row.truncate)
       (find (active_identity name) (v_users v)) = Some u \<and>
     (\<forall>e. v_redis v (user_profile name) = Some e \<longrightarrow> e_value e = C_user u)"

lemma gate_of_cong:
  "s' (login_attempts name) = s (login_attempts name) \<Longrightarrow>
   s' (account_lock name) = s (account_lock name) \<Longrightarrow>
   gate_of name s' = gate_of name s \<and> gate_ok name s' = gate_ok name s"
  by (simp add: gate_of_def gate_ok_def)

lemma locked_gate: "gate_ok name s \<Longrightarrow> locked_at t (gate_of name s) = r_exists t (account_lock name) s"
  by (auto simp: locked_at_def gate_of_def gate_ok_def redis_defs split: option.splits bind_splits)

lemma counter_cases:
  assumes "gate_ok name s"
  obtains (none) "s (login_attempts name) = None"
  | (some) n x where "s (login_attempts name) = Some \<lparr>e_value = C_json (JInt (int n)), e_expires = Some x\<rparr>" "n < 5"
  using assms by (cases "s (login_attempts name)") (auto simp: gate_ok_def counter_ok_def)

lemma live_counter:
  assumes "gate_ok name s"
  shows "as_counter (live t s (login_attempts name)) = Some (int (failures_at t (gate_of name s))) \<and>
     failures_at t (gate_of name s) < 5"
  using assms
  by (cases rule: counter_cases)
    (simp_all add: gate_of_def failures_at_def counted_def as_counter_def live_def alive_def)

lemma counted_incr:
  fixes t :: int
  assumes "gate_ok name s"
  defines "n \<equiv> failures_at t (gate_of name s) + 1"
  shows "\<exists>s1. r_incr t (login_attempts name) s = Some (int n, s1) \<and>
     r_expire t (login_attempts name) 900 s1 =
       s(login_attempts name \<mapsto> \<lparr>e_value = C_json (JInt (int n)), e_expires = Some (t + 900000)\<rparr>)"
  using assms(1) live_counter [OF assms(1), of t]
  by (cases rule: counter_cases)
    (auto simp: n_def r_incr_def r_expire_def r_put_def live_def alive_def algebra_simps)

lemma a_lookup_known:
  assumes "knows name u v"
  obtains v' where "a_lookup E name v = (Inr u, v')" "v_clock v' = v_clock v" "knows name u v'"
    "gate_of name (v_redis v') = gate_of name (v_redis v)"
    "gate_ok name (v_redis v') = gate_ok name (v_redis v)"
proof -
  let ?v = "snd (a_lookup E name v)"
  have "fst (a_lookup E name v) = Inr u \<and> v_clock ?v = v_clock v \<and> v_users ?v = v_users v \<and>
      (\<forall>e. v_redis ?v (user_profile name) = Some e \<longrightarrow> e_value e = C_user u) \<and>
      (\<forall>k. k \<noteq> user_profile name \<longrightarrow> v_redis ?v k = v_redis v k)"
    using assms
    by (auto simp: knows_def a_lookup_def a_get_def a_find_def a_set_def on_view_def comp_simps redis_defs
        split: option.splits)
  then show ?thesis
    using assms gate_of_cong [of "v_redis ?v" name "v_redis v"]
    by (intro that [of ?v]) (auto simp: knows_def prod_eq_iff)
qed

definition refused_message :: string where
  "refused_message = ''Account temporarily locked due to too many failed attempts''"

text \<open>What the client learns from a reply.\<close>

definition verdict_of :: "api_error + 'a \<Rightarrow> verdict option" where
  "verdict_of r =
     (case r of
        Inr _ \<Rightarrow> Some Granted
      | Inl e \<Rightarrow>
          if e = with_code AccountLocked refused_message then Some Refused
          else if e = with_code AccountLocked lock_message then Some Locks
          else if e = invalid_credentials then Some Wrong
          else None)"

lemma verdict_simps [simp]:
  "verdict_of (Inr x) = Some Granted"
  "verdict_of (Inl (with_code AccountLocked refused_message)) = Some Refused"
  "verdict_of (Inl (with_code AccountLocked lock_message)) = Some Locks"
  "verdict_of (Inl invalid_credentials) = Some Wrong"
  by (simp_all add: verdict_of_def refused_message_def lock_message_def invalid_credentials_def with_code_def)

text \<open>One step of the automaton, as the handler takes it: the verdict, the next state of the
  automaton, and what the next step relies on.\<close>

definition implements :: "string \<Rightarrow> user_with_hash \<Rightarrow> bool \<Rightarrow> view \<Rightarrow> (api_error + 'a) \<times> view \<Rightarrow> bool" where
  "implements name u valid v res \<longleftrightarrow>
     (let (vd, g) = attempt_login (v_clock v) valid (gate_of name (v_redis v)) in
      verdict_of (fst res) = Some vd \<and> gate_of name (v_redis (snd res)) = g \<and>
      gate_ok name (v_redis (snd res)) \<and> knows name u (snd res) \<and> v_clock (snd res) = v_clock v)"

lemma gate_count:
  "gate_ok name s \<Longrightarrow> n < 5 \<Longrightarrow>
   s' = s(login_attempts name \<mapsto> \<lparr>e_value = C_json (JInt (int n)), e_expires = Some x\<rparr>) \<Longrightarrow>
   gate_of name s' = (gate_of name s)\<lparr>g_failures := Some (n, x)\<rparr> \<and> gate_ok name s'"
  by (simp add: gate_of_def counted_def gate_ok_def counter_ok_def)

lemma gate_lock:
  "gate_of name (r_del (login_attempts name) (r_set_ex t (account_lock name) c 900 s)) =
     \<lparr>g_failures = None, g_lock = Some (t + 900000)\<rparr> \<and>
   gate_ok name (r_del (login_attempts name) (r_set_ex t (account_lock name) c 900 s))"
  by (simp add: gate_of_def gate_ok_def r_set_ex_def r_put_def r_del_def)

lemma knows_redis:
  "knows name u v \<Longrightarrow> s (user_profile name) = v_redis v (user_profile name) \<Longrightarrow> knows name u (v\<lparr>v_redis := s\<rparr>)"
  by (simp add: knows_def)

lemma a_failed_step:
  assumes "knows name u v" "gate_ok name (v_redis v)" "valid_ttl (v_clock v) 900"
    and "\<not> locked_at (v_clock v) (gate_of name (v_redis v))"
  shows "implements name u False v (a_failed name v :: (api_error + 'a) \<times> view)"
proof -
  let ?t = "v_clock v" and ?s = "v_redis v"
  define n where "n = failures_at ?t (gate_of name ?s) + 1"
  define s2 where "s2 = ?s(login_attempts name \<mapsto> \<lparr>e_value = C_json (JInt (int n)), e_expires = Some (?t + 900000)\<rparr>)"
  define s3 where "s3 = r_del (login_attempts name) (r_set_ex ?t (account_lock name) (C_json (JBool True)) 900 s2)"
  obtain s1 where s1: "r_incr ?t (login_attempts name) ?s = Some (int n, s1)"
    "r_expire ?t (login_attempts name) 900 s1 = s2"
    using counted_incr [OF assms(2), of ?t] unfolding n_def s2_def by blast
  then have "(a_failed name v :: (api_error + 'a) \<times> view) =
      (if n \<ge> 5 then (Inl (with_code AccountLocked lock_message), v\<lparr>v_redis := s3\<rparr>)
       else (Inl invalid_credentials, v\<lparr>v_redis := s2\<rparr>))"
    using assms(3) by (simp add: a_failed_def a_incr_ttl_def a_set_def a_del_def on_view_def comp_simps
        LOGIN_LOCKOUT_SECS_def LOGIN_MAX_FAILED_ATTEMPTS_def s3_def)
  moreover have "knows name u (v\<lparr>v_redis := s2\<rparr>)" "knows name u (v\<lparr>v_redis := s3\<rparr>)"
    by (rule knows_redis [OF assms(1)], simp add: s2_def s3_def r_del_def r_set_ex_def r_put_def)+
  moreover have "attempt_login ?t False (gate_of name ?s) =
      (if n \<ge> 5 then (Locks, \<lparr>g_failures = None, g_lock = Some (?t + 900000)\<rparr>)
       else (Wrong, (gate_of name ?s)\<lparr>g_failures := Some (n, ?t + 900000)\<rparr>))"
    using assms(4) by (simp add: attempt_login_def n_def)
  ultimately show ?thesis
    using gate_count [OF assms(2) _ s2_def] gate_lock [of name ?t "C_json (JBool True)" s2]
    by (cases "n \<ge> 5") (simp_all add: implements_def flip: s3_def)
qed

lemma a_succeeded_step:
  assumes "knows name u v" "gate_ok name (v_redis v)"
    and "\<not> locked_at (v_clock v) (gate_of name (v_redis v))" "\<And>c. \<exists>tok. encode_token E c = Inr tok"
  shows "implements name u True v (a_succeeded E name (uh_user u) v)"
proof -
  obtain tok where "encode_token E (claims_new (v_clock v) (u_id (uh_user u)) (u_username (uh_user u))
      (u_role (uh_user u))) = Inr tok"
    using assms(4) by blast
  with assms(1-3) show ?thesis
    by (auto simp: implements_def attempt_login_def a_succeeded_def a_del_def on_view_def comp_simps
        gate_of_def r_del_def gate_ok_def knows_def)
qed

lemma a_login_step:
  assumes "knows name u v" "gate_ok name (v_redis v)" "valid_ttl (v_clock v) 900"
    and "verify_password E pw (uh_password_hash u) = Inr valid" "\<And>c. \<exists>tok. encode_token E c = Inr tok"
  shows "implements name u valid v (a_login E name pw v)"
proof (cases "locked_at (v_clock v) (gate_of name (v_redis v))")
  case True
  with assms(1,2) show ?thesis
    by (simp add: implements_def attempt_login_def a_login_def a_exists_def comp_simps locked_gate
        flip: refused_message_def)
next
  case False
  obtain v' where v': "a_lookup E name v = (Inr u, v')" "v_clock v' = v_clock v" "knows name u v'"
    "gate_of name (v_redis v') = gate_of name (v_redis v)"
    "gate_ok name (v_redis v') = gate_ok name (v_redis v)"
    using a_lookup_known [OF assms(1), of E] by blast
  have step: "implements name u valid v' (if \<not> valid then a_failed name v' else a_succeeded E name (uh_user u) v')"
    using a_failed_step [OF v'(3)] a_succeeded_step [OF v'(3) _ _ assms(5)] assms(2-3) False v'
    by (cases valid) simp_all
  have "a_login E name pw v = (if \<not> valid then a_failed name v' else a_succeeded E name (uh_user u) v')"
    using False assms(2,4) v'(1) by (simp add: a_login_def a_exists_def comp_simps locked_gate)
  with step v'(2,4) show ?thesis by (simp add: implements_def)
qed

section \<open>Histories of logins\<close>

text \<open>Login requests for one identifier, each at its time, and the replies as the client reads them;
  and the same history on the automaton.\<close>

fun logins :: "env \<Rightarrow> string \<Rightarrow> (int \<times> string) list \<Rightarrow> world \<Rightarrow> verdict option list" where
  "logins E name [] w = []"
| "logins E name ((t, pw) # rest) w =
     verdict_of (fst (login E name pw (w\<lparr>clock := t\<rparr>)))
       # logins E name rest (snd (login E name pw (w\<lparr>clock := t\<rparr>)))"

fun verdicts :: "(int \<times> bool) list \<Rightarrow> gate \<Rightarrow> verdict list" where
  "verdicts [] g = []"
| "verdicts ((t, valid) # rest) g =
     fst (attempt_login t valid g) # verdicts rest (snd (attempt_login t valid g))"

text \<open>The password is right for the account.\<close>

definition correct :: "env \<Rightarrow> user_with_hash \<Rightarrow> string \<Rightarrow> bool" where
  "correct E u pw \<longleftrightarrow> verify_password E pw (uh_password_hash u) = Inr True"

text \<open>What a history relies on: the account and its counters are as the service leaves them, its
  password hash is readable and tokens can be signed.\<close>

definition ready :: "env \<Rightarrow> string \<Rightarrow> user_with_hash \<Rightarrow> world \<Rightarrow> bool" where
  "ready E name u w \<longleftrightarrow>
     knows name u (view_of w) \<and> gate_ok name (redis w) \<and>
     (\<forall>pw. \<exists>b. verify_password E pw (uh_password_hash u) = Inr b) \<and>
     (\<forall>c. \<exists>tok. encode_token E c = Inr tok)"

lemma login_step:
  assumes "instant E" "ready E name u w" "t < 2 ^ 62"
  shows "verdict_of (fst (login E name pw (w\<lparr>clock := t\<rparr>))) =
      Some (fst (attempt_login t (correct E u pw) (gate_of name (redis w))))"
    and "gate_of name (redis (snd (login E name pw (w\<lparr>clock := t\<rparr>)))) =
      snd (attempt_login t (correct E u pw) (gate_of name (redis w)))"
    and "ready E name u (snd (login E name pw (w\<lparr>clock := t\<rparr>)))"
proof -
  let ?w = "w\<lparr>clock := t\<rparr>" and ?r = "login E name pw (w\<lparr>clock := t\<rparr>)"
  obtain b where b: "verify_password E pw (uh_password_hash u) = Inr b"
    using assms(2) by (auto simp: ready_def)
  have "implements name u b (view_of ?w) (a_login E name pw (view_of ?w))"
    using assms b by (intro a_login_step) (simp_all add: ready_def knows_def valid_ttl_def)
  moreover have "a_login E name pw (view_of ?w) = (fst ?r, view_of (snd ?r))"
    using simulatesD [OF login_simulation [OF assms(1)], of name pw ?w] by simp
  moreover have "b = correct E u pw" using b by (simp add: correct_def)
  ultimately show "verdict_of (fst ?r) = Some (fst (attempt_login t (correct E u pw) (gate_of name (redis w))))"
    "gate_of name (redis (snd ?r)) = snd (attempt_login t (correct E u pw) (gate_of name (redis w)))"
    "ready E name u (snd ?r)"
    using assms(2) by (auto simp: implements_def ready_def case_prod_beta)
qed

lemma logins_verdicts:
  assumes "instant E" "ready E name u w" "\<forall>(t, pw) \<in> set hist. t < 2 ^ 62"
  shows "logins E name hist w =
    map Some (verdicts (map (\<lambda>(t, pw). (t, correct E u pw)) hist) (gate_of name (redis w)))"
  using assms(2,3)
proof (induction hist arbitrary: w)
  case (Cons a hist)
  obtain t pw where "a = (t, pw)" by (cases a)
  with Cons login_step [OF assms(1) Cons.prems(1), of t pw] show ?case by simp
qed simp

text \<open>A count that stays below five locks nothing.\<close>

lemma unlocked_verdicts:
  assumes "g_lock g = None" and "(case g_failures g of None \<Rightarrow> 0 | Some (n, x) \<Rightarrow> n) + length (filter (Not \<circ> snd) hist) < 5"
  shows "verdicts hist g = map (\<lambda>(t, valid). if valid then Granted else Wrong) hist"
  using assms
proof (induction hist arbitrary: g)
  case (Cons a hist)
  obtain t valid where a: "a = (t, valid)" by (cases a)
  have "failures_at t g \<le> (case g_failures g of None \<Rightarrow> 0 | Some (n, x) \<Rightarrow> n)"
    by (simp add: failures_at_def split: option.splits)
  with a Cons show ?case
    by (cases valid) (simp_all add: attempt_login_def locked_at_def split: option.splits)
qed simp

lemma gate_of_fresh:
  "redis w (login_attempts name) = None \<Longrightarrow> redis w (account_lock name) = None \<Longrightarrow>
   gate_of name (redis w) = \<lparr>g_failures = None, g_lock = None\<rparr>"
  by (simp add: gate_of_def)

definition sample_account :: user_with_hash where
  "sample_account = into_domain_with_hash (user_row.truncate sample_user)"

lemma sample_ready: "ready sample_env ''alice'' sample_account sample_world"
proof -
  have "find (active_identity ''alice'') (users sample_world) = Some sample_user"
    by code_simp
  moreover have "uh_password_hash sample_account = ''$argon2id$GridTokenX123!''"
    by code_simp
  moreover have "redis sample_world = Map.empty"
    by (simp add: sample_world_def empty_world_def)
  ultimately show ?thesis
    by (simp add: ready_def knows_def gate_ok_def sample_account_def verify_password_def starts_with_def
        encode_token_def sample_env_def)
qed

lemma sample_correct: "correct sample_env sample_account pw \<longleftrightarrow> pw = ''GridTokenX123!''"
proof -
  have "uh_password_hash sample_account = ''$argon2id$GridTokenX123!''"
    by code_simp
  then show ?thesis
    by (auto simp: correct_def verify_password_def starts_with_def sample_env_def)
qed

lemma sample_fresh: "redis sample_world k = None"
  by (simp add: sample_world_def empty_world_def)

section \<open>Properties\<close>

text \<open>C1. Login refines the lockout automaton: without faults, over every history of logins for a known
  account, with any times and any passwords, each reply is the one the automaton gives.\<close>

theorem login_refines_lockout:
  assumes "instant E" and "ready E name u w" and "\<forall>(t, pw) \<in> set hist. t < 2 ^ 62"
  shows "logins E name hist w =
    map Some (verdicts (map (\<lambda>(t, pw). (t, correct E u pw)) hist) (gate_of name (redis w)))"
  using assms by (rule logins_verdicts)

theorem login_refines_lockout_witness:
  "logins sample_env ''alice'' [(1000, ''x''), (2000, ''GridTokenX123!'')] sample_world = [Some Wrong, Some Granted]"
  using login_refines_lockout [OF sample_env_instant sample_ready, of "[(1000, ''x''), (2000, ''GridTokenX123!'')]"]
  by (simp add: sample_correct gate_of_fresh sample_fresh attempt_login_def locked_at_def failures_at_def)

text \<open>C7. Five wrong passwords, none 15 minutes or more after the one before, lock the account: the fifth
  reply says so, during the next 15 minutes every password is refused, the right one as well,
  and after exactly 15 minutes the right one is accepted again.\<close>

theorem five_failures_lock_account:
  assumes "instant E" and "ready E name u w"
    and "redis w (login_attempts name) = None" and "redis w (account_lock name) = None"
    and "t2 < t1 + 900000" and "t3 < t2 + 900000" and "t4 < t3 + 900000" and "t5 < t4 + 900000"
    and "t1 < 2 ^ 62" "t2 < 2 ^ 62" "t3 < 2 ^ 62" "t4 < 2 ^ 62" "t5 < 2 ^ 62" "t < 2 ^ 62"
    and "\<not> correct E u p1" "\<not> correct E u p2" "\<not> correct E u p3" "\<not> correct E u p4" "\<not> correct E u p5"
  shows "(t < t5 + 900000 \<longrightarrow>
            logins E name [(t1, p1), (t2, p2), (t3, p3), (t4, p4), (t5, p5), (t, pw)] w =
              [Some Wrong, Some Wrong, Some Wrong, Some Wrong, Some Locks, Some Refused]) \<and>
         (t5 + 900000 \<le> t \<longrightarrow> correct E u pw \<longrightarrow>
            logins E name [(t1, p1), (t2, p2), (t3, p3), (t4, p4), (t5, p5), (t, pw)] w =
              [Some Wrong, Some Wrong, Some Wrong, Some Wrong, Some Locks, Some Granted])"
proof -
  have "logins E name [(t1, p1), (t2, p2), (t3, p3), (t4, p4), (t5, p5), (t, pw)] w =
      map Some (verdicts [(t1, False), (t2, False), (t3, False), (t4, False), (t5, False), (t, correct E u pw)]
        \<lparr>g_failures = None, g_lock = None\<rparr>)"
    using logins_verdicts [OF assms(1,2), of "[(t1, p1), (t2, p2), (t3, p3), (t4, p4), (t5, p5), (t, pw)]"]
      gate_of_fresh [OF assms(3,4)] assms(9-19) by simp
  then show ?thesis
    using assms(5-8) by (simp add: attempt_login_def locked_at_def failures_at_def)
qed

theorem five_failures_lock_account_witness:
  "logins sample_env ''alice'' [(1000, ''a''), (2000, ''b''), (3000, ''c''), (4000, ''d''), (5000, ''e''),
     (6000, ''GridTokenX123!'')] sample_world =
     [Some Wrong, Some Wrong, Some Wrong, Some Wrong, Some Locks, Some Refused]"
  using five_failures_lock_account [OF sample_env_instant sample_ready sample_fresh sample_fresh,
    of 2000 1000 3000 4000 5000 6000 "''a''" "''b''" "''c''" "''d''" "''e''" "''GridTokenX123!''"]
  by (simp add: sample_correct)

text \<open>Fewer than five wrong passwords never lock an account, however they are spread in time: every
  login with the right password is then granted.\<close>

theorem no_lock_below_five:
  assumes "instant E" and "ready E name u w"
    and "redis w (login_attempts name) = None" and "redis w (account_lock name) = None"
    and "\<forall>(t, pw) \<in> set hist. t < 2 ^ 62"
    and "length (filter (\<lambda>(t, pw). \<not> correct E u pw) hist) < 5"
  shows "logins E name hist w =
    map (\<lambda>(t, pw). Some (if correct E u pw then Granted else Wrong)) hist"
proof -
  have "filter (Not \<circ> snd) (map (\<lambda>(t, pw). (t, correct E u pw)) hist) =
      map (\<lambda>(t, pw). (t, correct E u pw)) (filter (\<lambda>(t, pw). \<not> correct E u pw) hist)"
    by (induction hist) auto
  then show ?thesis
    using logins_verdicts [OF assms(1,2,5)] gate_of_fresh [OF assms(3,4)] assms(6)
      unlocked_verdicts [of "\<lparr>g_failures = None, g_lock = None\<rparr>" "map (\<lambda>(t, pw). (t, correct E u pw)) hist"]
    by (simp add: case_prod_beta)
qed

theorem no_lock_below_five_witness:
  "logins sample_env ''alice'' [(1000, ''x''), (2000, ''GridTokenX123!'')] sample_world = [Some Wrong, Some Granted]"
  using no_lock_below_five [OF sample_env_instant sample_ready sample_fresh sample_fresh,
    of "[(1000, ''x''), (2000, ''GridTokenX123!'')]"]
  by (simp add: sample_correct)

end
