(* ===== verification/Accounts.thy ===== *)
theory Accounts
  imports Lockout
begin

text \<open>
  What the account handlers guarantee: registration, activation by email, who can log in, the reset of
  a password, and how long a revoked API key is still accepted.
\<close>

section \<open>Registration\<close>

text \<open>The account a registration adds: inactive, unverified, an ordinary user without wallet, with the
  Argon2 hash of the password and a verification token.\<close>

definition registered_account :: "env \<Rightarrow> string \<Rightarrow> string \<Rightarrow> string \<Rightarrow> uuid \<Rightarrow> user_rec \<Rightarrow> bool" where
  "registered_account E name email pw i r \<longleftrightarrow>
     ur_id r = i \<and> ur_username r = name \<and> ur_email r = email \<and> ur_role r = ''user'' \<and>
     \<not> is_active r \<and> \<not> email_verified r \<and> ur_wallet_address r = None \<and> \<not> ur_blockchain_registered r \<and>
     (\<exists>n. argon2_hash E n pw = Inr (ur_password_hash r)) \<and>
     (\<exists>j. email_verification_token r = Some (uuid_to_string E j))"

lemma create_cases:
  obtains (created) t where "fst (create E nu w) = Inr ()" "users (snd (create E nu w)) = users w @ [new_user_row t nu]"
      "users_ok E (users w @ [new_user_row t nu])" "clock w \<le> t"
  | (refused) e where "fst (create E nu w) = Inl e" "users (snd (create E nu w)) = users w"
  | (unknown) s t where "fst (create E nu w) = Inl (Database (SqlxOther s))" "fault E (io_ix w) = Lost_reply s"
      "io_ix (snd (create E nu w)) = Suc (io_ix w)"
      "users (snd (create E nu w)) = users w @ [new_user_row t nu]" "users_ok E (users w @ [new_user_row t nu])"
      "clock w \<le> t"
proof -
  define w1 where "w1 = w\<lparr>io_ix := Suc (io_ix w), clock := clock w + int (latency E (io_ix w))\<rparr>"
  define b where "b = (if nu_role nu \<notin> set user_roles
      then (Inl (Database (SqlxDatabase False ''invalid input value for enum user_role'')), w1)
      else write_users E (users w1 @ [new_user_row (clock w1) nu]) w1)"
  have run: "create E nu w = (case fault E (io_ix w) of
      Done \<Rightarrow> b | Lost_request s \<Rightarrow> (Inl (Database (SqlxOther s)), w1)
      | Lost_reply s \<Rightarrow> (Inl (Database (SqlxOther s)), snd b))"
    by (simp add: create_def db_def io_def Let_def b_def w1_def split: outcome.splits)
  have u: "users w1 = users w" and t: "clock w \<le> clock w1" by (simp_all add: w1_def)
  consider "fst b = Inr ()" "users (snd b) = users w @ [new_user_row (clock w1) nu]"
      "users_ok E (users w @ [new_user_row (clock w1) nu])"
    | e where "fst b = Inl e" "users (snd b) = users w"
  proof -
    have "fst b = Inr () \<and> users (snd b) = users w @ [new_user_row (clock w1) nu] \<and>
        users_ok E (users w @ [new_user_row (clock w1) nu]) \<or> (\<exists>e. fst b = Inl e) \<and> users (snd b) = users w"
      using u by (simp add: b_def write_users_run users_ok_def)
    then show ?thesis using that by blast
  qed
  then show ?thesis
  proof cases
    case 1
    show ?thesis
    proof (cases "fault E (io_ix w)")
      case Done
      then show ?thesis using 1 t by (intro created) (simp_all add: run)
    next
      case (Lost_request s)
      then show ?thesis using u by (intro refused) (simp_all add: run)
    next
      case (Lost_reply s)
      moreover have "io_ix (snd b) = Suc (io_ix w)" by (simp add: b_def w1_def write_users_run)
      ultimately show ?thesis using 1 t by (intro unknown) (simp_all add: run)
    qed
  next
    case 2
    then show ?thesis using u by (cases "fault E (io_ix w)") (auto simp: run intro: refused)
  qed
qed

lemma users_emit:
  "users (snd (emit E (user_registered E i n e) w)) = users w"
  "users (snd (emit E (verification_email_requested E i n e t) w)) = users w"
  using keepsD [OF keeps_tables_emit [OF keeps_tables_events(1)]]
    keepsD [OF keeps_tables_emit [OF keeps_tables_events(3)]]
  by (simp_all add: tables_def)

text \<open>The row that registration inserts, from the \<open>n\<close>-th draw of random numbers on.\<close>

definition registration :: "env \<Rightarrow> string \<Rightarrow> string \<Rightarrow> string \<Rightarrow> string option \<Rightarrow> string option \<Rightarrow> nat \<Rightarrow> new_user" where
  "registration E name email h fname lname n =
     new_account (uuid_src E (Suc n)) name email h fname lname (uuid_to_string E (uuid_src E (Suc (Suc n))))"

definition added :: "env \<Rightarrow> string \<Rightarrow> string \<Rightarrow> string \<Rightarrow> uuid \<Rightarrow> world \<Rightarrow> world \<Rightarrow> bool" where
  "added E name email pw i w w' \<longleftrightarrow>
     (\<exists>r t. users w' = users w @ [r] \<and> users_ok E (users w @ [r]) \<and> registered_account E name email pw i r \<and>
        clock w \<le> t \<and> email_verification_expires_at r = Some (t + 24 * 3600 * 1000))"

lemma addedI:
  assumes "argon2_hash E (rng_ix w) pw = Inr h" "r = new_user_row t (registration E name email h fname lname n)"
    "users w' = users w @ [r]" "users_ok E (users w @ [r])" "clock w \<le> t"
  shows "added E name email pw (uuid_src E (Suc n)) w w'"
proof -
  have "registered_account E name email pw (uuid_src E (Suc n)) r"
    using assms(1,2) by (auto simp: registration_def registered_account_def new_user_row_def)
  moreover have "email_verification_expires_at r = Some (t + 24 * 3600 * 1000)"
    by (simp add: assms(2) registration_def new_user_row_def)
  ultimately show ?thesis using assms(3-5) unfolding added_def by blast
qed

lemma registration_run:
  assumes "\<not> (CHR ''@'' \<notin> set email \<or> length email < 5)" "fst (hash_password E pw w) = Inr h"
    and "nu = registration E name email h fname lname (rng_ix w)" "w1 = w\<lparr>rng_ix := Suc (Suc (Suc (rng_ix w)))\<rparr>"
    and "i = uuid_src E (Suc (rng_ix w))" "tok = uuid_to_string E (uuid_src E (Suc (Suc (rng_ix w))))"
  shows "register E name email pw fname lname w =
      (case fst (create E nu w1) of
         Inl e \<Rightarrow> (Inl (register_conflict e), snd (create E nu w1))
       | Inr _ \<Rightarrow> (Inr \<lparr>rr_id = i, rr_username = name, rr_email = email, rr_first_name = fname, rr_last_name = lname,
              rr_message = ''User registered successfully. Please verify your email.''\<rparr>,
            snd (emit E (verification_email_requested E i name email tok)
              (snd (emit E (user_registered E i name email) (snd (create E nu w1)))))))"
proof -
  have "snd (hash_password E pw w) = w\<lparr>rng_ix := Suc (rng_ix w)\<rparr>"
    using assms(2) by (auto simp: hash_password_run split: sum.splits dest: map_sum_Inr)
  then show ?thesis
    using assms by (simp add: register_def comp_simps new_v4_def Let_def registration_def split: sum.splits)
qed

lemma register_cases:
  obtains (ok) x where "fst (register E name email pw fname lname w) = Inr x"
      "added E name email pw (rr_id x) w (snd (register E name email pw fname lname w))"
  | (rejected) e where "fst (register E name email pw fname lname w) = Inl e"
      "users (snd (register E name email pw fname lname w)) = users w"
  | (unknown) s i where "fst (register E name email pw fname lname w) = Inl (Database (SqlxOther s))"
      "fault E (io_ix w) = Lost_reply s" "io_ix (snd (register E name email pw fname lname w)) = Suc (io_ix w)"
      "added E name email pw i w (snd (register E name email pw fname lname w))"
proof (cases "(CHR ''@'' \<notin> set email \<or> length email < 5) \<or> (\<exists>e. fst (hash_password E pw w) = Inl e)")
  case True
  moreover have "users (snd (hash_password E pw w)) = users w"
    using keepsD [OF keeps_tables_hash, of E pw w] by (simp add: tables_def)
  ultimately have "\<exists>e. fst (register E name email pw fname lname w) = Inl e"
    "users (snd (register E name email pw fname lname w)) = users w"
    by (auto simp: register_def comp_simps)
  then show ?thesis using rejected by blast
next
  case False
  then obtain h where h: "fst (hash_password E pw w) = Inr h" by (meson sum.exhaust)
  then have hash: "argon2_hash E (rng_ix w) pw = Inr h"
    by (auto simp: hash_password_run split: sum.splits dest: map_sum_Inr)
  define nu where "nu = registration E name email h fname lname (rng_ix w)"
  define w1 where "w1 = w\<lparr>rng_ix := Suc (Suc (Suc (rng_ix w)))\<rparr>"
  note run = registration_run [OF _ h nu_def w1_def refl refl]
  have same: "users w1 = users w" "clock w1 = clock w" "io_ix w1 = io_ix w" by (simp_all add: w1_def)
  note add = addedI [OF hash, of "new_user_row t nu" t name email fname lname "rng_ix w" for t, folded nu_def, OF refl]
  show ?thesis
  proof (cases rule: create_cases [of E nu w1])
    case (created t)
    then obtain x where "fst (register E name email pw fname lname w) = Inr x" "rr_id x = uuid_src E (Suc (rng_ix w))"
      using False by (simp add: run)
    then show ?thesis
      using ok add [of "snd (register E name email pw fname lname w)" t] created same False by (simp add: run users_emit)
  next
    case (refused e)
    then show ?thesis using same False by (intro rejected) (simp_all add: run)
  next
    case (unknown s t)
    then show ?thesis
      using add [of "snd (register E name email pw fname lname w)" t] same False
      by (intro that(3) [of s]) (simp_all add: run register_conflict_def)
  qed
qed

text \<open>A name or address that is taken cannot be registered again.\<close>

lemma taken_not_ok:
  assumes "x \<in> set t" "ur_username x = ur_username r \<or> pg_lower E (ur_email x) = pg_lower E (ur_email r)"
  shows "\<not> users_ok E (t @ [r])"
proof -
  have "ur_username r \<in> ur_username ` set t \<or> pg_lower E (ur_email r) \<in> (\<lambda>r. pg_lower E (ur_email r)) ` set t"
    using assms(2) image_eqI [OF _ assms(1), of "ur_username r" ur_username]
      image_eqI [OF _ assms(1), of "pg_lower E (ur_email r)" "\<lambda>r. pg_lower E (ur_email r)"] by auto
  then show ?thesis by (auto simp: users_ok_def users_unique_def unique_on_append)
qed

lemma taken_not_added:
  "x \<in> set (users w) \<Longrightarrow> ur_username x = name \<or> pg_lower E (ur_email x) = pg_lower E email \<Longrightarrow>
   \<not> added E name email pw i w w'"
  using taken_not_ok [of x "users w"] unfolding added_def registered_account_def by metis

lemma register_taken_conflict:
  assumes "reliable E" "users_ok E (users w)" "CHR ''@'' \<in> set email" "5 \<le> length email" "validate_password_strength pw = Inr ()"
    "\<And>n. \<exists>h. argon2_hash E n pw = Inr h \<and> fits 255 h" "\<And>j. fits 128 (uuid_to_string E j)"
    "fits 50 name" "fits 255 email" "fits_opt 100 fname" "fits_opt 100 lname"
    "x \<in> set (users w)" "ur_username x = name \<or> pg_lower E (ur_email x) = pg_lower E email"
  shows "fst (register E name email pw fname lname w) = Inl (api_error.Conflict ''Username or email already exists'')"
proof -
  obtain h where h: "argon2_hash E (rng_ix w) pw = Inr h" "fits 255 h" using assms(6) by blast
  let ?r = "\<lambda>t i j. new_user_row t (new_account i name email h fname lname (uuid_to_string E j))"
  have fits: "list_all user_fits (users w @ [?r t i j])" for t i j
    using assms(2,7-11) h(2)
    by (simp add: users_ok_def user_fits_def new_user_row_def fits_opt_def fits_def char_count_def byte_def)
  have "\<not> users_ok E (users w @ [?r t i j])" for t i j
    by (rule taken_not_ok [OF assms(12)]) (use assms(13) in \<open>simp add: new_user_row_def\<close>)
  then have "\<not> users_unique E (users w @ [?r t i j])" for t i j using fits by (simp add: users_ok_def)
  moreover have "role_to_string User \<in> set user_roles" by (simp add: user_roles_def)
  ultimately show ?thesis
    using assms(1,3-5) h(1) fits
    by (simp add: register_def comp_simps hash_password_run new_v4_def create_def db_def write_users_run
        Let_def register_conflict_def unique_violation_def)
qed

section \<open>Who can log in\<close>

lemma keeps_redis_read: "keeps redis (on_redis (\<lambda>t s. (f t s, s)))"
  by (rule keepsI) (simp add: on_redis_run)

lemma keeps_redis_reads: "keeps redis (exists_key E k)" "keeps redis (cache_get E view k)"
  unfolding exists_key_def exists_raw_def cache_get_def get_value_def get_raw_def
  by (intro keeps_intros keeps_timed untimed_components keeps_redis_read)+

lemmas exists_key_state = keepsD [OF keeps_tables_ops(6)] keepsD [OF keeps_redis_reads(1)]
lemmas cache_get_state = keepsD [OF keeps_tables_ops(7)] keepsD [OF keeps_redis_reads(2)]

lemma cache_get_absent:
  "redis w k = None \<Longrightarrow> fst (unwrap_or None (cache_get E v k) w) = Inr None"
  by (auto simp: cache_get_def get_value_def get_raw_def redis_cmd_def io_def Let_def comp_simps r_get_def live_def
      split: outcome.splits)

lemma find_unknown:
  assumes "\<forall>r \<in> set (users w). \<not> active_identity name r"
  shows "fst (find_by_username_or_email E name w) = Inr None \<or> (\<exists>e. fst (find_by_username_or_email E name w) = Inl e)"
proof -
  have "find (active_identity name) (users w) = None" using assms by (simp add: find_None_iff)
  then show ?thesis
    by (simp add: find_by_username_or_email_def db_def io_def Let_def gets_run split: outcome.splits)
qed

lemma lookup_unknown:
  assumes "\<forall>r \<in> set (users w). \<not> active_identity name r" "redis w (user_profile name) = None"
  shows "\<exists>e. fst (lookup_login_user E name w) = Inl e" "tables (snd (lookup_login_user E name w)) = tables w"
proof -
  let ?w = "snd (cache_get E as_user (user_profile name) w)"
  have "\<forall>r \<in> set (users ?w). \<not> active_identity name r"
    using assms(1) cache_get_state(1) [where E = E and view = as_user and k = "user_profile name" and w = w] by (simp add: tables_def)
  from find_unknown [OF this, of E] cache_get_absent [OF assms(2), of E as_user]
  have "lookup_login_user E name w = (Inl (case fst (find_by_username_or_email E name ?w) of
      Inl e \<Rightarrow> e | Inr _ \<Rightarrow> invalid_credentials), snd (find_by_username_or_email E name ?w))"
    by (auto simp: lookup_login_user_def comp_simps)
  then show "\<exists>e. fst (lookup_login_user E name w) = Inl e" "tables (snd (lookup_login_user E name w)) = tables w"
    using keepsD [OF keeps_tables_reads(1)] cache_get_state(1) by simp_all
qed

section \<open>Activation\<close>

text \<open>Which accounts are active, and what a login looks at; in the verification of an email only the
  repository's \<open>verify_email\<close> changes it.\<close>

definition actives :: "world \<Rightarrow> (uuid \<times> bool) list" where
  "actives w = map (\<lambda>r. (ur_id r, is_active r)) (users w)"

definition cred :: "user_rec \<Rightarrow> uuid \<times> string \<times> string \<times> string \<times> bool" where
  "cred r = (ur_id r, ur_username r, ur_email r, ur_password_hash r, is_active r)"

definition creds :: "world \<Rightarrow> (uuid \<times> string \<times> string \<times> string \<times> bool) list" where
  "creds w = map cred (users w)"

lemma actives_creds: "actives w = map (\<lambda>(i, n, e, h, a). (i, a)) (creds w)"
  by (simp add: actives_def creds_def cred_def)

interpretation act: table_order "\<lambda>w w'. creds w' = creds w"
  by unfold_locales (simp_all add: creds_def rollback_def)

lemma keeps_creds_of_tables: "keeps tables m \<Longrightarrow> keeps creds m"
  by (simp add: keeps_def stable_def creds_def tables_def)

lemma keeps_creds_users:
  assumes "\<And>w r. cred (f w r) = cred r"
  shows "keeps creds (\<lambda>w. write_users E (update_where P (f w) (users w)) w)"
  unfolding keeps_def
  by (rule act.stable_write) (simp add: creds_def map_update_where assms)

lemma keeps_creds_wallets: "keeps creds (\<lambda>w. write_wallets (t w) w)"
  by (simp add: keeps_def stable_def creds_def)

lemma keeps_creds_insert: "keeps creds (insert_wallet_row i u a l p)"
  by (rule keepsI)
    (simp add: insert_wallet_row_def Let_def andthen_run ok_run creds_def split: sum.splits)

lemmas creds_frames = keeps_tables_ops [THEN keeps_creds_of_tables] keeps_tables_timed [THEN keeps_creds_of_tables]
  keeps_tables_reads [THEN keeps_creds_of_tables] keeps_tables_events [THEN keeps_creds_of_tables]
  keeps_tables_token [THEN keeps_creds_of_tables] bus_tables.keeps_publish [THEN keeps_creds_of_tables]

lemma keeps_creds_custodial: "keeps creds (persist_custodial_wallet E u a l k s iv v)"
  unfolding persist_custodial_wallet_def
  by (intro act.stable_transaction [folded keeps_def] act.stable_db [folded keeps_def] keeps_intros keeps_creds_wallets
        keeps_creds_insert keeps_creds_users creds_frames) (simp add: cred_def)

lemma keeps_creds_provision: "keeps creds (provision_if_needed E u)"
  unfolding provision_if_needed_def provision_custodial_wallet_def spawn_onchain_registration_def
  by (intro keeps_intros creds_frames keeps_creds_custodial)

lemma keeps_creds_emit: "keeps creds mk \<Longrightarrow> keeps creds (emit E mk)"
  unfolding emit_def by (intro keeps_intros creds_frames)

text \<open>The account a verification token belongs to at a given time.\<close>

definition owns_token :: "string \<Rightarrow> int \<Rightarrow> user_rec \<Rightarrow> bool" where
  "owns_token token t r \<longleftrightarrow>
     email_verification_token r = Some token \<and> after (email_verification_expires_at r) t"

lemma after_earlier: "after v t' \<Longrightarrow> t \<le> t' \<Longrightarrow> after v t"
  by (auto simp: after_def split: option.splits)

lemma found_email_owner:
  assumes "fst (find_email_by_token E token w) = Inr (Some email)"
  shows "\<exists>r \<in> set (users w). owns_token token (clock w) r \<and> ur_email r = email"
proof -
  obtain t r where "clock w \<le> t" "r \<in> set (users w)" "email_verification_token r = Some token"
    "after (email_verification_expires_at r) t" "ur_email r = email"
    using assms
    by (auto simp: find_email_by_token_def db_def io_def Let_def gets_run split: outcome.splits dest!: find_SomeD)
      (metis le_add_same_cancel1 of_nat_0_le_iff)
  then show ?thesis using after_earlier by (auto simp: owns_token_def)
qed

lemma verified_email_owner:
  assumes "eq_ignore_ascii_case (environment (cfg E)) ''production''"
    and "fst (verification_email_of E token w) = Inr email"
  shows "\<exists>r \<in> set (users w). owns_token token (clock w) r \<and> ur_email r = email"
  using assms found_email_owner [of E token w]
  by (auto simp: verification_email_of_def comp_simps split: sum.splits option.splits)

lemma verification_email_state: "tables (snd (verification_email_of E token w)) = tables w"
proof -
  have "keeps tables (verification_email_of E token)"
    unfolding verification_email_of_def by (intro keeps_tables_all keeps_tables_reads)
  then show ?thesis by (rule keepsD)
qed

lemma activated_rows:
  assumes "(i, True) \<in> set (actives (snd (repo_verify_email E email w)))"
  shows "(i, True) \<in> set (actives w) \<or> (\<exists>r \<in> set (users w). ur_id r = i \<and> ur_email r = email)"
proof -
  let ?t = "clock w + int (latency E (io_ix w))"
  have "users (snd (repo_verify_email E email w)) = users w \<or>
      users (snd (repo_verify_email E email w)) = update_where (\<lambda>r. ur_email r = email) (activate ?t) (users w)"
    by (cases "fault E (io_ix w)")
      (simp_all add: repo_verify_email_def db_def io_def Let_def andthen_run write_users_run gets_run)
  then show ?thesis
    using assms by (auto simp: actives_def in_update_where activate_def split: if_splits) blast
qed

lemma verify_email_creds:
  "creds (snd (verify_email E token w)) =
     (case fst (verification_email_of E token w) of
        Inl _ \<Rightarrow> creds w
      | Inr email \<Rightarrow> creds (snd (repo_verify_email E email (snd (verification_email_of E token w)))))"
proof -
  have "keeps creds (bnd (ok_or (api_error.NotFound ''User not found'') row) (\<lambda>u0.
     bnd (provision_if_needed E u0) (\<lambda>u.
     bnd (issue_token E (u_id u) (u_username u) (u_role u)) (\<lambda>auth_token.
     andthen (ignoring (emit E (email_verified_event E (u_id u) (u_username u) (u_email u)
                (case u_wallet_address u of None \<Rightarrow> [] | Some a \<Rightarrow> a))))
     (andthen (ignoring (delete E (user_profile (u_email u))))
     (andthen (ignoring (delete E (user_profile (u_username u)))) (ok (g u auth_token))))))))" for row and g :: "user \<Rightarrow> string \<Rightarrow> verify_email_result"
    by (intro keeps_intros creds_frames keeps_creds_provision keeps_creds_emit)
  from keepsD [OF this] show ?thesis
    using verification_email_state [of E token w]
    by (simp add: verify_email_def bnd_run creds_def tables_def split: sum.splits)
qed

lemma verify_email_actives:
  "actives (snd (verify_email E token w)) =
     (case fst (verification_email_of E token w) of
        Inl _ \<Rightarrow> actives w
      | Inr email \<Rightarrow> actives (snd (repo_verify_email E email (snd (verification_email_of E token w)))))"
  by (simp add: actives_creds verify_email_creds split: sum.splits)

text \<open>The session a verification opens is one of the account whose address was found.\<close>

definition session_of :: "env \<Rightarrow> user_rec \<Rightarrow> verify_email_result \<Rightarrow> bool" where
  "session_of E r x \<longleftrightarrow>
     (\<exists>a t. ve_auth x = Some a \<and> u_id (ar_user a) = ur_id r \<and> u_username (ar_user a) = ur_username r \<and>
        u_email (ar_user a) = ur_email r \<and> u_role (ar_user a) = ur_role r \<and>
        encode_token E (claims_new t (ur_id r) (ur_username r) (ur_role r)) = Inr (ar_access_token a))"

definition user_ident :: "user \<Rightarrow> uuid \<times> string \<times> string \<times> string" where
  "user_ident u = (u_id u, u_username u, u_email u, u_role u)"

lemma repo_verified_row:
  assumes "fst (repo_verify_email E email w) = Inr (Some u)"
  shows "\<exists>r \<in> set (users w). ur_email r = email \<and> user_ident u = ident r"
proof -
  obtain t where "map_option (user_into_domain \<circ> user_row.truncate)
      (find (\<lambda>r. ur_email r = email) (update_where (\<lambda>r. ur_email r = email) (activate t) (users w))) = Some u"
    using assms
    by (auto simp: repo_verify_email_def db_def io_def Let_def andthen_run write_users_run gets_run
        split: outcome.splits if_splits)
  then obtain r where "r \<in> set (users w)" "ur_email r = email" "u = user_into_domain (user_row.truncate (activate t r))"
    by (auto simp: find_update_where activate_def dest!: find_SomeD)
  then show ?thesis
    by (auto simp: user_ident_def ident_def user_into_domain_def user_row.truncate_def activate_def)
qed

lemma provisioned_ident: "fst (provision_if_needed E u w) = Inr u' \<Longrightarrow> user_ident u' = user_ident u"
  by (auto simp: provision_if_needed_def comp_simps user_ident_def split: sum.splits if_splits)

lemma issued_for: "fst (issue_token E i n r w) = Inr tok \<Longrightarrow> \<exists>t. encode_token E (claims_new t i n r) = Inr tok"
  by (auto simp: issue_token_def now_def comp_simps)

lemma verified_session:
  assumes "fst (verify_email E token w) = Inr x" "fst (verification_email_of E token w) = Inr email"
  shows "\<exists>r \<in> set (users (snd (verification_email_of E token w))). ur_email r = email \<and> session_of E r x"
proof -
  let ?w = "snd (verification_email_of E token w)"
  let ?w1 = "snd (repo_verify_email E email ?w)"
  obtain u0 where u0: "fst (repo_verify_email E email ?w) = Inr (Some u0)"
    using assms by (auto simp: verify_email_def comp_simps split: sum.splits option.splits)
  obtain u where u: "fst (provision_if_needed E u0 ?w1) = Inr u"
    using assms u0 by (auto simp: verify_email_def comp_simps split: sum.splits)
  obtain tok where tok: "fst (issue_token E (u_id u) (u_username u) (u_role u) (snd (provision_if_needed E u0 ?w1))) = Inr tok"
    using assms u0 u by (auto simp: verify_email_def comp_simps split: sum.splits)
  have "\<exists>a. ve_auth x = Some a \<and> ar_access_token a = tok \<and> user_ident (ar_user a) = user_ident u"
    using assms u0 u tok by (auto simp: verify_email_def comp_simps user_ident_def)
  with repo_verified_row [OF u0] provisioned_ident [OF u] issued_for [OF tok] show ?thesis
    by (fastforce simp: session_of_def user_ident_def ident_def)
qed

section \<open>Resending the verification email\<close>

lemma set_token_run:
  assumes "reliable E" "users_ok E (users w)" "fits 128 token"
  shows "fst (set_verification_token E i token w) = Inr ()"
proof -
  let ?t = "\<lambda>c. update_where (\<lambda>r. ur_id r = i) (\<lambda>r. r\<lparr>email_verification_token := Some token,
      email_verification_sent_at := Some c, email_verification_expires_at := Some (c + 24 * 3600 * 1000)\<rparr>) (users w)"
  have "list_all user_fits (?t c)" for c
    using assms(2,3) by (intro list_all_update_where) (simp_all add: users_ok_def user_fits_def fits_opt_def)
  moreover have "users_unique E (?t c)" for c
    using assms(2) by (simp add: users_ok_def users_unique_def unique_on_update unique_some_update)
  ultimately show ?thesis
    using assms(1) by (simp add: set_verification_token_def db_def write_users_run)
qed

lemma resend_run:
  assumes "reliable E" "users_ok E (users w)" "\<And>j. fits 128 (uuid_to_string E j)"
  shows "fst (resend_verification E email w) = Inr resend_sent"
proof -
  let ?w = "snd (find_verification_state_by_email E email w)"
  obtain found where f: "fst (find_verification_state_by_email E email w) = Inr found"
    using assms(1) by (simp add: find_verification_state_by_email_def db_def gets_run)
  show ?thesis
  proof (cases found)
    case None
    then show ?thesis using f by (simp add: resend_verification_def comp_simps)
  next
    case (Some st)
    let ?k = "resend_verification_cooldown (uuid_to_string E (vs_user_id st))"
    let ?w1 = "snd (exists_key E ?k ?w)"
    have "users ?w1 = users w"
      using exists_key_state(1) [of E ?k ?w] keepsD [OF keeps_tables_reads(4), of E email w] by (simp add: tables_def)
    then have "fst (set_verification_token E i (uuid_to_string E j) (?w1\<lparr>rng_ix := n\<rparr>)) = Inr ()" for i j n
      using assms by (intro set_token_run) simp_all
    with f Some show ?thesis
      by (simp add: resend_verification_def comp_simps Let_def new_v4_def split: option.splits sum.splits)
  qed
qed

section \<open>Password reset\<close>

text \<open>What a successful reset did: the token named an address, the active accounts of that address got
  the hash of the new password, and the token and the cached profiles were deleted.\<close>

definition reset_redis :: "string \<Rightarrow> string \<Rightarrow> user_rec list \<Rightarrow> store \<Rightarrow> store" where
  "reset_redis token email us s =
     r_del (password_reset_token token)
       (case find (active_identity email) us of
          None \<Rightarrow> r_del (user_profile email) s
        | Some u \<Rightarrow> r_del (user_profile (ur_username u)) (r_del (user_profile email) s))"

definition with_password :: "env \<Rightarrow> string \<Rightarrow> string \<Rightarrow> user_rec list \<Rightarrow> user_rec list" where
  "with_password E email h t =
     update_where (\<lambda>r. pg_lower E (ur_email r) = pg_lower E email \<and> is_active r) (\<lambda>r. r\<lparr>ur_password_hash := h\<rparr>) t"

abbreviation ticked :: "env \<Rightarrow> world \<Rightarrow> world" where
  "ticked E w \<equiv> w\<lparr>io_ix := Suc (io_ix w), clock := clock w + int (latency E (io_ix w))\<rparr>"

lemma reliable_runs:
  assumes "reliable E"
  shows "delete E k w = (Inr (), (ticked E w)\<lparr>redis := r_del k (redis w)\<rparr>)"
    and "cache_get E view k w =
      ((case r_get (clock (ticked E w)) k (redis w) of
          None \<Rightarrow> Inr None
        | Some c \<Rightarrow> (case view c of None \<Rightarrow> Inl (Internal (serde_error E c)) | Some x \<Rightarrow> Inr (Some x))), ticked E w)"
    and "find_by_username_or_email E name w =
      (Inr (map_option (into_domain_with_hash \<circ> user_row.truncate) (find (active_identity name) (users w))), ticked E w)"
    and "cache_set E tv k x (Some ttl) w =
      (if valid_ttl (clock (ticked E w)) ttl
       then (Inr (), (ticked E w)\<lparr>redis := r_set_ex (clock (ticked E w)) k (tv x) ttl (redis w)\<rparr>)
       else (Inl (Internal ''Redis SET failed''), ticked E w))"
  using assms
  by (auto simp: delete_def delete_raw_def cache_get_def get_value_def get_raw_def cache_set_def set_value_def set_raw_def
      find_by_username_or_email_def db_def redis_cmd_def comp_simps split: option.splits)

lemma as_string_Some: "as_string c = Some x \<Longrightarrow> c = C_json (JStr x)"
  by (cases c) (auto elim!: json_as_str.elims)

lemma username_of_row: "u_username (uh_user (into_domain_with_hash (user_row.truncate r))) = ur_username r"
  by (simp add: into_domain_with_hash_def user_into_domain_def user_row.truncate_def)

lemma update_password_run:
  assumes "reliable E" "fst (update_password E email h w) = Inr rows"
  shows "snd (update_password E email h w) = (ticked E w)\<lparr>users := with_password E email h (users w)\<rparr>"
  using assms
  by (simp add: update_password_def db_def andthen_run write_users_run ok_run with_password_def Let_def split: if_splits)

lemma reset_password_run:
  assumes "reliable E" "fst (reset_password E token pw w) = Inr ()"
  obtains email n h where
    "r_get (clock w + int (latency E (io_ix w))) (password_reset_token token) (redis w) = Some (C_json (JStr email))"
    "validate_password_strength pw = Inr ()" "argon2_hash E n pw = Inr h"
    "users (snd (reset_password E token pw w)) = with_password E email h (users w)"
    "redis (snd (reset_password E token pw w)) = reset_redis token email (users w) (redis w)"
proof -
  let ?k = "password_reset_token token" and ?w2 = "ticked E (ticked E w)"
  let ?t = "clock (ticked E w)"
  have "\<exists>c email. r_get ?t ?k (redis w) = Some c \<and> as_string c = Some email"
    using assms
    by (auto simp: reset_password_def comp_simps Let_def reliable_runs split: sum.splits option.splits)
  then obtain email where g: "r_get ?t ?k (redis w) = Some (C_json (JStr email))"
    by (metis as_string_Some)
  obtain h where h: "validate_password_strength pw = Inr ()" "argon2_hash E (rng_ix ?w2) pw = Inr h"
    using assms g
    by (auto simp: reset_password_def comp_simps Let_def reliable_runs hash_password_run
        split: sum.splits dest: map_sum_Inr)
  let ?w3 = "?w2\<lparr>rng_ix := Suc (rng_ix ?w2)\<rparr>"
  obtain rows where u: "fst (update_password E email h ?w3) = Inr rows" "rows \<noteq> 0"
    using assms g h
    by (auto simp: reset_password_def comp_simps Let_def reliable_runs hash_password_run
        split: sum.splits if_splits)
  have "users (snd (reset_password E token pw w)) = with_password E email h (users w) \<and>
      redis (snd (reset_password E token pw w)) = reset_redis token email (users w) (redis w)"
    using g h u update_password_run [OF assms(1) u(1)] assms(1)
    by (simp add: reset_password_def comp_simps Let_def reliable_runs hash_password_run
        reset_redis_def username_of_row split: option.splits)
  with g h show ?thesis by (intro that [of email "rng_ix ?w2" h]) simp_all
qed

lemma reset_succeeds:
  assumes "reliable E" "r_get (clock (ticked E w)) (password_reset_token token) (redis w) = Some (C_json (JStr email))"
    "validate_password_strength pw = Inr ()" "\<And>n. argon2_hash E n pw = Inr h"
    "users_ok E (with_password E email h (users w))"
    "\<exists>r \<in> set (users w). pg_lower E (ur_email r) = pg_lower E email \<and> is_active r"
  shows "fst (reset_password E token pw w) = Inr ()"
proof -
  have "fst (update_password E email h w1) = Inr (rows_affected (\<lambda>r. pg_lower E (ur_email r) = pg_lower E email \<and> is_active r) (users w))"
    if "users w1 = users w" for w1
    using assms(1,5) that
    by (simp add: update_password_def db_def andthen_run write_users_run ok_run with_password_def users_ok_def Let_def)
  moreover have "rows_affected (\<lambda>r. pg_lower E (ur_email r) = pg_lower E email \<and> is_active r) (users w) \<noteq> 0"
    using assms(6) by (auto simp: rows_affected_0)
  ultimately show ?thesis
    using assms(1-4)
    by (simp add: reset_password_def comp_simps Let_def reliable_runs hash_password_run split: option.splits)
qed

text \<open>A cached profile decides a login: its hash is the one the password is compared with.\<close>

lemma cached_login_granted:
  assumes "instant E" "r_get (clock w) (user_profile name) (redis w) = Some (C_user (into_domain_with_hash (user_row.truncate r)))"
    "r_get (clock w) (account_lock name) (redis w) = None"
    "verify_password E pw (ur_password_hash r) = Inr True" "\<And>c. \<exists>tok. encode_token E c = Inr tok"
  shows "\<exists>a. fst (login E name pw w) = Inr a \<and> u_id (ar_user a) = ur_id r"
proof -
  let ?u = "into_domain_with_hash (user_row.truncate r)"
  have u: "uh_password_hash ?u = ur_password_hash r" "u_id (uh_user ?u) = ur_id r"
    by (simp_all add: into_domain_with_hash_def user_into_domain_def user_row.truncate_def)
  obtain tok where "encode_token E (claims_new (clock w) (u_id (uh_user ?u)) (u_username (uh_user ?u)) (u_role (uh_user ?u))) =
      Inr tok" using assms(5) by blast
  moreover have "\<not> r_exists (clock w) (account_lock name) (redis w)"
    using assms(3) by (simp add: r_exists_def r_get_def)
  ultimately have "\<exists>a. fst (a_login E name pw (view_of w)) = Inr a \<and> u_id (ar_user a) = ur_id r"
    using assms(2,4) u
    by (auto simp: a_login_def a_exists_def a_lookup_def a_get_def a_succeeded_def a_del_def on_view_def comp_simps)
  then show ?thesis using simulatesD [OF login_simulation [OF assms(1)], of name pw w] by simp
qed

text \<open>A password outside the policy is refused before anything is stored.\<close>

lemma weak_password_refused:
  assumes "validate_password_strength p = Inl e"
  shows "users (snd (register E name email p fname lname w)) = users w"
    and "users (snd (reset_password E token p w)) = users w"
proof -
  have h: "hash_password E p w' = (Inl e, w')" for w' using assms by (simp add: hash_password_run)
  show "users (snd (register E name email p fname lname w)) = users w"
    by (simp add: register_def comp_simps h)
  have "users (snd (cache_get E as_string k w')) = users w'" "users (snd (find_by_username_or_email E n w')) = users w'" for k n w'
    using cache_get_state(1) [of E as_string k w'] keepsD [OF keeps_tables_reads(1), of E n w'] by (simp_all add: tables_def)
  then show "users (snd (reset_password E token p w)) = users w"
    by (simp add: reset_password_def comp_simps Let_def h split: sum.splits option.splits)
qed

section \<open>API keys\<close>

lemma instant_ticked: "instant E \<Longrightarrow> clock (ticked E w) = clock w"
  by (simp add: instant_def)

lemma verify_api_key_cached:
  assumes "instant E" "r_get (clock w) (api_key_key (hash_key E key)) (redis w) = Some (C_api_key k)"
  shows "fst (verify_api_key E key w) = Inr k"
  using assms reliable_runs(2) [of E as_api_key "api_key_key (hash_key E key)" w]
  by (simp add: instant_def verify_api_key_def Let_def comp_simps)

lemma verify_api_key_unusable:
  assumes "instant E" "r_get (clock w) (api_key_key (hash_key E key)) (redis w) = None"
    "\<forall>k \<in> set (api_keys w). \<not> usable_key (hash_key E key) k"
  shows "fst (verify_api_key E key w) = Inl (Unauthorized ''Invalid API Key'')"
proof -
  have "find (usable_key (hash_key E key)) (api_keys w) = None" using assms(3) by (simp add: find_None_iff)
  then show ?thesis
    using assms(1,2) reliable_runs(2) [of E as_api_key "api_key_key (hash_key E key)" w]
    by (simp add: instant_def verify_api_key_def Let_def comp_simps find_by_hash_def db_def)
qed

lemma verify_api_key_fills_cache:
  assumes "instant E" "r_get (clock w) (api_key_key (hash_key E key)) (redis w) = None"
    "find (usable_key (hash_key E key)) (api_keys w) = Some r" "valid_ttl (clock w) 30"
  shows "fst (verify_api_key E key w) = Inr (api_key_into_domain r)"
    and "redis (snd (verify_api_key E key w)) =
      r_set_ex (clock w) (api_key_key (hash_key E key)) (C_api_key (api_key_into_domain r)) 30 (redis w)"
proof -
  have ev: "redis (snd (emit E (api_key_verified E n ro) w)) = redis w" for n ro w
    unfolding api_key_verified_def by (intro keepsD bus_redis.keeps_bus)
  have rel: "reliable E" "\<And>i. latency E i = 0" using assms(1) by (auto simp: instant_def)
  show "fst (verify_api_key E key w) = Inr (api_key_into_domain r)"
    "redis (snd (verify_api_key E key w)) =
      r_set_ex (clock w) (api_key_key (hash_key E key)) (C_api_key (api_key_into_domain r)) 30 (redis w)"
    using assms(2-4) rel
    by (simp_all add: verify_api_key_def Let_def comp_simps find_by_hash_def update_last_used_def db_def
        reliable_runs ev API_KEY_CACHE_TTL_SECS_def)
qed

section \<open>A sample reset\<close>

text \<open>A world in which \<open>alice\<close> has asked for a reset, and the one of an account whose address has
  capitals.\<close>

definition reset_world :: "string \<Rightarrow> world" where
  "reset_world email = empty_world\<lparr>users := [sample_user\<lparr>ur_email := email\<rparr>],
     redis := [password_reset_token ''t'' \<mapsto> \<lparr>e_value = C_json (JStr ''alice@x.io''), e_expires = Some 900000\<rparr>,
               user_profile ''alice'' \<mapsto> \<lparr>e_value = C_user (into_domain_with_hash (user_row.truncate (sample_user\<lparr>ur_email := email\<rparr>))),
                                      e_expires = Some 300000\<rparr>]\<rparr>"

lemma reset_world_fields:
  "users (reset_world email) = [sample_user\<lparr>ur_email := email\<rparr>]" "clock (reset_world email) = 0"
  by (simp_all add: reset_world_def empty_world_def)

lemma sample_no_latency: "latency sample_env i = 0" and sample_argon2: "argon2_hash sample_env n pw = Inr (''$argon2id$'' @ pw)"
  by (simp_all add: sample_env_def)

lemma reset_world_ok:
  assumes "validate_password_strength pw = Inr ()" "fits 255 (''$argon2id$'' @ pw)" "e = ''alice@x.io'' \<or> e = ''Alice@x.io''"
  shows "fst (reset_password sample_env ''t'' pw (reset_world e)) = Inr ()"
proof -
  have fresh: "r_get 0 (password_reset_token ''t'') (redis (reset_world e)) = Some (C_json (JStr ''alice@x.io''))"
    by (simp add: reset_world_def redis_defs password_reset_token_def user_profile_def)
  have "fits 255 e" using assms(3) by (auto simp: fits_def char_count_def byte_def)
  then have table: "users_ok sample_env (with_password sample_env ''alice@x.io'' (''$argon2id$'' @ pw) [sample_user\<lparr>ur_email := e\<rparr>])"
    using sample_user_fits assms(2)
    by (simp add: users_ok_def users_unique_def unique_on_def unique_some_def with_password_def update_where_def
        map_filter_def user_fits_def fits_opt_def)
  have "pg_lower sample_env e = pg_lower sample_env ''alice@x.io''" "is_active sample_user"
    using assms(3) by (auto simp: sample_lower sample_user_def activate_def)
  then show ?thesis
    using table fresh
    by (intro reset_succeeds [OF sample_env_reliable, of _ _ "''alice@x.io''" pw "''$argon2id$'' @ pw"] assms(1))
      (simp_all add: sample_no_latency reset_world_fields sample_argon2)
qed

lemma reset_passwords:
  "validate_password_strength ''Other456#Pass'' = Inr ()" "fits 255 (''$argon2id$'' @ ''Other456#Pass'')"
  "fits 255 (''$argon2id$'' @ ''GridTokenX123!'')"
  by code_simp+

section \<open>Properties\<close>

text \<open>C8. Registration: success adds exactly one account, of the requested name and address, inactive and
  unverified, with the role \<open>user\<close>, the Argon2 hash of the password and a verification token of
  24 hours; an error adds none, except in one case: the reply to the insertion itself was lost, the error
  is that transport error, and nothing was sent after it.\<close>

theorem register_adds_account:
  "case register E name email pw fname lname w of
     (Inr x, w') \<Rightarrow> added E name email pw (rr_id x) w w'
   | (Inl e, w') \<Rightarrow> users w' = users w \<or>
       (\<exists>s i. e = Database (SqlxOther s) \<and> fault E (io_ix w) = Lost_reply s \<and> io_ix w' = Suc (io_ix w) \<and>
          added E name email pw i w w')"
  by (cases rule: register_cases [of E name email pw fname lname w])
    (auto simp: case_prod_beta split: sum.splits)

text \<open>C23. A user name, or an address up to the database's case folding, that is taken cannot be
  registered again: whatever fails, no account is added and the reply is an error; without faults
  and with valid input it is the conflict that names neither.\<close>

theorem register_duplicate_rejected:
  assumes "x \<in> set (users w)" and "ur_username x = name \<or> pg_lower E (ur_email x) = pg_lower E email"
  shows "(\<exists>e. fst (register E name email pw fname lname w) = Inl e) \<and>
    users (snd (register E name email pw fname lname w)) = users w \<and>
    (reliable E \<and> users_ok E (users w) \<and> CHR ''@'' \<in> set email \<and> 5 \<le> length email \<and>
     validate_password_strength pw = Inr () \<and> (\<forall>n. \<exists>h. argon2_hash E n pw = Inr h \<and> fits 255 h) \<and>
     (\<forall>j. fits 128 (uuid_to_string E j)) \<and> fits 50 name \<and> fits 255 email \<and> fits_opt 100 fname \<and> fits_opt 100 lname \<longrightarrow>
     fst (register E name email pw fname lname w) = Inl (api_error.Conflict ''Username or email already exists''))"
proof -
  have "(\<exists>e. fst (register E name email pw fname lname w) = Inl e) \<and>
    users (snd (register E name email pw fname lname w)) = users w"
    using taken_not_added [OF assms] by (cases rule: register_cases [of E name email pw fname lname w]) auto
  then show ?thesis using register_taken_conflict [OF _ _ _ _ _ _ _ _ _ _ _ assms] by blast
qed

theorem register_duplicate_rejected_witness:
  "users (snd (register sample_env ''bob'' ''ALICE@x.io'' ''GridTokenX123!'' None None sample_world)) = [sample_user]"
proof -
  have "pg_lower sample_env (ur_email sample_user) = pg_lower sample_env ''ALICE@x.io''"
    by (simp add: sample_user_def activate_def new_user_row_def sample_lower)
  then show ?thesis
    using register_duplicate_rejected [of sample_user sample_world "''bob''" sample_env "''ALICE@x.io''"
        "''GridTokenX123!''" None None]
    by (simp add: sample_world_def)
qed

text \<open>C31. Only strong passwords are ever stored: whatever fails, when a registration or a reset has changed the
  table of users, the password it was given has 8 to 128 bytes, contains a lowercase letter, an uppercase letter, a
  digit and one of the 26 special characters, and its lowercased form contains none of the eight weak
  patterns.\<close>

theorem stored_password_strong:
  assumes "users (snd (register E name email p fname lname w)) \<noteq> users w \<or>
    users (snd (reset_password E token p w)) \<noteq> users w"
  shows "8 \<le> length p \<and> length p \<le> 128 \<and>
     (\<exists>c \<in> set p. is_ascii_lowercase c) \<and> (\<exists>c \<in> set p. is_ascii_uppercase c) \<and>
     (\<exists>c \<in> set p. is_ascii_digit c) \<and> (\<exists>c \<in> set p. c \<in> set ''!@#$%^&*()_+-=[]{}|;:,.<>?'') \<and>
     (\<nexists>pre pat post. to_lowercase p = pre @ pat @ post \<and>
        pat \<in> {''password'', ''123456'', ''qwerty'', ''admin'', ''letmein'', ''welcome'', ''monkey'', ''dragon''})"
  using weak_password_refused assms unfolding password_policy_exact [symmetric] by (metis old.unit.exhaust sum.exhaust)

theorem stored_password_strong_witness:
  "(\<nexists>pre post. to_lowercase ''Other456#Pass'' = pre @ ''password'' @ post) \<and>
   users (snd (reset_password sample_env ''t'' ''Other456#Pass'' (reset_world ''alice@x.io''))) \<noteq>
     users (reset_world ''alice@x.io'')"
proof -
  let ?r = "reset_password sample_env ''t'' ''Other456#Pass'' (reset_world ''alice@x.io'')"
  have ok: "fst ?r = Inr ()" using reset_world_ok reset_passwords by blast
  have "users (snd ?r) \<noteq> users (reset_world ''alice@x.io'')"
  proof (cases rule: reset_password_run [OF sample_env_reliable ok])
    case (1 email n h)
    have "r_get 0 (password_reset_token ''t'') (redis (reset_world ''alice@x.io'')) = Some (C_json (JStr ''alice@x.io''))"
      by (simp add: reset_world_def redis_defs)
    with 1(1) have "email = ''alice@x.io''" by (simp add: reset_world_fields sample_no_latency)
    moreover have "h = ''$argon2id$Other456#Pass''" using 1(3) by (simp add: sample_argon2)
    ultimately show ?thesis
      unfolding 1(4) by (simp add: with_password_def update_where_def reset_world_fields sample_user_def activate_def
          new_user_row_def)
  qed
  with stored_password_strong [of sample_env _ _ "''Other456#Pass''" _ _ "reset_world ''alice@x.io''" "''t''"]
  show ?thesis by blast
qed

text \<open>C12. Only active accounts log in: when no active account has the identifier and no profile of it is
  cached, every login is answered with an error and leaves the tables as they are, whatever fails.\<close>

theorem login_needs_active_account:
  assumes "\<forall>r \<in> set (users w). \<not> active_identity name r" and "redis w (user_profile name) = None"
  shows "(\<exists>e. fst (login E name pw w) = Inl e) \<and> tables (snd (login E name pw w)) = tables w"
proof -
  let ?w = "snd (exists_key E (account_lock name) w)"
  have "\<forall>r \<in> set (users ?w). \<not> active_identity name r" "redis ?w (user_profile name) = None" "tables ?w = tables w"
    using assms exists_key_state [of E "account_lock name" w] by (simp_all add: tables_def)
  moreover have "tables (snd (emit E (login_attempt E name False None) w)) = tables w" for w
    by (rule keepsD, rule keeps_tables_emit, rule keeps_tables_events)
  ultimately show ?thesis
    using lookup_unknown [of ?w name E] by (auto simp: login_def comp_simps)
qed

theorem login_needs_active_account_witness:
  "\<exists>e. fst (login sample_env ''bob'' ''GridTokenX123!'' sample_world) = Inl e"
proof -
  have "\<forall>r \<in> set (users sample_world). \<not> active_identity ''bob'' r" by code_simp
  from login_needs_active_account [OF this sample_fresh] show ?thesis by blast
qed

text \<open>C5. In production an email is verified only with an unexpired token of the account itself: a
  verification that succeeds opens a session of the account the token belongs to, with an access token issued
  for that account; and no account becomes active but the one the token belongs to, whatever fails on
  the way.\<close>

theorem verification_needs_token:
  assumes "eq_ignore_ascii_case (environment (cfg E)) ''production''" and "users_ok E (users w)"
  shows "(fst (verify_email E token w) = Inr x \<longrightarrow>
      (\<exists>r \<in> set (users w). owns_token token (clock w) r \<and>
        (\<exists>a t. ve_auth x = Some a \<and> u_id (ar_user a) = ur_id r \<and> u_username (ar_user a) = ur_username r \<and>
           u_email (ar_user a) = ur_email r \<and> u_role (ar_user a) = ur_role r \<and>
           encode_token E (claims_new t (ur_id r) (ur_username r) (ur_role r)) = Inr (ar_access_token a)))) \<and>
    ((i, True) \<in> set (actives (snd (verify_email E token w))) \<longrightarrow>
      (i, True) \<in> set (actives w) \<or> (\<exists>r \<in> set (users w). ur_id r = i \<and> owns_token token (clock w) r))"
proof (cases "fst (verification_email_of E token w)")
  case (Inl e)
  then show ?thesis by (simp add: verify_email_actives) (simp add: verify_email_def bnd_run)
next
  case (Inr email)
  let ?w = "snd (verification_email_of E token w)"
  obtain r where r: "r \<in> set (users w)" "owns_token token (clock w) r" "ur_email r = email"
    using verified_email_owner [OF assms(1) Inr] by blast
  have same: "users ?w = users w" using verification_email_state [of E token w] by (simp add: tables_def)
  have "unique_on ur_email (users w)" using assms(2) by (simp add: users_ok_def users_unique_def)
  then have one: "r' = r" if "r' \<in> set (users w)" "ur_email r' = email" for r'
    using unique_onD that r(1,3) by metis
  then have "(i, True) \<in> set (actives w) \<or> (\<exists>r \<in> set (users w). ur_id r = i \<and> owns_token token (clock w) r)"
    if "(i, True) \<in> set (actives (snd (repo_verify_email E email ?w)))"
    using activated_rows [OF that] same r(1,2) by (auto simp: actives_def)
  moreover have "actives (snd (verify_email E token w)) = actives (snd (repo_verify_email E email ?w))"
    by (simp add: verify_email_actives Inr)
  moreover have "session_of E r x" if "fst (verify_email E token w) = Inr x"
    using verified_session [OF that Inr] same one by auto
  ultimately show ?thesis using r(1,2) by (auto simp: session_of_def)
qed

lemma provision_ok: "\<exists>u'. fst (provision_if_needed E u w) = Inr u'"
  by (auto simp: provision_if_needed_def comp_simps split: sum.splits)

lemma sample_verifies: "\<exists>x. fst (verify_email sample_env ''tok'' sample_world) = Inr x"
proof -
  have e: "fst (verification_email_of sample_env ''tok'' sample_world) = Inr ''alice@x.io''" by code_simp
  let ?w = "snd (verification_email_of sample_env ''tok'' sample_world)"
  have us: "users ?w = [sample_user]"
    using verification_email_state [of sample_env "''tok''" sample_world] by (simp add: tables_def sample_world_def)
  have "users_ok sample_env [activate t sample_user]" for t
    using sample_user_fits
    by (simp add: users_ok_def users_unique_def unique_on_def unique_some_def map_filter_def activate_def user_fits_def)
  then have "\<exists>u. fst (repo_verify_email sample_env ''alice@x.io'' ?w) = Inr (Some u)"
    using us by (simp add: repo_verify_email_def db_def andthen_run write_users_run gets_run users_ok_def
        update_where_def sample_user_def activate_def new_user_row_def)
  then obtain u0 where u0: "fst (repo_verify_email sample_env ''alice@x.io'' ?w) = Inr (Some u0)" by blast
  obtain u where u: "fst (provision_if_needed sample_env u0 (snd (repo_verify_email sample_env ''alice@x.io'' ?w))) = Inr u"
    using provision_ok by blast
  have "\<exists>tok. fst (issue_token sample_env i n r w) = Inr tok" for i n r w
    by (simp add: issue_token_def now_def comp_simps encode_token_def sample_env_def)
  then obtain tok where "fst (issue_token sample_env (u_id u) (u_username u) (u_role u)
      (snd (provision_if_needed sample_env u0 (snd (repo_verify_email sample_env ''alice@x.io'' ?w))))) = Inr tok"
    by blast
  with e u0 u show ?thesis by (simp add: verify_email_def comp_simps)
qed

theorem verification_needs_token_witness:
  "(\<exists>x a. fst (verify_email sample_env ''tok'' sample_world) = Inr x \<and> ve_auth x = Some a \<and> u_id (ar_user a) = 7) \<and>
   (\<nexists>x. fst (verify_email sample_env ''verify_alice@x.io'' sample_world) = Inr x)"
proof -
  have p: "eq_ignore_ascii_case (environment (cfg sample_env)) ''production''" by code_simp
  have t: "users_ok sample_env (users sample_world)" using sample_world_ok by (simp add: db_ok_def)
  have "\<not> (\<exists>r \<in> set (users sample_world). owns_token ''verify_alice@x.io'' (clock sample_world) r)"
    by code_simp
  moreover have "users sample_world = [sample_user]" "ur_id sample_user = 7"
    by (simp_all add: sample_world_def sample_user_def activate_def new_user_row_def)
  ultimately show ?thesis
    using verification_needs_token [OF p t, of "''tok''"] verification_needs_token [OF p t, of "''verify_alice@x.io''"]
      sample_verifies by fastforce
qed

text \<open>C33. The resend endpoint reveals nothing: without faults the reply is the same for every address,
  whether it is unknown, verified, in its cooldown or sent a new token.\<close>

theorem resend_reveals_nothing:
  assumes "reliable E" and "users_ok E (users w)" and "\<And>j. fits 128 (uuid_to_string E j)"
  shows "fst (resend_verification E email w) = Inr resend_sent"
  using assms by (rule resend_run)

theorem resend_reveals_nothing_witness:
  "fst (resend_verification (sample_env\<lparr>uuid_to_string := (\<lambda>_. ''id'')\<rparr>) ''nobody@x.io'' sample_world) = Inr resend_sent"
proof (rule resend_reveals_nothing)
  show "reliable (sample_env\<lparr>uuid_to_string := (\<lambda>_. ''id'')\<rparr>)"
    using sample_env_reliable by (simp add: reliable_def)
  show "users_ok (sample_env\<lparr>uuid_to_string := (\<lambda>_. ''id'')\<rparr>) (users sample_world)"
    using sample_world_ok by (simp add: db_ok_def users_ok_def users_unique_def)
  show "fits 128 (uuid_to_string (sample_env\<lparr>uuid_to_string := (\<lambda>_. ''id'')\<rparr>) j)" for j
    by (simp add: fits_def char_count_def)
qed

text \<open>C14. A reset token works once and for its own account: a successful reset found an address stored
  under the token, gave the accepted password's Argon2 hash to the active accounts of that address
  and to no other account, and the token is refused from then on.\<close>

theorem reset_token_single_use:
  assumes "reliable E" and "fst (reset_password E token pw w) = Inr ()"
    and "redis w2 = redis (snd (reset_password E token pw w))"
  shows "(\<exists>t email n h. clock w \<le> t \<and> r_get t (password_reset_token token) (redis w) = Some (C_json (JStr email)) \<and>
      validate_password_strength pw = Inr () \<and> argon2_hash E n pw = Inr h \<and>
      users (snd (reset_password E token pw w)) = with_password E email h (users w)) \<and>
    fst (reset_password E token pw2 w2) = Inl (BadRequest ''Invalid or expired reset token'')"
proof (cases rule: reset_password_run [OF assms(1,2)])
  case (1 email n h)
  then have "r_get t' (password_reset_token token) (redis w2) = None" for t'
    using assms(3) by (simp add: reset_redis_def rs.get_del)
  then have "fst (reset_password E token pw2 w2) = Inl (BadRequest ''Invalid or expired reset token'')"
    using assms(1) by (simp add: reset_password_def comp_simps Let_def reliable_runs)
  moreover have "clock w \<le> clock w + int (latency E (io_ix w))" by simp
  ultimately show ?thesis using 1 by blast
qed

theorem reset_token_single_use_witness:
  "fst (reset_password sample_env ''t'' ''Other456#Pass''
      (snd (reset_password sample_env ''t'' ''GridTokenX123!'' (reset_world ''alice@x.io'')))) =
     Inl (BadRequest ''Invalid or expired reset token'')"
  using reset_token_single_use [OF sample_env_reliable reset_world_ok refl] sample_password_ok reset_passwords by blast

text \<open>C38. A reset can leave the old password valid.  The token's address is lower-cased; when it is
  not itself the name or address of an active account (the account's address has capitals), the reset stores
  the hash of the new password, but the profile cached under the user name, with the old hash, survives
  it.  Until the profile expires, a login with the old password is granted, and opens a session of the
  account whose password was reset.\<close>

theorem reset_keeps_old_password:
  assumes "instant E" and "\<And>c. \<exists>tok. encode_token E c = Inr tok"
    and "fst (reset_password E token pw w) = Inr ()"
    and "r_get (clock w) (password_reset_token token) (redis w) = Some (C_json (JStr email))"
    and "r \<in> set (users w)" and "is_active r" and "pg_lower E (ur_email r) = pg_lower E email"
    and "find (active_identity email) (users w) = None"
    and "r_get t (user_profile (ur_username r)) (redis w) = Some (C_user (into_domain_with_hash (user_row.truncate r)))"
    and "r_get t (account_lock (ur_username r)) (redis w) = None"
    and "verify_password E old (ur_password_hash r) = Inr True"
    and "redis w2 = redis (snd (reset_password E token pw w))" and "clock w2 = t"
  shows "(\<exists>n h. argon2_hash E n pw = Inr h \<and> r\<lparr>ur_password_hash := h\<rparr> \<in> set (users (snd (reset_password E token pw w)))) \<and>
    (\<exists>a. fst (login E (ur_username r) old w2) = Inr a \<and> u_id (ar_user a) = ur_id r)"
proof -
  have rel: "reliable E" and z: "\<And>i. latency E i = 0" using assms(1) by (auto simp: instant_def)
  have "\<not> active_identity email r" using assms(5,8) by (simp add: find_None_iff)
  then have n: "ur_username r \<noteq> email" using assms(6) by (simp add: active_identity_def)
  show ?thesis
  proof (cases rule: reset_password_run [OF rel assms(3)])
    case (1 email' n h)
    then have "email' = email" using assms(4) z by simp
    then have "redis w2 = r_del (password_reset_token token) (r_del (user_profile email) (redis w))"
      and u: "users (snd (reset_password E token pw w)) = with_password E email h (users w)"
      using 1 assms(8,12) by (simp_all add: reset_redis_def)
    then have "r_get t (user_profile (ur_username r)) (redis w2) = Some (C_user (into_domain_with_hash (user_row.truncate r)))"
      "r_get t (account_lock (ur_username r)) (redis w2) = None"
      using assms(9,10) n by (simp_all add: rs.get_del_other)
    then have "\<exists>a. fst (login E (ur_username r) old w2) = Inr a \<and> u_id (ar_user a) = ur_id r"
      using cached_login_granted [OF assms(1), of w2 "ur_username r"] assms(2,11,13) by blast
    moreover have "r\<lparr>ur_password_hash := h\<rparr> \<in> set (with_password E email h (users w))"
      using assms(5-7) by (auto simp: with_password_def in_update_where)
    ultimately show ?thesis using 1(3) u by auto
  qed
qed

theorem reset_keeps_old_password_witness:
  "\<exists>a. fst (login sample_env ''alice'' ''GridTokenX123!''
     ((snd (reset_password sample_env ''t'' ''Other456#Pass'' (reset_world ''Alice@x.io'')))\<lparr>clock := 1000\<rparr>)) = Inr a \<and>
     u_id (ar_user a) = 7"
proof -
  let ?w = "reset_world ''Alice@x.io''" and ?u = "sample_user\<lparr>ur_email := ''Alice@x.io''\<rparr>"
  have "r_get 0 (password_reset_token ''t'') (redis ?w) = Some (C_json (JStr ''alice@x.io''))"
    "r_get 1000 (user_profile ''alice'') (redis ?w) = Some (C_user (into_domain_with_hash (user_row.truncate ?u)))"
    "r_get 1000 (account_lock ''alice'') (redis ?w) = None"
    by (simp_all add: reset_world_def redis_defs)
  moreover have "find (active_identity ''alice@x.io'') (users ?w) = None" "ur_username ?u = ''alice''" "is_active ?u" "ur_id ?u = 7"
    "ur_password_hash ?u = ''$argon2id$GridTokenX123!''"
    by (simp_all add: reset_world_fields active_identity_def sample_user_def activate_def new_user_row_def)
  moreover have "verify_password sample_env ''GridTokenX123!'' ''$argon2id$GridTokenX123!'' = Inr True"
    by (simp add: verify_password_def starts_with_def sample_env_def)
  moreover have "\<exists>tok. encode_token sample_env c = Inr tok" for c by (simp add: encode_token_def sample_env_def)
  ultimately show ?thesis
    using reset_keeps_old_password [OF sample_env_instant _ reset_world_ok [OF reset_passwords(1,2), of "''Alice@x.io''"],
        of "''alice@x.io''" ?u 1000 "''GridTokenX123!''" "(snd (reset_password sample_env ''t'' ''Other456#Pass'' ?w))\<lparr>clock := 1000\<rparr>"]
    by (simp add: reset_world_fields sample_lower)
qed

text \<open>C15. A revoked API key is accepted for exactly the rest of its 30 seconds in the cache: after a
  verification that found the key in the database and with the cache unchanged, a key that is no
  longer active is accepted before 30 seconds have passed and refused from then on.\<close>

theorem revoked_key_window:
  assumes "instant E" and "r_get (clock w) (api_key_key (hash_key E key)) (redis w) = None"
    and "find (usable_key (hash_key E key)) (api_keys w) = Some r" and "valid_ttl (clock w) 30"
    and "redis w2 = redis (snd (verify_api_key E key w))"
    and "\<forall>k \<in> set (api_keys w2). \<not> usable_key (hash_key E key) k"
  shows "fst (verify_api_key E key w) = Inr (api_key_into_domain r) \<and>
    fst (verify_api_key E key w2) =
      (if clock w2 < clock w + 30000 then Inr (api_key_into_domain r) else Inl (Unauthorized ''Invalid API Key''))"
  using verify_api_key_fills_cache [OF assms(1-4)] verify_api_key_cached [OF assms(1), of w2 key]
    verify_api_key_unusable [OF assms(1) _ assms(6)] assms(5)
  by (simp add: rs.get_put)

definition key_world :: world where
  "key_world = empty_world\<lparr>api_keys := [\<lparr>kr_id = 1, kr_key_hash = hash_key sample_env ''k'', kr_name = ''meter'',
     kr_role = ''ami'', kr_permissions = None, kr_is_active = Some True, kr_created_at = None, kr_last_used_at = None,
     kr_expires_at = None\<rparr>]\<rparr>"

theorem revoked_key_window_witness:
  "fst (verify_api_key sample_env ''k'' ((snd (verify_api_key sample_env ''k'' key_world))\<lparr>api_keys := [], clock := 30000\<rparr>)) =
     Inl (Unauthorized ''Invalid API Key'')"
proof -
  have "r_get (clock key_world) (api_key_key (hash_key sample_env ''k'')) (redis key_world) = None" "valid_ttl (clock key_world) 30"
    by (simp_all add: key_world_def empty_world_def redis_defs valid_ttl_def)
  moreover have "find (usable_key (hash_key sample_env ''k'')) (api_keys key_world) = Some (hd (api_keys key_world))"
    by (simp add: key_world_def usable_key_def)
  moreover have "clock key_world = 0" by (simp add: key_world_def empty_world_def)
  ultimately show ?thesis
    using revoked_key_window [OF sample_env_instant, of key_world "''k''" _
        "(snd (verify_api_key sample_env ''k'' key_world))\<lparr>api_keys := [], clock := 30000\<rparr>"] by simp
qed

end
