(* ===== verification/Journey.thy ===== *)
theory Journey
  imports Accounts
begin

text \<open>
  The way of a user through the service: registration, verification of the email, the first login;
  and two accounts that answer to the same identifier.
\<close>

section \<open>What registration and verification leave in the cache\<close>

lemma keeps_redis_db: "keeps redis m \<Longrightarrow> keeps redis (db E m)"
  by (intro keeps_timed untimed_components)

lemma keeps_redis_writes:
  "keeps redis (\<lambda>w. write_users E (t w) w)" "keeps redis (\<lambda>w. write_wallets (t' w) w)"
  "keeps redis (insert_wallet_row i u a l p)"
  by (auto simp: keeps_def stable_def write_users_run write_wallets_run insert_wallet_row_def Let_def andthen_run
      ok_run split: sum.splits)

lemma keeps_redis_transaction:
  assumes "keeps redis body"
  shows "keeps redis (transaction E body)"
proof (rule keepsI)
  fix w
  have b: "redis (snd (db E (ok () :: unit act) w)) = redis w" for w
    by (rule keepsD, rule keeps_redis_db, rule keeps_intros)
  have c: "redis (snd (andthen (db E (ok () :: unit act)) (ok x) w)) = redis w" for x :: 'a and w
    using b [of w] by (simp add: andthen_run ok_run split: sum.splits)
  obtain r1 w1 where 1: "db E (ok () :: unit act) w = (r1, w1)" by (cases "db E (ok () :: unit act) w")
  obtain r2 w2 where 2: "body w1 = (r2, w2)" by (cases "body w1")
  have "redis w1 = redis w" "redis w2 = redis w1"
    using b [of w] 1 keepsD [OF assms, of w1] 2 by simp_all
  then show "redis (snd (transaction E body w)) = redis w"
    by (simp add: transaction_def 1 2 c rollback_def split: sum.splits outcome.splits)
qed

lemma keeps_redis_custodial: "keeps redis (persist_custodial_wallet E u a l k s iv v)"
  unfolding persist_custodial_wallet_def
  by (intro keeps_redis_transaction keeps_intros keeps_redis_db keeps_redis_writes keeps_timed untimed_components)

lemma keeps_redis_provision: "keeps redis (provision_if_needed E u)"
  unfolding provision_if_needed_def provision_custodial_wallet_def spawn_onchain_registration_def has_any_wallet_def
  by (intro keeps_intros keeps_redis_custodial keeps_redis_db keeps_timed untimed_components keeps_spawn) simp

lemma keeps_redis_token: "keeps redis (issue_token E i n ro)"
  unfolding issue_token_def by (intro keeps_intros keeps_timed untimed_components)

lemma keeps_redis_register: "keeps redis (register E name email pw fname lname)"
proof -
  have "keeps redis (create E nu)" for nu
    unfolding create_def by (rule keeps_redis_db, rule keepsI) (simp add: write_users_run)
  moreover have "keeps redis (hash_password E pw)"
    unfolding hash_password_def by (intro keeps_intros keeps_timed untimed_components)
  ultimately show ?thesis
    unfolding register_def user_registered_def verification_email_requested_def
    by (intro keeps_intros bus_redis.keeps_bus keeps_timed untimed_components)
qed

lemma keeps_redis_verify:
  "keeps redis (verification_email_of E token)" "keeps redis (repo_verify_email E email)"
  "keeps redis (emit E (email_verified_event E i n e a))"
proof -
  show "keeps redis (verification_email_of E token)"
    unfolding verification_email_of_def find_email_by_token_def by (intro keeps_intros keeps_redis_db)
  have "keeps redis (\<lambda>w. andthen (write_users E (t w)) (gets g) w)"
    for t :: "world \<Rightarrow> user_rec list" and g :: "world \<Rightarrow> user option"
    by (rule keepsI) (simp add: andthen_run gets_run write_users_run)
  then show "keeps redis (repo_verify_email E email)"
    unfolding repo_verify_email_def by (rule keeps_redis_db)
  show "keeps redis (emit E (email_verified_event E i n e a))"
    unfolding email_verified_event_def by (intro bus_redis.keeps_bus)
qed

lemma delete_absent: "preserves (\<lambda>w. redis w k = None) (delete E k')"
  unfolding delete_def delete_raw_def
  by (intro preserves_intros preserves_timed untimed_at preservesI) (simp add: on_redis_run r_del_def)

lemmas absent_of_keeps = preserves_of_keeps [where f = redis and P = "\<lambda>s. s k = None" for k]

lemma verify_email_absent: "preserves (\<lambda>w. redis w k = None) (verify_email E token)"
  unfolding verify_email_def
  by (intro preserves_intros delete_absent absent_of_keeps keeps_redis_verify keeps_redis_provision keeps_redis_token)

section \<open>The first login\<close>

lemma find_cred:
  "map_option cred (find (active_identity name) us) =
     find (\<lambda>(i, n, e, h, a). (n = name \<or> e = name) \<and> a) (map cred us)"
  by (induction us) (auto simp: cred_def active_identity_def)

lemma appended_distinct:
  assumes "users_ok E (us @ [r])" "x \<in> set us"
  shows "ur_id x \<noteq> ur_id r" "ur_email x \<noteq> ur_email r"
proof -
  have "ur_id r \<notin> ur_id ` set us" "ur_email r \<notin> ur_email ` set us"
    using assms(1) by (simp_all add: users_ok_def users_unique_def unique_on_append)
  then show "ur_id x \<noteq> ur_id r" "ur_email x \<noteq> ur_email r"
    using imageI [OF assms(2), of ur_id] imageI [OF assms(2), of ur_email] by metis+
qed

lemma activation_run:
  assumes "reliable E" "users_ok E (users w)"
  shows "users (snd (repo_verify_email E email w)) =
    update_where (\<lambda>r. ur_email r = email) (activate (clock (ticked E w))) (users w)"
proof -
  let ?t = "update_where (\<lambda>r. ur_email r = email) (activate (clock (ticked E w))) (users w)"
  have "list_all user_fits ?t"
    using assms(2) by (intro list_all_update_where) (simp_all add: users_ok_def user_fits_def activate_def)
  moreover have "users_unique E ?t"
    using assms(2) by (simp add: users_ok_def users_unique_def unique_on_update unique_some_update activate_def)
  ultimately show ?thesis
    using assms(1) by (simp add: repo_verify_email_def db_def andthen_run write_users_run gets_run)
qed

lemma token_email:
  assumes "reliable E" "eq_ignore_ascii_case (environment (cfg E)) ''production''"
    "users w = us @ [r]" "\<forall>x \<in> set us. email_verification_token x \<noteq> Some token" "owns_token token (clock (ticked E w)) r"
  shows "fst (verification_email_of E token w) = Inr (ur_email r)"
proof -
  have "find (\<lambda>x. email_verification_token x = Some token \<and> after (email_verification_expires_at x) (clock (ticked E w)))
      (us @ [r]) = Some r"
    using assms(4,5) by (induction us) (auto simp: owns_token_def)
  then show ?thesis
    using assms(1-3) by (simp add: verification_email_of_def find_email_by_token_def db_def comp_simps)
qed

text \<open>The account just verified is the one its name finds.\<close>

lemma verified_found:
  assumes "instant E" "eq_ignore_ascii_case (environment (cfg E)) ''production''"
    and "users w = us @ [r]" "users_ok E (users w)" "ur_username r = name" "owns_token token (clock w) r"
    and "\<forall>x \<in> set us. \<not> active_identity name x \<and> email_verification_token x \<noteq> Some token"
  shows "\<exists>r'. find (active_identity name) (users (snd (verify_email E token w))) = Some r' \<and>
    ur_id r' = ur_id r \<and> ur_password_hash r' = ur_password_hash r"
proof -
  let ?w = "snd (verification_email_of E token w)" and ?e = "ur_email r"
  have rel: "reliable E" and z: "\<And>i. latency E i = 0" using assms(1) by (auto simp: instant_def)
  have e: "fst (verification_email_of E token w) = Inr ?e"
    using token_email [OF rel assms(2,3)] assms(6,7) z by simp
  have same: "users ?w = us @ [r]" using verification_email_state [of E token w] assms(3) by (simp add: tables_def)
  define us' where "us' = update_where (\<lambda>x. ur_email x = ?e) (activate (clock (ticked E ?w))) us"
  define r' where "r' = activate (clock (ticked E ?w)) r"
  have "users (snd (repo_verify_email E ?e ?w)) = us' @ [r']"
    using activation_run [OF rel, of ?w ?e] same assms(3,4) by (simp add: update_where_def us'_def r'_def)
  then have "creds (snd (verify_email E token w)) = map cred (us' @ [r'])"
    using verify_email_creds [of E token w] e by (simp add: creds_def)
  moreover have "ur_email x \<noteq> ?e" if "x \<in> set us" for x
    using appended_distinct [of E us r x] assms(3,4) that by simp
  then have "us' = us" by (simp add: us'_def update_where_absent)
  moreover have "find (active_identity name) (us @ [r']) = Some r'"
  proof -
    have "active_identity name r'" using assms(5) by (simp add: r'_def activate_def active_identity_def)
    then show ?thesis using assms(7) by (induction us) auto
  qed
  ultimately have "map_option cred (find (active_identity name) (users (snd (verify_email E token w)))) = Some (cred r')"
    using find_cred [of name "us @ [r']"] find_cred [of name "users (snd (verify_email E token w))"]
    by (simp add: creds_def)
  then show ?thesis by (auto simp: cred_def r'_def activate_def)
qed

lemma login_granted:
  assumes "instant E" "find (active_identity name) (users w) = Some r" "verify_password E pw (ur_password_hash r) = Inr True"
    "\<And>c. \<exists>tok. encode_token E c = Inr tok" "redis w (user_profile name) = None" "redis w (account_lock name) = None"
  shows "\<exists>a. fst (login E name pw w) = Inr a \<and> u_id (ar_user a) = ur_id r"
proof -
  let ?u = "into_domain_with_hash (user_row.truncate r)"
  have u: "uh_password_hash ?u = ur_password_hash r" "u_id (uh_user ?u) = ur_id r"
    by (simp_all add: into_domain_with_hash_def user_into_domain_def user_row.truncate_def)
  obtain tok where "encode_token E (claims_new (clock w) (u_id (uh_user ?u)) (u_username (uh_user ?u)) (u_role (uh_user ?u))) =
      Inr tok" using assms(4) by blast
  then have "\<exists>a. fst (a_login E name pw (view_of w)) = Inr a \<and> u_id (ar_user a) = ur_id r"
    using assms(2,3,5,6) u
    by (auto simp: a_login_def a_exists_def a_lookup_def a_get_def a_find_def a_set_def a_succeeded_def a_del_def on_view_def
        comp_simps redis_defs)
  then show ?thesis using simulatesD [OF login_simulation [OF assms(1)], of name pw w] by simp
qed

lemma argon2_verifies: "argon2_law E \<Longrightarrow> argon2_hash E n p = Inr h \<Longrightarrow> verify_password E p h = Inr True"
  by (fastforce simp: argon2_law_def verify_password_def)

section \<open>Two accounts for one identifier\<close>

lemma activated_identity:
  assumes "reliable E" "users_ok E (users w)" "r \<in> set (users w)" "ur_email r = email"
    "ur_username r = name \<or> ur_email r = name"
  shows "\<exists>r' \<in> set (users (snd (repo_verify_email E email w))). ur_id r' = ur_id r \<and> active_identity name r'"
  using assms(3-5) unfolding activation_run [OF assms(1,2)]
  by (intro bexI [of _ "activate (clock (ticked E w)) r"])
    (auto simp: in_update_where activate_def active_identity_def)

section \<open>A sample registration\<close>

lemma register_succeeds:
  assumes "instant E" "CHR ''@'' \<in> set email" "5 \<le> length email" "validate_password_strength pw = Inr ()"
    "argon2_hash E (rng_ix w) pw = Inr h"
    "users_ok E (users w @ [new_user_row (clock w) (registration E name email h fname lname (rng_ix w))])"
  shows "\<exists>x. fst (register E name email pw fname lname w) = Inr x"
    and "users (snd (register E name email pw fname lname w)) =
      users w @ [new_user_row (clock w) (registration E name email h fname lname (rng_ix w))]"
proof -
  have "fst (hash_password E pw w) = Inr h" using assms(4,5) by (simp add: hash_password_run)
  note run = registration_run [OF _ this refl refl refl refl]
  show "\<exists>x. fst (register E name email pw fname lname w) = Inr x"
    "users (snd (register E name email pw fname lname w)) =
      users w @ [new_user_row (clock w) (registration E name email h fname lname (rng_ix w))]"
    using assms
    by (simp_all add: run create_def db_def write_users_run users_ok_def user_roles_def registration_def users_emit)
qed

definition bob_row :: "string \<Rightarrow> user_rec" where
  "bob_row name = new_user_row 0 (new_account 2 name ''bob@x.io'' ''$argon2id$GridTokenX123!'' None None ''3'')"

lemma bob_registers:
  assumes "name = ''bob'' \<or> name = ''alice@x.io''"
  shows "\<exists>x. fst (register sample_env name ''bob@x.io'' ''GridTokenX123!'' None None sample_world) = Inr x"
    and "users (snd (register sample_env name ''bob@x.io'' ''GridTokenX123!'' None None sample_world)) = [sample_user, bob_row name]"
proof -
  have token: "uuid_to_string sample_env 3 = ''3''" by (simp add: sample_env_def show_nat.simps digit_char_def char_of_eq_iff)
  have user: "ur_id sample_user = 7" "ur_username sample_user = ''alice''" "ur_email sample_user = ''alice@x.io''"
    "ur_wallet_address sample_user = None"
    by (simp_all add: sample_user_def activate_def new_user_row_def)
  have bob: "ur_id (bob_row name) = 2" "ur_username (bob_row name) = name" "ur_email (bob_row name) = ''bob@x.io''"
    "ur_wallet_address (bob_row name) = None"
    by (simp_all add: bob_row_def new_user_row_def)
  have "user_fits (bob_row name)"
    using assms by (auto simp: bob_row_def new_user_row_def user_fits_def fits_eval)
  then have ok: "users_ok sample_env ([sample_user] @ [bob_row name])"
    using assms sample_user_fits
    by (auto simp: users_ok_def users_unique_def unique_on_def unique_some_def map_filter_def user bob sample_lower)
  have uuids: "uuid_src sample_env (Suc 0) = 2" "uuid_src sample_env (Suc (Suc 0)) = 3" by (simp_all add: sample_env_def)
  have w: "users sample_world = [sample_user]" "clock sample_world = 0" "rng_ix sample_world = 0"
    by (simp_all add: sample_world_def empty_world_def)
  show "\<exists>x. fst (register sample_env name ''bob@x.io'' ''GridTokenX123!'' None None sample_world) = Inr x"
    "users (snd (register sample_env name ''bob@x.io'' ''GridTokenX123!'' None None sample_world)) = [sample_user, bob_row name]"
    using register_succeeds [OF sample_env_instant, of "''bob@x.io''" "''GridTokenX123!''" sample_world
        "''$argon2id$GridTokenX123!''" name None None] ok sample_password_ok
    by (simp_all add: w uuids token sample_argon2 bob_row_def registration_def)
qed

section \<open>Properties\<close>

text \<open>C6. A registered user who verifies the email in time can log in: in production and without faults,
  after a successful registration, the presentation of the token it created within 24 hours and
  any work the verification does besides, the first login with the chosen name and password is
  granted, for the new account.\<close>

theorem registered_user_logs_in:
  assumes "instant E" and "argon2_law E" and "\<And>c. \<exists>tok. encode_token E c = Inr tok"
    and "eq_ignore_ascii_case (environment (cfg E)) ''production''"
    and "fst (register E name email pw fname lname w) = Inr x"
    and "w1 = snd (register E name email pw fname lname w)"
    and "email_verification_token (last (users w1)) = Some token" and "t < clock w + 24 * 3600 * 1000"
    and "\<forall>r \<in> set (users w). \<not> active_identity name r \<and> email_verification_token r \<noteq> Some token"
    and "redis w (user_profile name) = None" and "redis w (account_lock name) = None"
  shows "\<exists>a. fst (login E name pw (snd (verify_email E token (w1\<lparr>clock := t\<rparr>)))) = Inr a \<and> u_id (ar_user a) = rr_id x"
proof -
  have "added E name email pw (rr_id x) w w1"
    using assms(5,6) by (cases rule: register_cases [of E name email pw fname lname w]) auto
  then obtain r c where r: "users w1 = users w @ [r]" "users_ok E (users w1)" "registered_account E name email pw (rr_id x) r"
    "clock w \<le> c" "email_verification_expires_at r = Some (c + 24 * 3600 * 1000)"
    by (auto simp: added_def)
  let ?w = "w1\<lparr>clock := t\<rparr>" and ?w2 = "snd (verify_email E token (w1\<lparr>clock := t\<rparr>))"
  have "owns_token token (clock ?w) r"
    using assms(7,8) r(1,4,5) by (simp add: owns_token_def after_def)
  then obtain r' where r': "find (active_identity name) (users ?w2) = Some r'" "ur_id r' = rr_id x"
      "ur_password_hash r' = ur_password_hash r"
    using verified_found [OF assms(1,4), of ?w "users w" r name token] r(1-3) assms(9)
    by (auto simp: registered_account_def)
  have "verify_password E pw (ur_password_hash r') = Inr True"
    using argon2_verifies [OF assms(2)] r(3) r'(3) by (auto simp: registered_account_def)
  moreover have "redis w1 = redis w" using keepsD [OF keeps_redis_register] assms(6) by simp
  then have "redis ?w2 (user_profile name) = None" "redis ?w2 (account_lock name) = None"
    using preservesD [OF verify_email_absent, of ?w] assms(10,11) by simp_all
  ultimately show ?thesis
    using login_granted [OF assms(1) r'(1) _ assms(3)] r'(2) by metis
qed

theorem registered_user_logs_in_witness:
  "\<exists>x a. fst (register sample_env ''bob'' ''bob@x.io'' ''GridTokenX123!'' None None sample_world) = Inr x \<and>
     fst (login sample_env ''bob'' ''GridTokenX123!'' (snd (verify_email sample_env ''3''
       ((snd (register sample_env ''bob'' ''bob@x.io'' ''GridTokenX123!'' None None sample_world))\<lparr>clock := 1000\<rparr>)))) = Inr a \<and>
     u_id (ar_user a) = rr_id x"
proof -
  let ?run = "register sample_env ''bob'' ''bob@x.io'' ''GridTokenX123!'' None None sample_world"
  obtain x where x: "fst ?run = Inr x" using bob_registers(1) [of "''bob''"] by blast
  have law: "argon2_law sample_env" by (simp add: argon2_law_def sample_env_def starts_with_iff)
  have enc: "\<exists>tok. encode_token sample_env c = Inr tok" for c by (simp add: encode_token_def sample_env_def)
  have prod: "eq_ignore_ascii_case (environment (cfg sample_env)) ''production''" by code_simp
  have token: "email_verification_token (last (users (snd ?run))) = Some ''3''"
    using bob_registers(2) [of "''bob''"] by (simp add: bob_row_def new_user_row_def)
  have fresh: "\<forall>r \<in> set (users sample_world). \<not> active_identity ''bob'' r \<and> email_verification_token r \<noteq> Some ''3''"
    by (simp add: sample_world_def empty_world_def sample_user_def activate_def new_user_row_def active_identity_def)
  have "clock sample_world = 0" "redis sample_world k = None" for k
    by (simp_all add: sample_world_def empty_world_def)
  then have "\<exists>a. fst (login sample_env ''bob'' ''GridTokenX123!'' (snd (verify_email sample_env ''3'' ((snd ?run)\<lparr>clock := 1000\<rparr>)))) =
      Inr a \<and> u_id (ar_user a) = rr_id x"
    by (intro registered_user_logs_in [OF sample_env_instant law enc prod x refl token _ fresh]) simp_all
  with x show ?thesis by blast
qed

text \<open>C37. An account can be named like another account's address: a user name is not checked against the
  addresses in use, so a registration with the address of an active account as its user name can
  succeed, and once its email is verified two active accounts answer to the same login identifier.\<close>

theorem username_may_shadow_email:
  assumes "reliable E" and "a \<in> set (users w)" and "is_active a" and "ur_email a \<noteq> email"
    and "fst (register E (ur_email a) email pw fname lname w) = Inr x"
    and "w1 = snd (register E (ur_email a) email pw fname lname w)"
  shows "\<exists>r1 \<in> set (users (snd (repo_verify_email E email w1))). \<exists>r2 \<in> set (users (snd (repo_verify_email E email w1))).
    ur_id r1 = ur_id a \<and> ur_id r2 = rr_id x \<and> ur_id r1 \<noteq> ur_id r2 \<and>
    active_identity (ur_email a) r1 \<and> active_identity (ur_email a) r2"
proof -
  have "added E (ur_email a) email pw (rr_id x) w w1"
    using assms(5,6) by (cases rule: register_cases [of E "ur_email a" email pw fname lname w]) auto
  then obtain r where r: "users w1 = users w @ [r]" "users_ok E (users w1)"
    "registered_account E (ur_email a) email pw (rr_id x) r"
    by (auto simp: added_def)
  have "a \<in> set (users (snd (repo_verify_email E email w1)))"
    unfolding activation_run [OF assms(1) r(2)] using assms(2,4) r(1) by (auto simp: in_update_where)
  moreover have "active_identity (ur_email a) a" using assms(3) by (simp add: active_identity_def)
  moreover have "ur_id a \<noteq> rr_id x"
    using appended_distinct [of E "users w" r a] r assms(2) by (simp add: registered_account_def)
  moreover obtain r2 where "r2 \<in> set (users (snd (repo_verify_email E email w1)))" "ur_id r2 = rr_id x"
      "active_identity (ur_email a) r2"
    using activated_identity [OF assms(1) r(2), of r email "ur_email a"] r(1,3) by (auto simp: registered_account_def)
  ultimately show ?thesis
    by (intro bexI [of _ a] bexI [of _ r2] conjI) simp_all
qed

theorem username_may_shadow_email_witness:
  "\<exists>r1 r2. r1 \<in> set (users (snd (repo_verify_email sample_env ''bob@x.io''
       (snd (register sample_env ''alice@x.io'' ''bob@x.io'' ''GridTokenX123!'' None None sample_world))))) \<and>
     r2 \<in> set (users (snd (repo_verify_email sample_env ''bob@x.io''
       (snd (register sample_env ''alice@x.io'' ''bob@x.io'' ''GridTokenX123!'' None None sample_world))))) \<and>
     ur_id r1 \<noteq> ur_id r2 \<and> active_identity ''alice@x.io'' r1 \<and> active_identity ''alice@x.io'' r2"
proof -
  let ?run = "register sample_env ''alice@x.io'' ''bob@x.io'' ''GridTokenX123!'' None None sample_world"
  obtain x where x: "fst ?run = Inr x" using bob_registers(1) [of "''alice@x.io''"] by blast
  have rel: "reliable sample_env" using sample_env_instant by (simp add: instant_def)
  have a: "sample_user \<in> set (users sample_world)" "is_active sample_user" "ur_email sample_user = ''alice@x.io''"
    by (simp_all add: sample_world_def empty_world_def sample_user_def activate_def new_user_row_def)
  show ?thesis
    using username_may_shadow_email [OF rel a(1,2), of "''bob@x.io''" "''GridTokenX123!''" None None x "snd ?run"] x a(3)
    by auto
qed

end
