(* ===== verification/Api.thy ===== *)
theory Api
  imports WalletOps Config
begin

text \<open>
  \<open>iam-api/src/handlers/types.rs\<close>: the requests and responses of the REST interface and the
  extractor of the authenticated user; and the check of the caller's service role that every
  handler starts with.  \<open>ServiceRole\<close> is an enum of the blockchain library: the variants are
  those the sources name, with one for the rest, and how it is read from the headers and checked
  against an allowlist are fields of \<open>edge\<close>.
\<close>

section \<open>Service roles\<close>

datatype service_role =
    ApiGateway | TradingApi | AggregatorBridge | MeterService | SettlementService | IamService
  | Admin | Unknown | OtherService string

text \<open>A header map, from lower-case names to the bytes of the first value.\<close>

type_synonym headers = "string \<Rightarrow> string option"

record edge =
  from_headers :: "headers \<Rightarrow> service_role"
  require_any :: "service_role \<Rightarrow> service_role list \<Rightarrow> string + unit"
  uuid_parse_error :: "string \<Rightarrow> string"
  env_vars :: env_vars

text \<open>What the handlers rely on: the check accepts the roles on the list, and no other.\<close>

definition require_any_law :: "edge \<Rightarrow> bool" where
  "require_any_law A \<longleftrightarrow> (\<forall>r allowed. require_any A r allowed = Inr () \<longleftrightarrow> r \<in> set allowed)"

definition require_role :: "edge \<Rightarrow> service_role \<Rightarrow> service_role list \<Rightarrow> unit act" where
  "require_role A r allowed = from_result (map_sum Forbidden id (require_any A r allowed))"

definition public_roles :: "service_role list" where
  "public_roles = [ApiGateway, service_role.Admin, Unknown]"

definition private_roles :: "service_role list" where
  "private_roles = [ApiGateway, service_role.Admin]"

section \<open>The authenticated user\<close>

text \<open>\<open>HeaderValue::to_str\<close>: visible ASCII and tabs.\<close>

definition header_to_str :: "string \<Rightarrow> string option" where
  "header_to_str v = (if list_all (\<lambda>c. 32 \<le> byte c \<and> byte c < 127 \<or> byte c = 9) v then Some v else None)"

definition authenticated_user :: "env \<Rightarrow> headers \<Rightarrow> claims act" where
  "authenticated_user E hs =
     bnd (ok_or (Unauthorized ''Missing Authorization header'')
            (Option.bind (hs ''authorization'') header_to_str)) (\<lambda>auth_header.
     if \<not> starts_with auth_header ''Bearer ''
     then throw (Unauthorized ''Invalid Authorization header format'')
     else bnd now (\<lambda>t. from_result (decode_token E t (drop 7 auth_header))))"

section \<open>Requests\<close>

record login_request =
  lq_username :: string
  lq_password :: string

record registration_request =
  rq_username :: string
  rq_email :: string
  rq_password :: string
  rq_first_name :: "string option"
  rq_last_name :: "string option"

record link_wallet_request =
  lw_wallet_address :: string
  lw_label :: "string option"
  lw_is_primary :: bool

record location_request =
  lo_lat_e7 :: "32 word"
  lo_long_e7 :: "32 word"

text \<open>The enum \<open>UserType\<close> of the interface has the variants of the domain's.\<close>

record onboarding_request =
  ob_user_type :: user_type
  ob_location :: location_request
  ob_h3_index :: "64 word option"
  ob_shard_id :: "8 word option"

section \<open>Responses\<close>

record user_response =
  us_id :: uuid
  us_username :: string
  us_email :: string
  us_role :: string
  us_first_name :: "string option"
  us_last_name :: "string option"
  us_wallet_address :: "string option"
  us_status :: string

record auth_response =
  at_access_token :: string
  at_expires_in :: int
  at_user :: user_response

record refresh_response =
  rs_access_token :: string
  rs_expires_in :: int
  rs_token_type :: string

record registration_response =
  rg_id :: uuid
  rg_username :: string
  rg_email :: string
  rg_status :: string
  rg_message :: "string option"

record verify_email_response =
  vr_success :: bool
  vr_message :: string
  vr_wallet_address :: "string option"
  vr_auth :: "auth_response option"

definition verify_email_simple :: "bool \<Rightarrow> string \<Rightarrow> verify_email_response" where
  "verify_email_simple success message =
     \<lparr>vr_success = success, vr_message = message, vr_wallet_address = None, vr_auth = None\<rparr>"

record wallet_response =
  wl_id :: uuid
  wl_user_id :: "uuid option"
  wl_wallet_address :: string
  wl_label :: "string option"
  wl_is_primary :: bool
  wl_status :: string
  wl_created_at :: int
  wl_verified :: bool
  wl_blockchain_registered :: bool

record onboarding_response =
  on_status :: string
  on_transaction_signature :: "string option"
  on_message :: string

record system_config_response =
  sc_environment :: string
  sc_solana_rpc_url :: string
  sc_solana_cluster :: string
  sc_registry_program_id :: string
  sc_oracle_program_id :: string
  sc_governance_program_id :: string
  sc_energy_token_program_id :: string
  sc_trading_program_id :: string
  sc_energy_token_mint :: string
  sc_currency_token_mint :: string

section \<open>Running the checks\<close>

lemma require_role_run:
  assumes "require_any_law A" "r \<in> set allowed"
  shows "require_role A r allowed w = (Inr (), w)"
proof -
  have "require_any A r allowed = Inr ()" using assms by (simp add: require_any_law_def)
  then show ?thesis by (simp add: require_role_def comp_simps)
qed

lemma require_role_denied:
  assumes "require_any_law A" "r \<notin> set allowed"
  obtains m where "require_role A r allowed w = (Inl (Forbidden m), w)"
  using assms by (cases "require_any A r allowed") (auto simp: require_role_def require_any_law_def comp_simps)

lemma require_role_state: "snd (require_role A r allowed w) = w"
  by (simp add: require_role_def comp_simps)

lemma authenticated_user_state: "snd (authenticated_user E hs w) = w"
  by (simp add: authenticated_user_def now_def comp_simps split: option.splits)

lemma authenticated_user_Inr:
  "fst (authenticated_user E hs w) = Inr c \<longleftrightarrow>
   (\<exists>h. Option.bind (hs ''authorization'') header_to_str = Some h \<and> starts_with h ''Bearer '' \<and>
        decode_token E (clock w) (drop 7 h) = Inr c)"
  by (auto simp: authenticated_user_def now_def comp_simps split: option.splits)

lemma authenticated_user_status:
  "fst (authenticated_user E hs w) = Inl e \<Longrightarrow> status_code e = 401"
  by (auto simp: authenticated_user_def now_def comp_simps decode_token_status split: option.splits if_splits)

end
