(* ===== verification/RateLimit.thy ===== *)
theory RateLimit
  imports Api Lockout
begin

text \<open>
  \<open>iam-api/src/middleware/rate_limit.rs\<close>: the budgets of the authentication routes, and the
  middleware that spends them by \<open>AuthService::check_rate_limit\<close>.
\<close>

section \<open>Budgets\<close>

definition parse_limit :: "string \<Rightarrow> nat \<times> nat \<Rightarrow> nat \<times> nat" where
  "parse_limit raw dflt =
     (let (first, second) = split_once (CHR '','') (trim raw) in
      case (parse_u64 (trim first), Option.bind second (\<lambda>s. parse_u64 (trim s))) of
        (Some limit, Some window) \<Rightarrow> if 0 < limit \<and> 0 < window then (limit, window) else dflt
      | _ \<Rightarrow> dflt)"

definition env_limit :: "env_vars \<Rightarrow> string \<Rightarrow> nat \<times> nat \<Rightarrow> nat \<times> nat" where
  "env_limit vars var dflt =
     (case vars var of Some raw \<Rightarrow> parse_limit raw dflt | None \<Rightarrow> dflt)"

definition limits_for_path :: "env_vars \<Rightarrow> string \<Rightarrow> nat \<times> nat" where
  "limits_for_path vars path =
     (if ends_with path ''/login'' then env_limit vars ''IAM_LOGIN_LIMIT'' (10, 60)
      else if ends_with path ''/register'' then env_limit vars ''IAM_REGISTER_LIMIT'' (5, 3600)
      else env_limit vars ''IAM_GENERAL_LIMIT'' (100, 60))"

lemma white_space_ends:
  "p \<in> set white_space \<Longrightarrow> p \<noteq> [] \<and> \<not> is_ascii_digit (hd p) \<and> \<not> is_ascii_digit (last p)"
proof -
  have "list_all (\<lambda>p. p \<noteq> [] \<and> \<not> is_ascii_digit (hd p) \<and> \<not> is_ascii_digit (last p)) white_space"
    by code_simp
  then show "p \<in> set white_space \<Longrightarrow> p \<noteq> [] \<and> \<not> is_ascii_digit (hd p) \<and> \<not> is_ascii_digit (last p)"
    by (simp add: list_all_iff)
qed

lemma starts_with_hd: "starts_with s p \<Longrightarrow> p \<noteq> [] \<Longrightarrow> s \<noteq> [] \<and> hd s = hd p"
  by (auto simp: starts_with_iff)

lemma trim_digits:
  assumes "s \<noteq> []" "is_ascii_digit (hd s)" "is_ascii_digit (last s)"
  shows "trim s = s"
proof -
  have "\<not> starts_with s p" if "p \<in> set white_space" for p
    using starts_with_hd [of s p] white_space_ends [OF that] assms(2) by auto
  moreover have "\<not> starts_with (rev s) p" if "p \<in> set (map rev white_space)" for p
  proof -
    from that obtain q where "q \<in> set white_space" "p = rev q" by auto
    then show ?thesis
      using starts_with_hd [of "rev s" p] white_space_ends [of q] assms(3) by (auto simp: hd_rev)
  qed
  ultimately show ?thesis
    using strip_prefixes_id [of white_space s] strip_prefixes_id [of "map rev white_space" "rev s"]
    by (simp add: trim_def)
qed

lemma show_nat_ends: "show_nat n \<noteq> [] \<and> is_ascii_digit (hd (show_nat n)) \<and> is_ascii_digit (last (show_nat n))"
  using show_nat_digits [of n] show_nat_not_Nil [of n] by (simp add: list_all_iff)

lemma parse_limit_written:
  assumes "0 < l" "0 < s" "l < 2 ^ 64" "s < 2 ^ 64"
  shows "parse_limit (show_nat l @ '','' @ show_nat s) d = (l, s)"
proof -
  have "CHR '','' \<notin> set (show_nat l)"
    using show_nat_digits [of l] by (auto simp: list_all_iff is_ascii_digit_def byte_def)
  then have "split_once CHR '','' (show_nat l @ CHR '','' # show_nat s) = (show_nat l, Some (show_nat s))"
    by (rule split_once_append)
  moreover have "trim (show_nat l @ CHR '','' # show_nat s) = show_nat l @ CHR '','' # show_nat s"
    using show_nat_ends [of l] show_nat_ends [of s] by (intro trim_digits) simp_all
  ultimately show ?thesis
    using assms show_nat_ends by (simp add: parse_limit_def trim_digits parse_u64_def parse_show_nat)
qed

section \<open>The middleware\<close>

text \<open>An error of the REST interface: an error of the service, or a bare status code.\<close>

datatype rest_error = Api_error api_error | Status nat

primrec rest_status :: "rest_error \<Rightarrow> nat" where
  "rest_status (Api_error e) = status_code e"
| "rest_status (Status n) = n"

type_synonym 'a rest_act = "(world, rest_error, 'a) comp"

definition rate_limit_middleware ::
    "edge \<Rightarrow> env \<Rightarrow> string \<Rightarrow> string \<Rightarrow> 'a rest_act \<Rightarrow> 'a rest_act" where
  "rate_limit_middleware A E ip path run_next =
     (let (limit, window) = limits_for_path (env_vars A) path in
      bnd (attempt (check_rate_limit E ip path limit window)) (\<lambda>r.
      case r of Inr _ \<Rightarrow> run_next | Inl _ \<Rightarrow> throw (Status 429)))"

lemma parse_limit_positive:
  "0 < fst d \<Longrightarrow> 0 < snd d \<Longrightarrow> 0 < fst (parse_limit raw d) \<and> 0 < snd (parse_limit raw d)"
  by (auto simp: parse_limit_def Let_def split: prod.splits option.splits)

lemma limits_positive: "0 < fst (limits_for_path vars path) \<and> 0 < snd (limits_for_path vars path)"
  by (simp add: limits_for_path_def env_limit_def parse_limit_positive split: option.splits)

section \<open>The window of a budget\<close>

text \<open>
  What a budget promises: the requests of one window are counted, the window begins with a
  request that finds none open, and a request passes while the count is within the limit.
\<close>

type_synonym window = "(nat \<times> int) option"

definition hit :: "nat \<Rightarrow> nat \<Rightarrow> int \<Rightarrow> window \<Rightarrow> bool \<times> window" where
  "hit limit secs t st =
     (case st of
        Some (n, x) \<Rightarrow> if t < x then (n + 1 \<le> limit, Some (n + 1, x)) else (1 \<le> limit, Some (1, t + 1000 * int secs))
      | None \<Rightarrow> (1 \<le> limit, Some (1, t + 1000 * int secs)))"

fun hits :: "nat \<Rightarrow> nat \<Rightarrow> int list \<Rightarrow> window \<Rightarrow> bool list" where
  "hits limit secs [] st = []"
| "hits limit secs (t # ts) st = fst (hit limit secs t st) # hits limit secs ts (snd (hit limit secs t st))"

definition window_of :: "entry option \<Rightarrow> window" where
  "window_of v = Option.bind v counted"

text \<open>The counter is as the service leaves it, with room for \<open>m\<close> more requests.\<close>

definition window_ok :: "nat \<Rightarrow> entry option \<Rightarrow> bool" where
  "window_ok m v \<longleftrightarrow>
     (case v of
        None \<Rightarrow> True
      | Some e \<Rightarrow> \<exists>n x. e = \<lparr>e_value = C_json (JInt (int n)), e_expires = Some x\<rparr> \<and> 0 < n \<and> n + m < 2 ^ 63)"

definition allowed_by :: "api_error + unit \<Rightarrow> bool" where
  "allowed_by r = (case r of Inr _ \<Rightarrow> True | Inl _ \<Rightarrow> False)"

lemma window_ok_count:
  "n + Suc m < 2 ^ 63 \<Longrightarrow> window_ok m (Some \<lparr>e_value = C_json (JInt (1 + int n)), e_expires = Some x\<rparr>)"
  by (auto simp: window_ok_def intro!: exI [of _ "Suc n"])

lemma window_cases:
  assumes "window_ok (Suc m) (s k)"
  obtains (closed) "live t s k = None" "hit limit secs t (window_of (s k)) = (1 \<le> limit, Some (1, t + 1000 * int secs))"
  | (counting) n x where "live t s k = Some \<lparr>e_value = C_json (JInt (int n)), e_expires = Some x\<rparr>"
      "hit limit secs t (window_of (s k)) = (n + 1 \<le> limit, Some (n + 1, x))" "0 < n" "n + Suc m < 2 ^ 63"
proof (cases "s k")
  case None
  then show ?thesis using closed by (simp add: live_def hit_def window_of_def)
next
  case (Some e)
  then obtain n x where "e = \<lparr>e_value = C_json (JInt (int n)), e_expires = Some x\<rparr>" "0 < n" "n + Suc m < 2 ^ 63"
    using assms by (auto simp: window_ok_def)
  then show ?thesis
    using Some closed counting by (cases "t < x") (simp_all add: live_def alive_def hit_def window_of_def counted_def)
qed

lemma check_rate_limit_hit:
  fixes limit :: nat
  assumes "instant E" "window_ok (Suc m) (redis w (rate_limit_key ip ep))" "0 < secs"
    "clock w + 1000 * int secs < 2 ^ 63" "m < 2 ^ 62"
  defines "r \<equiv> check_rate_limit E ip ep limit secs w"
  shows "allowed_by (fst r) = fst (hit limit secs (clock w) (window_of (redis w (rate_limit_key ip ep)))) \<and>
    window_of (redis (snd r) (rate_limit_key ip ep)) =
      snd (hit limit secs (clock w) (window_of (redis w (rate_limit_key ip ep)))) \<and>
    window_ok m (redis (snd r) (rate_limit_key ip ep))"
  using assms(2)
proof (cases rule: window_cases [where t = "clock w" and limit = limit and secs = secs])
  case closed
  then show ?thesis
    using assms(1,3-5)
    by (simp add: r_def check_rate_limit_def Let_def increment_def increment_raw_def set_value_def set_raw_def
        redis_cmd_def comp_simps r_incr_fresh valid_ttl_def allowed_by_def r_set_ex_def r_put_def window_of_def
        counted_def window_ok_def)
next
  case (counting n x)
  then have "r_incr (clock w) (rate_limit_key ip ep) (redis w) =
      Some (int (n + 1), r_put (rate_limit_key ip ep) (C_json (JInt (int (n + 1)))) (Some x) (redis w))"
    by (simp add: r_incr_def as_counter_def add.commute)
  then show ?thesis
    using counting assms(1)
    by (auto simp: r_def check_rate_limit_def Let_def increment_def increment_raw_def
        redis_cmd_def comp_simps allowed_by_def r_put_def window_of_def counted_def window_ok_count)
qed

section \<open>Histories of requests\<close>

text \<open>Requests from one address to one route, each at its time: which of them pass.\<close>

fun limited :: "env \<Rightarrow> string \<Rightarrow> string \<Rightarrow> nat \<Rightarrow> nat \<Rightarrow> int list \<Rightarrow> world \<Rightarrow> bool list" where
  "limited E ip ep limit secs [] w = []"
| "limited E ip ep limit secs (t # ts) w =
     allowed_by (fst (check_rate_limit E ip ep limit secs (w\<lparr>clock := t\<rparr>)))
       # limited E ip ep limit secs ts (snd (check_rate_limit E ip ep limit secs (w\<lparr>clock := t\<rparr>)))"

lemma limited_hits:
  assumes "instant E" "0 < secs" "\<forall>t \<in> set ts. t + 1000 * int secs < 2 ^ 63" "length ts < 2 ^ 62"
    "window_ok (length ts) (redis w (rate_limit_key ip ep))"
  shows "limited E ip ep limit secs ts w = hits limit secs ts (window_of (redis w (rate_limit_key ip ep)))"
  using assms(3-5)
proof (induction ts arbitrary: w)
  case (Cons t ts)
  then show ?case
    using check_rate_limit_hit [OF assms(1), of "length ts" "w\<lparr>clock := t\<rparr>" ip ep secs limit] assms(2) by simp
qed simp

lemma hits_within:
  assumes "\<forall>t \<in> set ts. t < x"
  shows "hits limit secs ts (Some (n, x)) =
    replicate (min (limit - n) (length ts)) True @ replicate (length ts - (limit - n)) False"
  using assms
proof (induction ts arbitrary: n)
  case (Cons t ts)
  then have "hits limit secs (t # ts) (Some (n, x)) =
      (n + 1 \<le> limit) # replicate (min (limit - (n + 1)) (length ts)) True @ replicate (length ts - (limit - (n + 1))) False"
    by (simp add: hit_def)
  also have "\<dots> = replicate (min (limit - n) (length (t # ts))) True @ replicate (length (t # ts) - (limit - n)) False"
  proof (cases "n + 1 \<le> limit")
    case True
    then obtain d where "limit - n = Suc d" "limit - (n + 1) = d"
      by (metis Suc_diff_Suc Suc_eq_plus1 Suc_le_lessD diff_Suc_1 diff_Suc_eq_diff_pred diff_commute le_add_diff_inverse2)
    with True show ?thesis by simp
  qed simp
  finally show ?case .
qed simp

text \<open>A counter without expiry never forgets.\<close>

lemma limited_forever:
  assumes "\<And>i. io_ix w \<le> i \<Longrightarrow> fault E i = Done" "0 < n" "n + length ts < 2 ^ 63"
    "redis w (rate_limit_key ip ep) = Some \<lparr>e_value = C_json (JInt (int n)), e_expires = None\<rparr>"
  shows "limited E ip ep limit secs ts w =
    replicate (min (limit - n) (length ts)) True @ replicate (length ts - (limit - n)) False"
  using assms
proof (induction ts arbitrary: w n)
  case (Cons t ts)
  let ?r = "check_rate_limit E ip ep limit secs (w\<lparr>clock := t\<rparr>)"
  have incr: "r_incr u (rate_limit_key ip ep) (redis w) =
      Some (int (n + 1), r_put (rate_limit_key ip ep) (C_json (JInt (int (n + 1)))) None (redis w))" for u
    using Cons.prems by (simp add: r_incr_def live_def alive_def as_counter_def add.commute)
  have step: "allowed_by (fst ?r) = (n + 1 \<le> limit)" "io_ix (snd ?r) = Suc (io_ix w)"
    "redis (snd ?r) (rate_limit_key ip ep) = Some \<lparr>e_value = C_json (JInt (int (n + 1))), e_expires = None\<rparr>"
    using Cons.prems(1,2) incr
    by (auto simp: check_rate_limit_def Let_def increment_def increment_raw_def redis_cmd_def io_def comp_simps
        allowed_by_def r_put_def)
  have "limited E ip ep limit secs ts (snd ?r) =
      replicate (min (limit - (n + 1)) (length ts)) True @ replicate (length ts - (limit - (n + 1))) False"
    using Cons.prems step by (intro Cons.IH) simp_all
  with step(1) show ?case
    using hits_within [of "t # ts" "Max (set (t # ts)) + 1" limit secs n]
      hits_within [of ts "Max (set (t # ts)) + 1" limit secs "n + 1"]
    by (simp add: hit_def)
qed simp

lemma opened_without_expiry:
  fixes secs :: nat
  assumes "fault E (io_ix w) = Done" "fault E (Suc (io_ix w)) = Lost_request m" "0 < limit"
    "redis w (rate_limit_key ip ep) = None"
  defines "r \<equiv> check_rate_limit E ip ep limit secs w"
  shows "fst r = Inr () \<and> io_ix (snd r) = Suc (Suc (io_ix w)) \<and>
    redis (snd r) (rate_limit_key ip ep) = Some \<lparr>e_value = C_json (JInt 1), e_expires = None\<rparr>"
  using assms(1-4)
  by (auto simp: r_def check_rate_limit_def Let_def increment_def increment_raw_def set_value_def set_raw_def
      redis_cmd_def io_def comp_simps r_incr_fresh live_def r_put_def)

section \<open>Properties\<close>

text \<open>C25. Rate limiting keeps its budget: of the requests of one address to one route within a window, the
  first \<open>limit\<close> pass and all others are refused, and the first request after the window passes
  again.\<close>

theorem rate_limit_budget:
  assumes "instant E" and "0 < limit" and "0 < secs" and "redis w (rate_limit_key ip ep) = None"
    and "\<forall>t \<in> set (t0 # ts). t < t0 + 1000 * int secs"
    and "t0 + 1000 * int secs \<le> t1" and "t1 + 1000 * int secs < 2 ^ 63" and "length ts < 2 ^ 61"
  shows "limited E ip ep limit secs (t0 # ts @ [t1]) w =
    replicate (min limit (length (t0 # ts))) True @ replicate (length (t0 # ts) - limit) False @ [True]"
proof -
  have app: "hits limit secs (us @ [t1]) (Some (n, x)) = hits limit secs us (Some (n, x)) @ [True]"
    if "\<forall>t \<in> set us. t < x" "x \<le> t1" for us n x
    using that assms(2) by (induction us arbitrary: n) (simp_all add: hit_def)
  have "limited E ip ep limit secs (t0 # ts @ [t1]) w = hits limit secs (t0 # ts @ [t1]) None"
    using assms limited_hits [OF assms(1,3), of "t0 # ts @ [t1]" w ip ep limit]
    by (force simp: window_of_def window_ok_def)
  also have "\<dots> = True # hits limit secs ts (Some (1, t0 + 1000 * int secs)) @ [True]"
    using assms(2,5,6) app [of ts "t0 + 1000 * int secs" 1] by (simp add: hit_def)
  also have "\<dots> = replicate (min limit (length (t0 # ts))) True @ replicate (length (t0 # ts) - limit) False @ [True]"
    using assms(2,5) by (cases limit) (simp_all add: hits_within)
  finally show ?thesis .
qed

theorem rate_limit_budget_witness:
  "limited sample_env ''1.2.3.4'' ''/login'' 1 60 [0, 1000, 2000, 60000] empty_world = [True, False, False, True]"
  using rate_limit_budget [OF sample_env_instant, of 1 60 empty_world "''1.2.3.4''" "''/login''" 0 "[1000, 2000]" 60000]
  by (simp add: empty_world_def)

text \<open>C39. When the command that sets the expiry of a fresh counter is lost, the counter never expires: from
  then on, at whatever times requests come, the address passes at most \<open>limit\<close> requests in all
  and is refused ever after.\<close>

theorem rate_limit_expiry_lost:
  assumes "\<And>i. i \<noteq> Suc (io_ix w) \<Longrightarrow> fault E i = Done" and "fault E (Suc (io_ix w)) = Lost_request m"
    and "0 < limit" and "redis w (rate_limit_key ip ep) = None" and "length ts < 2 ^ 62"
  shows "limited E ip ep limit secs ts (snd (check_rate_limit E ip ep limit secs w)) =
    replicate (min (limit - 1) (length ts)) True @ replicate (length ts - (limit - 1)) False"
proof -
  have "fst (check_rate_limit E ip ep limit secs w) = Inr () \<and>
      io_ix (snd (check_rate_limit E ip ep limit secs w)) = Suc (Suc (io_ix w)) \<and>
      redis (snd (check_rate_limit E ip ep limit secs w)) (rate_limit_key ip ep) =
        Some \<lparr>e_value = C_json (JInt 1), e_expires = None\<rparr>"
    using assms by (intro opened_without_expiry) simp_all
  with assms(1,5) show ?thesis
    using limited_forever [of "snd (check_rate_limit E ip ep limit secs w)" E 1 ts ip ep limit secs] by simp
qed

theorem rate_limit_expiry_lost_witness:
  "limited (sample_env\<lparr>fault := (\<lambda>i. if i = 1 then Lost_request ''reset'' else Done)\<rparr>) ''1.2.3.4'' ''/login'' 1 60
     [3600000, 7200000]
     (snd (check_rate_limit (sample_env\<lparr>fault := (\<lambda>i. if i = 1 then Lost_request ''reset'' else Done)\<rparr>)
        ''1.2.3.4'' ''/login'' 1 60 empty_world)) = [False, False]"
  using rate_limit_expiry_lost [of empty_world "sample_env\<lparr>fault := (\<lambda>i. if i = 1 then Lost_request ''reset'' else Done)\<rparr>"
      "''reset''" 1 "''1.2.3.4''" "''/login''" "[3600000, 7200000]" 60]
  by (simp add: empty_world_def)

text \<open>An override of a budget never disables the limiter: whatever the environment variables hold, every
  route has a positive limit and a positive window; a well-formed override is taken as written.\<close>

theorem budget_override_safe:
  assumes "0 < l" and "0 < s" and "l < 2 ^ 64" and "s < 2 ^ 64"
  shows "0 < fst (limits_for_path vars path) \<and> 0 < snd (limits_for_path vars path) \<and>
    limits_for_path (vars(''IAM_LOGIN_LIMIT'' \<mapsto> show_nat l @ '','' @ show_nat s)) ''/login'' = (l, s) \<and>
    limits_for_path (vars(''IAM_REGISTER_LIMIT'' \<mapsto> show_nat l @ '','' @ show_nat s)) ''/register'' = (l, s) \<and>
    limits_for_path (vars(''IAM_GENERAL_LIMIT'' \<mapsto> show_nat l @ '','' @ show_nat s)) ''/verify'' = (l, s)"
  using limits_positive [of vars path] parse_limit_written [OF assms]
  by (simp add: limits_for_path_def env_limit_def ends_with_def)

theorem budget_override_safe_witness:
  "limits_for_path [''IAM_LOGIN_LIMIT'' \<mapsto> show_nat 10000 @ '','' @ show_nat 3600] ''/login'' = (10000, 3600)"
  using budget_override_safe [of 10000 3600 Map.empty] by simp

end
