(* ===== verification/Rest.thy ===== *)
theory Rest
  imports RateLimit
begin

text \<open>
  The REST interface: \<open>iam-api/src/handlers/auth.rs\<close>, \<open>identity.rs\<close> and \<open>system.rs\<close>, the
  health endpoints and the routes of \<open>startup.rs\<close>, and \<open>middleware/request_id.rs\<close>.  A handler
  takes what its extractors produce; how they read paths and bodies is in \<open>Http\<close>.
  Metrics are in \<open>Metrics\<close>; tracing, the concurrency limit and the request timeout are not modelled.
\<close>

section \<open>Authentication handlers\<close>

definition user_response_of :: "user \<Rightarrow> user_response" where
  "user_response_of u =
     \<lparr>us_id = u_id u, us_username = u_username u, us_email = u_email u, us_role = u_role u,
      us_first_name = u_first_name u, us_last_name = u_last_name u,
      us_wallet_address = u_wallet_address u,
      us_status = (if u_is_active u then ''verified'' else ''pending_verification'')\<rparr>"

definition auth_response_of :: "auth_result \<Rightarrow> auth_response" where
  "auth_response_of a =
     \<lparr>at_access_token = ar_access_token a, at_expires_in = ar_expires_in a,
      at_user = user_response_of (ar_user a)\<rparr>"

definition auth_register ::
    "edge \<Rightarrow> env \<Rightarrow> service_role \<Rightarrow> registration_request \<Rightarrow> registration_response act" where
  "auth_register A E role request =
     andthen (require_role A role public_roles)
     (bnd (register E (rq_username request) (rq_email request) (rq_password request)
             (rq_first_name request) (rq_last_name request)) (\<lambda>response.
      ok \<lparr>rg_id = rr_id response, rg_username = rr_username response, rg_email = rr_email response,
          rg_status = ''pending_verification'',
          rg_message = Some ''Registration successful! Please verify your email.''\<rparr>))"

definition auth_login :: "edge \<Rightarrow> env \<Rightarrow> service_role \<Rightarrow> login_request \<Rightarrow> auth_response act" where
  "auth_login A E role request =
     andthen (require_role A role public_roles)
     (bnd (login E (lq_username request) (lq_password request)) (\<lambda>response.
      ok (auth_response_of response)))"

definition auth_refresh :: "edge \<Rightarrow> env \<Rightarrow> service_role \<Rightarrow> claims \<Rightarrow> refresh_response act" where
  "auth_refresh A E role c =
     andthen (require_role A role private_roles)
     (bnd (refresh_token E c) (\<lambda>(access_token, expires_in).
      ok \<lparr>rs_access_token = access_token, rs_expires_in = expires_in, rs_token_type = ''Bearer''\<rparr>))"

definition auth_verify :: "edge \<Rightarrow> env \<Rightarrow> service_role \<Rightarrow> string \<Rightarrow> verify_email_response act" where
  "auth_verify A E role token =
     andthen (require_role A role public_roles)
     (bnd (verify_email E token) (\<lambda>response.
      ok \<lparr>vr_success = ve_success response, vr_message = ve_message response,
          vr_wallet_address = ve_wallet_address response,
          vr_auth = map_option auth_response_of (ve_auth response)\<rparr>))"

definition get_me :: "edge \<Rightarrow> env \<Rightarrow> service_role \<Rightarrow> claims \<Rightarrow> user_response act" where
  "get_me A E role c =
     andthen (require_role A role private_roles)
     (bnd (get_user_profile E (cl_sub c)) (\<lambda>u. ok (user_response_of u)))"

definition auth_resend_verification ::
    "edge \<Rightarrow> env \<Rightarrow> service_role \<Rightarrow> string \<Rightarrow> resend_verification_result act" where
  "auth_resend_verification A E role email =
     andthen (require_role A role public_roles) (resend_verification E (trim email))"

definition auth_forgot_password :: "edge \<Rightarrow> env \<Rightarrow> service_role \<Rightarrow> string \<Rightarrow> string act" where
  "auth_forgot_password A E role email =
     andthen (require_role A role public_roles)
     (andthen (forgot_password E email)
      (ok ''If that email is registered, a reset link has been sent''))"

definition auth_reset_password :: "edge \<Rightarrow> env \<Rightarrow> service_role \<Rightarrow> string \<Rightarrow> string \<Rightarrow> string act" where
  "auth_reset_password A E role token new_password =
     andthen (require_role A role public_roles)
     (andthen (reset_password E token new_password) (ok ''Password reset successfully''))"

section \<open>Identity handlers\<close>

definition map_user_wallet :: "user_wallet \<Rightarrow> wallet_response" where
  "map_user_wallet w =
     \<lparr>wl_id = uw_id w, wl_user_id = Some (uw_user_id w), wl_wallet_address = uw_wallet_address w,
      wl_label = uw_label w, wl_is_primary = uw_is_primary w,
      wl_status = (if uw_verified w then ''verified'' else ''unverified''),
      wl_created_at = uw_created_at w, wl_verified = uw_verified w,
      wl_blockchain_registered = uw_blockchain_registered w\<rparr>"

definition onboard_user ::
    "edge \<Rightarrow> env \<Rightarrow> service_role \<Rightarrow> claims \<Rightarrow> onboarding_request \<Rightarrow> onboarding_response act" where
  "onboard_user A E role c request =
     andthen (require_role A role private_roles)
     (bnd (onboard_user_on_chain E (cl_sub c) (ob_user_type request) (lo_lat_e7 (ob_location request))
             (lo_long_e7 (ob_location request)) (ob_h3_index request) (ob_shard_id request)) (\<lambda>response.
      ok \<lparr>on_status = (if oo_success response then ''processing'' else ''failed''),
          on_transaction_signature = oo_transaction_signature response,
          on_message = oo_message response\<rparr>))"

definition identity_link_wallet ::
    "edge \<Rightarrow> env \<Rightarrow> service_role \<Rightarrow> claims \<Rightarrow> link_wallet_request \<Rightarrow> wallet_response act" where
  "identity_link_wallet A E role c request =
     andthen (require_role A role private_roles)
     (bnd (link_wallet E (cl_sub c) (lw_wallet_address request) (lw_label request) (lw_is_primary request))
        (\<lambda>w. ok (map_user_wallet w)))"

definition identity_list_wallets ::
    "edge \<Rightarrow> env \<Rightarrow> service_role \<Rightarrow> claims \<Rightarrow> wallet_response list act" where
  "identity_list_wallets A E role c =
     andthen (require_role A role private_roles)
     (bnd (list_wallets E (cl_sub c)) (\<lambda>ws. ok (map map_user_wallet ws)))"

definition identity_get_wallet ::
    "edge \<Rightarrow> env \<Rightarrow> service_role \<Rightarrow> claims \<Rightarrow> uuid \<Rightarrow> wallet_response act" where
  "identity_get_wallet A E role c wallet_id =
     andthen (require_role A role private_roles)
     (bnd (get_wallet E (cl_sub c) wallet_id) (\<lambda>w. ok (map_user_wallet w)))"

definition update_wallet ::
    "edge \<Rightarrow> env \<Rightarrow> service_role \<Rightarrow> claims \<Rightarrow> uuid \<Rightarrow> bool option \<Rightarrow> wallet_response act" where
  "update_wallet A E role c wallet_id is_primary =
     andthen (require_role A role private_roles)
     (if is_primary \<noteq> Some True
      then throw (BadRequest (''PATCH body must set `is_primary: true` (the only supported wallet update)''))
      else bnd (set_primary_wallet E (cl_sub c) wallet_id) (\<lambda>w. ok (map_user_wallet w)))"

definition identity_unlink_wallet ::
    "edge \<Rightarrow> env \<Rightarrow> service_role \<Rightarrow> claims \<Rightarrow> uuid \<Rightarrow> string act" where
  "identity_unlink_wallet A E role c wallet_id =
     andthen (require_role A role private_roles)
     (andthen (unlink_wallet E (cl_sub c) wallet_id) (ok ''Wallet unlinked successfully''))"

section \<open>System configuration and health\<close>

definition get_config :: "edge \<Rightarrow> env \<Rightarrow> service_role \<Rightarrow> system_config_response act" where
  "get_config A E role =
     andthen (require_role A role private_roles)
     (let c = cfg E in
      ok \<lparr>sc_environment = environment c, sc_solana_rpc_url = solana_rpc_url c,
          sc_solana_cluster = solana_cluster c, sc_registry_program_id = registry_program_id c,
          sc_oracle_program_id = oracle_program_id c, sc_governance_program_id = governance_program_id c,
          sc_energy_token_program_id = energy_token_program_id c,
          sc_trading_program_id = trading_program_id c, sc_energy_token_mint = energy_token_mint c,
          sc_currency_token_mint = currency_token_mint c\<rparr>)"

definition health_check :: "nat \<times> json" where
  "health_check = (200, JObj [(''status'', JStr ''ok''), (''service'', JStr ''gridtokenx-iam'')])"

definition health_live :: "nat \<times> json" where
  "health_live = (200, JObj [(''status'', JStr ''alive'')])"

definition check_entry :: "api_error + unit \<Rightarrow> json" where
  "check_entry r =
     (case r of
        Inr _ \<Rightarrow> JObj [(''status'', JStr ''ok'')]
      | Inl e \<Rightarrow> JObj [(''status'', JStr ''error''), (''error'', JStr (api_error_to_string e))])"

definition is_ok :: "'e + 'a \<Rightarrow> bool" where
  "is_ok r = (case r of Inl _ \<Rightarrow> False | Inr _ \<Rightarrow> True)"

definition health_ready :: "env \<Rightarrow> (world, 'e, nat \<times> json) comp" where
  "health_ready E =
     bnd (attempt (repo_health_check E)) (\<lambda>pg.
     bnd (attempt (ping E)) (\<lambda>redis_reply.
     let ready = (is_ok pg \<and> is_ok redis_reply) in
     ok (if ready then 200 else 503,
         JObj [(''status'', JStr (if ready then ''ready'' else ''not_ready'')),
               (''checks'', JObj [(''postgres'', check_entry pg), (''redis'', check_entry redis_reply)])])))"

section \<open>Routes\<close>

text \<open>A request after routing and extraction: the route with its body and path parameters.\<close>

datatype route =
    Register registration_request
  | Login login_request
  | Refresh
  | Verify string
  | Resend string
  | Forgot string
  | Reset string string
  | System_config
  | Me
  | Onboard onboarding_request
  | Link_wallet link_wallet_request
  | List_wallets
  | Get_wallet uuid
  | Update_wallet uuid "bool option"
  | Unlink_wallet uuid
  | Health
  | Health_ready
  | Health_live

datatype reply =
    R_registration registration_response
  | R_auth auth_response
  | R_refresh refresh_response
  | R_verify verify_email_response
  | R_resend resend_verification_result
  | R_message string
  | R_config system_config_response
  | R_user user_response
  | R_onboarding onboarding_response
  | R_wallet wallet_response
  | R_wallets "wallet_response list"
  | R_json nat json

definition replying :: "('a \<Rightarrow> reply) \<Rightarrow> 'a act \<Rightarrow> reply rest_act" where
  "replying f m = map_err Api_error (bnd m (\<lambda>x. ok (f x)))"

text \<open>The routes nested under \<open>/api/v1/auth\<close>, with the path the rate limiter sees.\<close>

fun auth_path :: "route \<Rightarrow> string option" where
  "auth_path (Register _) = Some ''/register''"
| "auth_path (Login _) = Some ''/login''"
| "auth_path Refresh = Some ''/refresh''"
| "auth_path (Verify _) = Some ''/verify''"
| "auth_path (Resend _) = Some ''/resend-verification''"
| "auth_path (Forgot _) = Some ''/forgot-password''"
| "auth_path (Reset _ _) = Some ''/reset-password''"
| "auth_path _ = None"

text \<open>
  \<open>dispatch\<close>: the handlers behind the router; \<open>serve_rest\<close> puts the rate limiter in front of those under
  \<open>/api/v1/auth\<close>.  Handlers with an \<open>AuthenticatedUser\<close> argument run its extractor first.
\<close>

definition authenticated :: "edge \<Rightarrow> env \<Rightarrow> headers \<Rightarrow> (service_role \<Rightarrow> claims \<Rightarrow> 'a act) \<Rightarrow> 'a act" where
  "authenticated A E hs h = bnd (authenticated_user E hs) (\<lambda>c. h (from_headers A hs) c)"

fun dispatch :: "edge \<Rightarrow> env \<Rightarrow> headers \<Rightarrow> route \<Rightarrow> reply rest_act" where
  "dispatch A E hs (Register q) = replying R_registration (auth_register A E (from_headers A hs) q)"
| "dispatch A E hs (Login q) = replying R_auth (auth_login A E (from_headers A hs) q)"
| "dispatch A E hs Refresh = replying R_refresh (authenticated A E hs (auth_refresh A E))"
| "dispatch A E hs (Verify token) = replying R_verify (auth_verify A E (from_headers A hs) token)"
| "dispatch A E hs (Resend email) = replying R_resend (auth_resend_verification A E (from_headers A hs) email)"
| "dispatch A E hs (Forgot email) = replying R_message (auth_forgot_password A E (from_headers A hs) email)"
| "dispatch A E hs (Reset token p) = replying R_message (auth_reset_password A E (from_headers A hs) token p)"
| "dispatch A E hs System_config = replying R_config (get_config A E (from_headers A hs))"
| "dispatch A E hs Me = replying R_user (authenticated A E hs (get_me A E))"
| "dispatch A E hs (Onboard q) = replying R_onboarding (authenticated A E hs (\<lambda>r c. onboard_user A E r c q))"
| "dispatch A E hs (Link_wallet q) = replying R_wallet (authenticated A E hs (\<lambda>r c. identity_link_wallet A E r c q))"
| "dispatch A E hs List_wallets = replying R_wallets (authenticated A E hs (identity_list_wallets A E))"
| "dispatch A E hs (Get_wallet i) = replying R_wallet (authenticated A E hs (\<lambda>r c. identity_get_wallet A E r c i))"
| "dispatch A E hs (Update_wallet i b) = replying R_wallet (authenticated A E hs (\<lambda>r c. update_wallet A E r c i b))"
| "dispatch A E hs (Unlink_wallet i) = replying R_message (authenticated A E hs (\<lambda>r c. identity_unlink_wallet A E r c i))"
| "dispatch A E hs Health = ok (R_json (fst health_check) (snd health_check))"
| "dispatch A E hs Health_ready = bnd (health_ready E) (\<lambda>(s, j). ok (R_json s j))"
| "dispatch A E hs Health_live = ok (R_json (fst health_live) (snd health_live))"

definition serve_rest :: "edge \<Rightarrow> env \<Rightarrow> string \<Rightarrow> headers \<Rightarrow> route \<Rightarrow> reply rest_act" where
  "serve_rest A E ip hs r =
     (case auth_path r of
        Some path \<Rightarrow> rate_limit_middleware A E ip path (dispatch A E hs r)
      | None \<Rightarrow> dispatch A E hs r)"

section \<open>Request ids\<close>

definition X_REQUEST_ID :: string where
  "X_REQUEST_ID = ''x-request-id''"

text \<open>\<open>HeaderValue::from_str\<close>: printable bytes and tabs.\<close>

definition header_from_str :: "string \<Rightarrow> string option" where
  "header_from_str s = (if list_all (\<lambda>c. 32 \<le> byte c \<and> byte c \<noteq> 127 \<or> byte c = 9) s then Some s else None)"

definition request_id_middleware ::
    "env \<Rightarrow> headers \<Rightarrow> (world, 'e, 'a) comp \<Rightarrow> (world, 'f, ('e + 'a) \<times> string option) comp" where
  "request_id_middleware E hs run_next =
     bnd (case Option.bind (hs X_REQUEST_ID) header_to_str of
            Some i \<Rightarrow> ok i
          | None \<Rightarrow> bnd (new_v4 E) (\<lambda>i. ok (uuid_to_string E i))) (\<lambda>request_id.
     bnd (attempt run_next) (\<lambda>response. ok (response, header_from_str request_id)))"

end
