(* ===== verification/Startup.thy ===== *)
theory Startup
  imports Rest
begin

text \<open>
  The composition root: \<open>bin/iam-service/src/main.rs\<close> and \<open>startup::run\<close> of \<open>startup.rs\<close>, with the
  constructors they call (\<open>CacheService::new\<close>, \<open>EventBus::new\<close>, \<open>KafkaEventBus::new\<close>, \<open>OutboxWorker::new\<close>,
  \<open>JwtService::new\<close>, \<open>ApiKeyService::new\<close>, \<open>AuthService::new\<close>).  Start-up is a sequence of fallible steps; the
  running servers are a state machine whose steps the operating system, the clients and the signal
  handler choose.  What the libraries answer (connections, migrations, sockets) and what their server futures do
  are parameters.
\<close>

section \<open>Errors and library calls of the start\<close>

text \<open>
  \<open>anyhow::Error\<close> is the list of its contexts, outermost first, ending in the cause.  A panic ends the
  process.
\<close>

datatype start_error = Failed "string list" | Bad_config config_error | Panicked string

fun add_context :: "string \<Rightarrow> start_error \<Rightarrow> start_error" where
  "add_context c (Failed es) = Failed (c # es)"
| "add_context c e = e"

definition with_context :: "string \<Rightarrow> start_error + 'a \<Rightarrow> start_error + 'a" where
  "with_context c r = map_sum (add_context c) id r"

definition called :: "string + 'a \<Rightarrow> start_error + 'a" where
  "called r = map_sum (\<lambda>e. Failed [e]) id r"

record pg_options =
  pg_max_connections :: "32 word"
  pg_min_connections :: "32 word"
  pg_acquire_timeout_secs :: nat
  pg_idle_timeout_secs :: nat

text \<open>
  What the code outside the repository answers.  \<open>lib_redis_manager\<close> is told which connection manager
  of the process it builds; \<open>lib_max_permits\<close> is \<open>Semaphore::MAX_PERMITS\<close>, beyond which
  \<open>Semaphore::new\<close> panics; \<open>lib_overflow_checks\<close> says how the binary was compiled.
\<close>

record startup_lib =
  lib_crypto_provider :: bool
  lib_runtime :: "string + unit"
  lib_pg_connect :: "pg_options \<Rightarrow> string \<Rightarrow> string + unit"
  lib_migrate :: "string + unit"
  lib_redis_open :: "string \<Rightarrow> string + unit"
  lib_redis_manager :: "nat \<Rightarrow> string + unit"
  lib_redis_ping :: "string + string"
  lib_kafka_create :: "(string \<times> string) list \<Rightarrow> string + unit"
  lib_blockchain_new :: "string \<Rightarrow> string \<Rightarrow> programs_config \<Rightarrow> string + unit"
  lib_bind :: "string \<Rightarrow> string + unit"
  lib_max_permits :: nat
  lib_overflow_checks :: bool

section \<open>Constructors\<close>

record cache_service =
  cs_default_ttl :: nat

definition cache_service_new :: "startup_lib \<Rightarrow> string \<Rightarrow> start_error + cache_service" where
  "cache_service_new L url =
     res_bind (with_context ''Failed to create Redis client'' (called (lib_redis_open L url))) (\<lambda>_.
     res_bind (with_context ''Failed to create Redis connection manager'' (called (lib_redis_manager L 0))) (\<lambda>_.
     res_bind (with_context ''Redis ping failed'' (called (lib_redis_ping L))) (\<lambda>_.
     Inr \<lparr>cs_default_ttl = DEFAULT_TTL_SECS\<rparr>)))"

record kafka_event_bus =
  kb_topics :: kafka_topics

definition kafka_event_bus_new ::
    "startup_lib \<Rightarrow> string \<Rightarrow> string option \<Rightarrow> start_error + kafka_event_bus" where
  "kafka_event_bus_new L bootstrap_servers topic_prefix =
     res_bind (called (map_sum (\<lambda>e. ''Failed to create Kafka producer: '' @ e) id
        (lib_kafka_create L [(''bootstrap.servers'', bootstrap_servers), (''message.timeout.ms'', ''5000''),
                             (''acks'', ''all''), (''retries'', ''3'')]))) (\<lambda>_.
     Inr \<lparr>kb_topics = (case topic_prefix of Some pre \<Rightarrow> with_prefix pre | None \<Rightarrow> default_topics)\<rparr>)"

definition DEFAULT_STREAM :: string where
  "DEFAULT_STREAM = ''gridtokenx:events:v1''"

record event_bus =
  eb_stream_name :: string
  eb_kafka :: "kafka_event_bus option"
  eb_outbox :: bool

text \<open>A Kafka producer that cannot be created is reported by a warning only.\<close>

definition event_bus_new :: "startup_lib \<Rightarrow> string \<Rightarrow> string option \<Rightarrow> bool \<Rightarrow> start_error + event_bus" where
  "event_bus_new L url brokers outbox_given =
     res_bind (with_context ''Failed to create Redis client for EventBus'' (called (lib_redis_open L url))) (\<lambda>_.
     res_bind (with_context ''Failed to create EventBus connection manager'' (called (lib_redis_manager L 1))) (\<lambda>_.
     Inr \<lparr>eb_stream_name = DEFAULT_STREAM,
          eb_kafka = (case brokers of
                        Some bs \<Rightarrow> (case kafka_event_bus_new L bs None of Inr k \<Rightarrow> Some k | Inl _ \<Rightarrow> None)
                      | None \<Rightarrow> None),
          eb_outbox = outbox_given\<rparr>))"

record outbox_worker =
  wk_kafka :: kafka_event_bus
  wk_batch_size :: nat
  wk_idle_interval_ms :: nat

definition outbox_worker_new :: "kafka_event_bus \<Rightarrow> outbox_worker" where
  "outbox_worker_new k = \<lparr>wk_kafka = k, wk_batch_size = batch_size, wk_idle_interval_ms = idle_interval_ms\<rparr>"

record jwt_service =
  js_secret :: string
  js_validation :: validation

definition jwt_service_new :: "string \<Rightarrow> start_error + jwt_service" where
  "jwt_service_new secret = Inr \<lparr>js_secret = secret, js_validation = jwt_validation\<rparr>"

definition api_key_service_new :: "string \<Rightarrow> start_error + string" where
  "api_key_service_new secret = Inr secret"

definition programs_of :: "config \<Rightarrow> programs_config" where
  "programs_of c =
     \<lparr>pr_registry_program_id = registry_program_id c, pr_oracle_program_id = oracle_program_id c,
      pr_governance_program_id = governance_program_id c,
      pr_energy_token_program_id = energy_token_program_id c, pr_trading_program_id = trading_program_id c\<rparr>"

definition semaphore_new :: "startup_lib \<Rightarrow> 64 word \<Rightarrow> start_error + nat" where
  "semaphore_new L n =
     (if lib_max_permits L < unat n then Inl (Panicked ''a semaphore may not have more than MAX_PERMITS permits'')
      else Inr (unat n))"

record auth_service =
  as_config :: config
  as_jwt :: jwt_service
  as_api_key_secret :: string
  as_cache :: cache_service
  as_bus :: event_bus
  as_cpu_permits :: nat

definition auth_service_new ::
    "startup_lib \<Rightarrow> config \<Rightarrow> jwt_service \<Rightarrow> string \<Rightarrow> cache_service \<Rightarrow> event_bus \<Rightarrow> start_error + auth_service" where
  "auth_service_new L c jwt keys cache bus =
     res_bind (semaphore_new L (auth_cpu_semaphore_limit c)) (\<lambda>permits.
     Inr \<lparr>as_config = c, as_jwt = jwt, as_api_key_secret = keys, as_cache = cache, as_bus = bus,
          as_cpu_permits = permits\<rparr>)"

section \<open>Start-up\<close>

record services =
  sv_auth :: auth_service
  sv_worker :: "outbox_worker option"

definition pg_options_of :: "config \<Rightarrow> pg_options" where
  "pg_options_of c =
     \<lparr>pg_max_connections = database_max_connections c, pg_min_connections = database_min_connections c,
      pg_acquire_timeout_secs = 30, pg_idle_timeout_secs = 600\<rparr>"

definition init_services :: "startup_lib \<Rightarrow> config \<Rightarrow> start_error + services" where
  "init_services L c =
     res_bind (with_context ''Failed to connect to PostgreSQL''
        (called (lib_pg_connect L (pg_options_of c) (database_url c)))) (\<lambda>_.
     res_bind (with_context ''Failed to run database migrations'' (called (lib_migrate L))) (\<lambda>_.
     res_bind (with_context ''Failed to initialize Redis cache service'' (cache_service_new L (redis_url c))) (\<lambda>cache.
     res_bind (with_context ''Failed to initialize identity event bus''
        (event_bus_new L (redis_url c) (kafka_brokers c) True)) (\<lambda>bus.
     let worker = map_option outbox_worker_new (eb_kafka bus) in
     res_bind (with_context ''Failed to initialize JWT service'' (jwt_service_new (jwt_secret c))) (\<lambda>jwt.
     res_bind (with_context ''Failed to initialize API Key service'' (api_key_service_new (api_key_secret c))) (\<lambda>keys.
     res_bind (with_context ''Failed to initialize Blockchain Service''
        (called (lib_blockchain_new L (chain_bridge_url c) (solana_cluster c) (programs_of c)))) (\<lambda>_.
     res_bind (auth_service_new L c jwt keys cache bus) (\<lambda>auth.
     Inr \<lparr>sv_auth = auth, sv_worker = worker\<rparr>))))))))"

text \<open>
  \<open>SocketAddr::from_str\<close> on an IPv4 address and a port: four decimal numbers below 256 without
  superfluous zeros, and a decimal number below 65536.
\<close>

definition decimal :: "string \<Rightarrow> bool" where
  "decimal s \<longleftrightarrow> s \<noteq> [] \<and> list_all is_ascii_digit s"

definition parse_octet :: "string \<Rightarrow> nat option" where
  "parse_octet s =
     (if decimal s \<and> length s \<le> 3 \<and> (1 < length s \<longrightarrow> hd s \<noteq> CHR ''0'') \<and> digits_value s < 256
      then Some (digits_value s) else None)"

definition parse_socket_v4 :: "string \<Rightarrow> (nat list \<times> 16 word) option" where
  "parse_socket_v4 s =
     (case split_once (CHR '':'') s of
        (_, None) \<Rightarrow> None
      | (ip, Some p) \<Rightarrow>
          let octets = map parse_octet (split_on (CHR ''.'') ip) in
          if length octets = 4 \<and> None \<notin> set octets \<and> decimal p \<and> digits_value p < 65536
          then Some (map the octets, of_nat (digits_value p)) else None)"

definition any_address :: "16 word \<Rightarrow> string" where
  "any_address p = ''0.0.0.0:'' @ show_nat (unat p)"

text \<open>
  \<open>config.grpc_port.unwrap_or(config.port + 10)\<close>: the sum is computed whether it is needed or not, and a
  build with overflow checks panics when it exceeds \<open>u16\<close>.
\<close>

definition checked_grpc_port :: "startup_lib \<Rightarrow> config \<Rightarrow> start_error + 16 word" where
  "checked_grpc_port L c =
     (if lib_overflow_checks L \<and> 2 ^ 16 \<le> unat (port c) + 10
      then Inl (Panicked ''attempt to add with overflow'') else Inr (grpc_listen_port c))"

record listeners =
  ln_rest_addr :: string
  ln_grpc_addr :: "nat list \<times> 16 word"

definition listen :: "startup_lib \<Rightarrow> config \<Rightarrow> start_error + listeners" where
  "listen L c =
     (let rest_addr = any_address (port c) in
      res_bind (checked_grpc_port L c) (\<lambda>gport.
      res_bind (with_context ''Failed to parse IAM gRPC address''
         (case parse_socket_v4 (any_address gport) of
            None \<Rightarrow> Inl (Failed [''invalid socket address syntax'']) | Some a \<Rightarrow> Inr a)) (\<lambda>grpc_addr.
      res_bind (called (map_sum
         (\<lambda>e. api_error_to_string (Internal (''Failed to bind REST to '' @ rest_addr @ '': '' @ e))) id
         (lib_bind L rest_addr))) (\<lambda>_.
      Inr \<lparr>ln_rest_addr = rest_addr, ln_grpc_addr = grpc_addr\<rparr>))))"

record app =
  ap_services :: services
  ap_listeners :: listeners

text \<open>
  \<open>startup::run\<close> up to the point where both servers start.  Applying \<open>ConcurrencyLimitLayer\<close> to the
  router builds a semaphore of the configured size.
\<close>

definition startup :: "startup_lib \<Rightarrow> config \<Rightarrow> start_error + app" where
  "startup L c =
     res_bind (init_services L c) (\<lambda>s.
     res_bind (semaphore_new L (global_concurrency_limit c)) (\<lambda>_.
     res_bind (listen L c) (\<lambda>a.
     Inr \<lparr>ap_services = s, ap_listeners = a\<rparr>)))"

text \<open>
  \<open>main\<close> before the servers run: the crypto provider, the configuration, the runtime
  (\<open>worker_threads(0)\<close> panics), and \<open>run\<close>.
\<close>

definition main_start :: "startup_lib \<Rightarrow> programs_config \<Rightarrow> env_vars \<Rightarrow> start_error + app" where
  "main_start L programs vars =
     (if \<not> lib_crypto_provider L then Inl (Panicked ''Failed to install default crypto provider'')
      else res_bind (map_sum Bad_config id (from_env programs vars)) (\<lambda>c.
      res_bind (if tokio_worker_threads c = Some 0 then Inl (Panicked ''Worker threads cannot be set to 0'')
                else Inr ()) (\<lambda>_.
      res_bind (called (lib_runtime L)) (\<lambda>_.
      startup L c))))"

text \<open>The environment in which the requests of a started application run.\<close>

definition env_of :: "app \<Rightarrow> env \<Rightarrow> env" where
  "env_of a E =
     E\<lparr>cfg := as_config (sv_auth (ap_services a)),
       kafka_up := (eb_kafka (as_bus (sv_auth (ap_services a))) \<noteq> None),
       outbox_on := eb_outbox (as_bus (sv_auth (ap_services a)))\<rparr>"

section \<open>The running servers\<close>

text \<open>
  The two server futures are library code: what they do between two polls, what they end with and how many
  requests are accepted and not yet answered are parameters.  The flag of \<open>sl_rest\<close> says whether the future
  given to \<open>with_graceful_shutdown\<close> is ready.
\<close>

record ('r, 'g) server_lib =
  sl_rest_start :: 'r
  sl_rest :: "bool \<Rightarrow> 'r \<Rightarrow> 'r \<Rightarrow> bool"
  sl_rest_end :: "'r \<Rightarrow> (string + unit) option"
  sl_outstanding :: "'r \<Rightarrow> nat"
  sl_grpc_start :: 'g
  sl_grpc :: "'g \<Rightarrow> 'g \<Rightarrow> bool"
  sl_grpc_end :: "'g \<Rightarrow> (string + unit) option"

datatype server = Serving | Stopped "string + unit"

record ('r, 'g) servers =
  srv_cancelled :: bool
  srv_rest :: 'r
  srv_rest_res :: server
  srv_grpc :: 'g
  srv_grpc_res :: server
  srv_worker :: bool

definition servers_start :: "('r, 'g) server_lib \<Rightarrow> app \<Rightarrow> ('r, 'g) servers" where
  "servers_start L a =
     \<lparr>srv_cancelled = False, srv_rest = sl_rest_start L, srv_rest_res = Serving, srv_grpc = sl_grpc_start L,
      srv_grpc_res = Serving, srv_worker = (sv_worker (ap_services a) \<noteq> None)\<rparr>"

definition rest_failure :: "string \<Rightarrow> string" where
  "rest_failure e = ''REST server error: '' @ e"

definition grpc_failure :: "string \<Rightarrow> string" where
  "grpc_failure e = ''gRPC server error: '' @ api_error_to_string (Internal (''gRPC failed: '' @ e))"

text \<open>
  Ctrl-C cancels the token, once.  The REST server is driven with the token as its shutdown signal until it ends;
  the gRPC server is driven until it ends or \<open>select!\<close> sees the token, and the outbox worker until it sees the
  token.
\<close>

inductive server_step :: "('r, 'g) server_lib \<Rightarrow> ('r, 'g) servers \<Rightarrow> ('r, 'g) servers \<Rightarrow> bool" for L where
  ctrl_c: "\<not> srv_cancelled s \<Longrightarrow> server_step L s (s\<lparr>srv_cancelled := True\<rparr>)"
| rest_runs: "srv_rest_res s = Serving \<Longrightarrow> sl_rest L (srv_cancelled s) (srv_rest s) r \<Longrightarrow>
    server_step L s (s\<lparr>srv_rest := r\<rparr>)"
| rest_ends: "srv_rest_res s = Serving \<Longrightarrow> sl_rest_end L (srv_rest s) = Some res \<Longrightarrow>
    server_step L s (s\<lparr>srv_rest_res := Stopped (map_sum rest_failure id res)\<rparr>)"
| grpc_runs: "srv_grpc_res s = Serving \<Longrightarrow> \<not> srv_cancelled s \<Longrightarrow> sl_grpc L (srv_grpc s) g \<Longrightarrow>
    server_step L s (s\<lparr>srv_grpc := g\<rparr>)"
| grpc_ends: "srv_grpc_res s = Serving \<Longrightarrow> sl_grpc_end L (srv_grpc s) = Some res \<Longrightarrow>
    server_step L s (s\<lparr>srv_grpc_res := Stopped (map_sum grpc_failure id res)\<rparr>)"
| grpc_cancelled: "srv_grpc_res s = Serving \<Longrightarrow> srv_cancelled s \<Longrightarrow>
    server_step L s (s\<lparr>srv_grpc_res := Stopped (Inr ())\<rparr>)"
| worker_cancelled: "srv_worker s \<Longrightarrow> srv_cancelled s \<Longrightarrow> server_step L s (s\<lparr>srv_worker := False\<rparr>)"

fun logged :: "string \<Rightarrow> server \<Rightarrow> string list" where
  "logged what (Stopped (Inl e)) = [what @ '' server encountered an error: '' @ e]"
| "logged what _ = []"

text \<open>
  The end of \<open>run\<close>: \<open>join!\<close> waits for both servers; their errors are logged, and the result is \<open>Ok(())\<close>.
\<close>

definition run_result :: "('r, 'g) servers \<Rightarrow> (string list \<times> (start_error + unit)) option" where
  "run_result s =
     (if srv_rest_res s = Serving \<or> srv_grpc_res s = Serving then None
      else Some (logged ''REST'' (srv_rest_res s) @ logged ''gRPC'' (srv_grpc_res s), Inr ()))"

text \<open>
  What is documented of \<open>axum::serve\<close> with graceful shutdown: without the signal it does not end successfully;
  with the signal it goes on until it has ended; it ends successfully only when no request is outstanding.
\<close>

definition graceful_law :: "('r, 'g) server_lib \<Rightarrow> bool" where
  "graceful_law L \<longleftrightarrow>
     sl_rest_end L (sl_rest_start L) \<noteq> Some (Inr ()) \<and>
     (\<forall>r r'. sl_rest L False r r' \<longrightarrow> sl_rest_end L r \<noteq> Some (Inr ()) \<longrightarrow> sl_rest_end L r' \<noteq> Some (Inr ())) \<and>
     (\<forall>r. sl_rest_end L r = None \<longrightarrow> (\<exists>r'. sl_rest L True r r')) \<and>
     (\<forall>r. sl_rest_end L r = Some (Inr ()) \<longrightarrow> sl_outstanding L r = 0)"

text \<open>After the signal the outstanding requests come to an end: there is no endless run of the server.\<close>

definition outstanding_end :: "('r, 'g) server_lib \<Rightarrow> bool" where
  "outstanding_end L \<longleftrightarrow> wfp (\<lambda>r' r. sl_rest L True r r')"

section \<open>Which start succeeds\<close>

lemma with_context_Inr [simp]: "with_context c r = Inr x \<longleftrightarrow> r = Inr x"
  by (cases r) (simp_all add: with_context_def)

lemma called_Inr [simp]: "called r = Inr x \<longleftrightarrow> r = Inr x"
  by (cases r) (simp_all add: called_def)

lemma map_sum_id_Inr [simp]: "map_sum f id r = Inr x \<longleftrightarrow> r = Inr x"
  by (cases r) simp_all

lemma ok_value_iff: "(case r of Inr x \<Rightarrow> Some x | Inl _ \<Rightarrow> None) = Some y \<longleftrightarrow> r = Inr y"
  by (cases r) simp_all

text \<open>The address of every port parses, so its context is never seen.\<close>

lemma any_address_parses: "parse_socket_v4 (any_address p) = Some ([0, 0, 0, 0], p)"
proof -
  let ?n = "show_nat (unat p)"
  have "split_once (CHR '':'') (''0.0.0.0'' @ CHR '':'' # ?n) = (''0.0.0.0'', Some ?n)"
    by (rule split_once_append) simp
  moreover have "map parse_octet (split_on (CHR ''.'') ''0.0.0.0'') = [Some 0, Some 0, Some 0, Some 0]" by code_simp
  moreover have "decimal ?n" "digits_value ?n = unat p"
    by (simp_all add: decimal_def show_nat_not_Nil show_nat_digits digits_value_show_nat)
  moreover have "unat p < 65536" using unsigned_less [of p, where 'a = nat] by simp
  ultimately show ?thesis by (simp add: parse_socket_v4_def any_address_def)
qed

lemma cache_service_new_iff:
  "cache_service_new L url = Inr x \<longleftrightarrow>
     lib_redis_open L url = Inr () \<and> lib_redis_manager L 0 = Inr () \<and> (\<exists>pong. lib_redis_ping L = Inr pong) \<and>
     x = \<lparr>cs_default_ttl = DEFAULT_TTL_SECS\<rparr>"
  by (auto simp: cache_service_new_def res_bind_Inr_iff)

lemma event_bus_new_iff:
  "event_bus_new L url brokers b = Inr x \<longleftrightarrow>
     lib_redis_open L url = Inr () \<and> lib_redis_manager L 1 = Inr () \<and>
     x = \<lparr>eb_stream_name = DEFAULT_STREAM,
          eb_kafka = Option.bind brokers (\<lambda>bs. case kafka_event_bus_new L bs None of Inr k \<Rightarrow> Some k | Inl _ \<Rightarrow> None),
          eb_outbox = b\<rparr>"
  by (auto simp: event_bus_new_def res_bind_Inr_iff split: option.splits)

lemma semaphore_new_iff: "semaphore_new L n = Inr x \<longleftrightarrow> unat n \<le> lib_max_permits L \<and> x = unat n"
  by (auto simp: semaphore_new_def)

lemma listen_iff:
  "listen L c = Inr x \<longleftrightarrow>
     \<not> (lib_overflow_checks L \<and> 2 ^ 16 \<le> unat (port c) + 10) \<and> lib_bind L (any_address (port c)) = Inr () \<and>
     x = \<lparr>ln_rest_addr = any_address (port c), ln_grpc_addr = ([0, 0, 0, 0], grpc_listen_port c)\<rparr>"
  by (auto simp: listen_def Let_def checked_grpc_port_def res_bind_Inr_iff any_address_parses)

lemmas start_iffs = cache_service_new_iff event_bus_new_iff semaphore_new_iff listen_iff
  jwt_service_new_def api_key_service_new_def auth_service_new_def res_bind_Inr_iff

lemma init_services_iff:
  "init_services L c = Inr s \<longleftrightarrow>
     lib_pg_connect L (pg_options_of c) (database_url c) = Inr () \<and> lib_migrate L = Inr () \<and>
     (\<exists>cache bus. cache_service_new L (redis_url c) = Inr cache \<and>
        event_bus_new L (redis_url c) (kafka_brokers c) True = Inr bus \<and>
        lib_blockchain_new L (chain_bridge_url c) (solana_cluster c) (programs_of c) = Inr () \<and>
        unat (auth_cpu_semaphore_limit c) \<le> lib_max_permits L \<and>
        s = \<lparr>sv_auth = \<lparr>as_config = c, as_jwt = \<lparr>js_secret = jwt_secret c, js_validation = jwt_validation\<rparr>,
                as_api_key_secret = api_key_secret c, as_cache = cache, as_bus = bus,
                as_cpu_permits = unat (auth_cpu_semaphore_limit c)\<rparr>,
             sv_worker = map_option outbox_worker_new (eb_kafka bus)\<rparr>)"
  unfolding init_services_def Let_def
  by (simp add: res_bind_Inr_iff jwt_service_new_def api_key_service_new_def auth_service_new_def semaphore_new_iff) blast

lemma started:
  assumes "startup L c = Inr a"
  shows "as_config (sv_auth (ap_services a)) = c" "eb_outbox (as_bus (sv_auth (ap_services a)))"
    "eb_kafka (as_bus (sv_auth (ap_services a))) =
       Option.bind (kafka_brokers c) (\<lambda>bs. case kafka_event_bus_new L bs None of Inr k \<Rightarrow> Some k | Inl _ \<Rightarrow> None)"
    "sv_worker (ap_services a) = map_option outbox_worker_new (eb_kafka (as_bus (sv_auth (ap_services a))))"
  using assms by (auto simp: startup_def res_bind_Inr_iff init_services_iff event_bus_new_iff)

section \<open>Shutting down\<close>

inductive_cases server_stepE: "server_step L s s'"

definition unfinished :: "('r, 'g) servers \<Rightarrow> nat" where
  "unfinished s =
     (if srv_rest_res s = Serving then 1 else 0) + (if srv_grpc_res s = Serving then 1 else 0) +
     (if srv_worker s then 1 else 0)"

text \<open>A cancelled service only goes down: the REST server takes a step of its shutdown, or one more part has
  ended.\<close>

lemma draining_step:
  "server_step L s s' \<Longrightarrow> srv_cancelled s \<Longrightarrow> srv_cancelled s' \<and>
     (sl_rest L True (srv_rest s) (srv_rest s') \<or> srv_rest s' = srv_rest s \<and> unfinished s' < unfinished s)"
  by (erule server_stepE) (auto simp: unfinished_def)

lemma draining_wf:
  assumes "outstanding_end L"
  shows "wfp (\<lambda>s' s. server_step L s s' \<and> srv_cancelled s)"
proof -
  have "wf ({(r', r). sl_rest L True r r'} <*lex*> less_than)"
    using assms by (intro wf_lex_prod) (simp_all add: outstanding_end_def wfp_def)
  then have "wf (inv_image ({(r', r). sl_rest L True r r'} <*lex*> less_than) (\<lambda>s. (srv_rest s, unfinished s)))"
    by (rule wf_inv_image)
  then have "wf {(s', s). server_step L s s' \<and> srv_cancelled s}"
    by (rule wf_subset) (auto dest: draining_step)
  then show ?thesis by (simp add: wfp_def)
qed

lemma cancelled_stays: "(server_step L)\<^sup>*\<^sup>* s s' \<Longrightarrow> srv_cancelled s \<Longrightarrow> srv_cancelled s'"
  by (induction rule: rtranclp_induct) (auto dest: draining_step)

lemma no_endless_draining:
  assumes "outstanding_end L" "srv_cancelled (f 0)"
  shows "\<not> (\<forall>n. server_step L (f n) (f (Suc n)))"
proof
  assume f: "\<forall>n. server_step L (f n) (f (Suc n))"
  have "srv_cancelled (f n)" for n
    by (induction n) (use assms(2) f draining_step in blast)+
  with f draining_wf [OF assms(1)] show False
    unfolding wfp_def wf_iff_no_infinite_down_chain by blast
qed

text \<open>A cancelled service is never stuck before \<open>run\<close> has returned.\<close>

lemma draining_progress:
  assumes "graceful_law L" "srv_cancelled s" "run_result s = None"
  shows "\<exists>s'. server_step L s s'"
proof (cases "srv_grpc_res s = Serving")
  case True
  then show ?thesis using assms(2) grpc_cancelled by blast
next
  case False
  then have rest: "srv_rest_res s = Serving" using assms(3) by (simp add: run_result_def split: if_splits)
  show ?thesis
  proof (cases "sl_rest_end L (srv_rest s)")
    case None
    then obtain r where "sl_rest L True (srv_rest s) r" using assms(1) unfolding graceful_law_def by metis
    then show ?thesis using rest_runs [OF rest, of L r] assms(2) by auto
  next
    case (Some res)
    then show ?thesis using rest_ends [OF rest] by blast
  qed
qed

text \<open>What holds of the servers at every moment: the REST server is successful only after the signal.\<close>

definition servers_inv :: "('r, 'g) server_lib \<Rightarrow> ('r, 'g) servers \<Rightarrow> bool" where
  "servers_inv L s \<longleftrightarrow>
     (sl_rest_end L (srv_rest s) = Some (Inr ()) \<longrightarrow> srv_cancelled s) \<and>
     (srv_rest_res s = Stopped (Inr ()) \<longrightarrow> sl_rest_end L (srv_rest s) = Some (Inr ()))"

lemma servers_inv_step:
  assumes "graceful_law L" "server_step L s s'" "servers_inv L s"
  shows "servers_inv L s'"
  using assms(2)
proof cases
  case (rest_runs r)
  then show ?thesis
    using assms(1,3) by (cases "srv_cancelled s") (auto simp: servers_inv_def graceful_law_def)
next
  case (rest_ends res)
  then show ?thesis using assms(3) by (cases res) (auto simp: servers_inv_def)
qed (use assms(3) in \<open>auto simp: servers_inv_def\<close>)

lemma servers_inv_reachable:
  assumes "graceful_law L" "(server_step L)\<^sup>*\<^sup>* (servers_start L a) s"
  shows "servers_inv L s"
  using assms(2)
proof (induction rule: rtranclp_induct)
  case base
  show ?case using assms(1) by (simp add: servers_inv_def servers_start_def graceful_law_def)
qed (rule servers_inv_step [OF assms(1)])

lemma no_errors_logged: "run_result s = Some ([], r) \<Longrightarrow> srv_rest_res s = Stopped (Inr ())"
  by (cases "(what :: string, srv_rest_res s)" rule: logged.cases) (auto simp: run_result_def split: if_splits)

section \<open>Publishing in a started application\<close>

lemma publish_without_kafka:
  assumes "\<not> kafka_up E"
  shows "outbox (snd (publish E e w)) = outbox w" "tasks (snd (publish E e w)) = tasks w"
    "kafka_log (snd (publish E e w)) = kafka_log w"
proof -
  have "snd ((dispatch_kafka E e :: (world, string, unit) comp) w) = w"
    using assms by (simp add: dispatch_kafka_def spawn_kafka_publish_def ok_run)
  then show "outbox (snd (publish E e w)) = outbox w" "tasks (snd (publish E e w)) = tasks w"
    "kafka_log (snd (publish E e w)) = kafka_log w"
    by (simp_all add: stream_outbox.publish_keeps_dispatched stream_tasks.publish_keeps_dispatched
        stream_log.publish_keeps_dispatched)
qed

lemma publish_with_outbox:
  assumes "reliable E" "kafka_up E" "outbox_on E" "\<not> skip_kafka_dual_write (ev_event_type e)"
    and "uuid_src E (rng_ix w) \<notin> ob_id ` set (outbox w)"
  shows "map ob_payload (outbox (snd (publish E e w))) = map ob_payload (outbox w) @ [event_to_value E e]"
    "tasks (snd (publish E e w)) = tasks w"
  using assms
  by (simp_all add: stream_outbox.publish_keeps_dispatched stream_tasks.publish_keeps_dispatched dispatch_kafka_def
      enqueue_def new_v4_def db_def comp_simps outbox_insert_def)

section \<open>A sample start\<close>

definition sample_lib :: startup_lib where
  "sample_lib =
     \<lparr>lib_crypto_provider = True, lib_runtime = Inr (), lib_pg_connect = (\<lambda>_ _. Inr ()), lib_migrate = Inr (),
      lib_redis_open = (\<lambda>_. Inr ()), lib_redis_manager = (\<lambda>_. Inr ()), lib_redis_ping = Inr ''PONG'',
      lib_kafka_create = (\<lambda>_. Inr ()), lib_blockchain_new = (\<lambda>_ _ _. Inr ()), lib_bind = (\<lambda>_. Inr ()),
      lib_max_permits = 2 ^ 61 - 1, lib_overflow_checks = False\<rparr>"

lemma sample_starts: "\<exists>a. startup sample_lib sample_config = Inr a"
  by (simp add: startup_def res_bind_Inr_iff init_services_iff semaphore_new_iff listen_iff cache_service_new_iff
      event_bus_new_iff) (simp add: sample_lib_def sample_config_def)

section \<open>Properties\<close>

text \<open>The service starts exactly when Postgres, its migrations, both Redis connections, the ping, the chain bridge
  and the REST socket answer, both semaphores can be built, and the port arithmetic does not panic: Kafka is not among the
  conditions.\<close>

theorem start_succeeds_iff:
  "(\<exists>a. startup L c = Inr a) \<longleftrightarrow>
     lib_pg_connect L (pg_options_of c) (database_url c) = Inr () \<and> lib_migrate L = Inr () \<and>
     lib_redis_open L (redis_url c) = Inr () \<and> lib_redis_manager L 0 = Inr () \<and> lib_redis_manager L 1 = Inr () \<and>
     (\<exists>pong. lib_redis_ping L = Inr pong) \<and>
     lib_blockchain_new L (chain_bridge_url c) (solana_cluster c) (programs_of c) = Inr () \<and>
     unat (auth_cpu_semaphore_limit c) \<le> lib_max_permits L \<and> unat (global_concurrency_limit c) \<le> lib_max_permits L \<and>
     \<not> (lib_overflow_checks L \<and> 2 ^ 16 \<le> unat (port c) + 10) \<and> lib_bind L (any_address (port c)) = Inr ()"
  by (auto simp: startup_def res_bind_Inr_iff init_services_iff semaphore_new_iff listen_iff cache_service_new_iff
      event_bus_new_iff)

text \<open>C17. In a started service the outbox is filled only when somebody drains it: without Kafka (not configured, or
  the producer could not be created) no worker runs, and publishing an event leaves the outbox, the
  detached tasks and the Kafka log as they are; with Kafka a worker runs with the configured topics, and without
  faults an event that is not audit-only is put into the outbox as its last row and never sent by a detached
  task.\<close>

theorem started_outbox_drained:
  assumes "startup L c = Inr a" and "reliable E" and "\<not> skip_kafka_dual_write (ev_event_type e)"
    and "uuid_src E (rng_ix w) \<notin> ob_id ` set (outbox w)"
  shows "case sv_worker (ap_services a) of
      None \<Rightarrow> outbox (snd (publish (env_of a E) e w)) = outbox w \<and>
        tasks (snd (publish (env_of a E) e w)) = tasks w \<and> kafka_log (snd (publish (env_of a E) e w)) = kafka_log w
    | Some k \<Rightarrow> (\<exists>bs. kafka_brokers c = Some bs \<and> kafka_event_bus_new L bs None = Inr (wk_kafka k)) \<and>
        kb_topics (wk_kafka k) = default_topics \<and>
        map ob_payload (outbox (snd (publish (env_of a E) e w))) = map ob_payload (outbox w) @ [event_to_value E e] \<and>
        tasks (snd (publish (env_of a E) e w)) = tasks w"
proof (cases "sv_worker (ap_services a)")
  case None
  then have "\<not> kafka_up (env_of a E)" using started(4) [OF assms(1)] by (simp add: env_of_def)
  then show ?thesis using None publish_without_kafka by simp
next
  case (Some k)
  then obtain kb where kb: "eb_kafka (as_bus (sv_auth (ap_services a))) = Some kb" "k = outbox_worker_new kb"
    using started(4) [OF assms(1)] by auto
  then have bs: "\<exists>bs. kafka_brokers c = Some bs \<and> kafka_event_bus_new L bs None = Inr kb"
    using started(3) [OF assms(1)] by (simp add: bind_eq_Some_conv ok_value_iff)
  then have "kb_topics kb = default_topics" by (auto simp: kafka_event_bus_new_def res_bind_Inr_iff)
  moreover have "reliable (env_of a E)" "kafka_up (env_of a E)" "outbox_on (env_of a E)"
    "uuid_src (env_of a E) (rng_ix w) \<notin> ob_id ` set (outbox w)" "event_to_value (env_of a E) e = event_to_value E e"
    using assms(2,4) kb(1) started(2) [OF assms(1)] by (simp_all add: env_of_def reliable_def event_to_value_def)
  ultimately show ?thesis
    using Some kb(2) bs publish_with_outbox [of "env_of a E" e w] assms(3) by (simp add: outbox_worker_new_def)
qed

theorem started_outbox_drained_witness:
  "\<exists>a. startup sample_lib sample_config = Inr a \<and> sv_worker (ap_services a) \<noteq> None \<and>
     map ob_payload (outbox (snd (publish (env_of a sample_env) sample_event empty_world))) =
       [event_to_value sample_env sample_event]"
proof -
  obtain a where a: "startup sample_lib sample_config = Inr a" using sample_starts by blast
  have w: "sv_worker (ap_services a) \<noteq> None"
    using started(3,4) [OF a] by (simp add: sample_config_def kafka_event_bus_new_def sample_lib_def called_def)
  have "\<not> skip_kafka_dual_write (ev_event_type sample_event)" by code_simp
  moreover have "outbox empty_world = []" by (simp add: empty_world_def)
  ultimately show ?thesis
    using started_outbox_drained [OF a sample_env_reliable, of sample_event empty_world] a w by (auto split: option.splits)
qed

text \<open>C18. A cancelled service stops, and cuts off nothing it has accepted.  With the documented behaviour of
  graceful shutdown, and outstanding requests that come to an end: after Ctrl-C there is no endless run of the
  servers, and none gets stuck before \<open>run\<close> has returned, so every run leads to its return; and when \<open>run\<close> returns
  with nothing logged, the signal was given and no accepted REST request is outstanding.\<close>

theorem cancelled_service_stops:
  assumes "graceful_law L" and "outstanding_end L" and "srv_cancelled s"
  shows "(\<nexists>f. f 0 = s \<and> (\<forall>n. server_step L (f n) (f (Suc n)))) \<and>
    (\<forall>s'. (server_step L)\<^sup>*\<^sup>* s s' \<longrightarrow> run_result s' \<noteq> None \<or> (\<exists>s''. server_step L s' s'')) \<and>
    (\<forall>t r. (server_step L)\<^sup>*\<^sup>* (servers_start L a) t \<and> run_result t = Some ([], r) \<longrightarrow>
       srv_cancelled t \<and> sl_outstanding L (srv_rest t) = 0)"
proof (intro conjI allI impI)
  show "\<nexists>f. f 0 = s \<and> (\<forall>n. server_step L (f n) (f (Suc n)))"
    using no_endless_draining [OF assms(2)] assms(3) by blast
  show "run_result s' \<noteq> None \<or> (\<exists>s''. server_step L s' s'')" if "(server_step L)\<^sup>*\<^sup>* s s'" for s'
    using draining_progress [OF assms(1)] cancelled_stays [OF that assms(3)] by blast
  fix t r
  assume "(server_step L)\<^sup>*\<^sup>* (servers_start L a) t \<and> run_result t = Some ([], r)"
  then have "servers_inv L t" "srv_rest_res t = Stopped (Inr ())"
    using servers_inv_reachable [OF assms(1)] no_errors_logged by blast+
  then show "srv_cancelled t" "sl_outstanding L (srv_rest t) = 0"
    using assms(1) by (auto simp: servers_inv_def graceful_law_def)
qed

text \<open>A server that counts: it accepts requests until the signal, answers them, and ends when none is left
  after the signal; and a gRPC server that serves for ever, or fails with a given error.\<close>

definition counting_rest :: "bool \<Rightarrow> nat option \<Rightarrow> nat option \<Rightarrow> bool" where
  "counting_rest signal r r' \<longleftrightarrow>
     (case r of
        None \<Rightarrow> False
      | Some n \<Rightarrow> (\<not> signal \<and> r' = Some (Suc n)) \<or> (0 < n \<and> r' = Some (n - 1)) \<or> (signal \<and> n = 0 \<and> r' = None))"

definition counting_servers :: "string option \<Rightarrow> (nat option, unit) server_lib" where
  "counting_servers failure =
     \<lparr>sl_rest_start = Some 0, sl_rest = counting_rest,
      sl_rest_end = (\<lambda>r. case r of None \<Rightarrow> Some (Inr ()) | Some _ \<Rightarrow> None),
      sl_outstanding = (\<lambda>r. case r of None \<Rightarrow> 0 | Some n \<Rightarrow> n),
      sl_grpc_start = (), sl_grpc = (\<lambda>_ _. False), sl_grpc_end = (\<lambda>_. map_option Inl failure)\<rparr>"

lemma counting_law: "graceful_law (counting_servers failure)"
proof -
  have "\<exists>r'. counting_rest True (Some n) r'" for n
    by (cases n) (auto simp: counting_rest_def)
  then show ?thesis
    by (auto simp: graceful_law_def counting_servers_def split: option.splits) (simp add: counting_rest_def)
qed

lemma counting_end: "outstanding_end (counting_servers failure)"
proof -
  have "wf (measure (\<lambda>r. case r of None \<Rightarrow> 0 | Some n \<Rightarrow> Suc n))" by simp
  then have "wf {(r', r). counting_rest True r r'}"
    by (rule wf_subset) (auto simp: counting_rest_def split: option.splits)
  then show ?thesis by (simp add: outstanding_end_def wfp_def counting_servers_def)
qed

abbreviation counting_run :: "string option \<Rightarrow> (nat option, unit) servers \<Rightarrow> (nat option, unit) servers \<Rightarrow> bool" where
  "counting_run failure \<equiv> (server_step (counting_servers failure))\<^sup>*\<^sup>*"

lemma counting_shutdown:
  assumes "s = \<lparr>srv_cancelled = True, srv_rest = Some 0, srv_rest_res = Serving, srv_grpc = (), srv_grpc_res = g, srv_worker = b\<rparr>"
  shows "counting_run failure s (s\<lparr>srv_rest := None, srv_rest_res := Stopped (Inr ())\<rparr>)"
proof -
  have "server_step (counting_servers failure) s (s\<lparr>srv_rest := None\<rparr>)"
    by (rule rest_runs) (simp_all add: assms counting_servers_def counting_rest_def)
  moreover have "server_step (counting_servers failure) (s\<lparr>srv_rest := None\<rparr>)
      (s\<lparr>srv_rest := None, srv_rest_res := Stopped (map_sum rest_failure id (Inr ()))\<rparr>)"
    by (rule rest_ends [of "s\<lparr>srv_rest := None\<rparr>", simplified]) (simp_all add: assms counting_servers_def)
  ultimately show ?thesis by simp
qed

text \<open>One request is accepted, the signal is given, the request is answered and the service has stopped.\<close>

theorem cancelled_service_stops_witness:
  "\<exists>a s t. startup sample_lib sample_config = Inr a \<and>
     counting_run None (servers_start (counting_servers None) a) s \<and> srv_cancelled s \<and>
     sl_outstanding (counting_servers None) (srv_rest s) = 1 \<and>
     (\<nexists>f. f 0 = s \<and> (\<forall>n. server_step (counting_servers None) (f n) (f (Suc n)))) \<and>
     counting_run None s t \<and> run_result t = Some ([], Inr ()) \<and> sl_outstanding (counting_servers None) (srv_rest t) = 0"
proof -
  obtain a where a: "startup sample_lib sample_config = Inr a" using sample_starts by blast
  let ?L = "counting_servers None" and ?start = "servers_start (counting_servers None) a"
  let ?busy = "?start\<lparr>srv_rest := Some 1\<rparr>"
  let ?told = "?busy\<lparr>srv_cancelled := True\<rparr>"
  let ?half = "?told\<lparr>srv_grpc_res := Stopped (Inr ())\<rparr>"
  let ?idle = "?half\<lparr>srv_rest := Some 0\<rparr>"
  let ?over = "?idle\<lparr>srv_rest := None, srv_rest_res := Stopped (Inr ())\<rparr>"
  have "server_step ?L ?start ?busy"
    by (rule rest_runs) (simp_all add: servers_start_def counting_servers_def counting_rest_def)
  moreover have "server_step ?L ?busy ?told" by (rule ctrl_c) (simp add: servers_start_def)
  ultimately have s: "counting_run None ?start ?told" by simp
  have "server_step ?L ?told ?half" by (rule grpc_cancelled) (simp_all add: servers_start_def)
  moreover have "server_step ?L ?half ?idle"
    by (rule rest_runs) (simp_all add: servers_start_def counting_servers_def counting_rest_def)
  moreover have "counting_run None ?idle ?over"
    by (rule counting_shutdown) (simp add: servers_start_def counting_servers_def)
  ultimately have t: "counting_run None ?told ?over" by (meson converse_rtranclp_into_rtranclp)
  have r: "run_result ?over = Some ([], Inr ())" by (simp add: run_result_def)
  have c: "srv_cancelled ?told" by simp
  note stops = cancelled_service_stops [OF counting_law counting_end c, of None a]
  have "sl_outstanding ?L (srv_rest ?over) = 0" "\<nexists>f. f 0 = ?told \<and> (\<forall>n. server_step ?L (f n) (f (Suc n)))"
    using stops rtranclp_trans [OF s t] r by blast+
  then show ?thesis
    using a s t r by (intro exI [of _ a] exI [of _ ?told] exI [of _ ?over]) (simp add: counting_servers_def)
qed

text \<open>C40. A server that fails is not reported: when the gRPC server ends with an error (its port is in use) the
  process keeps running with its REST server alone, and however it goes on, when \<open>run\<close> returns it returns \<open>Ok\<close>, the
  error being in the log only.\<close>

theorem failed_server_exits_ok:
  assumes "sl_grpc_end L (sl_grpc_start L) = Some (Inl e)"
  shows "\<exists>s. server_step L (servers_start L a) s \<and> srv_grpc_res s = Stopped (Inl (grpc_failure e)) \<and> run_result s = None \<and>
    (\<forall>t log res. (server_step L)\<^sup>*\<^sup>* s t \<and> run_result t = Some (log, res) \<longrightarrow>
       ''gRPC server encountered an error: '' @ grpc_failure e \<in> set log \<and> res = Inr ())"
proof -
  let ?s = "(servers_start L a)\<lparr>srv_grpc_res := Stopped (Inl (grpc_failure e))\<rparr>"
  have "server_step L (servers_start L a) ?s"
    using grpc_ends [of "servers_start L a" L "Inl e"] assms by (simp add: servers_start_def)
  moreover have "srv_grpc_res t = Stopped (Inl (grpc_failure e))" if "(server_step L)\<^sup>*\<^sup>* ?s t" for t
    using that by (induction rule: rtranclp_induct) (auto elim: server_stepE)
  ultimately show ?thesis
    by (intro exI [of _ ?s]) (auto simp: servers_start_def run_result_def split: if_splits)
qed

theorem failed_server_exits_ok_witness:
  "\<exists>a t log. counting_run (Some ''in use'') (servers_start (counting_servers (Some ''in use'')) a) t \<and>
     run_result t = Some (log, Inr ()) \<and> ''gRPC server encountered an error: '' @ grpc_failure ''in use'' \<in> set log"
proof -
  let ?L = "counting_servers (Some ''in use'')"
  obtain a where "startup sample_lib sample_config = Inr a" using sample_starts by blast
  have end_: "sl_grpc_end ?L (sl_grpc_start ?L) = Some (Inl ''in use'')" by (simp add: counting_servers_def)
  from failed_server_exits_ok [OF end_, of a] obtain s where s: "server_step ?L (servers_start ?L a) s"
    "srv_grpc_res s = Stopped (Inl (grpc_failure ''in use''))" "run_result s = None"
    and ends: "\<And>t log res. counting_run (Some ''in use'') s t \<Longrightarrow> run_result t = Some (log, res) \<Longrightarrow>
      ''gRPC server encountered an error: '' @ grpc_failure ''in use'' \<in> set log \<and> res = Inr ()" by blast
  have c: "\<not> srv_cancelled s" and r: "srv_rest s = Some 0" "srv_rest_res s = Serving"
    using s by (auto elim!: server_stepE simp: servers_start_def counting_servers_def counting_rest_def)
  let ?told = "s\<lparr>srv_cancelled := True\<rparr>"
  let ?over = "?told\<lparr>srv_rest := None, srv_rest_res := Stopped (Inr ())\<rparr>"
  have "server_step ?L s ?told" using c by (rule ctrl_c)
  moreover have "counting_run (Some ''in use'') ?told ?over"
    using r by (intro counting_shutdown [of _ "srv_grpc_res s" "srv_worker s"]) (cases s, simp)
  ultimately have run: "counting_run (Some ''in use'') s ?over" by (rule converse_rtranclp_into_rtranclp)
  obtain log res where res: "run_result ?over = Some (log, res)" using s(2) by (simp add: run_result_def)
  show ?thesis
    using ends [OF run res] res converse_rtranclp_into_rtranclp [where r = "server_step ?L", OF s(1) run]
    by (intro exI [of _ a] exI [of _ ?over] exI [of _ log]) simp
qed

end
