(* ===== verification/Permits.thy ===== *)
theory Permits
  imports Startup
begin

text \<open>
  The CPU semaphore of \<open>AuthService\<close> (\<open>auth_service.rs\<close>): \<open>login\<close>, \<open>register\<close> and \<open>reset_password\<close> acquire a permit,
  hand the password to \<open>spawn_blocking\<close>, wait for the result and hold the permit until they return.  A
  request can be dropped at any moment (the timeout layer, a client that goes away): its permit or its
  place in the queue is given back, but a blocking task that has been spawned is not aborted.

  \<open>tokio\<close>'s pool of blocking threads is the parameter \<open>pool\<close>, its number of threads (512 unless the runtime is
  told otherwise, which \<open>main.rs\<close> does not do): spawned tasks wait in a queue, the first of them is taken up
  when a thread is free, and only those that have been taken up are running.

  \<open>tokio\<close>'s semaphore is a parameter with its documented contract: a permit is given when one is free,
  requests wait in the order in which they came, and a permit that is dropped goes to the first of
  them.
\<close>

section \<open>The semaphore's contract\<close>

record 's semaphore_lib =
  sm_new :: "nat \<Rightarrow> 's"
  sm_acquire :: "nat \<Rightarrow> 's \<Rightarrow> 's"
  sm_release :: "nat \<Rightarrow> 's \<Rightarrow> 's"
  sm_cancel :: "nat \<Rightarrow> 's \<Rightarrow> 's"
  sm_available :: "'s \<Rightarrow> nat"
  sm_held :: "'s \<Rightarrow> nat list"
  sm_waiting :: "'s \<Rightarrow> nat list"

text \<open>Free permits, the requests that hold one, and the queue.\<close>

type_synonym sem_view = "nat \<times> nat list \<times> nat list"

definition sem_view :: "('s, 'm) semaphore_lib_scheme \<Rightarrow> 's \<Rightarrow> sem_view" where
  "sem_view S s = (sm_available S s, sm_held S s, sm_waiting S s)"

fun after_acquire :: "nat \<Rightarrow> sem_view \<Rightarrow> sem_view" where
  "after_acquire r (0, h, q) = (0, h, q @ [r])"
| "after_acquire r (Suc p, h, q) = (p, r # h, q)"

fun after_release :: "nat \<Rightarrow> sem_view \<Rightarrow> sem_view" where
  "after_release r (p, h, []) = (Suc p, remove1 r h, [])"
| "after_release r (p, h, x # q) = (p, x # remove1 r h, q)"

fun after_cancel :: "nat \<Rightarrow> sem_view \<Rightarrow> sem_view" where
  "after_cancel r (p, h, q) = (p, h, remove1 r q)"

definition semaphore_law :: "('s, 'm) semaphore_lib_scheme \<Rightarrow> bool" where
  "semaphore_law S \<longleftrightarrow>
     (\<forall>n. sem_view S (sm_new S n) = (n, [], [])) \<and>
     (\<forall>r s. sem_view S (sm_acquire S r s) = after_acquire r (sem_view S s)) \<and>
     (\<forall>r s. sem_view S (sm_release S r s) = after_release r (sem_view S s)) \<and>
     (\<forall>r s. sem_view S (sm_cancel S r s) = after_cancel r (sem_view S s))"

section \<open>Requests that hash a password\<close>

text \<open>Where a request is between \<open>cpu_semaphore.acquire()\<close> and its return.\<close>

datatype phase = Acquiring | Hashing | Finishing

record 's cpu =
  cp_sem :: 's
  cp_phase :: "nat \<Rightarrow> phase option"
  cp_running :: "nat list"
  cp_queue :: "nat list"

text \<open>The tasks that have been spawned and are not finished.\<close>

definition cp_tasks :: "'s cpu \<Rightarrow> nat list" where
  "cp_tasks s = cp_running s @ cp_queue s"

definition cpu_start :: "('s, 'm) semaphore_lib_scheme \<Rightarrow> nat \<Rightarrow> 's cpu" where
  "cpu_start S limit = \<lparr>cp_sem = sm_new S limit, cp_phase = (\<lambda>_. None), cp_running = [], cp_queue = []\<rparr>"

text \<open>What the drop of a request gives back.\<close>

definition give_back :: "('s, 'm) semaphore_lib_scheme \<Rightarrow> nat \<Rightarrow> 's \<Rightarrow> 's" where
  "give_back S r s = (if r \<in> set (sm_held S s) then sm_release S r s else sm_cancel S r s)"

text \<open>
  The steps; requests are numbered, and a number is not used again while its task is unfinished.  The flag says
  whether requests may be dropped before they return.
\<close>

inductive cpu_step :: "('s, 'm) semaphore_lib_scheme \<Rightarrow> nat \<Rightarrow> bool \<Rightarrow> 's cpu \<Rightarrow> 's cpu \<Rightarrow> bool" for S pool drops where
  arrive: "cp_phase s r = None \<Longrightarrow> r \<notin> set (cp_tasks s) \<Longrightarrow>
    cpu_step S pool drops s (s\<lparr>cp_sem := sm_acquire S r (cp_sem s), cp_phase := (cp_phase s)(r \<mapsto> Acquiring)\<rparr>)"
| permitted: "cp_phase s r = Some Acquiring \<Longrightarrow> r \<in> set (sm_held S (cp_sem s)) \<Longrightarrow>
    cpu_step S pool drops s (s\<lparr>cp_phase := (cp_phase s)(r \<mapsto> Hashing), cp_queue := cp_queue s @ [r]\<rparr>)"
| taken_up: "cp_queue s = r # q \<Longrightarrow> length (cp_running s) < pool \<Longrightarrow>
    cpu_step S pool drops s (s\<lparr>cp_running := r # cp_running s, cp_queue := q\<rparr>)"
| hashed: "r \<in> set (cp_running s) \<Longrightarrow>
    cpu_step S pool drops s (s\<lparr>cp_running := remove1 r (cp_running s),
      cp_phase := (if cp_phase s r = Some Hashing then (cp_phase s)(r \<mapsto> Finishing) else cp_phase s)\<rparr>)"
| finished: "cp_phase s r = Some Finishing \<Longrightarrow>
    cpu_step S pool drops s (s\<lparr>cp_sem := sm_release S r (cp_sem s), cp_phase := (cp_phase s)(r := None)\<rparr>)"
| dropped: "drops \<Longrightarrow> cp_phase s r = Some ph \<Longrightarrow>
    cpu_step S pool drops s (s\<lparr>cp_sem := give_back S r (cp_sem s), cp_phase := (cp_phase s)(r := None)\<rparr>)"

inductive_cases cpu_stepE: "cpu_step S pool drops s s'"

section \<open>Invariant\<close>

definition cpu_inv :: "nat \<Rightarrow> bool \<Rightarrow> sem_view \<Rightarrow> (nat \<Rightarrow> phase option) \<Rightarrow> nat list \<Rightarrow> bool" where
  "cpu_inv limit drops v ph ts \<longleftrightarrow>
     (case v of (p, h, q) \<Rightarrow>
        p + length h = limit \<and> (q \<noteq> [] \<longrightarrow> p = 0) \<and> distinct (h @ q) \<and> dom ph = set h \<union> set q \<and>
        (\<forall>r. ph r = Some Hashing \<longrightarrow> r \<in> set h \<and> r \<in> set ts) \<and>
        (\<forall>r. ph r = Some Finishing \<longrightarrow> r \<in> set h) \<and>
        distinct ts \<and> (\<forall>r \<in> set ts. ph r = Some Hashing \<or> drops \<and> ph r = None))"

lemma inv_arrive:
  "cpu_inv limit d v ph ts \<Longrightarrow> ph r = None \<Longrightarrow> r \<notin> set ts \<Longrightarrow>
   cpu_inv limit d (after_acquire r v) (ph(r \<mapsto> Acquiring)) ts"
  by (cases "(r, v)" rule: after_acquire.cases) (auto simp: cpu_inv_def)

lemma inv_permitted:
  "cpu_inv limit d (p, h, q) ph ts \<Longrightarrow> ph r = Some Acquiring \<Longrightarrow> r \<in> set h \<Longrightarrow>
   cpu_inv limit d (p, h, q) (ph(r \<mapsto> Hashing)) (r # ts)"
  by (auto simp: cpu_inv_def)

lemma cpu_inv_cong: "set ts = set ts' \<Longrightarrow> distinct ts = distinct ts' \<Longrightarrow> cpu_inv limit d v ph ts = cpu_inv limit d v ph ts'"
  by (simp add: cpu_inv_def)

lemma inv_hashed:
  "cpu_inv limit d v ph ts \<Longrightarrow> r \<in> set ts \<Longrightarrow>
   cpu_inv limit d v (if ph r = Some Hashing then ph(r \<mapsto> Finishing) else ph) (remove1 r ts)"
  by (cases v) (auto simp: cpu_inv_def)

lemma inv_release:
  assumes "cpu_inv limit d (p, h, q) ph ts" "r \<in> set h" "r \<in> set ts \<longrightarrow> d"
  shows "cpu_inv limit d (after_release r (p, h, q)) (ph(r := None)) ts"
proof (cases q)
  case Nil
  with assms show ?thesis
    by (auto simp: cpu_inv_def length_remove1 Suc_le_eq dest: length_pos_if_in_set)
next
  case (Cons x q')
  with assms show ?thesis
    by (auto simp: cpu_inv_def length_remove1 Suc_le_eq dest: length_pos_if_in_set)
qed

lemma inv_cancel:
  "cpu_inv limit d (p, h, q) ph ts \<Longrightarrow> r \<in> set q \<Longrightarrow> r \<in> set ts \<longrightarrow> d \<Longrightarrow>
   cpu_inv limit d (after_cancel r (p, h, q)) (ph(r := None)) ts"
  by (auto simp: cpu_inv_def)

definition cpu_ok :: "('s, 'm) semaphore_lib_scheme \<Rightarrow> nat \<Rightarrow> bool \<Rightarrow> 's cpu \<Rightarrow> bool" where
  "cpu_ok S limit d s \<longleftrightarrow> cpu_inv limit d (sem_view S (cp_sem s)) (cp_phase s) (cp_tasks s)"

lemma semaphore_lawD:
  assumes "semaphore_law S"
  shows "sem_view S (sm_new S n) = (n, [], [])"
    "sem_view S (sm_acquire S r s) = after_acquire r (sem_view S s)"
    "sem_view S (sm_release S r s) = after_release r (sem_view S s)"
    "sem_view S (sm_cancel S r s) = after_cancel r (sem_view S s)"
  using assms by (simp_all add: semaphore_law_def)

lemma give_back_inv:
  assumes "semaphore_law S" "cpu_ok S limit d s" "cp_phase s r = Some ph" "d"
  shows "cpu_inv limit d (sem_view S (give_back S r (cp_sem s))) ((cp_phase s)(r := None)) (cp_tasks s)"
proof -
  obtain p h q where v: "sem_view S (cp_sem s) = (p, h, q)" by (cases "sem_view S (cp_sem s)")
  then have h: "sm_held S (cp_sem s) = h" by (simp add: sem_view_def)
  have "r \<in> set h \<union> set q" using assms(2,3) v by (auto simp: cpu_ok_def cpu_inv_def)
  then show ?thesis
    using assms v h inv_release [of limit d p h q "cp_phase s" "cp_tasks s" r]
      inv_cancel [of limit d p h q "cp_phase s" "cp_tasks s" r]
    by (auto simp: give_back_def semaphore_lawD cpu_ok_def)
qed

lemma cpu_ok_step:
  assumes "semaphore_law S" "cpu_step S pool d s s'" "cpu_ok S limit d s"
  shows "cpu_ok S limit d s'"
  using assms(2)
proof cases
  case (arrive r)
  then show ?thesis
    using assms(1,3) inv_arrive [of limit d "sem_view S (cp_sem s)" "cp_phase s" "cp_tasks s" r]
    by (simp add: cpu_ok_def semaphore_lawD cp_tasks_def)
next
  case (permitted r)
  have "cpu_inv limit d v ph (cp_running s @ cp_queue s @ [r]) = cpu_inv limit d v ph (r # cp_tasks s)" for v ph
    by (rule cpu_inv_cong) (auto simp: cp_tasks_def)
  with permitted show ?thesis
    using assms(3) inv_permitted [of limit d _ _ _ "cp_phase s" "cp_tasks s" r] by (simp add: cpu_ok_def sem_view_def cp_tasks_def)
next
  case (taken_up r q)
  have "cpu_inv limit d v ph (r # cp_running s @ q) = cpu_inv limit d v ph (cp_tasks s)" for v ph
    by (rule cpu_inv_cong) (use taken_up in \<open>auto simp: cp_tasks_def\<close>)
  with taken_up show ?thesis using assms(3) by (simp add: cpu_ok_def cp_tasks_def)
next
  case (hashed r)
  then show ?thesis
    using assms(3) inv_hashed [of limit d "sem_view S (cp_sem s)" "cp_phase s" "cp_tasks s" r]
    by (simp add: cpu_ok_def cp_tasks_def remove1_append)
next
  case (finished r)
  then have "r \<in> set (sm_held S (cp_sem s))" "r \<notin> set (cp_tasks s)"
    using assms(3) by (auto simp: cpu_ok_def cpu_inv_def sem_view_def)
  then show ?thesis
    using finished assms(1,3) inv_release [of limit d _ _ _ "cp_phase s" "cp_tasks s" r]
    by (simp add: cpu_ok_def semaphore_lawD cp_tasks_def sem_view_def [of S "cp_sem s"])
next
  case (dropped r ph)
  then show ?thesis using give_back_inv [OF assms(1,3)] by (simp add: cpu_ok_def cp_tasks_def)
qed

lemma cpu_ok_reachable:
  assumes "semaphore_law S" "(cpu_step S pool d)\<^sup>*\<^sup>* (cpu_start S limit) s"
  shows "cpu_ok S limit d s"
  using assms(2)
proof (induction rule: rtranclp_induct)
  case base
  show ?case using assms(1) by (simp add: cpu_ok_def cpu_start_def semaphore_lawD cpu_inv_def cp_tasks_def)
qed (rule cpu_ok_step [OF assms(1)])

lemma pool_bound: "(cpu_step S pool d)\<^sup>*\<^sup>* (cpu_start S limit) s \<Longrightarrow> length (cp_running s) \<le> pool"
proof (induction rule: rtranclp_induct)
  case (step s s')
  from step(2,3) show ?case by (cases rule: cpu_step.cases) (auto simp: length_remove1)
qed (simp add: cpu_start_def)

lemma cpu_okD:
  assumes "cpu_ok S limit d s"
  shows "{r. cp_phase s r = Some Hashing \<or> cp_phase s r = Some Finishing} \<subseteq> set (sm_held S (cp_sem s))"
    "sm_available S (cp_sem s) + length (sm_held S (cp_sem s)) = limit"
    "sm_waiting S (cp_sem s) = [] \<or> sm_available S (cp_sem s) = 0"
    "dom (cp_phase s) = set (sm_held S (cp_sem s)) \<union> set (sm_waiting S (cp_sem s))"
    "distinct (sm_held S (cp_sem s))" "distinct (cp_tasks s)"
    "\<not> d \<Longrightarrow> set (cp_tasks s) \<subseteq> set (sm_held S (cp_sem s))"
  using assms by (auto simp: cpu_ok_def cpu_inv_def sem_view_def)

section \<open>Every request ends\<close>

fun weight :: "phase \<Rightarrow> nat" where
  "weight Acquiring = 6"
| "weight Hashing = 2"
| "weight Finishing = 1"

definition work_left :: "'s cpu \<Rightarrow> nat" where
  "work_left s =
     (\<Sum>r \<in> dom (cp_phase s). weight (the (cp_phase s r))) + length (cp_running s) + 2 * length (cp_queue s)"

lemma sum_update:
  assumes "finite (dom m)" "m r = Some x"
  shows "(\<Sum>i \<in> dom (m(r \<mapsto> y)). f (the ((m(r \<mapsto> y)) i))) + f x = (\<Sum>i \<in> dom m. f (the (m i))) + (f y :: nat)"
    and "(\<Sum>i \<in> dom (m(r := None)). f (the ((m(r := None)) i))) + f x = (\<Sum>i \<in> dom m. (f (the (m i)) :: nat))"
proof -
  have "(\<Sum>i \<in> dom m. f (the (m i))) = f x + (\<Sum>i \<in> dom m - {r}. f (the (m i)))"
    using assms sum.remove [OF assms(1), of r "\<lambda>i. f (the (m i))"] by (auto simp: domI)
  moreover have "(\<Sum>i \<in> dom (m(r \<mapsto> y)). f (the ((m(r \<mapsto> y)) i))) = f y + (\<Sum>i \<in> dom m - {r}. f (the (m i)))"
  proof -
    have "dom (m(r \<mapsto> y)) - {r} = dom m - {r}" by auto
    moreover have "(\<Sum>i \<in> dom m - {r}. f (the ((m(r \<mapsto> y)) i))) = (\<Sum>i \<in> dom m - {r}. f (the (m i)))"
      by (rule sum.cong) auto
    ultimately show ?thesis
      using assms(1) sum.remove [of "dom (m(r \<mapsto> y))" r "\<lambda>i. f (the ((m(r \<mapsto> y)) i))"] by simp
  qed
  moreover have "(\<Sum>i \<in> dom (m(r := None)). f (the ((m(r := None)) i))) = (\<Sum>i \<in> dom m - {r}. f (the (m i)))"
    by (rule sum.cong) auto
  ultimately show "(\<Sum>i \<in> dom (m(r \<mapsto> y)). f (the ((m(r \<mapsto> y)) i))) + f x = (\<Sum>i \<in> dom m. f (the (m i))) + f y"
    "(\<Sum>i \<in> dom (m(r := None)). f (the ((m(r := None)) i))) + f x = (\<Sum>i \<in> dom m. f (the (m i)))"
    by simp_all
qed

lemma work_decreases:
  assumes "finite (dom (cp_phase s))"
  shows "cp_phase s r = Some Acquiring \<Longrightarrow>
      work_left (s\<lparr>cp_phase := (cp_phase s)(r \<mapsto> Hashing), cp_queue := cp_queue s @ [r]\<rparr>) < work_left s"
    and "r \<in> set (cp_running s) \<Longrightarrow>
      work_left (s\<lparr>cp_running := remove1 r (cp_running s),
        cp_phase := (if cp_phase s r = Some Hashing then (cp_phase s)(r \<mapsto> Finishing) else cp_phase s)\<rparr>) < work_left s"
    and "cp_phase s r = Some Finishing \<Longrightarrow>
      work_left (s\<lparr>cp_sem := x, cp_phase := (cp_phase s)(r := None)\<rparr>) < work_left s"
    and "cp_queue s = r # q \<Longrightarrow> work_left (s\<lparr>cp_running := r # cp_running s, cp_queue := q\<rparr>) < work_left s"
proof -
  show "work_left (s\<lparr>cp_phase := (cp_phase s)(r \<mapsto> Hashing), cp_queue := cp_queue s @ [r]\<rparr>) < work_left s"
    if "cp_phase s r = Some Acquiring"
    using sum_update(1) [OF assms that, of weight Hashing] by (simp add: work_left_def)
  show "work_left (s\<lparr>cp_sem := x, cp_phase := (cp_phase s)(r := None)\<rparr>) < work_left s"
    if "cp_phase s r = Some Finishing"
    using sum_update(2) [OF assms that, of weight] by (simp add: work_left_def)
  show "work_left (s\<lparr>cp_running := r # cp_running s, cp_queue := q\<rparr>) < work_left s" if "cp_queue s = r # q"
    using that by (simp add: work_left_def)
  assume r: "r \<in> set (cp_running s)"
  then have "length (remove1 r (cp_running s)) < length (cp_running s)"
    using length_pos_if_in_set [OF r] by (simp add: length_remove1)
  then show "work_left (s\<lparr>cp_running := remove1 r (cp_running s),
        cp_phase := (if cp_phase s r = Some Hashing then (cp_phase s)(r \<mapsto> Finishing) else cp_phase s)\<rparr>) < work_left s"
    using sum_update(1) [OF assms, of r Hashing weight Finishing]
    by (cases "cp_phase s r = Some Hashing") (simp_all add: work_left_def)
qed

lemma cpu_progress:
  assumes "cpu_ok S limit d s" "0 < limit" "0 < pool" "cp_phase s \<noteq> Map.empty \<or> cp_tasks s \<noteq> []"
  shows "\<exists>s'. cpu_step S pool False s s' \<and> work_left s' < work_left s"
proof -
  have dom: "finite (dom (cp_phase s))" using cpu_okD(4) [OF assms(1)] by simp
  consider (task) r where "r \<in> set (cp_running s)" | (queued) r q where "cp_queue s = r # q" "cp_running s = []"
    | (fin) r where "cp_phase s r = Some Finishing"
    | (acq) "cp_tasks s = []" "\<forall>r. cp_phase s r \<noteq> Some Finishing"
    unfolding cp_tasks_def by (cases "cp_running s"; cases "cp_queue s") auto
  then show ?thesis
  proof cases
    case (task r)
    then show ?thesis using work_decreases(2) [OF dom] hashed by blast
  next
    case (queued r q)
    then show ?thesis using work_decreases(4) [OF dom] taken_up [of s r q pool S False] assms(3) by auto
  next
    case (fin r)
    then show ?thesis using work_decreases(3) [OF dom] finished by blast
  next
    case acq
    have "sm_held S (cp_sem s) \<noteq> []"
      using cpu_okD(2-4) [OF assms(1)] assms(2,4) acq(1) by auto
    then obtain r where r: "r \<in> set (sm_held S (cp_sem s))" by (meson last_in_set)
    moreover have "cp_phase s r \<noteq> Some Hashing" using assms(1) acq(1) by (auto simp: cpu_ok_def cpu_inv_def sem_view_def)
    then have "cp_phase s r = Some Acquiring"
      using cpu_okD(4) [OF assms(1)] r acq(2) by (cases "cp_phase s r"; cases "the (cp_phase s r)") auto
    ultimately show ?thesis using work_decreases(1) [OF dom] permitted by blast
  qed
qed

lemma drops_mono: "cpu_step S pool False s s' \<Longrightarrow> cpu_step S pool d s s'"
  by (induction rule: cpu_step.induct) (blast intro: cpu_step.intros)+

lemma cpu_idle:
  assumes "semaphore_law S" "0 < limit" "0 < pool"
  shows "cpu_ok S limit d s \<Longrightarrow>
    \<exists>s'. (cpu_step S pool False)\<^sup>*\<^sup>* s s' \<and> cp_phase s' = Map.empty \<and> cp_tasks s' = []"
proof (induction s rule: measure_induct_rule [of work_left])
  case (less s)
  show ?case
  proof (cases "cp_phase s = Map.empty \<and> cp_tasks s = []")
    case False
    then obtain s1 where s1: "cpu_step S pool False s s1" "work_left s1 < work_left s"
      using cpu_progress [OF less.prems assms(2,3)] by blast
    have "cpu_step S pool d s s1" using s1(1) by (rule drops_mono)
    then have "cpu_ok S limit d s1" using cpu_ok_step [OF assms(1) _ less.prems] by blast
    then show ?thesis using less.IH [OF s1(2)] s1(1) converse_rtranclp_into_rtranclp by metis
  qed auto
qed

section \<open>Abandoned tasks\<close>

text \<open>One request after the other is given the permit, starts its task and is dropped.\<close>

lemma abandon_one:
  assumes "semaphore_law S" "sem_view S (cp_sem s) = (Suc p, [], [])" "cp_phase s = Map.empty" "r \<notin> set (cp_tasks s)"
    "length (cp_running s) < pool \<longrightarrow> cp_queue s = []"
  shows "\<exists>s'. (cpu_step S pool True)\<^sup>*\<^sup>* s s' \<and> sem_view S (cp_sem s') = (Suc p, [], []) \<and> cp_phase s' = Map.empty \<and>
    cp_running s' = (if length (cp_running s) < pool then r # cp_running s else cp_running s) \<and>
    cp_queue s' = (if length (cp_running s) < pool then [] else cp_queue s @ [r])"
proof -
  let ?x = "cp_queue s @ [r]" and ?b = "length (cp_running s) < pool"
  let ?came = "s\<lparr>cp_sem := sm_acquire S r (cp_sem s), cp_phase := (cp_phase s)(r \<mapsto> Acquiring)\<rparr>"
  let ?spawned = "?came\<lparr>cp_phase := (cp_phase ?came)(r \<mapsto> Hashing), cp_queue := cp_queue ?came @ [r]\<rparr>"
  define taken where "taken = (if ?b then ?spawned\<lparr>cp_running := r # cp_running s, cp_queue := []\<rparr> else ?spawned)"
  let ?gone = "taken\<lparr>cp_sem := give_back S r (cp_sem taken), cp_phase := (cp_phase taken)(r := None)\<rparr>"
  have v: "sem_view S (cp_sem ?came) = (p, [r], [])" using assms(1,2) by (simp add: semaphore_lawD)
  then have h: "sm_held S (sm_acquire S r (cp_sem s)) = [r]" by (simp add: sem_view_def)
  have same: "cp_sem taken = sm_acquire S r (cp_sem s)" "cp_phase taken r = Some Hashing"
    by (simp_all add: taken_def)
  have "cpu_step S pool True s ?came" using assms(3,4) by (intro arrive) simp_all
  moreover have "cpu_step S pool True ?came ?spawned" using h by (intro permitted) simp_all
  moreover have "(cpu_step S pool True)\<^sup>*\<^sup>* ?spawned taken"
  proof (cases ?b)
    case True
    then have "cpu_step S pool True ?spawned (?spawned\<lparr>cp_running := r # cp_running ?spawned, cp_queue := []\<rparr>)"
      using assms(5) by (intro taken_up) simp_all
    with True show ?thesis by (simp add: taken_def r_into_rtranclp)
  qed (simp add: taken_def)
  moreover have "cpu_step S pool True taken ?gone" using same(2) by (intro dropped) simp_all
  ultimately have "(cpu_step S pool True)\<^sup>*\<^sup>* s ?gone" by (meson r_into_rtranclp rtranclp_trans)
  moreover have "sem_view S (cp_sem ?gone) = (Suc p, [], [])"
    using assms(1) h v same(1) by (simp add: give_back_def semaphore_lawD)
  ultimately show ?thesis using assms(3) by (intro exI [of _ ?gone]) (simp add: taken_def)
qed

lemma abandon_many:
  assumes "semaphore_law S"
  shows "\<exists>s. (cpu_step S pool True)\<^sup>*\<^sup>* (cpu_start S (Suc p)) s \<and> sem_view S (cp_sem s) = (Suc p, [], []) \<and>
    cp_phase s = Map.empty \<and> set (cp_tasks s) = {..<n} \<and> length (cp_tasks s) = n \<and>
    length (cp_running s) = min n pool \<and> (length (cp_running s) < pool \<longrightarrow> cp_queue s = [])"
proof (induction n)
  case 0
  show ?case
    using assms by (intro exI [of _ "cpu_start S (Suc p)"]) (simp add: cpu_start_def semaphore_lawD cp_tasks_def)
next
  case (Suc n)
  then obtain s where s: "(cpu_step S pool True)\<^sup>*\<^sup>* (cpu_start S (Suc p)) s" "sem_view S (cp_sem s) = (Suc p, [], [])"
    "cp_phase s = Map.empty" "set (cp_tasks s) = {..<n}" "length (cp_tasks s) = n" "length (cp_running s) = min n pool"
    "length (cp_running s) < pool \<longrightarrow> cp_queue s = []" by blast
  obtain s' where s': "(cpu_step S pool True)\<^sup>*\<^sup>* s s'" "sem_view S (cp_sem s') = (Suc p, [], [])" "cp_phase s' = Map.empty"
    "cp_running s' = (if length (cp_running s) < pool then n # cp_running s else cp_running s)"
    "cp_queue s' = (if length (cp_running s) < pool then [] else cp_queue s @ [n])"
    using abandon_one [OF assms s(2,3) _ s(7), of n] s(4) by auto
  moreover have "set (cp_tasks s') = {..<Suc n} \<and> length (cp_tasks s') = Suc n"
    using s(4-7) s'(4,5) by (cases "length (cp_running s) < pool") (auto simp: cp_tasks_def lessThan_Suc)
  moreover have "length (cp_running s') = min (Suc n) pool \<and> (length (cp_running s') < pool \<longrightarrow> cp_queue s' = [])"
    using s(6,7) s'(4,5) by auto
  ultimately show ?case using rtranclp_trans [OF s(1) s'(1)] by blast
qed

section \<open>A sample semaphore\<close>

definition fifo_semaphore :: "sem_view semaphore_lib" where
  "fifo_semaphore =
     \<lparr>sm_new = (\<lambda>n. (n, [], [])), sm_acquire = after_acquire, sm_release = after_release, sm_cancel = after_cancel,
      sm_available = fst, sm_held = (\<lambda>(p, h, q). h), sm_waiting = (\<lambda>(p, h, q). q)\<rparr>"

lemma fifo_semaphore_law: "semaphore_law fifo_semaphore"
  by (simp add: semaphore_law_def sem_view_def fifo_semaphore_def case_prod_beta)

text \<open>Two requests and one permit: the task of the first is spawned, the second waits.\<close>

definition sample_cpu :: "sem_view cpu" where
  "sample_cpu = \<lparr>cp_sem = (0, [1], [2]), cp_phase = [1 \<mapsto> Hashing, 2 \<mapsto> Acquiring], cp_running = [], cp_queue = [1]\<rparr>"

lemma sample_cpu_reachable: "(cpu_step fifo_semaphore pool d)\<^sup>*\<^sup>* (cpu_start fifo_semaphore 1) sample_cpu"
proof -
  let ?S = "fifo_semaphore"
  let ?s0 = "cpu_start ?S 1"
  let ?s1 = "?s0\<lparr>cp_sem := sm_acquire ?S 1 (cp_sem ?s0), cp_phase := (cp_phase ?s0)(1 \<mapsto> Acquiring)\<rparr>"
  let ?s2 = "?s1\<lparr>cp_phase := (cp_phase ?s1)(1 \<mapsto> Hashing), cp_queue := cp_queue ?s1 @ [1]\<rparr>"
  let ?s3 = "?s2\<lparr>cp_sem := sm_acquire ?S 2 (cp_sem ?s2), cp_phase := (cp_phase ?s2)(2 \<mapsto> Acquiring)\<rparr>"
  have 1: "cpu_step ?S pool d ?s0 ?s1" by (rule arrive) (simp_all add: cpu_start_def cp_tasks_def)
  have 2: "cpu_step ?S pool d ?s1 ?s2" by (rule permitted) (simp_all add: cpu_start_def fifo_semaphore_def)
  have 3: "cpu_step ?S pool d ?s2 ?s3" by (rule arrive) (simp_all add: cpu_start_def cp_tasks_def)
  have "?s3 = sample_cpu" by (simp add: sample_cpu_def cpu_start_def fifo_semaphore_def)
  then have "(cpu_step ?S pool d)\<^sup>*\<^sup>* ?s2 sample_cpu" using 3 by (intro r_into_rtranclp) simp
  then have "(cpu_step ?S pool d)\<^sup>*\<^sup>* ?s1 sample_cpu" by (rule converse_rtranclp_into_rtranclp [where r = "cpu_step ?S pool d", OF 2])
  then show ?thesis by (rule converse_rtranclp_into_rtranclp [where r = "cpu_step ?S pool d", OF 1])
qed

section \<open>Properties\<close>

text \<open>C19. The semaphore does what it is for: at no time have more requests than the configured limit got past
  \<open>acquire\<close>, and as long as no request is dropped before it returns, the password tasks that have been spawned and not
  finished are no more than the limit either.\<close>

theorem cpu_permits_bound:
  assumes "semaphore_law S" and "(cpu_step S pool drops)\<^sup>*\<^sup>* (cpu_start S limit) s"
  shows "card {r. cp_phase s r = Some Hashing \<or> cp_phase s r = Some Finishing} \<le> limit \<and>
    (drops \<or> length (cp_tasks s) \<le> limit)"
proof -
  note ok = cpu_okD [OF cpu_ok_reachable [OF assms]]
  have "length (sm_held S (cp_sem s)) \<le> limit" using ok(2) by simp
  moreover have "card {r. cp_phase s r = Some Hashing \<or> cp_phase s r = Some Finishing} \<le> length (sm_held S (cp_sem s))"
    using card_mono [OF _ ok(1)] distinct_card [OF ok(5)] by simp
  moreover have "drops \<or> length (cp_tasks s) \<le> length (sm_held S (cp_sem s))"
    using card_mono [OF _ ok(7)] distinct_card [OF ok(5)] distinct_card [OF ok(6)] by auto
  ultimately show ?thesis by auto
qed

theorem cpu_permits_bound_witness:
  "(cpu_step fifo_semaphore 512 False)\<^sup>*\<^sup>* (cpu_start fifo_semaphore 1) sample_cpu \<and>
   card {r. cp_phase sample_cpu r = Some Hashing \<or> cp_phase sample_cpu r = Some Finishing} \<le> 1 \<and>
   length (cp_tasks sample_cpu) \<le> 1"
  using cpu_permits_bound [OF fifo_semaphore_law sample_cpu_reachable [of 512 False]] sample_cpu_reachable [of 512 False] by simp

text \<open>C36. Dropped requests defeat the limit: a permit goes back when its request is dropped, while the
  password task stays with the blocking pool.  So with any limit above zero any number of tasks can be waiting or
  running at the same time, and as many of them running as the pool has threads; only the pool bounds the
  tasks that run.\<close>

theorem dropped_requests_exceed_limit:
  assumes "semaphore_law S" and "0 < limit"
  shows "(\<exists>s. (cpu_step S pool True)\<^sup>*\<^sup>* (cpu_start S limit) s \<and> length (cp_tasks s) = n \<and>
      length (cp_running s) = min n pool) \<and>
    (\<forall>s. (cpu_step S pool True)\<^sup>*\<^sup>* (cpu_start S limit) s \<longrightarrow> length (cp_running s) \<le> pool)"
  using abandon_many [OF assms(1), of pool "limit - 1" n] assms(2) pool_bound by fastforce

theorem dropped_requests_exceed_limit_witness:
  "\<exists>s. (cpu_step fifo_semaphore 512 True)\<^sup>*\<^sup>* (cpu_start fifo_semaphore 32) s \<and>
     length (cp_tasks s) = 600 \<and> length (cp_running s) = 512"
  using dropped_requests_exceed_limit [OF fifo_semaphore_law, of 32 512 600] by simp

text \<open>No request waits for ever on its own account: with a limit and a pool above zero every reachable state can be
  continued, without dropping anything, until all requests have returned and all tasks are finished.\<close>

theorem cpu_requests_end:
  assumes "semaphore_law S" and "0 < limit" and "0 < pool" and "(cpu_step S pool drops)\<^sup>*\<^sup>* (cpu_start S limit) s"
  shows "\<exists>s'. (cpu_step S pool False)\<^sup>*\<^sup>* s s' \<and> cp_phase s' = Map.empty \<and> cp_tasks s' = []"
  using cpu_idle [OF assms(1-3) cpu_ok_reachable [OF assms(1,4)]] .

theorem cpu_requests_end_witness:
  "\<exists>s'. (cpu_step fifo_semaphore 512 False)\<^sup>*\<^sup>* sample_cpu s' \<and> cp_phase s' = Map.empty \<and> cp_tasks s' = []"
  using cpu_requests_end [OF fifo_semaphore_law _ _ sample_cpu_reachable [of 512 False]] by simp

end
