(* ===== verification/Grpc.thy ===== *)
theory Grpc
  imports Api
begin

text \<open>
  \<open>iam-api/src/identity_grpc.rs\<close>: the gRPC interface for the other services, each method behind
  the allowlist of the roles that may call it.  The messages of the protocol are records; fields
  the service leaves at their default are not modelled.
\<close>

section \<open>Allowlists\<close>

definition VERIFY_TOKEN_ROLES :: "service_role list" where
  "VERIFY_TOKEN_ROLES = [ApiGateway, TradingApi, AggregatorBridge, MeterService, service_role.Admin]"

definition AUTHORIZE_ROLES :: "service_role list" where
  "AUTHORIZE_ROLES = [ApiGateway, service_role.Admin]"

definition GET_USER_INFO_ROLES :: "service_role list" where
  "GET_USER_INFO_ROLES = [ApiGateway, service_role.Admin]"

definition VERIFY_API_KEY_ROLES :: "service_role list" where
  "VERIFY_API_KEY_ROLES = [ApiGateway, AggregatorBridge, service_role.Admin]"

definition REGISTER_USER_ROLES :: "service_role list" where
  "REGISTER_USER_ROLES = [ApiGateway, service_role.Admin]"

definition LINK_WALLET_ROLES :: "service_role list" where
  "LINK_WALLET_ROLES = [ApiGateway, service_role.Admin]"

definition GET_USER_WALLET_ROLES :: "service_role list" where
  "GET_USER_WALLET_ROLES = [AggregatorBridge, ApiGateway, service_role.Admin]"

definition INITIALIZE_USER_WALLET_ROLES :: "service_role list" where
  "INITIALIZE_USER_WALLET_ROLES = [ApiGateway, service_role.Admin]"

section \<open>Errors\<close>

datatype connect_code =
    PermissionDenied | Unauthenticated | InvalidArgument | NotFound | AlreadyExists | Unavailable
  | ResourceExhausted | FailedPrecondition | Internal

record connect_error =
  ce_code :: connect_code
  ce_message :: string

definition connect_error_new :: "connect_code \<Rightarrow> string \<Rightarrow> connect_error" where
  "connect_error_new c m = \<lparr>ce_code = c, ce_message = m\<rparr>"

type_synonym 'a rpc = "(world, connect_error, 'a) comp"

definition gate :: "edge \<Rightarrow> headers \<Rightarrow> service_role list \<Rightarrow> unit rpc" where
  "gate A hs allowed =
     from_result (map_sum (connect_error_new PermissionDenied) id (require_any A (from_headers A hs) allowed))"

definition status_connect_code :: "nat \<Rightarrow> connect_code" where
  "status_connect_code s =
     (if s = 401 then Unauthenticated
      else if s = 403 then PermissionDenied
      else if s = 400 then InvalidArgument
      else if s = 404 then connect_code.NotFound
      else if s = 409 then connect_code.AlreadyExists
      else if s = 502 then Unavailable
      else if s = 429 then ResourceExhausted
      else if s = 423 then FailedPrecondition
      else connect_code.Internal)"

definition map_api_error :: "api_error \<Rightarrow> connect_error" where
  "map_api_error e = connect_error_new (status_connect_code (status_code e)) (api_error_to_string e)"

definition parse_user_id :: "edge \<Rightarrow> env \<Rightarrow> string \<Rightarrow> uuid rpc" where
  "parse_user_id A E s =
     (case uuid_parse E s of
        Some i \<Rightarrow> ok i
      | None \<Rightarrow> throw (connect_error_new InvalidArgument (''Invalid UUID: '' @ uuid_parse_error A s)))"

section \<open>Tokens and permissions\<close>

record claims_response =
  cr_valid :: bool
  cr_user_id :: string
  cr_username :: string
  cr_role :: string
  cr_error_message :: string

definition grpc_verify_token :: "edge \<Rightarrow> env \<Rightarrow> headers \<Rightarrow> string \<Rightarrow> claims_response rpc" where
  "grpc_verify_token A E hs token =
     andthen (gate A hs VERIFY_TOKEN_ROLES)
     (bnd now (\<lambda>t.
      case decode_token E t token of
        Inr c \<Rightarrow> ok \<lparr>cr_valid = True, cr_user_id = uuid_to_string E (cl_sub c), cr_username = cl_username c,
                    cr_role = cl_role c, cr_error_message = []\<rparr>
      | Inl e \<Rightarrow> ok \<lparr>cr_valid = False, cr_user_id = [], cr_username = [], cr_role = [],
                    cr_error_message = api_error_to_string e\<rparr>))"

record authorize_response =
  az_authorized :: bool
  az_error_message :: string

definition role_authorized :: "string \<Rightarrow> string \<Rightarrow> bool" where
  "role_authorized role required_permission =
     (if role = ''admin'' then True
      else if role = ''user'' then \<not> starts_with required_permission ''admin:''
      else False)"

definition grpc_authorize :: "edge \<Rightarrow> env \<Rightarrow> headers \<Rightarrow> string \<Rightarrow> string \<Rightarrow> authorize_response rpc" where
  "grpc_authorize A E hs token required_permission =
     andthen (gate A hs AUTHORIZE_ROLES)
     (bnd now (\<lambda>t.
      case decode_token E t token of
        Inr c \<Rightarrow>
          let authorized = role_authorized (cl_role c) required_permission in
          ok \<lparr>az_authorized = authorized,
              az_error_message = (if authorized then [] else ''Insufficient permissions'')\<rparr>
      | Inl e \<Rightarrow> ok \<lparr>az_authorized = False, az_error_message = ''Invalid token: '' @ api_error_to_string e\<rparr>))"

record user_info_response =
  ui_id :: string
  ui_username :: string
  ui_email :: string
  ui_role :: string
  ui_first_name :: string
  ui_last_name :: string
  ui_wallet_address :: string

definition grpc_get_user_info :: "edge \<Rightarrow> env \<Rightarrow> headers \<Rightarrow> string \<Rightarrow> user_info_response rpc" where
  "grpc_get_user_info A E hs token =
     andthen (gate A hs GET_USER_INFO_ROLES)
     (bnd now (\<lambda>t.
      case decode_token E t token of
        Inr c \<Rightarrow> ok \<lparr>ui_id = uuid_to_string E (cl_sub c), ui_username = cl_username c, ui_email = [],
                    ui_role = cl_role c, ui_first_name = [], ui_last_name = [], ui_wallet_address = []\<rparr>
      | Inl e \<Rightarrow> throw (connect_error_new Unauthenticated (api_error_to_string e))))"

section \<open>API keys\<close>

record api_key_response =
  kv_valid :: bool
  kv_role :: string
  kv_error_message :: string

definition grpc_verify_api_key :: "edge \<Rightarrow> env \<Rightarrow> headers \<Rightarrow> string \<Rightarrow> api_key_response rpc" where
  "grpc_verify_api_key A E hs key =
     andthen (gate A hs VERIFY_API_KEY_ROLES)
     (bnd (attempt (verify_api_key E key)) (\<lambda>r.
      case r of
        Inr k \<Rightarrow> ok \<lparr>kv_valid = True, kv_role = ak_role k, kv_error_message = []\<rparr>
      | Inl (Unauthorized msg) \<Rightarrow> ok \<lparr>kv_valid = False, kv_role = [], kv_error_message = msg\<rparr>
      | Inl e \<Rightarrow> throw (connect_error_new Unavailable (api_error_to_string e))))"

section \<open>Users and wallets\<close>

record register_user_request =
  ru_username :: string
  ru_email :: string
  ru_password :: string
  ru_first_name :: string
  ru_last_name :: string

record register_user_response =
  rur_user_id :: string
  rur_username :: string
  rur_email :: string
  rur_message :: string

definition non_empty :: "string \<Rightarrow> string option" where
  "non_empty s = (if s = [] then None else Some s)"

definition grpc_register_user ::
    "edge \<Rightarrow> env \<Rightarrow> headers \<Rightarrow> register_user_request \<Rightarrow> register_user_response rpc" where
  "grpc_register_user A E hs q =
     andthen (gate A hs REGISTER_USER_ROLES)
     (map_err map_api_error
       (bnd (register E (ru_username q) (ru_email q) (ru_password q) (non_empty (ru_first_name q))
               (non_empty (ru_last_name q))) (\<lambda>res.
        ok \<lparr>rur_user_id = uuid_to_string E (rr_id res), rur_username = rr_username res,
            rur_email = rr_email res, rur_message = rr_message res\<rparr>)))"

record grpc_link_wallet_response =
  gl_wallet_id :: string
  gl_user_id :: string
  gl_wallet_address :: string
  gl_message :: string

definition grpc_link_wallet ::
    "edge \<Rightarrow> env \<Rightarrow> headers \<Rightarrow> string \<Rightarrow> string \<Rightarrow> string \<Rightarrow> bool \<Rightarrow> grpc_link_wallet_response rpc" where
  "grpc_link_wallet A E hs user_id wallet_address label is_primary =
     andthen (gate A hs LINK_WALLET_ROLES)
     (bnd (parse_user_id A E user_id) (\<lambda>i.
      map_err map_api_error
       (bnd (link_wallet E i wallet_address (Some label) is_primary) (\<lambda>res.
        ok \<lparr>gl_wallet_id = uuid_to_string E (uw_id res), gl_user_id = uuid_to_string E (uw_user_id res),
            gl_wallet_address = uw_wallet_address res, gl_message = ''Wallet linked successfully''\<rparr>))))"

definition grpc_get_user_wallet :: "edge \<Rightarrow> env \<Rightarrow> headers \<Rightarrow> string \<Rightarrow> string rpc" where
  "grpc_get_user_wallet A E hs user_id =
     andthen (gate A hs GET_USER_WALLET_ROLES)
     (bnd (parse_user_id A E user_id) (\<lambda>i. map_err map_api_error (get_primary_wallet_address E i)))"

record initialize_wallet_response =
  iw_success :: bool
  iw_message :: string
  iw_transaction_signature :: string

definition grpc_initialize_user_wallet ::
    "edge \<Rightarrow> env \<Rightarrow> headers \<Rightarrow> string \<Rightarrow> string \<Rightarrow> initialize_wallet_response rpc" where
  "grpc_initialize_user_wallet A E hs user_id wallet_address =
     andthen (gate A hs INITIALIZE_USER_WALLET_ROLES)
     (bnd (parse_user_id A E user_id) (\<lambda>i.
      map_err map_api_error
       (bnd (initialize_user_wallet E i wallet_address) (\<lambda>signature.
        ok \<lparr>iw_success = True, iw_message = ''Wallet initialized on-chain'',
            iw_transaction_signature = signature\<rparr>))))"

section \<open>The whole interface\<close>

datatype rpc_request =
    Rpc_verify_token string
  | Rpc_authorize string string
  | Rpc_get_user_info string
  | Rpc_verify_api_key string
  | Rpc_register_user register_user_request
  | Rpc_link_wallet string string string bool
  | Rpc_get_user_wallet string
  | Rpc_initialize_user_wallet string string

primrec rpc_roles :: "rpc_request \<Rightarrow> service_role list" where
  "rpc_roles (Rpc_verify_token _) = VERIFY_TOKEN_ROLES"
| "rpc_roles (Rpc_authorize _ _) = AUTHORIZE_ROLES"
| "rpc_roles (Rpc_get_user_info _) = GET_USER_INFO_ROLES"
| "rpc_roles (Rpc_verify_api_key _) = VERIFY_API_KEY_ROLES"
| "rpc_roles (Rpc_register_user _) = REGISTER_USER_ROLES"
| "rpc_roles (Rpc_link_wallet _ _ _ _) = LINK_WALLET_ROLES"
| "rpc_roles (Rpc_get_user_wallet _) = GET_USER_WALLET_ROLES"
| "rpc_roles (Rpc_initialize_user_wallet _ _) = INITIALIZE_USER_WALLET_ROLES"

datatype rpc_reply =
    Claims_reply claims_response
  | Authorize_reply authorize_response
  | User_info_reply user_info_response
  | Api_key_reply api_key_response
  | Register_reply register_user_response
  | Link_reply grpc_link_wallet_response
  | Wallet_reply string
  | Initialize_reply initialize_wallet_response

definition reply_with :: "('a \<Rightarrow> rpc_reply) \<Rightarrow> 'a rpc \<Rightarrow> rpc_reply rpc" where
  "reply_with f m = bnd m (\<lambda>x. ok (f x))"

primrec serve_rpc :: "edge \<Rightarrow> env \<Rightarrow> headers \<Rightarrow> rpc_request \<Rightarrow> rpc_reply rpc" where
  "serve_rpc A E hs (Rpc_verify_token t) = reply_with Claims_reply (grpc_verify_token A E hs t)"
| "serve_rpc A E hs (Rpc_authorize t p) = reply_with Authorize_reply (grpc_authorize A E hs t p)"
| "serve_rpc A E hs (Rpc_get_user_info t) = reply_with User_info_reply (grpc_get_user_info A E hs t)"
| "serve_rpc A E hs (Rpc_verify_api_key k) = reply_with Api_key_reply (grpc_verify_api_key A E hs k)"
| "serve_rpc A E hs (Rpc_register_user q) = reply_with Register_reply (grpc_register_user A E hs q)"
| "serve_rpc A E hs (Rpc_link_wallet u a l p) = reply_with Link_reply (grpc_link_wallet A E hs u a l p)"
| "serve_rpc A E hs (Rpc_get_user_wallet u) = reply_with Wallet_reply (grpc_get_user_wallet A E hs u)"
| "serve_rpc A E hs (Rpc_initialize_user_wallet u a) =
     reply_with Initialize_reply (grpc_initialize_user_wallet A E hs u a)"

end
