(* ===== verification/Access.thy ===== *)
theory Access
  imports Rest Grpc
begin

text \<open>
  Access control at the two interfaces: who may call what, and what a call may touch.
\<close>

section \<open>The data of others\<close>

definition others :: "uuid \<Rightarrow> world \<Rightarrow> user_rec list \<times> wallet_row list" where
  "others u w = (filter (\<lambda>r. ur_id r \<noteq> u) (users w), filter (\<lambda>r. w_user_id r \<noteq> u) (wallets w))"

interpretation iso: table_order "\<lambda>w w'. others u w' = others u w" for u
  by unfold_locales (auto simp: others_def rollback_def)

lemma keeps_others_of_tables: "keeps tables m \<Longrightarrow> keeps (others u) m"
  by (simp add: keeps_def stable_def others_def tables_def)

lemma filter_update_own:
  "(\<And>r. P r \<Longrightarrow> \<not> Q r) \<Longrightarrow> (\<And>r. P r \<Longrightarrow> \<not> Q (f r)) \<Longrightarrow> filter Q (update_where P f t) = filter Q t"
  by (induction t) (auto simp: update_where_def)

lemma others_user_update:
  assumes "\<And>w r. ur_id (f w r) = ur_id r"
  shows "keeps (others u) (\<lambda>w. write_users E (update_where (\<lambda>r. ur_id r = u) (f w) (users w)) w)"
  unfolding keeps_def
  by (rule iso.stable_write) (simp add: others_def filter_update_own assms)

lemma others_user_ops:
  "keeps (others u) (set_wallet_address E u a)"
  "keeps (others u) (mark_user_onboarded E u ut lat long pda sig)"
  unfolding set_wallet_address_def mark_user_onboarded_def keeps_def
  by (intro iso.stable_db others_user_update [unfolded keeps_def];
      simp add: onboard_row_def status_trigger_def)+

lemma others_write_wallets:
  "(\<And>w. filter (\<lambda>r. w_user_id r \<noteq> u) (t w) = filter (\<lambda>r. w_user_id r \<noteq> u) (wallets w)) \<Longrightarrow>
   keeps (others u) (\<lambda>w. write_wallets (t w) w)"
  by (rule keepsI) (simp add: write_wallets_run others_def)

lemma others_write_wallets_then:
  "(\<And>w. filter (\<lambda>r. w_user_id r \<noteq> u) (t w) = filter (\<lambda>r. w_user_id r \<noteq> u) (wallets w)) \<Longrightarrow>
   (\<And>w. keeps (others u) (k w)) \<Longrightarrow> keeps (others u) (\<lambda>w. andthen (write_wallets (t w)) (k w) w)"
  by (rule keepsI) (simp add: andthen_run write_wallets_run others_def keeps_def stable_def)

lemma demote_others: "filter (\<lambda>r. w_user_id r \<noteq> u) (demote_all u t) = filter (\<lambda>r. w_user_id r \<noteq> u) t"
  unfolding demote_all_def by (rule filter_update_own) simp_all

lemma promote_others: "filter (\<lambda>r. w_user_id r \<noteq> u) (promote i u t) = filter (\<lambda>r. w_user_id r \<noteq> u) t"
  unfolding promote_def by (rule filter_update_own) (simp_all add: is_wallet_def)

lemma others_insert_row: "keeps (others u) (insert_wallet_row i u a l p)"
  unfolding insert_wallet_row_def Let_def
  by (rule others_write_wallets_then) (simp_all add: new_wallet_row_def keeps_intros)

lemma others_delete: "keeps (others u) (delete_if_not_primary E u i)"
  unfolding delete_if_not_primary_def keeps_def Let_def
  by (rule iso.stable_db)
    (auto simp: stable_def others_def filter_filter is_wallet_def intro: filter_cong)

lemmas others_tx = iso.stable_transaction [folded keeps_def]
lemmas others_db = iso.stable_db [folded keeps_def]

lemma others_wallet_ops:
  "keeps (others u) (clear_primary E u)" "keeps (others u) (set_primary E u i)"
  "keeps (others u) (wallet_insert E u a l p)"
  unfolding clear_primary_def set_primary_def wallet_insert_def
  by (intro others_tx others_db keeps_intros others_write_wallets others_write_wallets_then
        others_insert_row keeps_tables_timed [THEN keeps_others_of_tables];
      simp add: demote_others promote_others)+

lemma others_mark_registered: "keeps (others u) (mark_registered E u a sig)"
  unfolding mark_registered_def by (rule others_db, rule others_write_wallets, rule filter_update_own) simp_all

lemmas others_all = keeps_intros others_user_ops others_wallet_ops others_delete others_mark_registered
  keeps_tables_ops [THEN keeps_others_of_tables] keeps_tables_timed [THEN keeps_others_of_tables]
  keeps_tables_reads [THEN keeps_others_of_tables] keeps_tables_events [THEN keeps_others_of_tables]
  keeps_tables_token [THEN keeps_others_of_tables] bus_tables.keeps_publish [THEN keeps_others_of_tables]

lemma others_emit: "keeps (others u) mk \<Longrightarrow> keeps (others u) (emit E mk)"
  unfolding emit_def by (intro others_all)

lemma others_handlers:
  "keeps (others u) (refresh_token E c)" "keeps (others u) (get_user_profile E u)"
  "keeps (others u) (list_wallets E u)" "keeps (others u) (get_wallet E u i)"
  "keeps (others u) (set_primary_wallet E u i)" "keeps (others u) (unlink_wallet E u i)"
  "keeps (others u) (link_wallet E u a l p)"
  "keeps (others u) (onboard_user_on_chain E u ut lat long h3 sh)"
  unfolding get_user_profile_def list_wallets_def get_wallet_def set_primary_wallet_def unlink_wallet_def
    link_wallet_def auto_register_def onboard_user_on_chain_def persist_onboarding_def
  by (intro others_all others_emit)+

section \<open>Private routes\<close>

fun private_route :: "route \<Rightarrow> bool" where
  "private_route Refresh = True"
| "private_route Me = True"
| "private_route (Onboard _) = True"
| "private_route (Link_wallet _) = True"
| "private_route List_wallets = True"
| "private_route (Get_wallet _) = True"
| "private_route (Update_wallet _ _) = True"
| "private_route (Unlink_wallet _) = True"
| "private_route _ = False"

lemmas private_handler_defs = auth_refresh_def get_me_def onboard_user_def identity_link_wallet_def
  identity_list_wallets_def identity_get_wallet_def update_wallet_def identity_unlink_wallet_def

text \<open>A private handler, whatever it does, starts with the two checks.\<close>

definition guarded :: "edge \<Rightarrow> env \<Rightarrow> headers \<Rightarrow> (claims \<Rightarrow> 'a act) \<Rightarrow> 'a act" where
  "guarded A E hs body =
     bnd (authenticated_user E hs) (\<lambda>c.
     andthen (require_role A (from_headers A hs) private_roles) (body c))"

lemmas private_unfold = dispatch.simps authenticated_def private_handler_defs guarded_def [symmetric]

definition denied :: "edge \<Rightarrow> env \<Rightarrow> headers \<Rightarrow> world \<Rightarrow> bool" where
  "denied A E hs w \<longleftrightarrow>
     (\<forall>c. fst (authenticated_user E hs w) \<noteq> Inr c) \<or> from_headers A hs \<notin> set private_roles"

lemma guarded_denied:
  assumes "require_any_law A" "denied A E hs w"
  shows "\<exists>e. replying f (guarded A E hs body) w = (Inl (Api_error e), w) \<and> status_code e \<in> {401, 403}"
proof (cases "fst (authenticated_user E hs w)")
  case (Inl e)
  then have "replying f (guarded A E hs body) w = (Inl (Api_error e), w)"
    using authenticated_user_state [of E hs w] by (simp add: replying_def guarded_def comp_simps)
  with authenticated_user_status [OF Inl] show ?thesis by auto
next
  case (Inr c)
  then have "from_headers A hs \<notin> set private_roles" using assms(2) by (simp add: denied_def)
  then obtain m where "require_role A (from_headers A hs) private_roles w = (Inl (Forbidden m), w)"
    using require_role_denied [OF assms(1)] by metis
  with Inr have "replying f (guarded A E hs body) w = (Inl (Api_error (Forbidden m)), w)"
    using authenticated_user_state [of E hs w] by (simp add: replying_def guarded_def comp_simps)
  then show ?thesis by auto
qed

lemma guarded_isolated:
  assumes "fst (authenticated_user E hs w) = Inr c" "keeps (others (cl_sub c)) (body c)"
  shows "others (cl_sub c) (snd (replying f (guarded A E hs body) w)) = others (cl_sub c) w"
  using assms authenticated_user_state [of E hs w] require_role_state [of A "from_headers A hs" private_roles w]
  by (simp add: replying_def guarded_def comp_simps keeps_def stable_def split: sum.splits)

lemma denied_routes:
  "require_any_law A \<Longrightarrow> private_route r \<Longrightarrow> denied A E hs w \<Longrightarrow>
   \<exists>e. dispatch A E hs r w = (Inl (Api_error e), w) \<and> status_code e \<in> {401, 403}"
  by (cases r) (simp_all only: private_route.simps private_unfold guarded_denied)

lemma isolated_routes:
  assumes "private_route r" "fst (authenticated_user E hs w) = Inr c"
  shows "others (cl_sub c) (snd (dispatch A E hs r w)) = others (cl_sub c) w"
  using assms(1)
  by (cases r; simp only: private_route.simps private_unfold simp_thms;
      intro guarded_isolated [OF assms(2)] others_all others_handlers)

section \<open>The gRPC gate\<close>

lemma gate_denied:
  assumes "require_any_law A" "from_headers A hs \<notin> set allowed"
  shows "\<exists>m. reply_with f (andthen (gate A hs allowed) body) w = (Inl (connect_error_new PermissionDenied m), w)"
  using assms
  by (cases "require_any A (from_headers A hs) allowed")
    (auto simp: require_any_law_def reply_with_def gate_def comp_simps)

lemmas grpc_defs = grpc_verify_token_def grpc_authorize_def grpc_get_user_info_def grpc_verify_api_key_def
  grpc_register_user_def grpc_link_wallet_def grpc_get_user_wallet_def grpc_initialize_user_wallet_def

lemma rpc_denied:
  assumes "require_any_law A" "from_headers A hs \<notin> set (rpc_roles q)"
  shows "\<exists>m. serve_rpc A E hs q w = (Inl (connect_error_new PermissionDenied m), w)"
  using assms(2)
  by (cases q; simp only: rpc_roles.simps serve_rpc.simps grpc_defs; intro gate_denied [OF assms(1)])

lemma gate_state: "snd (gate A hs allowed w) = w"
  by (simp add: gate_def comp_simps)

lemma unauthorized_key:
  assumes "fst (verify_api_key E key w) = Inl (Unauthorized m)"
  shows "\<forall>k \<in> set (api_keys w). \<not> usable_key (hash_key E key) k"
proof -
  let ?get = "cache_get E as_api_key (api_key_key (hash_key E key))"
  let ?w = "snd (?get w)"
  have same: "api_keys ?w = api_keys w"
    by (rule keepsD, rule keeps_cache) simp_all
  have "fst (find_by_hash E (hash_key E key) ?w) = Inr None"
    using assms
    by (cases "fst (find_by_hash E (hash_key E key) ?w)")
      (auto simp: verify_api_key_def Let_def comp_simps find_by_hash_def db_def io_def
        split: sum.splits option.splits outcome.splits)
  then have "find (usable_key (hash_key E key)) (api_keys w) = None"
    using same by (auto simp: find_by_hash_def db_def io_def Let_def gets_run split: outcome.splits)
  then show ?thesis by (auto simp: find_None_iff)
qed

section \<open>Sample callers\<close>

definition sample_edge :: edge where
  "sample_edge =
     \<lparr>from_headers = (\<lambda>hs. case hs ''x-gridtokenx-role'' of
         None \<Rightarrow> Unknown
       | Some r \<Rightarrow> if r = ''api-gateway'' then ApiGateway else OtherService r),
      require_any = (\<lambda>r allowed. if r \<in> set allowed then Inr () else Inl ''role not allowed''),
      uuid_parse_error = (\<lambda>_. ''bad uuid''), env_vars = Map.empty\<rparr>"

lemma sample_edge_law: "require_any_law sample_edge"
  by (simp add: require_any_law_def sample_edge_def)

definition sample_headers :: headers where
  "sample_headers =
     [''authorization'' \<mapsto> ''Bearer '' @ token_of ''supersecretjwtkey'' (claims_new 0 7 ''alice'' ''user''),
      ''x-gridtokenx-role'' \<mapsto> ''api-gateway'']"

lemma to_hex_visible: "list_all (\<lambda>c. 32 \<le> byte c \<and> byte c < 127 \<or> byte c = 9) (to_hex s)"
proof (induction s)
  case (Cons c s)
  have "of_char c div 16 < (16 :: nat)" "of_char c mod 16 < (16 :: nat)"
    using nat_of_char_less_256 [of c] less_mult_imp_div_less [of "of_char c" 16 16] by simp_all
  then show ?case using Cons by (simp add: hex_digit_def)
qed simp

lemma bearer_header:
  "header_to_str (''Bearer '' @ token_of s c) = Some (''Bearer '' @ token_of s c)"
  using to_hex_visible by (simp add: header_to_str_def token_of_def byte_def)

lemma sample_authenticated:
  "fst (authenticated_user sample_env sample_headers sample_world) = Inr (claims_new 0 7 ''alice'' ''user'')"
proof -
  have "decode_token sample_env (clock sample_world) (token_of ''supersecretjwtkey'' (claims_new 0 7 ''alice'' ''user'')) =
      Inr (claims_new 0 7 ''alice'' ''user'')"
    by (simp add: decode_token_def sample_env_def sample_config_def token_check_def claims_of_token claims_new_def
        jwt_validation_def iam_issuer_def timestamp_def sample_world_def empty_world_def)
  then show ?thesis
    using bearer_header [of "''supersecretjwtkey''" "claims_new 0 7 ''alice'' ''user''"]
    unfolding authenticated_user_Inr
    by (intro exI [of _ "''Bearer '' @ token_of ''supersecretjwtkey'' (claims_new 0 7 ''alice'' ''user'')"])
      (simp add: sample_headers_def starts_with_def)
qed

section \<open>Properties\<close>

text \<open>C3. A private route of the REST interface without a valid bearer token, or called by a service that is
  neither the gateway nor the administrator, is answered with 401 or 403 and has no effect.\<close>

theorem private_routes_guarded:
  assumes "require_any_law A" and "private_route r" and "denied A E hs w"
  shows "\<exists>e. dispatch A E hs r w = (Inl (Api_error e), w) \<and> status_code e \<in> {401, 403}"
  using assms by (rule denied_routes)

theorem private_routes_guarded_witness:
  "\<exists>e. dispatch sample_edge sample_env Map.empty Me sample_world = (Inl (Api_error e), sample_world) \<and>
       status_code e \<in> {401, 403}"
  by (rule private_routes_guarded [OF sample_edge_law])
    (simp_all add: denied_def sample_edge_def private_roles_def)

text \<open>C11. Every gRPC method called by a service that is not on its allowlist is refused with
  \<open>PermissionDenied\<close> before it reads or writes anything.\<close>

theorem grpc_fails_closed:
  assumes "require_any_law A" and "from_headers A hs \<notin> set (rpc_roles q)"
  shows "\<exists>m. serve_rpc A E hs q w = (Inl (connect_error_new PermissionDenied m), w)"
  using assms by (rule rpc_denied)

theorem grpc_fails_closed_witness:
  "\<exists>m. serve_rpc sample_edge sample_env Map.empty (Rpc_link_wallet ''7'' ''12'' ''x'' True) sample_world =
     (Inl (connect_error_new PermissionDenied m), sample_world)"
  by (rule grpc_fails_closed [OF sample_edge_law]) (simp add: sample_edge_def LINK_WALLET_ROLES_def)



text \<open>C34. An API key is reported as invalid only when the database has answered that no active key has its
  hash; lost calls to the database are reported as unavailability.\<close>

theorem api_key_invalid_means_absent:
  assumes "fst (grpc_verify_api_key A E hs key w) = Inr r" and "\<not> kv_valid r"
  shows "\<forall>k \<in> set (api_keys w). \<not> usable_key (hash_key E key) k"
proof -
  have "\<exists>m. fst (verify_api_key E key w) = Inl (Unauthorized m)"
    using assms gate_state [of A hs VERIFY_API_KEY_ROLES w]
    by (auto simp: grpc_verify_api_key_def comp_simps split: sum.splits api_error.splits)
  then show ?thesis using unauthorized_key by blast
qed

theorem api_key_invalid_means_absent_witness:
  "\<not> list_ex (usable_key (hash_key sample_env ''k'')) (api_keys sample_world)"
proof -
  let ?hs = "[''x-gridtokenx-role'' \<mapsto> ''api-gateway'']"
  have "fst (grpc_verify_api_key sample_edge sample_env ?hs ''k'' sample_world) =
      Inr \<lparr>kv_valid = False, kv_role = [], kv_error_message = ''Invalid API Key''\<rparr>"
    by (simp add: grpc_verify_api_key_def gate_def sample_edge_def VERIFY_API_KEY_ROLES_def comp_simps
        verify_api_key_def Let_def cache_get_def get_value_def get_raw_def find_by_hash_def redis_cmd_def db_def
        sample_fresh redis_defs sample_world_def empty_world_def)
  then have "\<forall>k \<in> set (api_keys sample_world). \<not> usable_key (hash_key sample_env ''k'') k"
    by (rule api_key_invalid_means_absent) simp
  then show ?thesis by (simp add: list_ex_iff)
qed

end
