(* ===== verification/Metrics.thy ===== *)
theory Metrics
  imports Access
begin

text \<open>
  \<open>iam-api/src/middleware/metrics.rs\<close>, what the handlers of \<open>handlers/auth.rs\<close> record, and the \<open>/metrics\<close>
  endpoint of \<open>startup.rs\<close>.  The \<open>metrics\<close> library hands every operation to the recorder of the process
  and drops it while there is none; a recorder is the list of the operations it has received, and what
  it renders is a parameter.  Durations are taken from the clock and exact.
\<close>

section \<open>Metric operations\<close>

type_synonym metric_key = "string \<times> (string \<times> string) list"

datatype metric_op =
    Counter_increment metric_key "64 word"
  | Gauge_increment metric_key rat
  | Gauge_decrement metric_key rat
  | Gauge_set metric_key rat
  | Histogram_record metric_key rat

definition bool_to_string :: "bool \<Rightarrow> string" where
  "bool_to_string b = (if b then ''true'' else ''false'')"

definition record_auth_attempt :: "string \<Rightarrow> bool \<Rightarrow> metric_op list" where
  "record_auth_attempt method success =
     Counter_increment (''iam_auth_attempts_total'', [(''method'', method), (''success'', bool_to_string success)]) 1 #
     (if \<not> success then [Counter_increment (''iam_auth_failures_total'', [(''method'', method)]) 1] else [])"

definition record_auth_failure :: "string \<Rightarrow> string \<Rightarrow> metric_op list" where
  "record_auth_failure method reason =
     [Counter_increment (''iam_auth_failures_total'', [(''method'', method), (''reason'', reason)]) 1]"

definition record_jwt_operation :: "string \<Rightarrow> bool \<Rightarrow> rat \<Rightarrow> metric_op list" where
  "record_jwt_operation operation success duration_ms =
     [Counter_increment (''iam_jwt_operations_total'',
        [(''operation'', operation), (''success'', bool_to_string success)]) 1,
      Histogram_record (''iam_jwt_operation_duration_ms'', [(''operation'', operation)]) duration_ms]"

definition record_api_key_operation :: "string \<Rightarrow> bool \<Rightarrow> rat \<Rightarrow> metric_op list" where
  "record_api_key_operation operation success duration_ms =
     [Counter_increment (''iam_api_key_operations_total'',
        [(''operation'', operation), (''success'', bool_to_string success)]) 1,
      Histogram_record (''iam_api_key_operation_duration_ms'', [(''operation'', operation)]) duration_ms]"

definition record_user_operation :: "string \<Rightarrow> bool \<Rightarrow> metric_op list" where
  "record_user_operation operation success =
     [Counter_increment (''iam_user_operations_total'',
        [(''operation'', operation), (''success'', bool_to_string success)]) 1]"

definition record_api_key_validation :: "bool \<Rightarrow> rat \<Rightarrow> metric_op list" where
  "record_api_key_validation success duration_ms =
     [Counter_increment (''iam_api_key_validations_total'', [(''success'', bool_to_string success)]) 1,
      Histogram_record (''iam_api_key_validation_duration_ms'', []) duration_ms]"

definition record_redis_operation :: "string \<Rightarrow> bool \<Rightarrow> rat \<Rightarrow> metric_op list" where
  "record_redis_operation operation success duration_ms =
     [Counter_increment (''iam_redis_operations_total'',
        [(''operation'', operation), (''success'', bool_to_string success)]) 1,
      Histogram_record (''iam_redis_operation_duration_ms'', [(''operation'', operation)]) duration_ms]"

text \<open>\<open>u64 as f64\<close>, rounded to 53 significant bits.\<close>

definition f64_of_u64 :: "64 word \<Rightarrow> rat" where
  "f64_of_u64 x = of_nat (round53 (unat x))"

definition record_active_sessions :: "64 word \<Rightarrow> metric_op list" where
  "record_active_sessions sessions = [Gauge_set (''iam_active_sessions'', []) (f64_of_u64 sessions)]"

definition record_cpu_wait_duration :: "string \<Rightarrow> rat \<Rightarrow> metric_op list" where
  "record_cpu_wait_duration operation duration_ms =
     [Histogram_record (''iam_auth_cpu_semaphore_wait_duration_ms'', [(''operation'', operation)]) duration_ms]"

section \<open>The recorder\<close>

text \<open>
  \<open>rc_global\<close>: the recorder of the process, if one is installed.  \<open>rc_handle\<close>: the \<open>OnceLock\<close> of \<open>get_metrics\<close>, not
  yet set, or set to whether the installation succeeded.
\<close>

record recorder =
  rc_global :: "metric_op list option"
  rc_handle :: "bool option"

type_synonym ('e, 'a) metered = "(world \<times> recorder, 'e, 'a) comp"

definition received :: "metric_op list \<Rightarrow> recorder \<Rightarrow> recorder" where
  "received ops rc = rc\<lparr>rc_global := map_option (\<lambda>l. l @ ops) (rc_global rc)\<rparr>"

definition emit_metrics :: "metric_op list \<Rightarrow> ('e, unit) metered" where
  "emit_metrics ops = modify (\<lambda>(w, rc). (w, received ops rc))"

text \<open>A call that records nothing.\<close>

definition unmetered :: "(world, 'e, 'a) comp \<Rightarrow> ('e, 'a) metered" where
  "unmetered m = (\<lambda>(w, rc). (fst (m w), (snd (m w), rc)))"

definition elapsed_secs :: "int \<Rightarrow> int \<Rightarrow> rat" where
  "elapsed_secs t t' = of_int (t' - t) / 1000"

section \<open>Middleware\<close>

definition in_flight_key :: "string \<Rightarrow> string \<Rightarrow> metric_key" where
  "in_flight_key method path = (''iam_http_requests_in_flight'', [(''method'', method), (''path'', path)])"

definition http_enter :: "string \<Rightarrow> string \<Rightarrow> metric_op list" where
  "http_enter method path = [Gauge_increment (in_flight_key method path) 1]"

definition http_leave :: "string \<Rightarrow> string \<Rightarrow> nat \<Rightarrow> rat \<Rightarrow> metric_op list" where
  "http_leave method path status duration =
     [Counter_increment (''iam_http_requests_total'', [(''method'', method), (''path'', path)]) 1,
      Histogram_record (''iam_http_request_duration_seconds'',
        [(''method'', method), (''path'', path), (''status'', show_nat status)]) duration] @
     (if 500 \<le> status
      then [Counter_increment (''iam_http_errors_total'',
              [(''method'', method), (''path'', path), (''status'', show_nat status)]) 1]
      else []) @
     [Gauge_decrement (in_flight_key method path) 1]"

text \<open>
  \<open>next.run\<close> always yields a response: an error of a handler has become a response with its status.  So the
  second half runs for every result, and \<open>status_of\<close> is the status of an error as well.
\<close>

definition metrics_middleware ::
    "string \<Rightarrow> string \<Rightarrow> ('e + 'r \<Rightarrow> nat) \<Rightarrow> ('e, 'r) metered \<Rightarrow> ('e, 'r) metered" where
  "metrics_middleware method path status_of run_next =
     bnd (gets (\<lambda>(w, rc). clock w)) (\<lambda>start.
     andthen (emit_metrics (http_enter method path))
     (bnd (attempt run_next) (\<lambda>response.
      bnd (gets (\<lambda>(w, rc). clock w)) (\<lambda>stop.
      andthen (emit_metrics (http_leave method path (status_of response) (elapsed_secs start stop)))
      (from_result response)))))"

definition grpc_flight_key :: "string \<Rightarrow> metric_key" where
  "grpc_flight_key path = (''iam_grpc_requests_in_flight'', [(''method'', path)])"

definition grpc_metrics_middleware ::
    "string \<Rightarrow> ('e + 'r \<Rightarrow> nat) \<Rightarrow> ('e, 'r) metered \<Rightarrow> ('e, 'r) metered" where
  "grpc_metrics_middleware path status_of run_next =
     bnd (gets (\<lambda>(w, rc). clock w)) (\<lambda>start.
     andthen (emit_metrics [Gauge_increment (grpc_flight_key path) 1])
     (bnd (attempt run_next) (\<lambda>response.
      bnd (gets (\<lambda>(w, rc). clock w)) (\<lambda>stop.
      let status_str = show_nat (status_of response) in
      andthen (emit_metrics
        [Counter_increment (''iam_grpc_requests_total'', [(''method'', path), (''status'', status_str)]) 1,
         Histogram_record (''iam_grpc_request_duration_seconds'', [(''method'', path), (''status'', status_str)])
           (elapsed_secs start stop),
         Gauge_decrement (grpc_flight_key path) 1])
      (from_result response)))))"

section \<open>The handlers with their metrics\<close>

definition registration_ops :: "bool \<Rightarrow> metric_op list" where
  "registration_ops success =
     record_user_operation ''register'' success @
     (if \<not> success then record_auth_failure ''register'' ''registration_error'' else [])"

definition login_ops :: "bool \<Rightarrow> metric_op list" where
  "login_ops success =
     record_auth_attempt ''login'' success @ record_user_operation ''login'' success @
     (if \<not> success then record_auth_failure ''login'' ''invalid_credentials'' else [])"

text \<open>\<open>let result = call; record(result.is_ok()); let response = result?\<close>\<close>

definition recording :: "(bool \<Rightarrow> metric_op list) \<Rightarrow> (world, 'e, 'a) comp \<Rightarrow> ('e, 'a) metered" where
  "recording ops call =
     bnd (attempt (unmetered call)) (\<lambda>result.
     andthen (emit_metrics (ops (is_ok result))) (from_result result))"

definition metered_register ::
    "edge \<Rightarrow> env \<Rightarrow> service_role \<Rightarrow> registration_request \<Rightarrow> (api_error, registration_response) metered" where
  "metered_register A E role request =
     andthen (unmetered (require_role A role public_roles))
     (bnd (recording registration_ops
             (register E (rq_username request) (rq_email request) (rq_password request)
                (rq_first_name request) (rq_last_name request))) (\<lambda>response.
      ok \<lparr>rg_id = rr_id response, rg_username = rr_username response, rg_email = rr_email response,
          rg_status = ''pending_verification'',
          rg_message = Some ''Registration successful! Please verify your email.''\<rparr>))"

definition metered_login ::
    "edge \<Rightarrow> env \<Rightarrow> service_role \<Rightarrow> login_request \<Rightarrow> (api_error, auth_response) metered" where
  "metered_login A E role request =
     andthen (unmetered (require_role A role public_roles))
     (bnd (recording login_ops (login E (lq_username request) (lq_password request))) (\<lambda>response.
      ok (auth_response_of response)))"

definition metered_refresh ::
    "edge \<Rightarrow> env \<Rightarrow> service_role \<Rightarrow> claims \<Rightarrow> (api_error, refresh_response) metered" where
  "metered_refresh A E role c =
     andthen (unmetered (require_role A role private_roles))
     (bnd (unmetered (refresh_token E c)) (\<lambda>(access_token, expires_in).
      andthen (emit_metrics (record_auth_attempt ''refresh'' True))
      (ok \<lparr>rs_access_token = access_token, rs_expires_in = expires_in, rs_token_type = ''Bearer''\<rparr>)))"

definition metered_verify ::
    "edge \<Rightarrow> env \<Rightarrow> service_role \<Rightarrow> string \<Rightarrow> (api_error, verify_email_response) metered" where
  "metered_verify A E role token =
     andthen (unmetered (require_role A role public_roles))
     (bnd (recording (record_user_operation ''verify'') (verify_email E token)) (\<lambda>response.
      ok \<lparr>vr_success = ve_success response, vr_message = ve_message response,
          vr_wallet_address = ve_wallet_address response,
          vr_auth = map_option auth_response_of (ve_auth response)\<rparr>))"

text \<open>
  The REST interface with what its handlers record: four of them record, the others and the rate limiter do
  not.  The status of an answer is that of \<open>Http.reply_json\<close>, and of the error for an error.
\<close>

fun metered_dispatch :: "edge \<Rightarrow> env \<Rightarrow> headers \<Rightarrow> route \<Rightarrow> (rest_error, reply) metered" where
  "metered_dispatch A E hs (Register q) =
     map_err Api_error (bnd (metered_register A E (from_headers A hs) q) (\<lambda>x. ok (R_registration x)))"
| "metered_dispatch A E hs (Login q) =
     map_err Api_error (bnd (metered_login A E (from_headers A hs) q) (\<lambda>x. ok (R_auth x)))"
| "metered_dispatch A E hs Refresh =
     map_err Api_error (bnd (unmetered (authenticated_user E hs)) (\<lambda>c.
       bnd (metered_refresh A E (from_headers A hs) c) (\<lambda>x. ok (R_refresh x))))"
| "metered_dispatch A E hs (Verify token) =
     map_err Api_error (bnd (metered_verify A E (from_headers A hs) token) (\<lambda>x. ok (R_verify x)))"
| "metered_dispatch A E hs r = unmetered (dispatch A E hs r)"

definition metered_serve :: "edge \<Rightarrow> env \<Rightarrow> string \<Rightarrow> headers \<Rightarrow> route \<Rightarrow> (rest_error, reply) metered" where
  "metered_serve A E ip hs r =
     (case auth_path r of
        Some path \<Rightarrow>
          (let (limit, window) = limits_for_path (env_vars A) path in
           bnd (attempt (unmetered (check_rate_limit E ip path limit window))) (\<lambda>v.
           case v of Inr _ \<Rightarrow> metered_dispatch A E hs r | Inl _ \<Rightarrow> throw (Status 429)))
      | None \<Rightarrow> metered_dispatch A E hs r)"

definition answer_status :: "rest_error + reply \<Rightarrow> nat" where
  "answer_status a =
     (case a of Inl e \<Rightarrow> rest_status e | Inr (R_json status _) \<Rightarrow> status | Inr _ \<Rightarrow> 200)"

section \<open>The metrics endpoint\<close>

record prometheus_lib =
  pm_buckets_accepted :: "string \<Rightarrow> rat list \<Rightarrow> bool"
  pm_render :: "metric_op list \<Rightarrow> string"

definition iam_buckets :: "rat list" where
  "iam_buckets = [1/1000, 5/1000, 1/100, 25/1000, 5/100, 1/10, 25/100, 5/10, 1, 25/10, 5, 10]"

text \<open>
  The initialiser runs once.  \<open>install_recorder\<close> fails when the process has a recorder already.
\<close>

definition init_handle :: "prometheus_lib \<Rightarrow> recorder \<Rightarrow> recorder" where
  "init_handle L rc =
     (if rc_handle rc \<noteq> None then rc
      else if pm_buckets_accepted L ''iam'' iam_buckets \<and> rc_global rc = None
      then \<lparr>rc_global = Some [], rc_handle = Some True\<rparr>
      else rc\<lparr>rc_handle := Some False\<rparr>)"

definition get_metrics :: "prometheus_lib \<Rightarrow> ('e, nat \<times> string) metered" where
  "get_metrics L =
     andthen (modify (\<lambda>(w, rc). (w, init_handle L rc)))
     (gets (\<lambda>(w, rc).
        if rc_handle rc = Some True then (200, pm_render L (case rc_global rc of None \<Rightarrow> [] | Some l \<Rightarrow> l))
        else (500, ''Metrics recorder failed to initialize'')))"

text \<open>The endpoint never fails.\<close>

definition scrape_status :: "unit + nat \<times> string \<Rightarrow> nat" where
  "scrape_status a = (case a of Inl _ \<Rightarrow> 500 | Inr (status, _) \<Rightarrow> status)"

section \<open>Reading a recorder\<close>

text \<open>The value of a gauge, and the sum of all counters of a name, whatever their labels.\<close>

fun gauge_op :: "metric_key \<Rightarrow> metric_op \<Rightarrow> rat \<Rightarrow> rat" where
  "gauge_op k (Gauge_increment k' x) v = (if k' = k then v + x else v)"
| "gauge_op k (Gauge_decrement k' x) v = (if k' = k then v - x else v)"
| "gauge_op k (Gauge_set k' x) v = (if k' = k then x else v)"
| "gauge_op k _ v = v"

definition gauge_value :: "metric_key \<Rightarrow> metric_op list \<Rightarrow> rat" where
  "gauge_value k ops = fold (gauge_op k) ops 0"

fun counted :: "string \<Rightarrow> metric_op \<Rightarrow> 64 word" where
  "counted name (Counter_increment (n, ls) x) = (if n = name then x else 0)"
| "counted name _ = 0"

definition family_total :: "string \<Rightarrow> metric_op list \<Rightarrow> 64 word" where
  "family_total name ops = sum_list (map (counted name) ops)"

fun in_histogram :: "string \<Rightarrow> metric_op \<Rightarrow> bool" where
  "in_histogram name (Histogram_record (n, ls) x) = (n = name)"
| "in_histogram name _ = False"

lemma f64_of_u64_exact:
  assumes "unat x < 2 ^ 53"
  shows "f64_of_u64 x = of_nat (unat x)"
  using assms by (simp add: f64_of_u64_def round53_exact)

lemma gauge_value_append: "gauge_value k (xs @ ys) = fold (gauge_op k) ys (gauge_value k xs)"
  by (simp add: gauge_value_def)

lemma http_gauge:
  "fold (gauge_op (in_flight_key m p)) (http_enter m' p') v = v + (if (m', p') = (m, p) then 1 else 0)"
  "fold (gauge_op (in_flight_key m p)) (http_leave m' p' st d) v = v - (if (m', p') = (m, p) then 1 else 0)"
  by (auto simp: http_enter_def http_leave_def in_flight_key_def)

section \<open>Metrics do not change what a request does\<close>

lemma emit_metrics_run: "emit_metrics ops x = (Inr (), (fst x, received ops (snd x)))"
  by (simp add: emit_metrics_def modify_run case_prod_beta)

lemma simulates_unmetered: "simulates fst (unmetered m) m"
  by (simp add: simulates_def unmetered_def case_prod_beta)

lemma simulates_recording: "simulates fst (recording ops m) m"
  by (simp add: simulates_def recording_def bnd_run attempt_run andthen_run from_result_run unmetered_def case_prod_beta
      emit_metrics_run)

lemma simulates_middleware: "simulates fst n m \<Longrightarrow> simulates fst (metrics_middleware meth path st n) m"
  unfolding simulates_def
proof (intro allI)
  fix x :: "world \<times> recorder"
  assume n: "\<forall>x. m (fst x) = (fst (n x), fst (snd (n x)))"
  obtain w rc where x: "x = (w, rc)" by (cases x)
  let ?r = "received (http_enter meth path) rc"
  have "m w = (fst (n (w, ?r)), fst (snd (n (w, ?r))))" using n [rule_format, of "(w, ?r)"] by simp
  then show "m (fst x) = (fst (metrics_middleware meth path st n x), fst (snd (metrics_middleware meth path st n x)))"
    by (simp add: x metrics_middleware_def comp_simps emit_metrics_run case_prod_beta split: sum.split)
qed

lemma simulates_metered_handlers:
  "simulates fst (metered_register A E role q) (auth_register A E role q)"
  "simulates fst (metered_login A E role q2) (auth_login A E role q2)"
  "simulates fst (metered_refresh A E role c) (auth_refresh A E role c)"
  "simulates fst (metered_verify A E role token) (auth_verify A E role token)"
proof -
  note intros = simulates_andthen simulates_bnd simulates_unmetered simulates_recording simulates_ok
  show "simulates fst (metered_register A E role q) (auth_register A E role q)"
    unfolding metered_register_def auth_register_def by (intro intros)
  show "simulates fst (metered_login A E role q2) (auth_login A E role q2)"
    unfolding metered_login_def auth_login_def by (intro intros)
  show "simulates fst (metered_verify A E role token) (auth_verify A E role token)"
    unfolding metered_verify_def auth_verify_def by (intro intros)
  have "simulates fst (andthen (emit_metrics ops) (ok x)) (ok x)" for ops and x :: refresh_response
    by (simp add: simulates_def andthen_run emit_metrics_run ok_run)
  then show "simulates fst (metered_refresh A E role c) (auth_refresh A E role c)"
    unfolding metered_refresh_def auth_refresh_def by (intro intros) (simp add: case_prod_beta)
qed

lemma bnd_assoc: "bnd (bnd m k) h = bnd m (\<lambda>x. bnd (k x) h)"
  by (simp add: fun_eq_iff bnd_run split: sum.splits)

lemma simulates_metered_dispatch: "simulates fst (metered_dispatch A E hs r) (dispatch A E hs r)"
  by (cases r)
    (simp_all add: simulates_unmetered replying_def authenticated_def bnd_assoc,
     (intro simulates_map_err simulates_bnd simulates_unmetered simulates_metered_handlers simulates_ok)+)

lemma simulates_metered_serve: "simulates fst (metered_serve A E ip hs r) (serve_rest A E ip hs r)"
  unfolding metered_serve_def serve_rest_def rate_limit_middleware_def Let_def case_prod_beta
  by (intro simulates_option simulates_bnd simulates_attempt simulates_unmetered simulates_sum
      simulates_metered_dispatch simulates_throw)

section \<open>What a request records\<close>

text \<open>What the handlers record is none of the families of the middleware.\<close>

fun op_name :: "metric_op \<Rightarrow> string" where
  "op_name (Counter_increment k x) = fst k"
| "op_name (Gauge_increment k y) = fst k"
| "op_name (Gauge_decrement k y) = fst k"
| "op_name (Gauge_set k y) = fst k"
| "op_name (Histogram_record k y) = fst k"

definition quiet :: "metric_op \<Rightarrow> bool" where
  "quiet op \<longleftrightarrow> op_name op \<notin> {''iam_http_requests_in_flight'', ''iam_http_requests_total'',
     ''iam_http_request_duration_seconds'', ''iam_http_errors_total''}"

definition appends_quiet :: "world \<times> recorder \<Rightarrow> world \<times> recorder \<Rightarrow> bool" where
  "appends_quiet x y \<longleftrightarrow>
     (\<exists>new. list_all quiet new \<and> rc_global (snd y) = map_option (\<lambda>l. l @ new) (rc_global (snd x)))"

interpretation quietly: state_order appends_quiet
proof
  show "appends_quiet x x" for x
    unfolding appends_quiet_def by (intro exI [of _ "[]"]) (simp add: option.map_ident)
  show "appends_quiet x z" if xy: "appends_quiet x y" and yz: "appends_quiet y z" for x y z
  proof -
    from xy yz obtain a b where "list_all quiet a" "list_all quiet b"
      "rc_global (snd y) = map_option (\<lambda>l. l @ a) (rc_global (snd x))"
      "rc_global (snd z) = map_option (\<lambda>l. l @ b) (rc_global (snd y))"
      unfolding appends_quiet_def by blast
    then show ?thesis
      unfolding appends_quiet_def by (intro exI [of _ "a @ b"]) (simp add: option.map_comp comp_def)
  qed
qed

lemma quiet_unmetered: "stable appends_quiet (unmetered m)"
  using quietly.refl by (simp add: stable_def unmetered_def case_prod_beta appends_quiet_def)

lemma quiet_emit: "list_all quiet ops \<Longrightarrow> stable appends_quiet (emit_metrics ops)"
  by (auto simp: stable_def emit_metrics_run appends_quiet_def received_def)

lemma quiet_handler_ops:
  "list_all quiet (registration_ops b)" "list_all quiet (login_ops b)"
  "list_all quiet (record_auth_attempt meth b)" "list_all quiet (record_user_operation op b)"
  by (simp_all add: registration_ops_def login_ops_def record_auth_attempt_def record_user_operation_def
      record_auth_failure_def quiet_def)

lemma quiet_recording: "(\<And>b. list_all quiet (ops b)) \<Longrightarrow> stable appends_quiet (recording ops call)"
  unfolding recording_def by (intro quietly.stable_intros quiet_unmetered quiet_emit)

lemma quiet_handlers:
  "stable appends_quiet (metered_register A E role q)" "stable appends_quiet (metered_login A E role q2)"
  "stable appends_quiet (metered_refresh A E role c)" "stable appends_quiet (metered_verify A E role token)"
  unfolding metered_register_def metered_login_def metered_refresh_def metered_verify_def
  by (intro quietly.stable_intros quiet_unmetered quiet_recording quiet_handler_ops quiet_emit)+

lemma quiet_dispatch: "stable appends_quiet (metered_dispatch A E hs r)"
  by (cases r)
    (simp_all add: quiet_unmetered, (intro quietly.stable_intros quiet_unmetered quiet_handlers)+)

lemma quiet_serve: "stable appends_quiet (metered_serve A E ip hs r)"
  unfolding metered_serve_def by (intro quietly.stable_intros quiet_unmetered quiet_dispatch)

lemma quiet_totals:
  assumes "list_all quiet ops"
  shows "family_total ''iam_http_requests_total'' ops = 0" "family_total ''iam_http_errors_total'' ops = 0"
    "filter (in_histogram ''iam_http_request_duration_seconds'') ops = []"
    "fold (gauge_op (in_flight_key m p)) ops v = v"
  using assms
proof (induction ops arbitrary: v)
  case (Cons op ops)
  { case 1 then show ?case using Cons.IH(1) by (cases op) (auto simp: family_total_def quiet_def)
  next case 2 then show ?case using Cons.IH(2) by (cases op) (auto simp: family_total_def quiet_def)
  next case 3 then show ?case using Cons.IH(3) by (cases op) (auto simp: quiet_def)
  next case 4 then show ?case using Cons.IH(4) by (cases op) (auto simp: quiet_def in_flight_key_def) }
qed (simp_all add: family_total_def)

lemma middleware_records:
  assumes "stable appends_quiet n" "rc_global rc = Some ops"
  shows "\<exists>mid. list_all quiet mid \<and>
    rc_global (snd (snd (metrics_middleware m p st n (w, rc)))) =
      Some (ops @ http_enter m p @ mid @ http_leave m p (st (fst (metrics_middleware m p st n (w, rc))))
        (elapsed_secs (clock w) (clock (fst (snd (metrics_middleware m p st n (w, rc)))))))"
proof -
  let ?x = "(w, received (http_enter m p) rc)"
  have "appends_quiet ?x (snd (n ?x))" using assms(1) by (simp add: stable_def)
  then obtain mid where mid: "list_all quiet mid" "rc_global (snd (snd (n ?x))) = Some ((ops @ http_enter m p) @ mid)"
    using assms(2) by (auto simp: appends_quiet_def received_def)
  obtain r w' rc' where n: "n ?x = (r, w', rc')" by (metis prod.collapse)
  have "metrics_middleware m p st n (w, rc) =
      (r, w', received (http_leave m p (st r) (elapsed_secs (clock w) (clock w'))) rc')"
    using n by (simp add: metrics_middleware_def comp_simps emit_metrics_run)
  then show ?thesis using mid n by (intro exI [of _ mid]) (simp add: received_def)
qed

section \<open>Requests in flight\<close>

text \<open>
  Requests pass the middleware concurrently.  A request that is dropped (its client has gone away)
  never reaches the second half of the middleware.
\<close>

record flights =
  fl_running :: "(string \<times> string) list"
  fl_dropped :: "(string \<times> string) list"
  fl_ops :: "metric_op list"

definition no_flights :: flights where
  "no_flights = \<lparr>fl_running = [], fl_dropped = [], fl_ops = []\<rparr>"

inductive flight_step :: "flights \<Rightarrow> flights \<Rightarrow> bool" where
  entered: "flight_step s (s\<lparr>fl_running := (m, p) # fl_running s, fl_ops := fl_ops s @ http_enter m p\<rparr>)"
| left_with: "(m, p) \<in> set (fl_running s) \<Longrightarrow>
    flight_step s (s\<lparr>fl_running := remove1 (m, p) (fl_running s), fl_ops := fl_ops s @ http_leave m p st d\<rparr>)"
| lost: "(m, p) \<in> set (fl_running s) \<Longrightarrow>
    flight_step s (s\<lparr>fl_running := remove1 (m, p) (fl_running s), fl_dropped := (m, p) # fl_dropped s\<rparr>)"
| recorded: "flight_step s (s\<lparr>fl_ops := fl_ops s @ login_ops b\<rparr>)"

lemma removed_count: "x \<in> set xs \<Longrightarrow> count_list xs y = count_list (remove1 x xs) y + (if x = y then 1 else 0)"
  by (induction xs) auto

definition flights_inv :: "flights \<Rightarrow> bool" where
  "flights_inv s \<longleftrightarrow>
     (\<forall>m p. gauge_value (in_flight_key m p) (fl_ops s) =
        of_nat (count_list (fl_running s) (m, p) + count_list (fl_dropped s) (m, p)))"

lemma login_ops_gauge: "fold (gauge_op (in_flight_key m p)) (login_ops b) v = v"
  by (simp add: login_ops_def record_auth_attempt_def record_user_operation_def record_auth_failure_def)

lemma flights_inv_step: "flight_step s s' \<Longrightarrow> flights_inv s \<Longrightarrow> flights_inv s'"
proof (induction rule: flight_step.induct)
  case (left_with m p s st d)
  define rest where "rest = remove1 (m, p) (fl_running s)"
  have "rat_of_nat (count_list (fl_running s) x) = of_nat (count_list rest x) + (if (m, p) = x then 1 else 0)" for x
    unfolding rest_def by (subst removed_count [OF left_with(1)]) simp
  then show ?case
    using left_with(2) by (simp add: flights_inv_def gauge_value_append http_gauge flip: rest_def)
next
  case (lost m p s)
  define rest where "rest = remove1 (m, p) (fl_running s)"
  have "count_list (fl_running s) x = count_list rest x + (if (m, p) = x then 1 else 0)" for x
    unfolding rest_def by (rule removed_count [OF lost(1)])
  then show ?case
    using lost(2) by (simp add: flights_inv_def flip: rest_def)
qed (auto simp: flights_inv_def gauge_value_append http_gauge login_ops_gauge)

section \<open>Properties\<close>

text \<open>C26. Every answered request is counted, whatever the answer: for every route, every pattern of faults and
  every reply, an error or not, the service with its metrics answers and changes its state as \<open>serve_rest\<close>, and
  the recorder has then received one increment of the request counter, one of the error counter exactly when the
  status is 500 or more, one duration, labelled with the status of the answer, and the in-flight gauges are back
  at their values.\<close>

theorem every_request_counted:
  assumes "rc_global rc = Some ops"
    and "(res, w', rc') = metrics_middleware m p answer_status (metered_serve A E ip hs r) (w, rc)"
  shows "(res, w') = serve_rest A E ip hs r w \<and>
    (\<exists>new. rc_global rc' = Some (ops @ new) \<and> family_total ''iam_http_requests_total'' new = 1 \<and>
       family_total ''iam_http_errors_total'' new = (if 500 \<le> answer_status res then 1 else 0) \<and>
       filter (in_histogram ''iam_http_request_duration_seconds'') new =
         [Histogram_record (''iam_http_request_duration_seconds'',
            [(''method'', m), (''path'', p), (''status'', show_nat (answer_status res))])
            (of_int (clock w' - clock w) / 1000)] \<and>
       (\<forall>m' p'. gauge_value (in_flight_key m' p') (ops @ new) = gauge_value (in_flight_key m' p') ops))"
proof -
  note res = assms(2) [symmetric]
  have "(res, w') = serve_rest A E ip hs r w"
    using simulatesD [OF simulates_middleware [OF simulates_metered_serve], of m p answer_status A E ip hs r "(w, rc)"]
    by (simp add: res prod_eq_iff)
  moreover obtain mid where mid: "list_all quiet mid"
      "rc_global rc' = Some (ops @ http_enter m p @ mid @ http_leave m p (answer_status res) (elapsed_secs (clock w) (clock w')))"
    using middleware_records [OF quiet_serve assms(1), of m p answer_status A E ip hs r w] by (auto simp: res)
  define new where "new = http_enter m p @ mid @ http_leave m p (answer_status res) (elapsed_secs (clock w) (clock w'))"
  have "family_total ''iam_http_requests_total'' new = 1"
    "family_total ''iam_http_errors_total'' new = (if 500 \<le> answer_status res then 1 else 0)"
    using quiet_totals(1,2) [OF mid(1)] by (simp_all add: new_def family_total_def http_enter_def http_leave_def)
  moreover have "filter (in_histogram ''iam_http_request_duration_seconds'') new =
      [Histogram_record (''iam_http_request_duration_seconds'',
         [(''method'', m), (''path'', p), (''status'', show_nat (answer_status res))])
         (of_int (clock w' - clock w) / 1000)]"
    using quiet_totals(3) [OF mid(1)] by (simp add: new_def http_enter_def http_leave_def elapsed_secs_def)
  moreover have "gauge_value (in_flight_key m' p') (ops @ new) = gauge_value (in_flight_key m' p') ops" for m' p'
    by (simp add: new_def gauge_value_append http_gauge quiet_totals(4) [OF mid(1)])
  ultimately show ?thesis using mid(2) by (auto simp: new_def)
qed

theorem every_request_counted_witness:
  "\<exists>res w' rc'. metrics_middleware ''GET'' ''/api/v1/me'' answer_status (metered_serve sample_edge sample_env ''1.2.3.4'' Map.empty Me)
       (sample_world, \<lparr>rc_global = Some [], rc_handle = Some True\<rparr>) = (res, w', rc') \<and>
     answer_status res = 401 \<and> (\<exists>new. rc_global rc' = Some new \<and> family_total ''iam_http_requests_total'' new = 1)"
proof -
  obtain res w' rc' where run: "metrics_middleware ''GET'' ''/api/v1/me'' answer_status
      (metered_serve sample_edge sample_env ''1.2.3.4'' Map.empty Me)
      (sample_world, \<lparr>rc_global = Some [], rc_handle = Some True\<rparr>) = (res, w', rc')"
    by (metis prod.collapse)
  note counted = every_request_counted [OF _ run [symmetric], of "[]"]
  have "answer_status (fst (serve_rest sample_edge sample_env ''1.2.3.4'' Map.empty Me sample_world)) = 401"
    by (simp add: serve_rest_def replying_def authenticated_def authenticated_user_def comp_simps answer_status_def)
  then have "answer_status res = 401" using counted by (metis fst_conv recorder.select_convs(1))
  with run counted show ?thesis by auto
qed

text \<open>The in-flight gauge counts the requests that are being served and, for ever, those that were dropped: it
  is decremented only by the second half of the middleware, which a dropped request never reaches.\<close>

theorem in_flight_gauge:
  assumes "flight_step\<^sup>*\<^sup>* no_flights s"
  shows "gauge_value (in_flight_key m p) (fl_ops s) =
    of_nat (count_list (fl_running s) (m, p) + count_list (fl_dropped s) (m, p))"
proof -
  have "flights_inv s" using assms
  proof (induction rule: rtranclp_induct)
    case base
    show ?case by (simp add: flights_inv_def no_flights_def gauge_value_def)
  qed (rule flights_inv_step)
  then show ?thesis by (simp add: flights_inv_def)
qed

theorem in_flight_gauge_witness:
  "gauge_value (in_flight_key ''GET'' ''/health'')
     (fl_ops (no_flights\<lparr>fl_running := [(''GET'', ''/health'')], fl_ops := http_enter ''GET'' ''/health''\<rparr>)) = 1"
proof -
  have "flight_step no_flights (no_flights\<lparr>fl_running := [(''GET'', ''/health'')], fl_ops := http_enter ''GET'' ''/health''\<rparr>)"
    using entered [of no_flights "''GET''" "''/health''"] by (simp add: no_flights_def)
  then have "flight_step\<^sup>*\<^sup>* no_flights (no_flights\<lparr>fl_running := [(''GET'', ''/health'')], fl_ops := http_enter ''GET'' ''/health''\<rparr>)" ..
  from in_flight_gauge [OF this, of "''GET''" "''/health''"] show ?thesis by (simp add: no_flights_def)
qed

text \<open>A failed login is one attempt and two failures: for every error of the service, a fault of the database as
  much as a wrong password, the failure counters grow by two in sum, and the reason given is invalid
  credentials.\<close>

theorem failed_login_counted_twice:
  assumes "fst (require_role A role public_roles w) = Inr ()"
    and "fst (login E (lq_username q) (lq_password q) (snd (require_role A role public_roles w))) = Inl e"
    and "rc_global rc = Some ops"
  shows "\<exists>new. fst (metered_login A E role q (w, rc)) = Inl e \<and>
    rc_global (snd (snd (metered_login A E role q (w, rc)))) = Some (ops @ new) \<and>
    family_total ''iam_auth_attempts_total'' new = 1 \<and> family_total ''iam_auth_failures_total'' new = 2 \<and>
    Counter_increment (''iam_auth_failures_total'', [(''method'', ''login''), (''reason'', ''invalid_credentials'')]) 1 \<in> set new"
  using assms
  by (intro exI [of _ "login_ops False"])
    (simp add: metered_login_def comp_simps unmetered_def recording_def emit_metrics_run received_def is_ok_def login_ops_def
      record_auth_attempt_def record_user_operation_def record_auth_failure_def bool_to_string_def family_total_def)

theorem failed_login_counted_twice_witness:
  "\<exists>e new. fst (metered_login sample_edge sample_env (from_headers sample_edge Map.empty) \<lparr>lq_username = ''bob'', lq_password = ''x''\<rparr>
       (empty_world, \<lparr>rc_global = Some [], rc_handle = None\<rparr>)) = Inl e \<and>
     rc_global (snd (snd (metered_login sample_edge sample_env (from_headers sample_edge Map.empty)
       \<lparr>lq_username = ''bob'', lq_password = ''x''\<rparr> (empty_world, \<lparr>rc_global = Some [], rc_handle = None\<rparr>)))) = Some new \<and>
     family_total ''iam_auth_failures_total'' new = 2"
proof -
  let ?role = "from_headers sample_edge Map.empty"
  have role: "require_role sample_edge ?role public_roles empty_world = (Inr (), empty_world)"
    by (simp add: require_role_def sample_edge_def public_roles_def from_result_run)
  have "\<exists>e. fst (a_login sample_env ''bob'' ''x'' (view_of empty_world)) = Inl e"
    by (simp add: a_login_def a_exists_def a_lookup_def a_get_def a_find_def on_view_def comp_simps redis_defs empty_world_def
        view_of_def)
  then obtain e where "fst (login sample_env ''bob'' ''x'' empty_world) = Inl e"
    using simulatesD [OF login_simulation [OF sample_env_instant], of "''bob''" "''x''" empty_world] by auto
  then show ?thesis
    using failed_login_counted_twice [of sample_edge ?role empty_world sample_env "\<lparr>lq_username = ''bob'', lq_password = ''x''\<rparr>" e
        "\<lparr>rc_global = Some [], rc_handle = None\<rparr>" "[]"] role by auto
qed

text \<open>The recorder is installed by the first request for the metrics, if at all: without a recorder everything
  before that request is lost, and the gauge of the request itself becomes minus one; with a recorder of another
  origin the endpoint answers 500, and will do so for ever.\<close>

theorem scrape_installs_late:
  assumes "rc_handle rc = None" and "pm_buckets_accepted L ''iam'' iam_buckets"
    and "(res :: (unit + nat \<times> string) \<times> world \<times> recorder) = metrics_middleware ''GET'' ''/metrics'' scrape_status (get_metrics L) (w, rc)"
  shows "case rc_global rc of
      None \<Rightarrow> fst res = Inr (200, pm_render L []) \<and>
        gauge_value (in_flight_key ''GET'' ''/metrics'') (the (rc_global (snd (snd res)))) = - 1
    | Some ops \<Rightarrow> fst res = Inr (500, ''Metrics recorder failed to initialize'') \<and>
        fst (get_metrics L (w', snd (snd res))) = (Inr (500, ''Metrics recorder failed to initialize'') :: unit + nat \<times> string)"
proof (cases "rc_global rc")
  case None
  then have "res = (Inr (200, pm_render L []), (w, \<lparr>rc_global =
      Some (http_leave ''GET'' ''/metrics'' 200 (elapsed_secs (clock w) (clock w))), rc_handle = Some True\<rparr>))"
    using assms by (simp add: metrics_middleware_def comp_simps emit_metrics_run received_def get_metrics_def init_handle_def scrape_status_def)
  then show ?thesis
    using None http_gauge(2) [of "''GET''" "''/metrics''" "''GET''" "''/metrics''" _ _ 0] by (simp add: gauge_value_def)
next
  case (Some ops)
  then show ?thesis
    using assms by (simp add: metrics_middleware_def comp_simps emit_metrics_run received_def get_metrics_def init_handle_def)
qed

theorem scrape_installs_late_witness:
  "fst (metrics_middleware ''GET'' ''/metrics'' scrape_status
      (get_metrics \<lparr>pm_buckets_accepted = (\<lambda>_ bs. bs \<noteq> []), pm_render = (\<lambda>ops. replicate (length ops) (CHR ''x''))\<rparr> :: (unit, nat \<times> string) metered)
      (empty_world, \<lparr>rc_global = None, rc_handle = None\<rparr>)) = Inr (200, [])"
  using scrape_installs_late [of "\<lparr>rc_global = None, rc_handle = None\<rparr>"
      "\<lparr>pm_buckets_accepted = (\<lambda>_ bs. bs \<noteq> []), pm_render = (\<lambda>ops. replicate (length ops) (CHR ''x''))\<rparr>", OF _ _ refl, of empty_world]
  by (simp add: iam_buckets_def)

end
