(* ===== verification/Traits.thy ===== *)
theory Traits
  imports Invariants
begin

text \<open>
  \<open>iam-core/src/traits.rs\<close>: the interfaces between the crates.  A trait is a record of operations
  and an implementation is a value of it; \<open>AuthService\<close>, the event bus and the outbox worker hold
  such values (\<open>Arc<dyn ...>\<close>), which \<open>startup.rs\<close> fills with the repositories and services of
  the other crates.  What the documentation of a trait promises is a locale over the record; each
  is interpreted on the implementation, for every environment, faults included.
\<close>

section \<open>The traits\<close>

record user_repository =
  ut_find_by_username_or_email :: "string \<Rightarrow> user_with_hash option act"
  ut_find_by_id :: "uuid \<Rightarrow> user option act"
  ut_create :: "new_user \<Rightarrow> unit act"
  ut_verify_email :: "string \<Rightarrow> user option act"
  ut_set_wallet_address :: "uuid \<Rightarrow> string \<Rightarrow> unit act"
  ut_find_email_by_token :: "string \<Rightarrow> string option act"
  ut_find_verification_state_by_email :: "string \<Rightarrow> email_verification_state option act"
  ut_set_verification_token :: "uuid \<Rightarrow> string \<Rightarrow> unit act"
  ut_update_password :: "string \<Rightarrow> string \<Rightarrow> nat act"
  ut_mark_user_onboarded :: "uuid \<Rightarrow> string \<Rightarrow> f64 \<Rightarrow> f64 \<Rightarrow> string \<Rightarrow> string \<Rightarrow> unit act"
  ut_health_check :: "unit act"

record wallet_repository =
  wt_list_by_user_id :: "uuid \<Rightarrow> user_wallet list act"
  wt_find_by_id_and_user_id :: "uuid \<Rightarrow> uuid \<Rightarrow> user_wallet option act"
  wt_set_primary :: "uuid \<Rightarrow> uuid \<Rightarrow> user_wallet option act"
  wt_delete_if_not_primary :: "uuid \<Rightarrow> uuid \<Rightarrow> bool act"
  wt_exists :: "uuid \<Rightarrow> uuid \<Rightarrow> bool act"
  wt_has_any_wallet :: "uuid \<Rightarrow> bool act"
  wt_clear_primary :: "uuid \<Rightarrow> unit act"
  wt_insert :: "uuid \<Rightarrow> string \<Rightarrow> string option \<Rightarrow> bool \<Rightarrow> user_wallet act"
  wt_find_primary_address :: "uuid \<Rightarrow> string option act"
  wt_mark_registered :: "uuid \<Rightarrow> string \<Rightarrow> string \<Rightarrow> unit act"
  wt_persist_custodial_wallet ::
    "uuid \<Rightarrow> string \<Rightarrow> string option \<Rightarrow> string \<Rightarrow> string \<Rightarrow> string \<Rightarrow> 16 word \<Rightarrow> user_wallet act"

record api_key_repository =
  kt_find_by_hash :: "string \<Rightarrow> api_key option act"
  kt_update_last_used :: "uuid \<Rightarrow> unit act"

record cache_service =
  ct_ping :: "unit act"
  ct_get_value :: "string \<Rightarrow> cached option act"
  ct_set_value :: "string \<Rightarrow> cached \<Rightarrow> nat option \<Rightarrow> unit act"
  ct_delete :: "string \<Rightarrow> unit act"
  ct_increment :: "string \<Rightarrow> nat act"
  ct_increment_with_ttl :: "string \<Rightarrow> nat \<Rightarrow> nat act"
  ct_exists :: "string \<Rightarrow> bool act"

record event_bus =
  bt_publish :: "event \<Rightarrow> unit act"
  bt_publish_batch :: "event list \<Rightarrow> unit act"

record outbox_repository =
  ot_enqueue :: "event \<Rightarrow> unit act"
  ot_fetch_pending :: "nat \<Rightarrow> outbox_record list act"
  ot_mark_processed :: "uuid \<Rightarrow> unit act"
  ot_mark_failed :: "uuid \<Rightarrow> unit act"

record blockchain =
  xt_register_user_on_chain :: "register_args \<Rightarrow> string act"
  xt_account_exists :: "pubkey \<Rightarrow> bool act"

section \<open>The implementations\<close>

definition user_repository_of :: "env \<Rightarrow> user_repository" where
  "user_repository_of E =
     \<lparr>ut_find_by_username_or_email = find_by_username_or_email E, ut_find_by_id = find_by_id E,
      ut_create = create E, ut_verify_email = repo_verify_email E,
      ut_set_wallet_address = set_wallet_address E, ut_find_email_by_token = find_email_by_token E,
      ut_find_verification_state_by_email = find_verification_state_by_email E,
      ut_set_verification_token = set_verification_token E, ut_update_password = update_password E,
      ut_mark_user_onboarded = mark_user_onboarded E, ut_health_check = repo_health_check E\<rparr>"

definition wallet_repository_of :: "env \<Rightarrow> wallet_repository" where
  "wallet_repository_of E =
     \<lparr>wt_list_by_user_id = list_by_user_id E, wt_find_by_id_and_user_id = find_by_id_and_user_id E,
      wt_set_primary = set_primary E, wt_delete_if_not_primary = delete_if_not_primary E,
      wt_exists = wallet_exists E, wt_has_any_wallet = has_any_wallet E,
      wt_clear_primary = clear_primary E, wt_insert = wallet_insert E,
      wt_find_primary_address = find_primary_address E, wt_mark_registered = mark_registered E,
      wt_persist_custodial_wallet = persist_custodial_wallet E\<rparr>"

definition api_key_repository_of :: "env \<Rightarrow> api_key_repository" where
  "api_key_repository_of E = \<lparr>kt_find_by_hash = find_by_hash E, kt_update_last_used = update_last_used E\<rparr>"

definition cache_service_of :: "env \<Rightarrow> cache_service" where
  "cache_service_of E =
     \<lparr>ct_ping = ping E, ct_get_value = get_value E, ct_set_value = set_value E, ct_delete = delete E,
      ct_increment = increment E, ct_increment_with_ttl = increment_with_ttl E, ct_exists = exists_key E\<rparr>"

definition event_bus_of :: "env \<Rightarrow> event_bus" where
  "event_bus_of E = \<lparr>bt_publish = publish E, bt_publish_batch = publish_batch E\<rparr>"

definition outbox_repository_of :: "env \<Rightarrow> outbox_repository" where
  "outbox_repository_of E =
     \<lparr>ot_enqueue = enqueue E, ot_fetch_pending = fetch_pending E, ot_mark_processed = mark_processed E,
      ot_mark_failed = mark_failed E\<rparr>"

definition blockchain_of :: "env \<Rightarrow> blockchain" where
  "blockchain_of E =
     \<lparr>xt_register_user_on_chain = register_user_on_chain E, xt_account_exists = account_exists E\<rparr>"

section \<open>Transactions are atomic\<close>

definition db_tables :: "world \<Rightarrow> user_rec list \<times> wallet_row list \<times> api_key_row list \<times> outbox_rec list" where
  "db_tables w = (users w, wallets w, api_keys w, outbox w)"

lemma db_commands:
  "db_tables (snd (db E (ok x) w)) = db_tables w"
  "fst (db E (ok x) w) = Inr x \<or> (\<exists>s. fault E (io_ix w) = Lost_request s \<or> fault E (io_ix w) = Lost_reply s)"
  by (auto simp: db_def io_def Let_def ok_run db_tables_def split: outcome.splits)

text \<open>
  Either nothing of the body is in the tables, and the caller sees an error, or all of it is, and
  the caller sees the result unless the reply to \<open>COMMIT\<close> was lost.
\<close>

lemma transaction_atomic:
  assumes "transaction E body w = (r, w')"
  obtains (aborted) e where "r = Inl e" and "db_tables w' = db_tables w"
  | (committed) x w1 w2 where "db_tables w1 = db_tables w" "body w1 = (Inr x, w2)" "db_tables w' = db_tables w2"
      "r = Inr x \<or> (\<exists>e n s. r = Inl e \<and> fault E n = Lost_reply s)"
proof -
  let ?b = "db E (ok ()) :: unit act"
  obtain r1 w1 where b: "?b w = (r1, w1)" by (cases "?b w")
  then have w1: "db_tables w1 = db_tables w" using db_commands(1) [of E "()" w] by simp
  obtain r2 w2 where 2: "body w1 = (r2, w2)" by (cases "body w1")
  have rolled: "db_tables (rollback w1 v) = db_tables w" for v
    using w1 by (simp add: db_tables_def rollback_def)
  show ?thesis
  proof (cases "\<exists>x. r1 = Inr () \<and> r2 = Inr x \<and> (\<forall>s. fault E (io_ix w2) \<noteq> Lost_request s)")
    case True
    then obtain x where x: "r1 = Inr ()" "r2 = Inr x" "\<forall>s. fault E (io_ix w2) \<noteq> Lost_request s" by blast
    then have run: "transaction E body w = andthen ?b (ok x) w2"
      by (cases "fault E (io_ix w2)") (simp_all add: transaction_def b 2)
    have "db_tables w' = db_tables w2"
      using assms run db_commands(1) [of E "()" w2] by (auto simp: andthen_run ok_run split: sum.splits)
    moreover have "r = Inr x \<or> (\<exists>e n s. r = Inl e \<and> fault E n = Lost_reply s)"
      using assms run db_commands(2) [of E "()" w2] x(3)
      by (auto simp: andthen_run ok_run split: sum.splits)
    ultimately show ?thesis using committed [OF w1] 2 x(2) by blast
  next
    case False
    then show ?thesis
      using assms aborted w1 rolled
      by (auto simp: transaction_def b 2 split: sum.splits outcome.splits)
  qed
qed

section \<open>The contract of the wallet repository\<close>

text \<open>
  The key material that \<open>persist_custodial_wallet\<close> puts on the user's row, and the two outcomes
  the documentation allows: nothing, or the wallet as the only primary one together with its key.
\<close>

definition custodial_user ::
    "string \<Rightarrow> string \<Rightarrow> string \<Rightarrow> string \<Rightarrow> 16 word \<Rightarrow> user_rec \<Rightarrow> user_rec" where
  "custodial_user address key salt iv kdf_version x =
     x\<lparr>encrypted_private_key := Some key, wallet_salt := Some salt, encryption_iv := Some iv,
       ur_kdf_version := kdf_version, ur_wallet_address := Some address\<rparr>"

definition custodial_stored ::
    "uuid \<Rightarrow> string \<Rightarrow> string option \<Rightarrow> string \<Rightarrow> string \<Rightarrow> string \<Rightarrow> 16 word \<Rightarrow> wallet_row \<Rightarrow> world \<Rightarrow> world \<Rightarrow> bool" where
  "custodial_stored u address label key salt iv kdf_version row w w' \<longleftrightarrow>
     row = new_wallet_row (w_created_at row) (w_id row) u address label True \<and>
     wallets w' = demote_all u (wallets w) @ [row] \<and> u \<in> ur_id ` set (users w) \<and>
     users w' = update_where (\<lambda>x. ur_id x = u) (custodial_user address key salt iv kdf_version) (users w) \<and>
     api_keys w' = api_keys w \<and> outbox w' = outbox w"

locale wallet_contract =
  fixes R :: wallet_repository and reply_lost :: bool
  assumes delete_rows:
      "wallets (snd (wt_delete_if_not_primary R u i w)) = wallets w \<or>
       wallets (snd (wt_delete_if_not_primary R u i w)) =
         filter (\<lambda>r. \<not> (is_wallet i u r \<and> \<not> w_is_primary r)) (wallets w)"
    and delete_reply:
      "fst (wt_delete_if_not_primary R u i w) = Inr b \<Longrightarrow>
       b = (\<exists>r \<in> set (wallets w). is_wallet i u r \<and> \<not> w_is_primary r) \<and>
       wallets (snd (wt_delete_if_not_primary R u i w)) =
         filter (\<lambda>r. \<not> (is_wallet i u r \<and> \<not> w_is_primary r)) (wallets w)"
    and custodial_atomic:
      "wt_persist_custodial_wallet R u address label key salt iv kdf_version w = (res, w') \<Longrightarrow>
       (\<exists>e. res = Inl e) \<and> db_tables w' = db_tables w \<or>
       (\<exists>row. custodial_stored u address label key salt iv kdf_version row w w' \<and>
              (res = Inr (wallet_into_domain row) \<or> (\<exists>e. res = Inl e) \<and> reply_lost))"
begin

lemma delete_spares_primary:
  "r \<in> set (wallets w) \<Longrightarrow> w_is_primary r \<Longrightarrow> r \<in> set (wallets (snd (wt_delete_if_not_primary R u i w)))"
  using delete_rows [of u i w] by auto

text \<open>A client that does nothing else to the wallets never loses a primary wallet by deleting.\<close>

lemma unlinking_spares_primary:
  assumes "\<And>b. keeps wallets (k b)" and "r \<in> set (wallets w)" and "w_is_primary r"
  shows "r \<in> set (wallets (snd (bnd (wt_delete_if_not_primary R u i) k w)))"
  using assms delete_spares_primary [of r w u i] by (simp add: bnd_run keepsD split: sum.splits)

text \<open>
  A new key and a new address are stored together or not at all, and on the row of their user.
\<close>

lemma custody_paired:
  assumes "wt_persist_custodial_wallet R u address label key salt iv kdf_version w = (res, w')"
    and fresh: "\<And>x. x \<in> set (users w) \<Longrightarrow> encrypted_private_key x \<noteq> Some key"
      "\<And>r. r \<in> set (wallets w) \<Longrightarrow> w_wallet_address r \<noteq> address"
  shows "(\<exists>x \<in> set (users w'). encrypted_private_key x = Some key) \<longleftrightarrow>
      (\<exists>r \<in> set (wallets w'). w_wallet_address r = address)"
    and "x \<in> set (users w') \<Longrightarrow> encrypted_private_key x = Some key \<Longrightarrow>
      ur_id x = u \<and> ur_wallet_address x = Some address"
proof -
  consider (nothing) "db_tables w' = db_tables w"
    | (stored) row where "custodial_stored u address label key salt iv kdf_version row w w'"
    using custodial_atomic [OF assms(1)] by blast
  then have "(\<exists>x \<in> set (users w'). encrypted_private_key x = Some key) =
      (\<exists>r \<in> set (wallets w'). w_wallet_address r = address) \<and>
    (x \<in> set (users w') \<longrightarrow> encrypted_private_key x = Some key \<longrightarrow>
      ur_id x = u \<and> ur_wallet_address x = Some address)"
  proof cases
    case nothing
    then show ?thesis using fresh by (auto simp: db_tables_def)
  next
    case stored
    then have row: "w_wallet_address row = address" "row \<in> set (wallets w')"
      and us: "u \<in> ur_id ` set (users w)"
        "users w' = update_where (\<lambda>x. ur_id x = u) (custodial_user address key salt iv kdf_version) (users w)"
      by (auto simp: custodial_stored_def new_wallet_row_def) (metis wallet_row.select_convs(3))
    then have "\<exists>x \<in> set (users w'). encrypted_private_key x = Some key"
      by (force simp: in_update_where custodial_user_def)
    moreover have "x \<in> set (users w') \<longrightarrow> encrypted_private_key x = Some key \<longrightarrow>
        ur_id x = u \<and> ur_wallet_address x = Some address"
      using fresh(1) us(2) by (auto simp: in_update_where custodial_user_def split: if_splits)
    ultimately show ?thesis using row by blast
  qed
  then show "(\<exists>x \<in> set (users w'). encrypted_private_key x = Some key) \<longleftrightarrow>
      (\<exists>r \<in> set (wallets w'). w_wallet_address r = address)"
    and "x \<in> set (users w') \<Longrightarrow> encrypted_private_key x = Some key \<Longrightarrow>
      ur_id x = u \<and> ur_wallet_address x = Some address"
    by blast+
qed

end

text \<open>A statement that succeeds has been carried out, at some time.\<close>

lemma db_Inr:
  assumes "db E act w = (Inr x, w')"
  obtains n c where "act (w\<lparr>io_ix := n, clock := c\<rparr>) = (Inr x, w')"
  using assms by (auto simp: db_def io_def Let_def split: outcome.splits)

lemma andthen_Inr:
  assumes "andthen m n w = (Inr x, w')"
  obtains y w1 where "m w = (Inr y, w1)" "n w1 = (Inr x, w')"
  using assms by (cases "m w") (auto simp: andthen_run split: sum.splits)

lemma bnd_Inr:
  assumes "bnd m k w = (Inr x, w')"
  obtains y w1 where "m w = (Inr y, w1)" "k y w1 = (Inr x, w')"
  using assms by (cases "m w") (auto simp: bnd_run split: sum.splits)

lemma custodial_stored_tables:
  assumes "db_tables w1 = db_tables w" "db_tables w2 = db_tables w'"
  shows "custodial_stored u a l k s iv v row w1 w2 = custodial_stored u a l k s iv v row w w'"
  using assms by (simp add: custodial_stored_def db_tables_def)

lemma write_wallets_Inr:
  "write_wallets t w = (Inr x, w') \<longleftrightarrow> wallets_ok (users w) t \<and> w' = w\<lparr>wallets := t\<rparr>"
  by (auto simp: write_wallets_run)

lemma insert_wallet_row_Inr:
  "insert_wallet_row i u a l p w = (Inr r, w') \<longleftrightarrow>
     r = new_wallet_row (clock w) i u a l p \<and> wallets_ok (users w) (wallets w @ [r]) \<and>
     w' = w\<lparr>wallets := wallets w @ [r]\<rparr>"
  by (auto simp: insert_wallet_row_def Let_def andthen_run ok_run write_wallets_run)

lemma write_users_Inr:
  "write_users E t w = (Inr x, w') \<longleftrightarrow> users_ok E t \<and> w' = w\<lparr>users := t\<rparr>"
  by (auto simp: write_users_run users_ok_def)

lemma persist_custodial_outcome:
  assumes "persist_custodial_wallet E u address label key salt iv kdf_version w = (res, w')"
  shows "(\<exists>e. res = Inl e) \<and> db_tables w' = db_tables w \<or>
    (\<exists>row. custodial_stored u address label key salt iv kdf_version row w w' \<and>
           (res = Inr (wallet_into_domain row) \<or> (\<exists>e. res = Inl e) \<and> (\<exists>n s. fault E n = Lost_reply s)))"
  using assms unfolding persist_custodial_wallet_def
proof (cases rule: transaction_atomic)
  case aborted
  then show ?thesis by blast
next
  case (committed x w1 w2)
  from committed(2) obtain row where
    "custodial_stored u address label key salt iv kdf_version row w1 w2" "x = wallet_into_domain row"
    by (elim andthen_Inr bnd_Inr db_Inr)
      (auto simp: write_wallets_Inr insert_wallet_row_Inr write_users_Inr new_v4_def draw_run ok_run
        custodial_stored_def custodial_user_def [abs_def] new_wallet_row_def wallets_ok_def owners_exist_def)
  moreover have "db_tables w2 = db_tables w'" using committed(3) by simp
  ultimately show ?thesis
    using custodial_stored_tables [OF committed(1)] committed(4) by blast
qed

interpretation wr: wallet_contract "wallet_repository_of E" "\<exists>n s. fault E n = Lost_reply s" for E
proof unfold_locales
  fix u i w
  let ?P = "\<lambda>r. is_wallet i u r \<and> \<not> w_is_primary r"
  show "wallets (snd (wt_delete_if_not_primary (wallet_repository_of E) u i w)) = wallets w \<or>
      wallets (snd (wt_delete_if_not_primary (wallet_repository_of E) u i w)) = filter (\<lambda>r. \<not> ?P r) (wallets w)"
    by (simp add: wallet_repository_of_def delete_if_not_primary_def db_def io_def Let_def split: outcome.splits)
  fix b
  show "fst (wt_delete_if_not_primary (wallet_repository_of E) u i w) = Inr b \<Longrightarrow>
      b = (\<exists>r \<in> set (wallets w). ?P r) \<and>
      wallets (snd (wt_delete_if_not_primary (wallet_repository_of E) u i w)) = filter (\<lambda>r. \<not> ?P r) (wallets w)"
    using rows_affected_0 [of ?P "wallets w"]
    by (auto simp: wallet_repository_of_def delete_if_not_primary_def db_def io_def Let_def split: outcome.splits)
qed (simp add: wallet_repository_of_def persist_custodial_outcome)

text \<open>\<open>AuthService::unlink_wallet\<close> is such a client.\<close>

lemma unlink_wallet_spares_primary:
  assumes "r \<in> set (wallets w)" "w_is_primary r"
  shows "r \<in> set (wallets (snd (unlink_wallet E u i w)))"
proof -
  let ?k = "\<lambda>deleted. if \<not> deleted
     then bnd (wallet_exists E u i) (\<lambda>b.
          if b then throw (BadRequest ''Cannot delete primary wallet'')
          else throw (api_error.NotFound ''Wallet not found''))
     else ok ()"
  have "keeps wallets (?k b)" for b
    unfolding wallet_exists_def by (intro keeps_intros keeps_timed untimed_components)
  from wr.unlinking_spares_primary [OF this assms, of E u i] show ?thesis
    by (simp add: unlink_wallet_def wallet_repository_of_def)
qed

section \<open>The contract of the outbox\<close>

text \<open>
  Events are added behind the others and waiting; a fetch returns the oldest waiting rows up to
  the limit and changes nothing; a row leaves the waiting rows only as delivered, or as failed
  when its attempts are used up.
\<close>

locale outbox_contract =
  fixes R :: outbox_repository and payload :: "event \<Rightarrow> json" and budget :: nat
  assumes enqueue_ok: "fst (ot_enqueue R e w) = Inr () \<Longrightarrow>
      \<exists>r. outbox (snd (ot_enqueue R e w)) = outbox w @ [r] \<and> ob_status r = PENDING \<and> ob_attempts r = 0 \<and>
          ob_payload r = payload e"
    and enqueue_keeps: "r \<in> set (outbox w) \<Longrightarrow> r \<in> set (outbox (snd (ot_enqueue R e w)))"
    and fetch_keeps: "outbox (snd (ot_fetch_pending R n w)) = outbox w"
    and fetch_oldest: "fst (ot_fetch_pending R n w) = Inr rs \<Longrightarrow>
      \<exists>t. rs = map to_outbox_record (take n t) \<and> sorted (map ob_created_at t) \<and>
          set t = {r \<in> set (outbox w). ob_status r = PENDING} \<and>
          length t = length (filter (\<lambda>r. ob_status r = PENDING) (outbox w))"
    and processed_rows: "r \<in> set (outbox w) \<Longrightarrow> \<exists>r' \<in> set (outbox (snd (ot_mark_processed R i w))).
      ob_id r' = ob_id r \<and> ob_payload r' = ob_payload r \<and> (r' = r \<or> ob_status r' = PROCESSED)"
    and failed_rows: "r \<in> set (outbox w) \<Longrightarrow> \<exists>r' \<in> set (outbox (snd (ot_mark_failed R i w))).
      ob_id r' = ob_id r \<and> ob_payload r' = ob_payload r \<and>
      (r' = r \<or> ob_attempts r' = Suc (ob_attempts r) \<and> ob_status r' = (if Suc (ob_attempts r) < budget then PENDING else FAILED))"
begin

text \<open>What the clients of the outbox, the event bus and the worker, do to it in any order.\<close>

inductive used :: "world \<Rightarrow> world \<Rightarrow> bool" where
  refl: "outbox w' = outbox w \<Longrightarrow> used w w'"
| enqueue: "used w w1 \<Longrightarrow> outbox w' = outbox (snd (ot_enqueue R e w1)) \<Longrightarrow> used w w'"
| fetch: "used w w1 \<Longrightarrow> outbox w' = outbox (snd (ot_fetch_pending R n w1)) \<Longrightarrow> used w w'"
| processed: "used w w1 \<Longrightarrow> outbox w' = outbox (snd (ot_mark_processed R i w1)) \<Longrightarrow> used w w'"
| failed: "used w w1 \<Longrightarrow> outbox w' = outbox (snd (ot_mark_failed R i w1)) \<Longrightarrow> used w w'"

lemma used_row:
  "used w w' \<Longrightarrow> r \<in> set (outbox w) \<Longrightarrow> \<exists>r' \<in> set (outbox w'). ob_id r' = ob_id r \<and> ob_payload r' = ob_payload r"
proof (induction rule: used.induct)
  case (refl w' w)
  then show ?case by auto
next
  case (enqueue w w1 w' e)
  then show ?case using enqueue_keeps by metis
next
  case (fetch w w1 w' n)
  then show ?case using fetch_keeps by metis
next
  case (processed w w1 w' i)
  then show ?case using processed_rows by metis
next
  case (failed w w1 w' i)
  then show ?case using failed_rows by metis
qed

text \<open>Durability: an accepted event is never lost from the table, whatever is done to the outbox.\<close>

lemma enqueue_durable:
  assumes "fst (ot_enqueue R e w) = Inr ()" and "used (snd (ot_enqueue R e w)) w'"
  obtains r where "r \<in> set (outbox w')" "ob_payload r = payload e"
proof -
  obtain r where "r \<in> set (outbox (snd (ot_enqueue R e w)))" "ob_payload r = payload e"
    using enqueue_ok [OF assms(1)] by (metis in_set_conv_decomp)
  then show ?thesis using used_row [OF assms(2)] that by metis
qed

text \<open>A waiting event is among the fetched ones as soon as the limit reaches the waiting rows.\<close>

lemma waiting_fetched:
  assumes "fst (ot_fetch_pending R n w) = Inr rs" "length (filter (\<lambda>r. ob_status r = PENDING) (outbox w)) \<le> n"
    and "r \<in> set (outbox w)" "ob_status r = PENDING"
  shows "to_outbox_record r \<in> set rs"
  using fetch_oldest [OF assms(1)] assms(2-4) by (metis (mono_tags, lifting) image_eqI list.set_map mem_Collect_eq take_all)

end

lemma mark_outbox:
  obtains t where "outbox (snd (mark_processed E i w)) = outbox w \<or>
      outbox (snd (mark_processed E i w)) = update_id i (set_processed t) (outbox w)"
    and "outbox (snd (mark_failed E i w)) = outbox w \<or>
      outbox (snd (mark_failed E i w)) = update_id i (set_failed t) (outbox w)"
  by (rule that [of "clock w + int (latency E (io_ix w))"])
    (simp_all add: mark_processed_def mark_failed_def db_def io_def Let_def comp_simps split: outcome.splits)

lemma mark_rows:
  assumes "r \<in> set (outbox w)"
  shows "\<exists>r' \<in> set (outbox (snd (mark_processed E i w))). \<exists>t. r' = r \<or> r' = set_processed t r"
    and "\<exists>r' \<in> set (outbox (snd (mark_failed E i w))). \<exists>t. r' = r \<or> r' = set_failed t r"
proof -
  have "\<exists>r' \<in> set (update_id i f (outbox w)). r' = r \<or> r' = f r" for f
    using assms by (intro bexI [of _ "if ob_id r = i then f r else r"]) (auto simp: set_update_id)
  with mark_outbox [of E i w] assms
  show "\<exists>r' \<in> set (outbox (snd (mark_processed E i w))). \<exists>t. r' = r \<or> r' = set_processed t r"
    and "\<exists>r' \<in> set (outbox (snd (mark_failed E i w))). \<exists>t. r' = r \<or> r' = set_failed t r"
    by metis+
qed

interpretation ob: outbox_contract "outbox_repository_of E" "event_to_value E" MAX_ATTEMPTS for E
proof unfold_locales
  fix e w r n rs i
  show "fst (ot_enqueue (outbox_repository_of E) e w) = Inr () \<Longrightarrow>
      \<exists>r. outbox (snd (ot_enqueue (outbox_repository_of E) e w)) = outbox w @ [r] \<and> ob_status r = PENDING \<and>
          ob_attempts r = 0 \<and> ob_payload r = event_to_value E e"
    by (auto simp: outbox_repository_of_def enqueue_def outbox_insert_def db_def io_def Let_def new_v4_def comp_simps
        split: outcome.splits if_splits)
  show "r \<in> set (outbox w) \<Longrightarrow> r \<in> set (outbox (snd (ot_enqueue (outbox_repository_of E) e w)))"
    by (auto simp: outbox_repository_of_def enqueue_def outbox_insert_def db_def io_def Let_def new_v4_def comp_simps
        split: outcome.splits)
  show "outbox (snd (ot_fetch_pending (outbox_repository_of E) n w)) = outbox w"
    by (simp add: outbox_repository_of_def fetch_pending_def db_def io_def Let_def comp_simps split: outcome.splits)
  show "fst (ot_fetch_pending (outbox_repository_of E) n w) = Inr rs \<Longrightarrow>
      \<exists>t. rs = map to_outbox_record (take n t) \<and> sorted (map ob_created_at t) \<and>
          set t = {r \<in> set (outbox w). ob_status r = PENDING} \<and>
          length t = length (filter (\<lambda>r. ob_status r = PENDING) (outbox w))"
    by (auto simp: outbox_repository_of_def fetch_pending_def db_def io_def Let_def comp_simps pending_def
        split: outcome.splits intro!: exI [of _ "pending (outbox w)"])
  show "r \<in> set (outbox w) \<Longrightarrow> \<exists>r' \<in> set (outbox (snd (ot_mark_processed (outbox_repository_of E) i w))).
      ob_id r' = ob_id r \<and> ob_payload r' = ob_payload r \<and> (r' = r \<or> ob_status r' = PROCESSED)"
    using mark_rows(1) [of r w E i] by (simp add: outbox_repository_of_def set_processed_def) (elim bexE exE, rule bexI, auto)
  assume r: "r \<in> set (outbox w)"
  obtain r' t where r': "r' \<in> set (outbox (snd (mark_failed E i w)))" "r' = r \<or> r' = set_failed t r"
    using mark_rows(2) [OF r] by blast
  then show "\<exists>r' \<in> set (outbox (snd (ot_mark_failed (outbox_repository_of E) i w))).
      ob_id r' = ob_id r \<and> ob_payload r' = ob_payload r \<and>
      (r' = r \<or> ob_attempts r' = Suc (ob_attempts r) \<and>
        ob_status r' = (if Suc (ob_attempts r) < MAX_ATTEMPTS then PENDING else FAILED))"
    by (intro bexI [of _ r']) (auto simp: outbox_repository_of_def set_failed_def)
qed

section \<open>The contract of the cache\<close>

text \<open>
  A stored value is there until its lifetime ends; a deleted key is gone; a counter with a lifetime
  counts on from its live value and is forgotten when no increment follows in time.
\<close>

definition counter_at :: "int \<Rightarrow> string \<Rightarrow> world \<Rightarrow> int option" where
  "counter_at t key w = as_counter (live t (redis w) key)"

locale cache_contract =
  fixes R :: cache_service and dflt :: nat
  assumes set_ok: "fst (ct_set_value R key v ttl w) = Inr () \<Longrightarrow>
      r_get t key (redis (snd (ct_set_value R key v ttl w))) =
        (if t < clock (snd (ct_set_value R key v ttl w)) + 1000 * int (case ttl of None \<Rightarrow> dflt | Some n \<Rightarrow> n)
         then Some v else None)"
    and set_other: "key' \<noteq> key \<Longrightarrow> redis (snd (ct_set_value R key v ttl w)) key' = redis w key'"
    and delete_ok: "fst (ct_delete R key w) = Inr () \<Longrightarrow> redis (snd (ct_delete R key w)) key = None"
    and get_ok: "fst (ct_get_value R key w) = Inr x \<Longrightarrow> x = r_get (clock (snd (ct_get_value R key w))) key (redis w)"
    and get_keeps: "redis (snd (ct_get_value R key w)) = redis w"
    and count_ok: "fst (ct_increment_with_ttl R key n w) = Inr c \<Longrightarrow> 0 < n \<Longrightarrow>
      \<exists>k. counter_at (clock (snd (ct_increment_with_ttl R key n w))) key w = Some k \<and> c = nat (k + 1) \<and>
        (\<forall>t. live t (redis (snd (ct_increment_with_ttl R key n w))) key =
          (if t < clock (snd (ct_increment_with_ttl R key n w)) + 1000 * int n
           then Some \<lparr>e_value = C_json (JInt (k + 1)),
                      e_expires = Some (clock (snd (ct_increment_with_ttl R key n w)) + 1000 * int n)\<rparr>
           else None))"
begin

text \<open>What was stored is read back, or it has expired.\<close>

lemma get_after_set:
  assumes "fst (ct_set_value R key v ttl w) = Inr ()" and "redis w1 = redis (snd (ct_set_value R key v ttl w))"
    and "fst (ct_get_value R key w1) = Inr x"
  shows "x = Some v \<or>
    x = None \<and> clock (snd (ct_set_value R key v ttl w)) + 1000 * int (case ttl of None \<Rightarrow> dflt | Some n \<Rightarrow> n)
                 \<le> clock (snd (ct_get_value R key w1))"
  using get_ok [OF assms(3)] set_ok [OF assms(1)] assms(2) by (simp split: if_splits)

text \<open>The count decays: after a pause of the lifetime the next increment starts again at one.\<close>

lemma count_decays:
  assumes "fst (ct_increment_with_ttl R key n w) = Inr c" and "0 < n"
    and "redis w1 key = redis (snd (ct_increment_with_ttl R key n w)) key"
    and "fst (ct_increment_with_ttl R key n w1) = Inr d"
    and "clock (snd (ct_increment_with_ttl R key n w)) + 1000 * int n \<le> clock (snd (ct_increment_with_ttl R key n w1))"
  shows "d = 1"
proof -
  have "live t (redis w1) key = live t (redis (snd (ct_increment_with_ttl R key n w))) key" for t
    using assms(3) by (simp add: live_def)
  with count_ok [OF assms(1,2)] assms(5)
  have "counter_at (clock (snd (ct_increment_with_ttl R key n w1))) key w1 = Some 0"
    by (auto simp: counter_at_def as_counter_def)
  then show ?thesis using count_ok [OF assms(4,2)] by auto
qed

end

lemma increment_with_ttl_count:
  assumes "fst (increment_with_ttl E key n w) = Inr c" "0 < n"
  defines "w' \<equiv> snd (increment_with_ttl E key n w)"
  shows "\<exists>k. counter_at (clock w') key w = Some k \<and> c = nat (k + 1) \<and>
    (\<forall>t. live t (redis w') key =
      (if t < clock w' + 1000 * int n
       then Some \<lparr>e_value = C_json (JInt (k + 1)), e_expires = Some (clock w' + 1000 * int n)\<rparr> else None))"
proof -
  define u where "u = clock w + int (latency E (io_ix w))"
  have run: "fault E (io_ix w) = Done" "r_incr u key (redis w) \<noteq> None"
    "c = nat (max (fst (the (r_incr u key (redis w)))) 0)"
    "w' = w\<lparr>io_ix := Suc (io_ix w), clock := u, redis := r_expire u key n (snd (the (r_incr u key (redis w))))\<rparr>"
    using assms(1) unfolding w'_def u_def increment_with_ttl_def increment_with_ttl_raw_def redis_cmd_def
    by (auto simp: io_def Let_def comp_simps split: outcome.splits option.splits prod.splits sum.splits)
  obtain k where k: "as_counter (live u (redis w) key) = Some k" "k < 2 ^ 63 - 1"
    "r_incr u key (redis w) =
       Some (k + 1, r_put key (C_json (JInt (k + 1))) (Option.bind (live u (redis w) key) e_expires) (redis w))"
    using run(2) by (auto simp: r_incr_def split: option.splits if_splits)
  have l: "live u (r_put key v (Option.bind (live u (redis w) key) e_expires) (redis w)) key =
      Some \<lparr>e_value = v, e_expires = Option.bind (live u (redis w) key) e_expires\<rparr>" for v
    by (auto simp: live_def r_put_def alive_def split: option.splits)
  have "live t (redis w') key =
      (if t < u + 1000 * int n
       then Some \<lparr>e_value = C_json (JInt (k + 1)), e_expires = Some (u + 1000 * int n)\<rparr> else None)" for t
    using assms(2) run(4) k(3) l by (simp add: r_expire_def) (simp add: live_def alive_def)
  then show ?thesis
    using k run(3,4) by (auto simp: counter_at_def intro!: exI [of _ k])
qed

interpretation ch: cache_contract "cache_service_of E" DEFAULT_TTL_SECS for E
proof unfold_locales
  show "fst (ct_increment_with_ttl (cache_service_of E) key n w) = Inr c \<Longrightarrow> 0 < n \<Longrightarrow>
      \<exists>k. counter_at (clock (snd (ct_increment_with_ttl (cache_service_of E) key n w))) key w = Some k \<and>
        c = nat (k + 1) \<and>
        (\<forall>t. live t (redis (snd (ct_increment_with_ttl (cache_service_of E) key n w))) key =
          (if t < clock (snd (ct_increment_with_ttl (cache_service_of E) key n w)) + 1000 * int n
           then Some \<lparr>e_value = C_json (JInt (k + 1)),
                      e_expires = Some (clock (snd (ct_increment_with_ttl (cache_service_of E) key n w)) + 1000 * int n)\<rparr>
           else None))" for key n w c
    using increment_with_ttl_count [of E key n w c] by (simp only: cache_service_of_def cache_service.select_convs)
qed (auto simp: cache_service_of_def cache_defs cache_raw_defs redis_cmd_def io_def Let_def comp_simps redis_defs
      split: outcome.splits option.splits if_splits)

section \<open>Properties\<close>

text \<open>C10. A custodial wallet is stored atomically: whatever requests or replies are lost, either the
  tables are as before and the caller sees an error, or the wallet is the only primary wallet of
  its user, the encrypted key material and the address are on the user's row, and nothing else
  has changed.  The caller sees an error in the second case only when the reply to the commit
  was lost.\<close>

theorem custodial_wallet_atomic:
  "case persist_custodial_wallet E u address label key salt iv kdf_version w of (res, w') \<Rightarrow>
     (\<exists>e. res = Inl e) \<and> db_tables w' = db_tables w \<or>
     (\<exists>row. custodial_stored u address label key salt iv kdf_version row w w' \<and>
            (res = Inr (wallet_into_domain row) \<or> (\<exists>e. res = Inl e) \<and> (\<exists>n s. fault E n = Lost_reply s)))"
proof (cases "persist_custodial_wallet E u address label key salt iv kdf_version w")
  case (Pair res w')
  then have "wt_persist_custodial_wallet (wallet_repository_of E) u address label key salt iv kdf_version w = (res, w')"
    by (simp add: wallet_repository_of_def)
  from wr.custodial_atomic [OF this] show ?thesis by (simp add: Pair)
qed

text \<open>The second outcome with an error: the reply to the commit, the fifth request, is lost.\<close>

lemma custodial_commit_reply_lost:
  defines "E \<equiv> sample_env\<lparr>fault := (\<lambda>i. if i = 4 then Lost_reply ''connection reset'' else Done)\<rparr>"
  defines "w' \<equiv> snd (persist_custodial_wallet E 7 ''42'' None ''key'' ''salt'' ''iv'' 2 sample_world)"
  shows "fst (persist_custodial_wallet E 7 ''42'' None ''key'' ''salt'' ''iv'' 2 sample_world) =
      Inl (Database (SqlxOther ''connection reset''))"
    and "map w_wallet_address (wallets w') = [''42''] \<and> map encrypted_private_key (users w') = [Some ''key'']"
proof -
  have fits: "user_fits (custodial_user ''42'' ''key'' ''salt'' ''iv'' 2 sample_user)"
    using sample_user_fits by (simp add: user_fits_def custodial_user_def fits_eval)
  have i: "ur_id sample_user = 7" by (simp add: sample_user_def activate_def new_user_row_def)
  have "persist_custodial_wallet E 7 ''42'' None ''key'' ''salt'' ''iv'' 2 sample_world =
      (Inl (Database (SqlxOther ''connection reset'')),
       sample_world\<lparr>users := [custodial_user ''42'' ''key'' ''salt'' ''iv'' 2 sample_user],
         wallets := [new_wallet_row 0 1 7 ''42'' None True], io_ix := 5, rng_ix := 1\<rparr>)"
    using fits i
    by (simp add: persist_custodial_wallet_def transaction_def db_def io_def Let_def comp_simps new_v4_def
        write_wallets_run write_users_run insert_wallet_row_def table_eval E_def sample_env_def demote_all_def
        update_where_def new_wallet_row_def wallet_fits_def fits_eval custodial_user_def primary_owner_def)
  then show "fst (persist_custodial_wallet E 7 ''42'' None ''key'' ''salt'' ''iv'' 2 sample_world) =
      Inl (Database (SqlxOther ''connection reset''))"
    and "map w_wallet_address (wallets w') = [''42''] \<and> map encrypted_private_key (users w') = [Some ''key'']"
    by (simp_all add: w'_def custodial_user_def new_wallet_row_def)
qed

end
