(* ===== verification/Stored.thy ===== *)
theory Stored
  imports EventBus Cache
begin

text \<open>
  The JSON forms in which structured values are kept: \<open>UserWithHash\<close> (\<open>models.rs\<close>) and \<open>ApiKey\<close>
  (\<open>auth.rs\<close>) in the cache, through \<open>AuthService::cache_set\<close> and \<open>cache_get\<close>, and events in the
  outbox.  The cache of the model holds the values themselves; here they are shown to be what is
  read back from their forms, and a value of one type never to be read as another.  The form of a
  time is that of the library \<open>chrono\<close>, a parameter.
\<close>

section \<open>Forms\<close>

record time_text =
  ts_print :: "int \<Rightarrow> string"
  ts_parse :: "string \<Rightarrow> int option"

definition time_roundtrip :: "time_text \<Rightarrow> bool" where
  "time_roundtrip T \<longleftrightarrow> (\<forall>t. ts_parse T (ts_print T t) = Some t)"

definition de_time :: "time_text \<Rightarrow> json \<Rightarrow> int option" where
  "de_time T j = Option.bind (de_string j) (ts_parse T)"

definition user_type_names :: "(string \<times> user_type) list" where
  "user_type_names = [(''Prosumer'', Prosumer), (''Consumer'', user_type.Consumer)]"

definition ser_user_type :: "user_type \<Rightarrow> json" where
  "ser_user_type t = JStr (case t of Prosumer \<Rightarrow> ''Prosumer'' | user_type.Consumer \<Rightarrow> ''Consumer'')"

definition user_to_value :: "env \<Rightarrow> user \<Rightarrow> json" where
  "user_to_value E u =
     JObj [(''id'', JStr (uuid_to_string E (u_id u))), (''username'', JStr (u_username u)),
           (''email'', JStr (u_email u)), (''role'', JStr (u_role u)),
           (''first_name'', ser_option JStr (u_first_name u)),
           (''last_name'', ser_option JStr (u_last_name u)),
           (''wallet_address'', ser_option JStr (u_wallet_address u)),
           (''is_active'', JBool (u_is_active u)),
           (''blockchain_registered'', JBool (u_blockchain_registered u)),
           (''user_type'', ser_option ser_user_type (u_user_type u)),
           (''latitude'', ser_option ser_f64 (u_latitude u)),
           (''longitude'', ser_option ser_f64 (u_longitude u))]"

definition user_fields :: "(string \<times> bool) list" where
  "user_fields = map (\<lambda>k. (k, False))
     [''id'', ''username'', ''email'', ''role'', ''first_name'', ''last_name'', ''wallet_address'',
      ''is_active'', ''blockchain_registered'', ''user_type'', ''latitude'', ''longitude'']"

definition user_from_value :: "env \<Rightarrow> json \<Rightarrow> user option" where
  "user_from_value E v =
     Option.bind (struct_fields user_fields v) (\<lambda>f.
     Option.bind (req f ''id'' (de_uuid E)) (\<lambda>i.
     Option.bind (req f ''username'' de_string) (\<lambda>name.
     Option.bind (req f ''email'' de_string) (\<lambda>email.
     Option.bind (req f ''role'' de_string) (\<lambda>role.
     Option.bind (opt f ''first_name'' de_string) (\<lambda>first_name.
     Option.bind (opt f ''last_name'' de_string) (\<lambda>last_name.
     Option.bind (opt f ''wallet_address'' de_string) (\<lambda>address.
     Option.bind (req f ''is_active'' de_bool) (\<lambda>active.
     Option.bind (req f ''blockchain_registered'' de_bool) (\<lambda>registered.
     Option.bind (opt f ''user_type'' (de_unit_enum user_type_names)) (\<lambda>ut.
     Option.bind (opt f ''latitude'' de_f64) (\<lambda>lat.
     Option.bind (opt f ''longitude'' de_f64) (\<lambda>long.
       Some \<lparr>u_id = i, u_username = name, u_email = email, u_role = role, u_first_name = first_name,
             u_last_name = last_name, u_wallet_address = address, u_is_active = active,
             u_blockchain_registered = registered, u_user_type = ut, u_latitude = lat,
             u_longitude = long\<rparr>)))))))))))))"

definition user_with_hash_to_value :: "env \<Rightarrow> user_with_hash \<Rightarrow> json" where
  "user_with_hash_to_value E h =
     JObj [(''user'', user_to_value E (uh_user h)), (''password_hash'', JStr (uh_password_hash h))]"

definition user_with_hash_from_value :: "env \<Rightarrow> json \<Rightarrow> user_with_hash option" where
  "user_with_hash_from_value E v =
     Option.bind (struct_fields [(''user'', False), (''password_hash'', False)] v) (\<lambda>f.
     Option.bind (req f ''user'' (user_from_value E)) (\<lambda>u.
     Option.bind (req f ''password_hash'' de_string) (\<lambda>h.
       Some \<lparr>uh_user = u, uh_password_hash = h\<rparr>)))"

definition api_key_to_value :: "env \<Rightarrow> time_text \<Rightarrow> api_key \<Rightarrow> json" where
  "api_key_to_value E T k =
     JObj [(''id'', JStr (uuid_to_string E (ak_id k))), (''key_hash'', JStr (ak_key_hash k)),
           (''name'', JStr (ak_name k)), (''role'', JStr (ak_role k)),
           (''permissions'', JArr (map JStr (ak_permissions k))),
           (''is_active'', JBool (ak_is_active k)),
           (''created_at'', JStr (ts_print T (ak_created_at k))),
           (''last_used_at'', ser_option (\<lambda>t. JStr (ts_print T t)) (ak_last_used_at k))]"

definition api_key_fields :: "(string \<times> bool) list" where
  "api_key_fields = map (\<lambda>k. (k, False))
     [''id'', ''key_hash'', ''name'', ''role'', ''permissions'', ''is_active'', ''created_at'',
      ''last_used_at'']"

definition api_key_from_value :: "env \<Rightarrow> time_text \<Rightarrow> json \<Rightarrow> api_key option" where
  "api_key_from_value E T v =
     Option.bind (struct_fields api_key_fields v) (\<lambda>f.
     Option.bind (req f ''id'' (de_uuid E)) (\<lambda>i.
     Option.bind (req f ''key_hash'' de_string) (\<lambda>h.
     Option.bind (req f ''name'' de_string) (\<lambda>name.
     Option.bind (req f ''role'' de_string) (\<lambda>role.
     Option.bind (req f ''permissions'' (de_vec de_string)) (\<lambda>permissions.
     Option.bind (req f ''is_active'' de_bool) (\<lambda>active.
     Option.bind (req f ''created_at'' (de_time T)) (\<lambda>created.
     Option.bind (opt f ''last_used_at'' (de_time T)) (\<lambda>used.
       Some \<lparr>ak_id = i, ak_key_hash = h, ak_name = name, ak_role = role, ak_permissions = permissions,
             ak_is_active = active, ak_created_at = created, ak_last_used_at = used\<rparr>)))))))))"

text \<open>What is stored for a cached value of the model.\<close>

fun value_of :: "env \<Rightarrow> time_text \<Rightarrow> cached \<Rightarrow> json" where
  "value_of E T (C_user u) = user_with_hash_to_value E u"
| "value_of E T (C_api_key k) = api_key_to_value E T k"
| "value_of E T (C_json j) = j"

section \<open>Reading back\<close>

text \<open>Coordinates survive when they are numbers: the special values are written as \<open>null\<close>.\<close>

definition finite_f64 :: "f64 option \<Rightarrow> bool" where
  "finite_f64 v = (case v of Some (F_fin _) \<Rightarrow> True | None \<Rightarrow> True | _ \<Rightarrow> False)"

definition located :: "user \<Rightarrow> bool" where
  "located u \<longleftrightarrow> finite_f64 (u_latitude u) \<and> finite_f64 (u_longitude u)"

lemma de_f64_ser: "finite_f64 v \<Longrightarrow> de_option de_f64 (ser_option ser_f64 v) = Some v"
  by (rule de_option_ser) (auto simp: finite_f64_def split: f64.splits)

lemma de_f64_special: "\<not> finite_f64 v \<Longrightarrow> de_option de_f64 (ser_option ser_f64 v) = Some None"
  by (auto simp: finite_f64_def de_option_def ser_option_def split: option.splits f64.splits)

lemma de_user_type_ser [simp]: "de_option (de_unit_enum user_type_names) (ser_option ser_user_type v) = Some v"
  by (rule de_option_ser) (auto simp: ser_user_type_def user_type_names_def split: user_type.splits)

lemma de_time_ser:
  assumes "time_roundtrip T"
  shows "de_time T (JStr (ts_print T t)) = Some t"
    and "de_option (de_time T) (ser_option (\<lambda>t. JStr (ts_print T t)) v) = Some v"
proof -
  show de: "de_time T (JStr (ts_print T t)) = Some t" for t
    using assms by (simp add: de_time_def time_roundtrip_def)
  show "de_option (de_time T) (ser_option (\<lambda>t. JStr (ts_print T t)) v) = Some v"
    by (rule de_option_ser) (simp add: de)
qed

lemma user_roundtrip:
  assumes "uuid_roundtrip E" "located u"
  shows "user_from_value E (user_to_value E u) = Some u"
  using assms
  by (simp add: user_from_value_def user_to_value_def user_fields_def serde_eval located_def de_f64_ser)

lemma user_with_hash_roundtrip:
  assumes "uuid_roundtrip E" "located (uh_user h)"
  shows "user_with_hash_from_value E (user_with_hash_to_value E h) = Some h"
  using user_roundtrip [OF assms]
  by (simp add: user_with_hash_from_value_def user_with_hash_to_value_def serde_eval)

lemma api_key_roundtrip:
  assumes "uuid_roundtrip E" "time_roundtrip T"
  shows "api_key_from_value E T (api_key_to_value E T k) = Some k"
  using assms
  by (simp add: api_key_from_value_def api_key_to_value_def api_key_fields_def serde_eval de_time_ser
      de_all_map)

text \<open>The struct readers refuse the other forms.\<close>

lemma foreign_forms:
  "user_with_hash_from_value E (api_key_to_value E' T k) = None"
  "api_key_from_value E T (user_with_hash_to_value E' h) = None"
  "de_string (api_key_to_value E T k) = None" "de_string (user_with_hash_to_value E h) = None"
  by (simp_all add: user_with_hash_from_value_def user_with_hash_to_value_def api_key_from_value_def
      api_key_to_value_def api_key_fields_def serde_eval)

fun scalar :: "json \<Rightarrow> bool" where
  "scalar (JObj _) = False"
| "scalar (JArr _) = False"
| "scalar _ = True"

lemma scalar_forms:
  "scalar j \<Longrightarrow> user_with_hash_from_value E j = None" "scalar j \<Longrightarrow> api_key_from_value E T j = None"
  by (cases j; simp add: user_with_hash_from_value_def api_key_from_value_def)+

text \<open>The values the service puts into the cache: users with coordinates, keys, strings and counters.\<close>

fun storable :: "cached \<Rightarrow> bool" where
  "storable (C_user h) = located (uh_user h)"
| "storable (C_api_key k) = True"
| "storable (C_json j) = scalar j"

section \<open>Properties\<close>

text \<open>C22. Stored values are read back: what a cached user, API key or string deserialises to is the value
  that was stored, a value stored as one type is refused as another, and the event in an outbox
  row is the one that was enqueued.\<close>

theorem stored_forms_roundtrip:
  assumes "uuid_roundtrip E" and "time_roundtrip T" and "storable c" and "ev_data e \<noteq> Some JNull"
  shows "user_with_hash_from_value E (value_of E T c) = as_user c \<and>
    api_key_from_value E T (value_of E T c) = as_api_key c \<and>
    de_string (value_of E T c) = as_string c \<and>
    event_from_value E (event_to_value E e) = Some e"
proof (intro conjI)
  show "user_with_hash_from_value E (value_of E T c) = as_user c"
    using assms by (cases c) (simp_all add: user_with_hash_roundtrip foreign_forms scalar_forms)
  show "api_key_from_value E T (value_of E T c) = as_api_key c"
    using assms by (cases c) (simp_all add: api_key_roundtrip foreign_forms scalar_forms)
  have "de_string j = json_as_str j" for j by (cases j) simp_all
  then show "de_string (value_of E T c) = as_string c"
    by (cases c) (simp_all add: user_with_hash_to_value_def api_key_to_value_def)
  show "event_from_value E (event_to_value E e) = Some e"
    using assms(1,4) by (rule event_roundtrip)
qed

definition sample_time :: time_text where
  "sample_time = \<lparr>ts_print = show_int, ts_parse = (\<lambda>s. Some (read_int s))\<rparr>"

definition sample_key :: api_key where
  "sample_key =
     \<lparr>ak_id = 3, ak_key_hash = ''ab'', ak_name = ''meter'', ak_role = ''service'', ak_permissions = [''read'', ''write''],
      ak_is_active = True, ak_created_at = 5, ak_last_used_at = Some 9\<rparr>"

theorem stored_forms_roundtrip_witness:
  "api_key_from_value sample_env sample_time (value_of sample_env sample_time (C_api_key sample_key)) = Some sample_key \<and>
   user_with_hash_from_value sample_env (value_of sample_env sample_time (C_api_key sample_key)) = None \<and>
   event_from_value sample_env (event_to_value sample_env sample_event) = Some sample_event"
proof -
  have "uuid_roundtrip sample_env" "time_roundtrip sample_time" "ev_data sample_event \<noteq> Some JNull"
    by (simp_all add: uuid_roundtrip_def time_roundtrip_def sample_time_def read_show_int sample_event_def)
  from stored_forms_roundtrip [OF this(1,2) _ this(3), of "C_api_key sample_key"] show ?thesis by simp
qed

end
