(* ===== verification/Http.thy ===== *)
theory Http
  imports Access Traits Stored
begin

text \<open>
  From HTTP requests to the routes of \<open>Rest\<close> and from replies to JSON: the router of
  \<open>startup.rs\<close>, the request and response bodies of \<open>iam-api/src/handlers/types.rs\<close> in their JSON
  form, and the extractors in the order the handlers of \<open>auth.rs\<close> and \<open>identity.rs\<close> list them.
  What the framework does with bytes (reading a body, parsing JSON text, percent and query
  encoding) and the statuses of its rejections are parameters.  Requests that match no route are
  the framework's; the metrics endpoint is in \<open>Metrics\<close>.
\<close>

section \<open>Request bodies\<close>

record verify_email_request =
  vq_token :: string

record update_wallet_request =
  uq_is_primary :: "bool option"

record resend_verification_request =
  eq_email :: string

record forgot_password_request =
  fq_email :: string

record reset_password_request =
  pq_token :: string
  pq_new_password :: string

definition de_login_request :: "json \<Rightarrow> login_request option" where
  "de_login_request j =
     Option.bind (struct_fields [(''username'', False), (''password'', False)] j) (\<lambda>f.
     Option.bind (req f ''username'' de_string) (\<lambda>u.
     Option.bind (req f ''password'' de_string) (\<lambda>p.
       Some \<lparr>lq_username = u, lq_password = p\<rparr>)))"

definition de_registration_request :: "json \<Rightarrow> registration_request option" where
  "de_registration_request j =
     Option.bind (struct_fields [(''username'', False), (''email'', False), (''password'', False),
                                 (''first_name'', True), (''last_name'', True)] j) (\<lambda>f.
     Option.bind (req f ''username'' de_string) (\<lambda>u.
     Option.bind (req f ''email'' de_string) (\<lambda>e.
     Option.bind (req f ''password'' de_string) (\<lambda>p.
     Option.bind (opt f ''first_name'' de_string) (\<lambda>a.
     Option.bind (opt f ''last_name'' de_string) (\<lambda>b.
       Some \<lparr>rq_username = u, rq_email = e, rq_password = p, rq_first_name = a, rq_last_name = b\<rparr>))))))"

definition de_link_wallet_request :: "json \<Rightarrow> link_wallet_request option" where
  "de_link_wallet_request j =
     Option.bind (struct_fields [(''wallet_address'', False), (''label'', False), (''is_primary'', False)] j) (\<lambda>f.
     Option.bind (req f ''wallet_address'' de_string) (\<lambda>a.
     Option.bind (opt f ''label'' de_string) (\<lambda>l.
     Option.bind (req f ''is_primary'' de_bool) (\<lambda>p.
       Some \<lparr>lw_wallet_address = a, lw_label = l, lw_is_primary = p\<rparr>))))"

text \<open>\<open>#[serde(rename_all = "lowercase")]\<close>: other names than those of the domain's \<open>UserType\<close>.\<close>

definition wire_user_types :: "(string \<times> user_type) list" where
  "wire_user_types = [(''prosumer'', Prosumer), (''consumer'', user_type.Consumer)]"

definition de_location_request :: "json \<Rightarrow> location_request option" where
  "de_location_request j =
     Option.bind (struct_fields [(''lat_e7'', False), (''long_e7'', False)] j) (\<lambda>f.
     Option.bind (req f ''lat_e7'' de_signed) (\<lambda>lat.
     Option.bind (req f ''long_e7'' de_signed) (\<lambda>long.
       Some \<lparr>lo_lat_e7 = lat, lo_long_e7 = long\<rparr>)))"

definition de_onboarding_request :: "json \<Rightarrow> onboarding_request option" where
  "de_onboarding_request j =
     Option.bind (struct_fields [(''user_type'', False), (''location'', False), (''h3_index'', False),
                                 (''shard_id'', False)] j) (\<lambda>f.
     Option.bind (req f ''user_type'' (de_unit_enum wire_user_types)) (\<lambda>ut.
     Option.bind (req f ''location'' de_location_request) (\<lambda>l.
     Option.bind (opt f ''h3_index'' de_unsigned) (\<lambda>h.
     Option.bind (opt f ''shard_id'' de_unsigned) (\<lambda>s.
       Some \<lparr>ob_user_type = ut, ob_location = l, ob_h3_index = h, ob_shard_id = s\<rparr>)))))"

definition de_update_wallet_request :: "json \<Rightarrow> update_wallet_request option" where
  "de_update_wallet_request j =
     Option.bind (struct_fields [(''is_primary'', True)] j) (\<lambda>f.
     Option.bind (opt f ''is_primary'' de_bool) (\<lambda>p. Some \<lparr>uq_is_primary = p\<rparr>))"

definition de_resend_verification_request :: "json \<Rightarrow> resend_verification_request option" where
  "de_resend_verification_request j =
     Option.bind (struct_fields [(''email'', False)] j) (\<lambda>f.
     Option.bind (req f ''email'' de_string) (\<lambda>e. Some \<lparr>eq_email = e\<rparr>))"

definition de_forgot_password_request :: "json \<Rightarrow> forgot_password_request option" where
  "de_forgot_password_request j =
     Option.bind (struct_fields [(''email'', False)] j) (\<lambda>f.
     Option.bind (req f ''email'' de_string) (\<lambda>e. Some \<lparr>fq_email = e\<rparr>))"

definition de_reset_password_request :: "json \<Rightarrow> reset_password_request option" where
  "de_reset_password_request j =
     Option.bind (struct_fields [(''token'', False), (''new_password'', False)] j) (\<lambda>f.
     Option.bind (req f ''token'' de_string) (\<lambda>t.
     Option.bind (req f ''new_password'' de_string) (\<lambda>p.
       Some \<lparr>pq_token = t, pq_new_password = p\<rparr>)))"

text \<open>A query string gives the fields as text; the rules for names are those of an object.\<close>

definition de_verify_email_query :: "(string \<times> string) list \<Rightarrow> verify_email_request option" where
  "de_verify_email_query ps =
     (case filter (\<lambda>p. fst p = ''token'') ps of [(_, t)] \<Rightarrow> Some \<lparr>vq_token = t\<rparr> | _ \<Rightarrow> None)"

section \<open>Routing\<close>

datatype endpoint =
    E_register | E_login | E_refresh | E_verify | E_resend | E_forgot | E_reset | E_config | E_me
  | E_onboard | E_link | E_list | E_get string | E_update string | E_unlink string
  | E_health | E_ready | E_live

definition static_routes :: "((string \<times> string) \<times> endpoint) list" where
  "static_routes =
     [((''POST'', ''/api/v1/auth/register''), E_register),
      ((''POST'', ''/api/v1/auth/login''), E_login),
      ((''POST'', ''/api/v1/auth/refresh''), E_refresh),
      ((''GET'', ''/api/v1/auth/verify''), E_verify),
      ((''POST'', ''/api/v1/auth/resend-verification''), E_resend),
      ((''POST'', ''/api/v1/auth/forgot-password''), E_forgot),
      ((''POST'', ''/api/v1/auth/reset-password''), E_reset),
      ((''GET'', ''/api/v1/system/config''), E_config),
      ((''GET'', ''/api/v1/me''), E_me),
      ((''POST'', ''/api/v1/me/registration''), E_onboard),
      ((''POST'', ''/api/v1/me/wallets''), E_link),
      ((''GET'', ''/api/v1/me/wallets''), E_list),
      ((''GET'', ''/health''), E_health),
      ((''GET'', ''/health/ready''), E_ready),
      ((''GET'', ''/health/live''), E_live)]"

text \<open>The segment of a path that matches \<open>{wallet_id}\<close>.\<close>

definition wallet_segment :: "string \<Rightarrow> string option" where
  "wallet_segment p =
     (if starts_with p ''/api/v1/me/wallets/'' then
        let s = drop (length ''/api/v1/me/wallets/'') p
        in if s \<noteq> [] \<and> CHR ''/'' \<notin> set s then Some s else None
      else None)"

definition wallet_routes :: "(string \<times> (string \<Rightarrow> endpoint)) list" where
  "wallet_routes = [(''GET'', E_get), (''DELETE'', E_unlink), (''PATCH'', E_update)]"

text \<open>A \<open>HEAD\<close> request is served by the handler of \<open>GET\<close>.\<close>

definition resolve :: "string \<Rightarrow> string \<Rightarrow> endpoint option" where
  "resolve verb p =
     (let m = (if verb = ''HEAD'' then ''GET'' else verb) in
      case map_of static_routes (m, p) of
        Some e \<Rightarrow> Some e
      | None \<Rightarrow> Option.bind (wallet_segment p) (\<lambda>s. map_option (\<lambda>e. e s) (map_of wallet_routes m)))"

section \<open>Extraction\<close>

datatype rejection =
    Missing_json_content_type | Bytes_rejection | Json_syntax_error | Json_data_error
  | Invalid_query | Invalid_path

record http_lib =
  rejection_status :: "rejection \<Rightarrow> nat"
  percent_decode :: "string \<Rightarrow> string option"
  query_pairs :: "string option \<Rightarrow> (string \<times> string) list"
  query_encode :: "string \<Rightarrow> string"

text \<open>What the framework makes of the bytes of a body.\<close>

datatype http_body = No_json_content_type | Unreadable | Not_json | Json_text json

record http_request =
  hr_method :: string
  hr_path :: string
  hr_query :: "string option"
  hr_headers :: headers
  hr_body :: http_body

definition json_body :: "http_body \<Rightarrow> (json \<Rightarrow> 'a option) \<Rightarrow> rejection + 'a" where
  "json_body b de =
     (case b of
        No_json_content_type \<Rightarrow> Inl Missing_json_content_type
      | Unreadable \<Rightarrow> Inl Bytes_rejection
      | Not_json \<Rightarrow> Inl Json_syntax_error
      | Json_text j \<Rightarrow> (case de j of None \<Rightarrow> Inl Json_data_error | Some x \<Rightarrow> Inr x))"

definition path_uuid :: "http_lib \<Rightarrow> env \<Rightarrow> string \<Rightarrow> rejection + uuid" where
  "path_uuid L E s =
     (case Option.bind (percent_decode L s) (uuid_parse E) of None \<Rightarrow> Inl Invalid_path | Some i \<Rightarrow> Inr i)"

text \<open>The extractors behind those of the service role and the token.\<close>

fun extracted :: "http_lib \<Rightarrow> env \<Rightarrow> http_request \<Rightarrow> endpoint \<Rightarrow> rejection + route" where
  "extracted L E q E_register = map_sum id Register (json_body (hr_body q) de_registration_request)"
| "extracted L E q E_login = map_sum id Login (json_body (hr_body q) de_login_request)"
| "extracted L E q E_refresh = Inr Refresh"
| "extracted L E q E_verify =
     (case de_verify_email_query (query_pairs L (hr_query q)) of
        None \<Rightarrow> Inl Invalid_query | Some r \<Rightarrow> Inr (Verify (vq_token r)))"
| "extracted L E q E_resend =
     map_sum id (\<lambda>r. Resend (eq_email r)) (json_body (hr_body q) de_resend_verification_request)"
| "extracted L E q E_forgot =
     map_sum id (\<lambda>r. Forgot (fq_email r)) (json_body (hr_body q) de_forgot_password_request)"
| "extracted L E q E_reset =
     map_sum id (\<lambda>r. Reset (pq_token r) (pq_new_password r)) (json_body (hr_body q) de_reset_password_request)"
| "extracted L E q E_config = Inr System_config"
| "extracted L E q E_me = Inr Me"
| "extracted L E q E_onboard = map_sum id Onboard (json_body (hr_body q) de_onboarding_request)"
| "extracted L E q E_link = map_sum id Link_wallet (json_body (hr_body q) de_link_wallet_request)"
| "extracted L E q E_list = Inr List_wallets"
| "extracted L E q (E_get s) = map_sum id Get_wallet (path_uuid L E s)"
| "extracted L E q (E_update s) =
     (case path_uuid L E s of
        Inl e \<Rightarrow> Inl e
      | Inr i \<Rightarrow>
          map_sum id (\<lambda>r. Update_wallet i (uq_is_primary r)) (json_body (hr_body q) de_update_wallet_request))"
| "extracted L E q (E_unlink s) = map_sum id Unlink_wallet (path_uuid L E s)"
| "extracted L E q E_health = Inr Health"
| "extracted L E q E_ready = Inr Health_ready"
| "extracted L E q E_live = Inr Health_live"

fun needs_token :: "endpoint \<Rightarrow> bool" where
  "needs_token e =
     (case e of
        E_refresh \<Rightarrow> True | E_me \<Rightarrow> True | E_onboard \<Rightarrow> True | E_link \<Rightarrow> True | E_list \<Rightarrow> True
      | E_get _ \<Rightarrow> True | E_update _ \<Rightarrow> True | E_unlink _ \<Rightarrow> True | _ \<Rightarrow> False)"

text \<open>
  The token is checked before path and body are looked at, and those before the handler checks
  the service role.
\<close>

definition handle :: "edge \<Rightarrow> env \<Rightarrow> http_lib \<Rightarrow> http_request \<Rightarrow> endpoint \<Rightarrow> reply rest_act" where
  "handle A E L q e =
     (case extracted L E q e of
        Inr r \<Rightarrow> dispatch A E (hr_headers q) r
      | Inl rejected \<Rightarrow>
          andthen (if needs_token e
                   then map_err Api_error (andthen (authenticated_user E (hr_headers q)) (ok ()))
                   else ok ())
            (throw (Status (rejection_status L rejected))))"

text \<open>The routes nested under \<open>/api/v1/auth\<close> are behind the rate limiter, which sees the rest of the path.\<close>

fun limited_path :: "endpoint \<Rightarrow> string option" where
  "limited_path e =
     (case e of
        E_register \<Rightarrow> Some ''/register'' | E_login \<Rightarrow> Some ''/login'' | E_refresh \<Rightarrow> Some ''/refresh''
      | E_verify \<Rightarrow> Some ''/verify'' | E_resend \<Rightarrow> Some ''/resend-verification''
      | E_forgot \<Rightarrow> Some ''/forgot-password'' | E_reset \<Rightarrow> Some ''/reset-password'' | _ \<Rightarrow> None)"

definition serve_http :: "edge \<Rightarrow> env \<Rightarrow> http_lib \<Rightarrow> string \<Rightarrow> http_request \<Rightarrow> reply rest_act option" where
  "serve_http A E L ip q =
     map_option (\<lambda>e.
       case limited_path e of
         Some path \<Rightarrow> rate_limit_middleware A E ip path (handle A E L q e)
       | None \<Rightarrow> handle A E L q e)
     (resolve (hr_method q) (hr_path q))"

section \<open>Response bodies\<close>

definition user_response_json :: "env \<Rightarrow> user_response \<Rightarrow> json" where
  "user_response_json E u =
     JObj [(''id'', JStr (uuid_to_string E (us_id u))), (''username'', JStr (us_username u)),
           (''email'', JStr (us_email u)), (''role'', JStr (us_role u)),
           (''first_name'', ser_option JStr (us_first_name u)),
           (''last_name'', ser_option JStr (us_last_name u)),
           (''wallet_address'', ser_option JStr (us_wallet_address u)), (''status'', JStr (us_status u))]"

definition auth_response_json :: "env \<Rightarrow> auth_response \<Rightarrow> json" where
  "auth_response_json E a =
     JObj [(''access_token'', JStr (at_access_token a)), (''expires_in'', JInt (at_expires_in a)),
           (''user'', user_response_json E (at_user a))]"

text \<open>\<open>skip_serializing\<close>: whether the wallet is verified and registered is not shown.\<close>

definition wallet_response_json :: "env \<Rightarrow> time_text \<Rightarrow> wallet_response \<Rightarrow> json" where
  "wallet_response_json E T w =
     JObj ([(''id'', JStr (uuid_to_string E (wl_id w)))]
       @ (case wl_user_id w of None \<Rightarrow> [] | Some u \<Rightarrow> [(''user_id'', JStr (uuid_to_string E u))])
       @ [(''wallet_address'', JStr (wl_wallet_address w)), (''label'', ser_option JStr (wl_label w)),
          (''is_primary'', JBool (wl_is_primary w)), (''status'', JStr (wl_status w)),
          (''created_at'', JStr (ts_print T (wl_created_at w)))])"

definition wallet_list_response_json :: "env \<Rightarrow> time_text \<Rightarrow> wallet_response list \<Rightarrow> json" where
  "wallet_list_response_json E T ws = JObj [(''wallets'', JArr (map (wallet_response_json E T) ws))]"

definition registration_response_json :: "env \<Rightarrow> registration_response \<Rightarrow> json" where
  "registration_response_json E r =
     JObj [(''id'', JStr (uuid_to_string E (rg_id r))), (''username'', JStr (rg_username r)),
           (''email'', JStr (rg_email r)), (''status'', JStr (rg_status r)),
           (''message'', ser_option JStr (rg_message r))]"

definition refresh_response_json :: "refresh_response \<Rightarrow> json" where
  "refresh_response_json r =
     JObj [(''access_token'', JStr (rs_access_token r)), (''expires_in'', JInt (rs_expires_in r)),
           (''token_type'', JStr (rs_token_type r))]"

definition verify_email_response_json :: "env \<Rightarrow> verify_email_response \<Rightarrow> json" where
  "verify_email_response_json E r =
     JObj [(''success'', JBool (vr_success r)), (''message'', JStr (vr_message r)),
           (''wallet_address'', ser_option JStr (vr_wallet_address r)),
           (''auth'', ser_option (auth_response_json E) (vr_auth r))]"

definition resend_verification_result_json :: "resend_verification_result \<Rightarrow> json" where
  "resend_verification_result_json r = JObj [(''status'', JStr (rv_status r)), (''message'', JStr (rv_message r))]"

definition onboarding_response_json :: "onboarding_response \<Rightarrow> json" where
  "onboarding_response_json r =
     JObj [(''status'', JStr (on_status r)),
           (''transaction_signature'', ser_option JStr (on_transaction_signature r)),
           (''message'', JStr (on_message r))]"

definition system_config_response_json :: "system_config_response \<Rightarrow> json" where
  "system_config_response_json c =
     JObj [(''environment'', JStr (sc_environment c)), (''solana_rpc_url'', JStr (sc_solana_rpc_url c)),
           (''solana_cluster'', JStr (sc_solana_cluster c)),
           (''registry_program_id'', JStr (sc_registry_program_id c)),
           (''oracle_program_id'', JStr (sc_oracle_program_id c)),
           (''governance_program_id'', JStr (sc_governance_program_id c)),
           (''energy_token_program_id'', JStr (sc_energy_token_program_id c)),
           (''trading_program_id'', JStr (sc_trading_program_id c)),
           (''energy_token_mint'', JStr (sc_energy_token_mint c)),
           (''currency_token_mint'', JStr (sc_currency_token_mint c))]"

text \<open>The three responses that have only a message: \<open>DeleteWalletResponse\<close>, \<open>ForgotPasswordResponse\<close> and
  \<open>ResetPasswordResponse\<close>.\<close>

definition message_response_json :: "string \<Rightarrow> json" where
  "message_response_json m = JObj [(''message'', JStr m)]"

text \<open>The status and body of an answer; an error has the body of \<open>Errors.into_response\<close>.\<close>

fun reply_json :: "env \<Rightarrow> time_text \<Rightarrow> reply \<Rightarrow> nat \<times> json" where
  "reply_json E T (R_registration r) = (200, registration_response_json E r)"
| "reply_json E T (R_auth a) = (200, auth_response_json E a)"
| "reply_json E T (R_refresh r) = (200, refresh_response_json r)"
| "reply_json E T (R_verify r) = (200, verify_email_response_json E r)"
| "reply_json E T (R_resend r) = (200, resend_verification_result_json r)"
| "reply_json E T (R_message m) = (200, message_response_json m)"
| "reply_json E T (R_config c) = (200, system_config_response_json c)"
| "reply_json E T (R_user u) = (200, user_response_json E u)"
| "reply_json E T (R_onboarding r) = (200, onboarding_response_json r)"
| "reply_json E T (R_wallet w) = (200, wallet_response_json E T w)"
| "reply_json E T (R_wallets ws) = (200, wallet_list_response_json E T ws)"
| "reply_json E T (R_json status j) = (status, j)"

section \<open>The requests of a client\<close>

text \<open>A request that means a given route, as the documentation of the interface describes it.\<close>

definition plain :: "string \<Rightarrow> string \<Rightarrow> headers \<Rightarrow> http_request" where
  "plain m p hs =
     \<lparr>hr_method = m, hr_path = p, hr_query = None, hr_headers = hs, hr_body = No_json_content_type\<rparr>"

definition with_json :: "string \<Rightarrow> string \<Rightarrow> headers \<Rightarrow> (string \<times> json) list \<Rightarrow> http_request" where
  "with_json m p hs fs = (plain m p hs)\<lparr>hr_body := Json_text (JObj fs)\<rparr>"

definition wallet_path :: "env \<Rightarrow> uuid \<Rightarrow> string" where
  "wallet_path E i = ''/api/v1/me/wallets/'' @ uuid_to_string E i"

definition wire_user_type :: "user_type \<Rightarrow> json" where
  "wire_user_type t = JStr (case t of Prosumer \<Rightarrow> ''prosumer'' | user_type.Consumer \<Rightarrow> ''consumer'')"

fun request_of :: "env \<Rightarrow> http_lib \<Rightarrow> headers \<Rightarrow> route \<Rightarrow> http_request" where
  "request_of E L hs (Register q) = with_json ''POST'' ''/api/v1/auth/register'' hs
     [(''username'', JStr (rq_username q)), (''email'', JStr (rq_email q)), (''password'', JStr (rq_password q)),
      (''first_name'', ser_option JStr (rq_first_name q)), (''last_name'', ser_option JStr (rq_last_name q))]"
| "request_of E L hs (Login q) = with_json ''POST'' ''/api/v1/auth/login'' hs
     [(''username'', JStr (lq_username q)), (''password'', JStr (lq_password q))]"
| "request_of E L hs Refresh = plain ''POST'' ''/api/v1/auth/refresh'' hs"
| "request_of E L hs (Verify t) =
     (plain ''GET'' ''/api/v1/auth/verify'' hs)\<lparr>hr_query := Some (''token='' @ query_encode L t)\<rparr>"
| "request_of E L hs (Resend e) = with_json ''POST'' ''/api/v1/auth/resend-verification'' hs [(''email'', JStr e)]"
| "request_of E L hs (Forgot e) = with_json ''POST'' ''/api/v1/auth/forgot-password'' hs [(''email'', JStr e)]"
| "request_of E L hs (Reset t p) = with_json ''POST'' ''/api/v1/auth/reset-password'' hs
     [(''token'', JStr t), (''new_password'', JStr p)]"
| "request_of E L hs System_config = plain ''GET'' ''/api/v1/system/config'' hs"
| "request_of E L hs Me = plain ''GET'' ''/api/v1/me'' hs"
| "request_of E L hs (Onboard q) = with_json ''POST'' ''/api/v1/me/registration'' hs
     [(''user_type'', wire_user_type (ob_user_type q)),
      (''location'', JObj [(''lat_e7'', JInt (sint (lo_lat_e7 (ob_location q)))),
                           (''long_e7'', JInt (sint (lo_long_e7 (ob_location q))))]),
      (''h3_index'', ser_option (\<lambda>x. JInt (uint x)) (ob_h3_index q)),
      (''shard_id'', ser_option (\<lambda>x. JInt (uint x)) (ob_shard_id q))]"
| "request_of E L hs (Link_wallet q) = with_json ''POST'' ''/api/v1/me/wallets'' hs
     [(''wallet_address'', JStr (lw_wallet_address q)), (''label'', ser_option JStr (lw_label q)),
      (''is_primary'', JBool (lw_is_primary q))]"
| "request_of E L hs List_wallets = plain ''GET'' ''/api/v1/me/wallets'' hs"
| "request_of E L hs (Get_wallet i) = plain ''GET'' (wallet_path E i) hs"
| "request_of E L hs (Update_wallet i b) =
     with_json ''PATCH'' (wallet_path E i) hs [(''is_primary'', ser_option JBool b)]"
| "request_of E L hs (Unlink_wallet i) = plain ''DELETE'' (wallet_path E i) hs"
| "request_of E L hs Health = plain ''GET'' ''/health'' hs"
| "request_of E L hs Health_ready = plain ''GET'' ''/health/ready'' hs"
| "request_of E L hs Health_live = plain ''GET'' ''/health/live'' hs"

text \<open>
  What the requests rely on: the text of a UUID is one path segment that means itself, and a value
  written into a query string is read from it.
\<close>

definition http_law :: "http_lib \<Rightarrow> env \<Rightarrow> bool" where
  "http_law L E \<longleftrightarrow>
     uuid_roundtrip E \<and>
     (\<forall>i. uuid_to_string E i \<noteq> [] \<and> CHR ''/'' \<notin> set (uuid_to_string E i) \<and>
          percent_decode L (uuid_to_string E i) = Some (uuid_to_string E i)) \<and>
     (\<forall>t. query_pairs L (Some (''token='' @ query_encode L t)) = [(''token'', t)])"

text \<open>Every rejection of the framework is the client's fault.\<close>

definition rejection_law :: "http_lib \<Rightarrow> bool" where
  "rejection_law L \<longleftrightarrow> (\<forall>r. 400 \<le> rejection_status L r \<and> rejection_status L r < 500)"

fun endpoint_of :: "env \<Rightarrow> route \<Rightarrow> endpoint" where
  "endpoint_of E r =
     (case r of
        Register _ \<Rightarrow> E_register | Login _ \<Rightarrow> E_login | Refresh \<Rightarrow> E_refresh | Verify _ \<Rightarrow> E_verify
      | Resend _ \<Rightarrow> E_resend | Forgot _ \<Rightarrow> E_forgot | Reset _ _ \<Rightarrow> E_reset | System_config \<Rightarrow> E_config
      | Me \<Rightarrow> E_me | Onboard _ \<Rightarrow> E_onboard | Link_wallet _ \<Rightarrow> E_link | List_wallets \<Rightarrow> E_list
      | Get_wallet i \<Rightarrow> E_get (uuid_to_string E i) | Update_wallet i _ \<Rightarrow> E_update (uuid_to_string E i)
      | Unlink_wallet i \<Rightarrow> E_unlink (uuid_to_string E i) | Health \<Rightarrow> E_health | Health_ready \<Rightarrow> E_ready
      | Health_live \<Rightarrow> E_live)"

section \<open>Requests reach their routes\<close>

lemma resolve_wallet:
  assumes "s \<noteq> []" "CHR ''/'' \<notin> set s"
  shows "resolve ''GET'' (''/api/v1/me/wallets/'' @ s) = Some (E_get s)"
    "resolve ''DELETE'' (''/api/v1/me/wallets/'' @ s) = Some (E_unlink s)"
    "resolve ''PATCH'' (''/api/v1/me/wallets/'' @ s) = Some (E_update s)"
proof -
  have "map_of static_routes (m, ''/api/v1/me/wallets/'' @ s) = None" for m
    using assms(1) by (simp add: static_routes_def)
  moreover have "wallet_segment (''/api/v1/me/wallets/'' @ s) = Some s"
    using assms by (simp add: wallet_segment_def starts_with_def)
  ultimately show "resolve ''GET'' (''/api/v1/me/wallets/'' @ s) = Some (E_get s)"
    "resolve ''DELETE'' (''/api/v1/me/wallets/'' @ s) = Some (E_unlink s)"
    "resolve ''PATCH'' (''/api/v1/me/wallets/'' @ s) = Some (E_update s)"
    by (simp_all add: resolve_def wallet_routes_def)
qed

lemmas request_simps = plain_def with_json_def wallet_path_def

lemma request_resolves:
  assumes "http_law L E"
  shows "resolve (hr_method (request_of E L hs r)) (hr_path (request_of E L hs r)) = Some (endpoint_of E r)"
proof -
  have s: "uuid_to_string E i \<noteq> []" "CHR ''/'' \<notin> set (uuid_to_string E i)" for i
    using assms by (simp_all add: http_law_def)
  show ?thesis
  proof (cases r)
    case (Get_wallet i)
    then show ?thesis using resolve_wallet [OF s [of i]] by (simp add: request_simps)
  next
    case (Update_wallet i b)
    then show ?thesis using resolve_wallet [OF s [of i]] by (simp add: request_simps)
  next
    case (Unlink_wallet i)
    then show ?thesis using resolve_wallet [OF s [of i]] by (simp add: request_simps)
  qed (simp_all add: request_simps resolve_def static_routes_def)
qed

lemma body_forms:
  "de_login_request (JObj [(''username'', JStr (lq_username a)), (''password'', JStr (lq_password a))]) = Some a"
  "de_registration_request (JObj
     [(''username'', JStr (rq_username b)), (''email'', JStr (rq_email b)), (''password'', JStr (rq_password b)),
      (''first_name'', ser_option JStr (rq_first_name b)), (''last_name'', ser_option JStr (rq_last_name b))]) = Some b"
  "de_link_wallet_request (JObj
     [(''wallet_address'', JStr (lw_wallet_address c)), (''label'', ser_option JStr (lw_label c)),
      (''is_primary'', JBool (lw_is_primary c))]) = Some c"
  "de_location_request (JObj [(''lat_e7'', JInt (sint (lo_lat_e7 d))), (''long_e7'', JInt (sint (lo_long_e7 d)))]) = Some d"
  "de_resend_verification_request (JObj [(''email'', JStr e)]) = Some \<lparr>eq_email = e\<rparr>"
  "de_forgot_password_request (JObj [(''email'', JStr e)]) = Some \<lparr>fq_email = e\<rparr>"
  "de_reset_password_request (JObj [(''token'', JStr t), (''new_password'', JStr p)]) =
     Some \<lparr>pq_token = t, pq_new_password = p\<rparr>"
  by (simp_all add: de_login_request_def de_registration_request_def de_link_wallet_request_def
      de_location_request_def de_resend_verification_request_def de_forgot_password_request_def
      de_reset_password_request_def serde_eval del: de_signed.simps)

lemma option_forms:
  "de_option de_bool (ser_option JBool b) = Some b"
  "de_option de_unsigned (ser_option (\<lambda>x. JInt (uint x)) h) = Some h"
  "de_unit_enum wire_user_types (wire_user_type ut) = Some ut"
proof -
  show "de_option de_bool (ser_option JBool b) = Some b" by (rule de_option_ser) simp
  show "de_option de_unsigned (ser_option (\<lambda>x. JInt (uint x)) h) = Some h"
    by (rule de_option_ser) (simp del: de_unsigned.simps)
  show "de_unit_enum wire_user_types (wire_user_type ut) = Some ut"
    by (cases ut) (simp_all add: wire_user_types_def wire_user_type_def)
qed

lemma onboarding_form:
  "de_onboarding_request (JObj
     [(''user_type'', wire_user_type (ob_user_type q)),
      (''location'', JObj [(''lat_e7'', JInt (sint (lo_lat_e7 (ob_location q)))),
                           (''long_e7'', JInt (sint (lo_long_e7 (ob_location q))))]),
      (''h3_index'', ser_option (\<lambda>x. JInt (uint x)) (ob_h3_index q)),
      (''shard_id'', ser_option (\<lambda>x. JInt (uint x)) (ob_shard_id q))]) = Some q"
  by (simp add: de_onboarding_request_def serde_eval option_forms body_forms)

lemma update_form:
  "de_update_wallet_request (JObj [(''is_primary'', ser_option JBool b)]) = Some \<lparr>uq_is_primary = b\<rparr>"
  by (simp add: de_update_wallet_request_def serde_eval option_forms)

lemma request_extracted:
  assumes "http_law L E"
  shows "extracted L E (request_of E L hs r) (endpoint_of E r) = Inr r"
proof -
  have "path_uuid L E (uuid_to_string E i) = Inr i" for i
    using assms by (simp add: http_law_def path_uuid_def uuid_roundtrip_def)
  moreover have "de_verify_email_query (query_pairs L (Some (''token='' @ query_encode L t))) = Some \<lparr>vq_token = t\<rparr>" for t
    using assms by (simp add: http_law_def de_verify_email_query_def)
  ultimately show ?thesis
    by (cases r) (simp_all add: request_simps json_body_def body_forms onboarding_form update_form)
qed

section \<open>Extraction keeps the route\<close>

text \<open>An endpoint only gives routes of its own: behind the same limiter, and private like it.\<close>

lemma extracted_route:
  assumes "extracted L E q e = Inr r"
  shows "auth_path r = limited_path e" "needs_token e \<longleftrightarrow> private_route r"
  using assms
  by (cases e; auto simp: map_sum_def split: sum.splits option.splits)+

lemma serve_http_extracted:
  assumes "resolve (hr_method q) (hr_path q) = Some e" "extracted L E q e = Inr r"
  shows "serve_http A E L ip q = Some (serve_rest A E ip (hr_headers q) r)"
  using assms extracted_route(1) [OF assms(2)]
  by (simp add: serve_http_def serve_rest_def handle_def split: option.splits)

section \<open>Rejected requests\<close>

lemma handle_rejected:
  assumes "rejection_law L" "extracted L E q e = Inl rejected"
  obtains err where "handle A E L q e w = (Inl err, w)" "400 \<le> rest_status err" "rest_status err < 500"
proof -
  let ?u = "authenticated_user E (hr_headers q) w"
  have st: "400 \<le> rejection_status L rejected \<and> rejection_status L rejected < 500"
    using assms(1) by (simp add: rejection_law_def)
  show ?thesis
  proof (cases "fst ?u")
    case (Inl x)
    then have "status_code x = 401" by (rule authenticated_user_status)
    with Inl st assms(2) that show ?thesis
      by (cases "needs_token e") (simp_all add: handle_def comp_simps authenticated_user_state)
  next
    case (Inr c)
    with st assms(2) that show ?thesis
      by (cases "needs_token e") (simp_all add: handle_def comp_simps authenticated_user_state)
  qed
qed

text \<open>Without a valid token a private endpoint answers 401, whatever the path and the body are.\<close>

lemma token_checked_first:
  assumes "needs_token e" "fst (authenticated_user E (hr_headers q) w) = Inl x"
  shows "handle A E L q e w = (Inl (Api_error x), w) \<and> status_code x = 401"
proof
  show "status_code x = 401" using assms(2) by (rule authenticated_user_status)
  show "handle A E L q e w = (Inl (Api_error x), w)"
  proof (cases "extracted L E q e")
    case (Inl rejected)
    with assms show ?thesis by (simp add: handle_def comp_simps authenticated_user_state del: needs_token.simps)
  next
    case (Inr r)
    then have "private_route r" using extracted_route(2) [OF Inr] assms(1) by simp
    with Inr assms(2) show ?thesis
      by (cases r) (simp_all add: handle_def replying_def authenticated_def comp_simps authenticated_user_state)
  qed
qed

text \<open>Counting a request writes its counter, and nothing else.\<close>

lemma keeps_counter_other:
  assumes "k \<noteq> key"
  shows "keeps (\<lambda>w. redis w k) (increment E key)" "keeps (\<lambda>w. redis w k) (set_value E key v ttl)"
  unfolding increment_def increment_raw_def set_value_def set_raw_def
  using assms
  by (intro keeps_intros keeps_timed untimed_at keepsI [of _ "on_redis _"];
      auto simp: on_redis_run r_incr_other r_set_ex_def r_put_def split: option.splits)+

lemma keeps_limit_other: "k \<noteq> rate_limit_key ip path \<Longrightarrow> keeps (\<lambda>w. redis w k) (check_rate_limit E ip path limit secs)"
  unfolding check_rate_limit_def Let_def by (intro keeps_intros keeps_counter_other)

lemma keeps_limit:
  assumes "untimed f" "\<And>w s. f (w\<lparr>redis := s\<rparr>) = f w"
  shows "keeps f (check_rate_limit E ip path limit secs)"
  unfolding check_rate_limit_def Let_def by (intro keeps_intros keeps_cache assms)

definition spent :: "string \<Rightarrow> string option \<Rightarrow> string set" where
  "spent ip path = (case path of None \<Rightarrow> {} | Some p \<Rightarrow> {rate_limit_key ip p})"

definition beyond_cache :: "world \<Rightarrow> (user_rec list \<times> wallet_row list \<times> api_key_row list \<times> outbox_rec list)
    \<times> event list \<times> kafka_record list \<times> task list" where
  "beyond_cache w = (db_tables w, stream w, kafka_log w, tasks w)"

lemma beyond_cache_frame: "untimed beyond_cache" "beyond_cache (w\<lparr>redis := s\<rparr>) = beyond_cache w"
  by (simp_all add: untimed_def beyond_cache_def db_tables_def)

lemma limited_rejection:
  fixes A E ip path and m :: "'a rest_act"
  assumes "\<And>w. \<exists>err. m w = (Inl err, w) \<and> 400 \<le> rest_status err \<and> rest_status err < 500"
  defines "r \<equiv> rate_limit_middleware A E ip path m"
  shows "\<exists>err. fst (r w) = Inl err \<and> 400 \<le> rest_status err \<and> rest_status err < 500"
    and "beyond_cache (snd (r w)) = beyond_cache w"
    and "k \<noteq> rate_limit_key ip path \<Longrightarrow> redis (snd (r w)) k = redis w k"
proof -
  obtain limit secs where l: "limits_for_path (env_vars A) path = (limit, secs)" by fastforce
  define w1 where "w1 = snd (check_rate_limit E ip path limit secs w)"
  obtain err where err: "m w1 = (Inl err, w1)" "400 \<le> rest_status err" "rest_status err < 500"
    using assms(1) by blast
  have run: "r w = (Inl (case fst (check_rate_limit E ip path limit secs w) of Inr _ \<Rightarrow> err | Inl _ \<Rightarrow> Status 429), w1)"
    using err(1) by (simp add: r_def rate_limit_middleware_def l comp_simps w1_def split: sum.splits)
  then show "\<exists>err. fst (r w) = Inl err \<and> 400 \<le> rest_status err \<and> rest_status err < 500"
    using err(2,3) by (simp split: sum.splits)
  show "beyond_cache (snd (r w)) = beyond_cache w"
    using run keepsD [OF keeps_limit [OF beyond_cache_frame]] by (simp add: w1_def)
  show "k \<noteq> rate_limit_key ip path \<Longrightarrow> redis (snd (r w)) k = redis w k"
    using run keepsD [OF keeps_limit_other] by (simp add: w1_def)
qed

section \<open>Properties\<close>

text \<open>C21. Every route of the interface can be reached: the request a client writes for it, with its path,
  query or JSON body, is routed and read back as exactly that route with exactly its arguments,
  and served as such.\<close>

theorem rest_request_roundtrip:
  assumes "http_law L E"
  shows "serve_http A E L ip (request_of E L hs r) = Some (serve_rest A E ip hs r)"
proof -
  have "hr_headers (request_of E L hs r) = hs" by (cases r) (simp_all add: request_simps)
  then show ?thesis
    using serve_http_extracted [OF request_resolves request_extracted, OF assms assms] by metis
qed

definition sample_http_lib :: http_lib where
  "sample_http_lib =
     \<lparr>rejection_status = (\<lambda>r. case r of Missing_json_content_type \<Rightarrow> 415 | Json_data_error \<Rightarrow> 422 | _ \<Rightarrow> 400),
      percent_decode = Some,
      query_pairs = (\<lambda>q. case q of None \<Rightarrow> [] | Some s \<Rightarrow>
        (case split_once (CHR ''='') s of (k, Some v) \<Rightarrow> [(k, v)] | _ \<Rightarrow> [])),
      query_encode = id\<rparr>"

lemma sample_http_law: "http_law sample_http_lib sample_env"
proof -
  have "CHR ''/'' \<notin> set (show_nat n)" for n
    using show_nat_digits [of n] by (auto simp: list_all_iff is_ascii_digit_def byte_def)
  then have "CHR ''/'' \<notin> set (uuid_to_string sample_env i)" "uuid_to_string sample_env i \<noteq> []" for i
    using show_nat_not_Nil by (simp_all add: sample_env_def)
  moreover have "split_once CHR ''='' (''token='' @ t) = (''token'', Some t)" for t
    using split_once_append [of "CHR ''=''" "''token''" t] by simp
  ultimately show ?thesis
    by (simp add: http_law_def uuid_roundtrip_def sample_http_lib_def)
qed

lemma sample_rejection_law: "rejection_law sample_http_lib"
  by (simp add: rejection_law_def sample_http_lib_def split: rejection.splits)

theorem rest_request_roundtrip_witness:
  "serve_http sample_edge sample_env sample_http_lib ''10.0.0.1''
     (request_of sample_env sample_http_lib Map.empty (Verify ''tok'')) =
   Some (serve_rest sample_edge sample_env ''10.0.0.1'' Map.empty (Verify ''tok''))"
  by (rule rest_request_roundtrip) (rule sample_http_law)

text \<open>C20. A malformed request (no JSON, ill-typed, missing or repeated fields, a bad identifier in the path,
  a bad query) is answered with a client error, whatever fails on the way, and has no effect but
  that the authentication routes count it against the budget of its sender.\<close>

theorem malformed_request_rejected:
  assumes "rejection_law L" and "resolve (hr_method q) (hr_path q) = Some e"
    and "extracted L E q e = Inl rejected" and "serve_http A E L ip q = Some act"
  shows "(\<exists>err. fst (act w) = Inl err \<and> 400 \<le> rest_status err \<and> rest_status err < 500) \<and>
    beyond_cache (snd (act w)) = beyond_cache w \<and>
    {k. redis (snd (act w)) k \<noteq> redis w k} \<subseteq> spent ip (limited_path e)"
proof -
  have h: "\<exists>err. handle A E L q e w = (Inl err, w) \<and> 400 \<le> rest_status err \<and> rest_status err < 500" for w
    using handle_rejected [OF assms(1,3), of A w] by blast
  show ?thesis
  proof (cases "limited_path e")
    case None
    then have "act = handle A E L q e" using assms(2,4) by (simp add: serve_http_def)
    then show ?thesis using h [of w] by (auto simp: spent_def)
  next
    case (Some path)
    then have act: "act = rate_limit_middleware A E ip path (handle A E L q e)"
      using assms(2,4) by (simp add: serve_http_def)
    show ?thesis
      using limited_rejection [OF h, where A = A and E = E and ip = ip and path = path and w = w] unfolding act Some spent_def by auto
  qed
qed

text \<open>A login that repeats a field, and one that gives the fields by position.\<close>

lemma login_bodies:
  "de_login_request (JObj [(''username'', JStr ''a''), (''password'', JStr ''b''), (''username'', JStr ''c'')]) = None"
  "de_login_request (JArr [JStr ''a'', JStr ''b'']) = Some \<lparr>lq_username = ''a'', lq_password = ''b''\<rparr>"
  by (simp_all add: de_login_request_def serde_eval)

theorem malformed_request_rejected_witness:
  "\<exists>act. serve_http sample_edge sample_env sample_http_lib ''10.0.0.1''
       (with_json ''POST'' ''/api/v1/auth/login'' Map.empty [(''username'', JStr ''a'')]) = Some act \<and>
     (\<exists>err. fst (act sample_world) = Inl err \<and> 400 \<le> rest_status err \<and> rest_status err < 500) \<and>
     {k. redis (snd (act sample_world)) k \<noteq> redis sample_world k} \<subseteq> {rate_limit_key ''10.0.0.1'' ''/login''}"
proof -
  let ?q = "with_json ''POST'' ''/api/v1/auth/login'' Map.empty [(''username'', JStr ''a'')]"
  have e: "resolve (hr_method ?q) (hr_path ?q) = Some E_login"
    by (simp add: request_simps resolve_def static_routes_def)
  then obtain act where a: "serve_http sample_edge sample_env sample_http_lib ''10.0.0.1'' ?q = Some act"
    by (simp add: serve_http_def)
  have "extracted sample_http_lib sample_env ?q E_login = Inl Json_data_error"
    by (simp add: request_simps json_body_def de_login_request_def serde_eval)
  from malformed_request_rejected [OF sample_rejection_law e this a, of sample_world] a
  show ?thesis by (simp add: spent_def)
qed

end
