(* ===== verification/Spec2Isabelle.thy ===== *)
theory Spec2Isabelle
  imports WalletSafety Journey Permits Metrics Http
begin

text \<open>
  A verification development for the GridTokenX identity and access management service
  (\<open>gridtokenx-iam-service\<close>): accounts, sessions, API keys, custodial and linked wallets, on-chain
  registration, domain events.

  \<^bold>\<open>The program.\<close>  Requests reach \<open>bin/iam-service/src/startup.rs\<close> as REST calls (routes, rate limiter,
  \<open>iam-api/src/handlers\<close>) or as gRPC calls (\<open>iam-api/src/identity_grpc.rs\<close>).  Both check the role of the
  calling service and call \<open>AuthService\<close> (\<open>iam-logic/src/auth_service.rs\<close>), which uses the password and token
  services, the repositories on Postgres, the Redis cache, the event bus and the blockchain provider.
  Events go to a Redis stream and, through an outbox table and a worker, to Kafka.  \<open>main.rs\<close> and
  \<open>startup.rs\<close> build all of this from the configuration and run both servers until they are stopped.

  \<^bold>\<open>How it is modelled.\<close>  An \<open>async fn\<close> returning \<open>Result<T, ApiError>\<close> is a computation
  (\<open>('w, 'e, 'a) comp\<close>, theory \<open>Prelude\<close>): a function from the state to an error (\<open>Inl\<close>) or a value (\<open>Inr\<close>)
  and the new state; \<open>bnd\<close> is the operator \<open>?\<close>, \<open>ignoring\<close> is \<open>let _ = ...\<close>.  The state is the record \<open>world\<close>
  (theory \<open>World\<close>): the tables \<open>users\<close>, \<open>user_wallets\<close>, \<open>api_keys\<close> and \<open>iam_outbox_events\<close>, the Redis key
  space and stream, the Kafka log, the detached tasks, the clock in milliseconds.  Code outside
  the repository (Argon2, bcrypt, the JWT library, HMAC, the Solana client, key encryption, random
  numbers, UUID text) is a field of the record \<open>env\<close>; what a property relies on is a named
  hypothesis (\<open>argon2_law\<close>, \<open>require_any_law\<close>, ...), shown to hold for the concrete \<open>sample_env\<close>.  Every
  request over the network may be lost, or its reply may be lost after it took effect
  (\<open>outcome\<close>), and takes time (\<open>latency\<close>); \<open>reliable\<close> and \<open>instant\<close> are the environments without faults and
  without delays.  Strings are byte strings, machine integers are words or naturals with their
  bounds written out, \<open>f64\<close> coordinates are a datatype of finite and special values.

  \<^bold>\<open>Theories and sources.\<close>
  \<^item> \<open>Prelude\<close>, \<open>Rust_Str\<close>: computations, the calculus of invariants (\<open>preserves\<close>), frames (\<open>keeps\<close>) and
    simulation, and the part of Rust's \<open>str\<close> in use.
  \<^item> \<open>Roles\<close>, \<open>Errors\<close>, \<open>Domain\<close>, \<open>Config\<close>, \<open>Events\<close>: \<open>iam-core\<close> (\<open>roles.rs\<close>, \<open>error/\<close>, \<open>models.rs\<close>, \<open>auth.rs\<close>,
    \<open>keys.rs\<close>, \<open>config.rs\<close>, \<open>events.rs\<close>) and \<open>iam-api/src/error_helpers.rs\<close>.
  \<^item> \<open>Serde\<close>, \<open>Stored\<close>: the derived readers and writers of JSON, and the forms of cached users, API keys and
    events.
  \<^item> \<open>World\<close>, \<open>Samples\<close>: the state, the environment, a concrete environment for the witnesses.
  \<^item> \<open>Cache\<close>, \<open>Tables\<close>, \<open>Users\<close>, \<open>Wallets\<close>, \<open>ApiKeys\<close>, \<open>Outbox\<close>, \<open>EventBus\<close>: \<open>iam-persistence\<close> (\<open>cache.rs\<close>,
    \<open>repository/\<close>, \<open>event_bus.rs\<close>, \<open>event_bus/kafka.rs\<close>, \<open>outbox_worker.rs\<close>) with the constraints of the
    migrations.
  \<^item> \<open>Password\<close>, \<open>Tokens\<close>, \<open>Blockchain\<close>, \<open>Auth\<close>, \<open>WalletOps\<close>: \<open>iam-logic\<close> (\<open>password.rs\<close>, \<open>jwt_service.rs\<close>,
    \<open>blockchain_provider.rs\<close>, \<open>auth_service.rs\<close>).
  \<^item> \<open>Api\<close>, \<open>RateLimit\<close>, \<open>Rest\<close>, \<open>Grpc\<close>: \<open>iam-api\<close> (\<open>handlers/\<close>, \<open>middleware/rate_limit.rs\<close>,
    \<open>middleware/request_id.rs\<close>, \<open>identity_grpc.rs\<close>) and the routes and health endpoints of \<open>startup.rs\<close>.
  \<^item> \<open>Http\<close>: the same routes from methods, paths and bodies (\<open>startup.rs\<close>, \<open>handlers/types.rs\<close>): routing, the
    extractors in the order of the handlers' arguments, the JSON of requests and responses; reading bytes
    and the statuses of rejections are the record \<open>http_lib\<close> with \<open>http_law\<close> and \<open>rejection_law\<close>.
  \<^item> \<open>Traits\<close>: \<open>iam-core/src/traits.rs\<close>, each trait as a record of operations with its implementation.
  \<^item> \<open>Startup\<close>: \<open>main.rs\<close> and \<open>startup.rs\<close> with the constructors of the services; start-up is a sequence of
    steps that fail, panic or succeed as the libraries answer (record \<open>startup_lib\<close>), the running servers are a
    step relation (\<open>server_step\<close>) over the server futures of the frameworks (record \<open>server_lib\<close> with the
    documented \<open>graceful_law\<close>).
  \<^item> \<open>Permits\<close>: the CPU semaphore around password hashing as a step relation (\<open>cpu_step\<close>) over a semaphore
    with the documented contract \<open>semaphore_law\<close> and a pool of blocking threads of a given size.
  \<^item> \<open>Metrics\<close>: \<open>middleware/metrics.rs\<close>, what the handlers record, and the metrics endpoint; a recorder is the
    list of the operations it received.
  \<^item> \<open>Invariants\<close>, \<open>Lockout\<close>, \<open>Accounts\<close>, \<open>Journey\<close>, \<open>WalletSafety\<close>, \<open>Access\<close>: the properties of the whole.

  \<^bold>\<open>Interfaces.\<close>  The contracts are locales, each interpreted on the model's own definitions: \<open>state_order\<close>
  and its extensions \<open>timed_order\<close>, \<open>users_order\<close>, \<open>table_order\<close> (a relation between states that requests,
  table writes and transactions respect), \<open>expiring_store\<close> (the laws of Redis keys with a lifetime),
  \<open>stream_frame\<close> and its extension \<open>bus_frame\<close> (what publishing leaves alone), and the promises of three traits
  (\<open>Traits\<close>): \<open>wallet_contract\<close> (deleting spares the primary wallet, custodial wallets are atomic),
  \<open>outbox_contract\<close> (accepted events are durable, the oldest waiting ones are fetched) and \<open>cache_contract\<close>
  (values live for their lifetime, counters decay), which hold for the implementations under every fault.

  \<^bold>\<open>What is shown.\<close>
  \<^item> \<open>Lockout\<close>: over every history of logins the handler behaves as an automaton with a failure count
    and a lock (refinement); five failures lock for exactly 15 minutes.
  \<^item> \<open>Invariants\<close>: every handler is a run of single requests; in every interleaving, under every fault,
    no record is half written, no account changes its identity or role, and new accounts are plain users.
    (The unique keys, the one primary wallet per user and the ownership of wallets hold as well: the
    database tests them before every write.)
  \<^item> \<open>Accounts\<close>: what registration adds, that taken names are refused, who can log in, that production
    verification needs the account's own token and opens that account's session, that only passwords of the
    policy are stored, that the resend endpoint reveals nothing, single use of reset tokens, the exact time a
    revoked API key survives.
  \<^item> \<open>Journey\<close>: registration, verification in time and the first login fit together: the login is granted.
  \<^item> \<open>WalletSafety\<close>, \<open>Blockchain\<close>: the primary wallet, bounded registration, and that a registration is
    recorded only when the chain was seen to hold the account.
  \<^item> \<open>Traits\<close>: a custodial wallet and its key are stored together or not at all.
  \<^item> \<open>Access\<close>, \<open>RateLimit\<close>: private routes are guarded and confined to the caller's rows, gRPC methods
    fail closed, budgets are kept; errors are reported alike over HTTP and gRPC, by the class of their code.
  \<^item> \<open>Http\<close> and this theory: a client reaches every route with the request documented for it; a request that
    cannot be read is a client error without effect; and nothing that is sent to the private endpoints
    touches the rows of another user.
  \<^item> \<open>Stored\<close>: the JSON forms of cached values and events are read back unchanged, and never as another type.
  \<^item> \<open>EventBus\<close>: a row is marked processed only when its event is in Kafka, a round drains the outbox,
    an unreadable event is quarantined by its tenth attempt.
  \<^item> \<open>Password\<close>, \<open>Tokens\<close>: the policy, the round trips of hashes and session tokens.
  \<^item> \<open>Startup\<close>: when the service starts; that a started service fills the outbox only when a worker drains
    it; that after Ctrl-C it stops, and answers what it had accepted, when the servers shut down as
    documented.
  \<^item> \<open>Permits\<close>: the limit holds for requests, and for password tasks while no request is dropped; no
    deadlock.  Dropped requests defeat the limit up to the size of the pool.
  \<^item> \<open>Metrics\<close>: every answered request is counted and timed once, whatever the answer, and recording changes
    neither answers nor the state (simulation).
  Some theorems show a behaviour that is probably not meant: \<open>set_primary_unknown_demotes\<close>,
  \<open>link_conflict_clears_primary\<close>, \<open>reset_keeps_old_password\<close>, \<open>rate_limit_expiry_lost\<close>,
  \<open>onboarding_outlasts_timeout\<close>, \<open>authorize_ignores_role_table\<close>, \<open>temporary_password_may_be_weak\<close>,
  \<open>username_may_shadow_email\<close>, \<open>failed_server_exits_ok\<close>, \<open>dropped_requests_exceed_limit\<close>, \<open>in_flight_gauge\<close>,
  \<open>failed_login_counted_twice\<close>, \<open>scrape_installs_late\<close>, \<open>outbox_poison_quarantined\<close>,
  \<open>documented_password_rejected\<close>; and in \<open>error_report_consistent\<close> the codes that fall to 500.

  \<^bold>\<open>Bounds.\<close>  Loops are structural or have a measure: at most two registration attempts
  (\<open>max_attempts\<close>) and 20 polls, which are the constants of the code.  The outbox worker is run for
  a number of rounds, and the liveness properties name the rounds that suffice.  The shutdown has a
  well-founded order when outstanding requests come to an end (\<open>outstanding_end\<close>).  Times are below
  \<open>2 ^ 62\<close> ms where Redis would reject a lifetime.

  \<^bold>\<open>Not modelled.\<close>  Tracing and telemetry (a re-exported library), the request timeout and the concurrency
  limit as such (a request that is cut off behaves as one whose later network requests are all
  lost; \<open>Permits\<close> and \<open>Metrics\<close> have a step that drops a request), the bytes of HTTP messages and JSON texts
  (a number in a text is taken to be read as it was written), what the framework answers to requests
  without a route, the generated protocol code, SQL migrations beyond the constraints the queries
  meet, the message text of database and library errors, the rounding of durations to \<open>f64\<close>.  The
  service uses the implementations of the traits directly: there is one for each.
\<close>

section \<open>Properties across components\<close>

text \<open>C9. The private interface seen from the wire.  Whatever a client sends to a private endpoint behind no
  rate limiter (any path argument, any body, well formed or not) and whatever fails on the way:
  without a valid token the answer is 401 and nothing has happened; with the token of a user, the
  accounts and wallets of all other users stay as they are; and a service that is not on the
  allowlist gets an error of the client's without any effect.\<close>

theorem http_private_isolated:
  assumes "require_any_law A" and "rejection_law L"
    and "resolve (hr_method q) (hr_path q) = Some e" and "needs_token e" and "limited_path e = None"
    and "serve_http A E L ip q = Some act"
  shows "case fst (authenticated_user E (hr_headers q) w) of
      Inl x \<Rightarrow> act w = (Inl (Api_error x), w) \<and> status_code x = 401
    | Inr c \<Rightarrow>
        filter (\<lambda>x. ur_id x \<noteq> cl_sub c) (users (snd (act w))) = filter (\<lambda>x. ur_id x \<noteq> cl_sub c) (users w) \<and>
        filter (\<lambda>x. w_user_id x \<noteq> cl_sub c) (wallets (snd (act w))) =
          filter (\<lambda>x. w_user_id x \<noteq> cl_sub c) (wallets w) \<and>
        (from_headers A (hr_headers q) \<notin> set private_roles \<longrightarrow>
          (\<exists>err. act w = (Inl err, w) \<and> 400 \<le> rest_status err \<and> rest_status err < 500))"
proof -
  have act: "act = handle A E L q e" using assms(3,5,6) by (simp add: serve_http_def)
  show ?thesis
  proof (cases "fst (authenticated_user E (hr_headers q) w)")
    case (Inl x)
    with token_checked_first [OF assms(4) Inl] act show ?thesis by simp
  next
    case (Inr c)
    show ?thesis
    proof (cases "extracted L E q e")
      case (Inl rejected)
      obtain err where "act w = (Inl err, w)" "400 \<le> rest_status err" "rest_status err < 500"
        using handle_rejected [OF assms(2) Inl, of A w] act by metis
      with Inr show ?thesis by simp
    next
      case r: (Inr r)
      have p: "private_route r" using extracted_route(2) [OF r] assms(4) by simp
      have "act w = dispatch A E (hr_headers q) r w" by (simp add: act handle_def r)
      moreover have "\<exists>err. dispatch A E (hr_headers q) r w = (Inl err, w) \<and> 400 \<le> rest_status err \<and> rest_status err < 500"
        if "from_headers A (hr_headers q) \<notin> set private_roles"
        using denied_routes [OF assms(1) p, of E "hr_headers q" w] that by (auto simp: denied_def)
      ultimately show ?thesis
        using isolated_routes [OF p Inr, of A] Inr by (simp add: others_def)
    qed
  qed
qed

theorem http_private_isolated_witness:
  "\<exists>act. serve_http sample_edge sample_env sample_http_lib ''10.0.0.1''
       (with_json ''PATCH'' ''/api/v1/me/wallets/x'' sample_headers []) = Some act \<and>
     filter (\<lambda>x. ur_id x \<noteq> 7) (users (snd (act sample_world))) = filter (\<lambda>x. ur_id x \<noteq> 7) (users sample_world)"
proof -
  let ?q = "with_json ''PATCH'' ''/api/v1/me/wallets/x'' sample_headers []"
  have e: "resolve (hr_method ?q) (hr_path ?q) = Some (E_update ''x'')"
    using resolve_wallet(3) [of "''x''"] by (simp add: request_simps)
  then obtain act where a: "serve_http sample_edge sample_env sample_http_lib ''10.0.0.1'' ?q = Some act"
    by (simp add: serve_http_def)
  have "hr_headers ?q = sample_headers" by (simp add: request_simps)
  with http_private_isolated [OF sample_edge_law sample_rejection_law e _ _ a, of sample_world] a
  show ?thesis by (simp add: sample_authenticated claims_new_def)
qed

text \<open>The permission decision of \<open>Authorize\<close> is not that of the role table: it lets a plain user do
  what no table entry grants, and denies every other role what its entries grant.\<close>

theorem authorize_ignores_role_table:
  "role_authorized (role_to_string User) ''users:delete'' \<and> \<not> can_access User ''users:delete'' \<and>
   \<not> role_authorized (role_to_string Producer) ''offers:create'' \<and> can_access Producer ''offers:create'' \<and>
   \<not> role_authorized (role_to_string Operator) ''meters:update'' \<and> can_access Operator ''meters:update''"
  by (simp add: role_authorized_def starts_with_def can_access_def has_permission_def permission_tables grants_def
      is_wildcard_def ends_with_def permission_resource_def)

end
